(* ===== verification/EGM_Prelude.thy ===== *)
theory EGM_Prelude
  imports Complex_Main "HOL-Library.Word" "HOL-Library.Monad_Syntax"
begin

text \<open>
  Shared vocabulary of the development: machine integers, bytes, the presence discipline of
  protocol buffer fields, counted loops, checked accesses to repeated fields and arrays, and the
  reachability contract every state machine of the library is an instance of.

  An optional protocol buffer field is an \<open>option\<close>: \<open>None\<close> is an absent field. The generated
  accessors are three operations on it: \<open>x()\<close> reads the field or its default (\<open>getd\<close>),
  \<open>mutable_x()\<close> makes the field present and updates it in place (\<open>mut\<close>), \<open>set_x(v)\<close> is
  \<open>Some v\<close>. A read or a write of a repeated field or of a \<open>boost::array\<close> outside its bounds is
  an assertion failure or undefined behaviour; the checked accesses return \<open>None\<close> there.
\<close>

section \<open>Types\<close>

type_synonym u32 = "32 word"
type_synonym u64 = "64 word"
type_synonym byte = "8 word"
type_synonym bytes = "byte list"

named_theorems field_simps_msg \<open>presence and access of message fields\<close>
named_theorems loop_simps \<open>closed forms of counted loops\<close>
named_theorems fin_simps \<open>arithmetic on finite floating-point values\<close>

section \<open>Optional fields\<close>

definition getd :: "'a \<Rightarrow> 'a option \<Rightarrow> 'a" where
  "getd d x = (case x of None \<Rightarrow> d | Some v \<Rightarrow> v)"

definition mut :: "'a \<Rightarrow> ('a \<Rightarrow> 'a) \<Rightarrow> 'a option \<Rightarrow> 'a option" where
  "mut d f x = Some (f (getd d x))"

definition mutM :: "'a \<Rightarrow> ('a \<Rightarrow> 'a option) \<Rightarrow> 'a option \<Rightarrow> 'a option option" where
  "mutM d f x = map_option Some (f (getd d x))"

definition has :: "'a option \<Rightarrow> bool" where
  "has x = (x \<noteq> None)"

section \<open>Counted loops\<close>

text \<open>
  \<open>for (int i = 0; i < n; ++i) s = body(i, s);\<close> with a bound that the body does not change. The
  variant \<open>for_rangeM\<close> has a body that may fail; the loop then stops with the failure.
\<close>

primrec for_range :: "nat \<Rightarrow> (nat \<Rightarrow> 's \<Rightarrow> 's) \<Rightarrow> 's \<Rightarrow> 's" where
  "for_range 0 f s = s"
| "for_range (Suc n) f s = f n (for_range n f s)"

primrec for_rangeM :: "nat \<Rightarrow> (nat \<Rightarrow> 's \<Rightarrow> 's option) \<Rightarrow> 's \<Rightarrow> 's option" where
  "for_rangeM 0 f s = Some s"
| "for_rangeM (Suc n) f s = do { s' \<leftarrow> for_rangeM n f s; f n s' }"

section \<open>Checked accesses\<close>

definition get_at :: "'a list \<Rightarrow> nat \<Rightarrow> 'a option" where
  "get_at xs i = (if i < length xs then Some (xs ! i) else None)"

definition set_at :: "nat \<Rightarrow> 'a \<Rightarrow> 'a list \<Rightarrow> 'a list option" where
  "set_at i v xs = (if i < length xs then Some (xs[i := v]) else None)"

section \<open>Reachable states\<close>

inductive reach :: "('s \<Rightarrow> bool) \<Rightarrow> ('s \<Rightarrow> 's \<Rightarrow> bool) \<Rightarrow> 's \<Rightarrow> bool"
  for init :: "'s \<Rightarrow> bool" and step :: "'s \<Rightarrow> 's \<Rightarrow> bool" where
  reach_init: "init s \<Longrightarrow> reach init step s"
| reach_step: "reach init step s \<Longrightarrow> step s t \<Longrightarrow> reach init step t"

text \<open>
  The contract of a state machine with an invariant: the machine provides \<open>init\<close> and \<open>step\<close>, its
  theory proves the two laws, and every reachable state then satisfies the invariant.
\<close>

locale inv_system =
  fixes init :: "'s \<Rightarrow> bool" and step :: "'s \<Rightarrow> 's \<Rightarrow> bool" and inv :: "'s \<Rightarrow> bool"
  assumes init_inv: "init s \<Longrightarrow> inv s"
    and step_inv: "inv s \<Longrightarrow> step s t \<Longrightarrow> inv t"
begin

lemma reach_inv: "reach init step s \<Longrightarrow> inv s"
  by (induction rule: reach.induct) (auto intro: init_inv step_inv)

end

section \<open>Lemmas\<close>

lemma getd_simps [simp, field_simps_msg]:
  "getd d None = d"
  "getd d (Some v) = v"
  by (simp_all add: getd_def)

lemma getd_mut [simp, field_simps_msg]: "getd d' (mut d f x) = f (getd d x)"
  by (simp add: mut_def)

lemma mut_simps [simp, field_simps_msg]:
  "mut d f x \<noteq> None"
  "None \<noteq> mut d f x"
  by (simp_all add: mut_def)

lemma mut_mut [simp, field_simps_msg]: "mut d f (mut d' g x) = mut d' (f \<circ> g) x"
  by (simp add: mut_def)

lemma mut_Some [simp]: "mut d f (Some v) = Some (f v)"
  by (simp add: mut_def)

lemma has_simps [simp, field_simps_msg]:
  "has (Some v)"
  "\<not> has None"
  "has (mut d f x)"
  by (simp_all add: has_def)

lemma has_getd: "has x \<Longrightarrow> x = Some (getd d x)"
  by (cases x) auto

lemma for_range_cong:
  "(\<And>i s. i < n \<Longrightarrow> f i s = g i s) \<Longrightarrow> for_range n f s = for_range n g s"
  by (induction n) auto

lemma for_rangeM_Some:
  "(\<And>i s. i < n \<Longrightarrow> f i s = Some (g i s)) \<Longrightarrow> for_rangeM n f s = Some (for_range n g s)"
  by (induction n) auto

text \<open>
  A loop body that keeps an invariant and does not fail under it gives a loop that does neither.
\<close>

lemma for_rangeM_inv:
  assumes "\<And>i s. i < n \<Longrightarrow> P s \<Longrightarrow> \<exists>s'. f i s = Some s' \<and> P s'" and "P s"
  shows "\<exists>s'. for_rangeM n f s = Some s' \<and> P s'"
  using assms
proof (induction n)
  case 0
  then show ?case by simp
next
  case (Suc n)
  then obtain s1 where "for_rangeM n f s = Some s1" and "P s1"
    by (metis less_Suc_eq)
  with Suc.prems(1) [of n s1] show ?case by auto
qed

lemma for_rangeM_invariant:
  assumes "for_rangeM n f s = Some t" and "P s"
    and "\<And>i s s'. i < n \<Longrightarrow> P s \<Longrightarrow> f i s = Some s' \<Longrightarrow> P s'"
  shows "P t"
  using assms
proof (induction n arbitrary: t)
  case 0
  then show ?case by simp
next
  case (Suc n)
  from Suc.prems(1) obtain u where u: "for_rangeM n f s = Some u" "f n u = Some t"
    by (auto simp: Option.bind_eq_Some_conv)
  with Suc show ?case by (metis less_Suc_eq)
qed

lemma length_for_range_update [simp]:
  "length (for_range n (\<lambda>i xs. xs[i := g i]) xs) = length xs"
  by (induction n) auto

lemma nth_for_range_update:
  assumes "i < length xs"
  shows "for_range n (\<lambda>i xs. xs[i := g i]) xs ! i = (if i < n then g i else xs ! i)"
  using assms by (induction n) (auto simp: nth_list_update less_Suc_eq)

text \<open>A loop that overwrites the first elements of a list, as a list expression.\<close>

lemma for_range_update [loop_simps]:
  assumes "n \<le> length xs"
  shows "for_range n (\<lambda>i xs. xs[i := g i]) xs = map g [0..<n] @ drop n xs"
  using assms by (intro nth_equalityI) (auto simp: nth_for_range_update nth_append)

lemma for_range_copy [loop_simps]:
  "for_range (min (length src) (length xs)) (\<lambda>i xs. xs[i := src ! i]) xs
     = take (length xs) src @ drop (length src) xs"
  by (intro nth_equalityI) (auto simp: nth_for_range_update nth_append min_def)

lemma get_at_simps [simp]:
  "i < length xs \<Longrightarrow> get_at xs i = Some (xs ! i)"
  "length xs \<le> i \<Longrightarrow> get_at xs i = None"
  by (simp_all add: get_at_def)

lemma set_at_simps [simp]:
  "i < length xs \<Longrightarrow> set_at i v xs = Some (xs[i := v])"
  "length xs \<le> i \<Longrightarrow> set_at i v xs = None"
  by (simp_all add: set_at_def)

lemma set_at_length: "set_at i v xs = Some ys \<Longrightarrow> length ys = length xs"
  by (auto simp: set_at_def split: if_splits)

lemma mutM_Some [simp]: "mutM d f x = Some y \<longleftrightarrow> (\<exists>v. f (getd d x) = Some v \<and> y = Some v)"
  by (auto simp: mutM_def)

lemma map_const_upt [simp]: "map (\<lambda>_. c) [0..<n] = replicate n c"
  by (simp add: map_replicate_const)

end
