(* ===== verification/EGM_Double.thy ===== *)
theory EGM_Double
  imports EGM_Prelude
begin

text \<open>
  The C++ type \<open>double\<close>. A value is a finite number, one of the two infinities or NaN. The special
  values follow IEEE 754: invalid operations give NaN, a division of a non-zero number by zero
  gives an infinity, every comparison with NaN is false. Finite arithmetic is exact: rounding,
  overflow to infinity and the sign of zero are abstracted away, so that a theorem about finite
  values is a theorem about the real-number formula the code evaluates, and a theorem about NaN,
  infinity or a guard is one about the code's branches.
\<close>

section \<open>The type and its arithmetic\<close>

datatype double = Fin real | PInf | NInf | NaN

instantiation double :: "{zero, one, plus, minus, uminus, times, inverse, abs, ord}"
begin

definition zero_double :: double where
  "zero_double = Fin 0"

definition one_double :: double where
  "one_double = Fin 1"

fun plus_double :: "double \<Rightarrow> double \<Rightarrow> double" where
  "plus_double (Fin a) (Fin b) = Fin (a + b)"
| "plus_double NaN y = NaN"
| "plus_double x NaN = NaN"
| "plus_double PInf NInf = NaN"
| "plus_double NInf PInf = NaN"
| "plus_double PInf y = PInf"
| "plus_double NInf y = NInf"
| "plus_double x PInf = PInf"
| "plus_double x NInf = NInf"

fun uminus_double :: "double \<Rightarrow> double" where
  "uminus_double (Fin a) = Fin (- a)"
| "uminus_double PInf = NInf"
| "uminus_double NInf = PInf"
| "uminus_double NaN = NaN"

definition minus_double :: "double \<Rightarrow> double \<Rightarrow> double" where
  "minus_double x y = x + - y"

fun times_double :: "double \<Rightarrow> double \<Rightarrow> double" where
  "times_double (Fin a) (Fin b) = Fin (a * b)"
| "times_double NaN y = NaN"
| "times_double x NaN = NaN"
| "times_double (Fin a) PInf = (if a = 0 then NaN else if 0 < a then PInf else NInf)"
| "times_double (Fin a) NInf = (if a = 0 then NaN else if 0 < a then NInf else PInf)"
| "times_double PInf (Fin a) = (if a = 0 then NaN else if 0 < a then PInf else NInf)"
| "times_double NInf (Fin a) = (if a = 0 then NaN else if 0 < a then NInf else PInf)"
| "times_double PInf PInf = PInf"
| "times_double PInf NInf = NInf"
| "times_double NInf PInf = NInf"
| "times_double NInf NInf = PInf"

fun divide_double :: "double \<Rightarrow> double \<Rightarrow> double" where
  "divide_double (Fin a) (Fin b) =
     (if b \<noteq> 0 then Fin (a / b) else if a = 0 then NaN else if 0 < a then PInf else NInf)"
| "divide_double NaN y = NaN"
| "divide_double x NaN = NaN"
| "divide_double PInf (Fin b) = (if b < 0 then NInf else PInf)"
| "divide_double NInf (Fin b) = (if b < 0 then PInf else NInf)"
| "divide_double (Fin a) y = Fin 0"
| "divide_double x y = NaN"

definition inverse_double :: "double \<Rightarrow> double" where
  "inverse_double x = Fin 1 div x"

fun abs_double :: "double \<Rightarrow> double" where
  "abs_double (Fin a) = Fin \<bar>a\<bar>"
| "abs_double PInf = PInf"
| "abs_double NInf = PInf"
| "abs_double NaN = NaN"

fun less_double :: "double \<Rightarrow> double \<Rightarrow> bool" where
  "less_double (Fin a) (Fin b) = (a < b)"
| "less_double NaN y = False"
| "less_double x NaN = False"
| "less_double NInf y = (y \<noteq> NInf)"
| "less_double x NInf = False"
| "less_double PInf y = False"
| "less_double x PInf = True"

definition less_eq_double :: "double \<Rightarrow> double \<Rightarrow> bool" where
  "less_eq_double x y = (x < y \<or> (x = y \<and> x \<noteq> NaN))"

instance ..

end

section \<open>The functions of the C++ standard library the code calls\<close>

definition fmax :: "double \<Rightarrow> double \<Rightarrow> double" where
  "fmax a b = (if a < b then b else a)"

primrec fpow :: "double \<Rightarrow> nat \<Rightarrow> double" where
  "fpow x 0 = Fin 1"
| "fpow x (Suc n) = x * fpow x n"

fun fsqrt :: "double \<Rightarrow> double" where
  "fsqrt (Fin a) = (if a < 0 then NaN else Fin (sqrt a))"
| "fsqrt PInf = PInf"
| "fsqrt x = NaN"

fun fcos :: "double \<Rightarrow> double" where
  "fcos (Fin a) = Fin (cos a)"
| "fcos x = NaN"

fun fsin :: "double \<Rightarrow> double" where
  "fsin (Fin a) = Fin (sin a)"
| "fsin x = NaN"

fun facos :: "double \<Rightarrow> double" where
  "facos (Fin a) = (if \<bar>a\<bar> \<le> 1 then Fin (arccos a) else NaN)"
| "facos x = NaN"

fun fasin :: "double \<Rightarrow> double" where
  "fasin (Fin a) = (if \<bar>a\<bar> \<le> 1 then Fin (arcsin a) else NaN)"
| "fasin x = NaN"

definition atan2_real :: "real \<Rightarrow> real \<Rightarrow> real" where
  "atan2_real y x =
     (if 0 < x then arctan (y / x)
      else if x < 0 then (if 0 \<le> y then arctan (y / x) + pi else arctan (y / x) - pi)
      else if 0 < y then pi / 2 else if y < 0 then - (pi / 2) else 0)"

fun fatan2 :: "double \<Rightarrow> double \<Rightarrow> double" where
  "fatan2 (Fin y) (Fin x) = Fin (atan2_real y x)"
| "fatan2 NaN x = NaN"
| "fatan2 y NaN = NaN"
| "fatan2 (Fin y) PInf = Fin 0"
| "fatan2 (Fin y) NInf = Fin (if 0 \<le> y then pi else - pi)"
| "fatan2 PInf (Fin x) = Fin (pi / 2)"
| "fatan2 NInf (Fin x) = Fin (- (pi / 2))"
| "fatan2 PInf PInf = Fin (pi / 4)"
| "fatan2 NInf PInf = Fin (- (pi / 4))"
| "fatan2 PInf NInf = Fin (3 * pi / 4)"
| "fatan2 NInf NInf = Fin (- (3 * pi / 4))"

fun ffloor :: "double \<Rightarrow> double" where
  "ffloor (Fin a) = Fin (of_int \<lfloor>a\<rfloor>)"
| "ffloor x = x"

definition of_u32 :: "u32 \<Rightarrow> double" where
  "of_u32 w = Fin (of_nat (unat w))"

definition of_u64 :: "u64 \<Rightarrow> double" where
  "of_u64 w = Fin (of_nat (unat w))"

text \<open>
  The cast \<open>(unsigned int) x\<close> truncates towards zero. It is undefined behaviour unless the
  truncated value fits; the model then gives 0.
\<close>

fun to_u32 :: "double \<Rightarrow> u32" where
  "to_u32 (Fin a) = (if -1 < a \<and> a < 2 ^ 32 then word_of_int \<lfloor>\<bar>a\<bar>\<rfloor> else 0)"
| "to_u32 x = 0"

definition M_PI :: double where
  "M_PI = Fin pi"

definition isnan :: "double \<Rightarrow> bool" where
  "isnan x = (x = NaN)"

definition isinf :: "double \<Rightarrow> bool" where
  "isinf x = (x = PInf \<or> x = NInf)"

definition is_fin :: "double \<Rightarrow> bool" where
  "is_fin x = (case x of Fin _ \<Rightarrow> True | _ \<Rightarrow> False)"

definition the_fin :: "double \<Rightarrow> real" where
  "the_fin x = (case x of Fin a \<Rightarrow> a | _ \<Rightarrow> 0)"

section \<open>Lemmas\<close>

lemma zero_Fin [simp, fin_simps]: "(0 :: double) = Fin 0"
  by (simp add: zero_double_def)

lemma one_Fin [simp, fin_simps]: "(1 :: double) = Fin 1"
  by (simp add: one_double_def)

lemma minus_Fin [simp, fin_simps]: "Fin a - Fin b = Fin (a - b)"
  by (simp add: minus_double_def)

lemma divide_Fin [simp, fin_simps]: "b \<noteq> 0 \<Longrightarrow> Fin a / Fin b = Fin (a / b)"
  by simp

lemma less_eq_Fin [simp, fin_simps]: "Fin a \<le> Fin b \<longleftrightarrow> a \<le> b"
  by (auto simp: less_eq_double_def)

lemma fpow_Fin [simp, fin_simps]: "fpow (Fin a) n = Fin (a ^ n)"
  by (induction n) auto

lemma fmax_Fin [simp, fin_simps]: "fmax (Fin a) (Fin b) = Fin (max a b)"
  by (simp add: fmax_def max_def)

lemma NaN_not_less [simp]:
  "\<not> NaN < x"
  "\<not> x < (NaN :: double)"
  by (cases x, simp_all)+

lemma NaN_not_less_eq [simp]:
  "\<not> NaN \<le> x"
  "\<not> x \<le> (NaN :: double)"
  by (simp_all add: less_eq_double_def)

lemma double_less_irrefl [simp]: "\<not> x < (x :: double)"
  by (cases x) auto

lemma double_less_trans: "x < y \<Longrightarrow> y < z \<Longrightarrow> x < (z :: double)"
  by (cases x; cases y; cases z) auto

lemma is_fin_simps [simp]:
  "is_fin (Fin a)" "\<not> is_fin PInf" "\<not> is_fin NInf" "\<not> is_fin NaN"
  by (simp_all add: is_fin_def)

lemma is_fin_iff: "is_fin x \<longleftrightarrow> (\<exists>a. x = Fin a)"
  by (cases x) auto

lemma the_fin_Fin [simp]: "the_fin (Fin a) = a"
  by (simp add: the_fin_def)

lemma is_fin_the: "is_fin x \<Longrightarrow> x = Fin (the_fin x)"
  by (cases x) auto

lemma is_fin_ops [simp, intro]:
  "is_fin x \<Longrightarrow> is_fin y \<Longrightarrow> is_fin (x + y)"
  "is_fin x \<Longrightarrow> is_fin y \<Longrightarrow> is_fin (x - y)"
  "is_fin x \<Longrightarrow> is_fin y \<Longrightarrow> is_fin (x * y)"
  "is_fin x \<Longrightarrow> is_fin (- x)"
  "is_fin x \<Longrightarrow> is_fin \<bar>x\<bar>"
  by (auto simp: is_fin_iff)

lemma fmax_ge_fst: "x \<noteq> NaN \<Longrightarrow> x \<le> fmax x y"
  by (cases x; cases y) (auto simp: fmax_def less_eq_double_def)

end
