(* ===== verification/EGM_Messages.thy ===== *)
theory EGM_Messages
  imports EGM_Double
begin

text \<open>
  The protocol buffer messages of \<open>proto/egm.proto\<close> (the robot controller's own protocol),
  \<open>proto/egm_wrapper.proto\<close> and \<open>proto/egm_wrapper_trajectory.proto\<close> (the library's
  interface). A message is a record, an optional field an \<open>option\<close>, a repeated field a list. For a
  message \<open>M\<close>, \<open>default_M\<close> is its default instance (every field absent), which \<open>Clear()\<close>
  restores. For an optional field \<open>f\<close>, \<open>f_of\<close> is the accessor \<open>f()\<close>, which reads the
  default of an absent field; for a field \<open>f\<close> that is itself a message, \<open>f_mut g\<close> applies \<open>g\<close>
  through \<open>mutable_f()\<close>, which creates the field.
\<close>

section \<open>The robot controller's protocol: egm.proto\<close>

datatype EgmMessageType = MSGTYPE_UNDEFINED | MSGTYPE_COMMAND | MSGTYPE_DATA | MSGTYPE_CORRECTION | MSGTYPE_PATH_CORRECTION

datatype MotorStateType = EGM_MOTORS_UNDEFINED | EGM_MOTORS_ON | EGM_MOTORS_OFF

datatype MCIStateType = MCI_UNDEFINED | MCI_ERROR | MCI_STOPPED | MCI_RUNNING

datatype RapidCtrlExecStateType = CTRL_RAPID_UNDEFINED | CTRL_RAPID_STOPPED | CTRL_RAPID_RUNNING

record EgmHeader =
  seqno :: "u32 option"
  tm :: "u32 option"
  mtype :: "EgmMessageType option"

definition default_EgmHeader :: EgmHeader where
  "default_EgmHeader = \<lparr>seqno = None, tm = None, mtype = None\<rparr>"

abbreviation seqno_of :: "EgmHeader \<Rightarrow> u32" where
  "seqno_of m \<equiv> getd 0 (seqno m)"

abbreviation tm_of :: "EgmHeader \<Rightarrow> u32" where
  "tm_of m \<equiv> getd 0 (tm m)"

abbreviation mtype_of :: "EgmHeader \<Rightarrow> EgmMessageType" where
  "mtype_of m \<equiv> getd MSGTYPE_UNDEFINED (mtype m)"

record EgmCartesian =
  ecx :: "double option"
  ecy :: "double option"
  ecz :: "double option"

definition default_EgmCartesian :: EgmCartesian where
  "default_EgmCartesian = \<lparr>ecx = None, ecy = None, ecz = None\<rparr>"

abbreviation ecx_of :: "EgmCartesian \<Rightarrow> double" where
  "ecx_of m \<equiv> getd (Fin 0) (ecx m)"

abbreviation ecy_of :: "EgmCartesian \<Rightarrow> double" where
  "ecy_of m \<equiv> getd (Fin 0) (ecy m)"

abbreviation ecz_of :: "EgmCartesian \<Rightarrow> double" where
  "ecz_of m \<equiv> getd (Fin 0) (ecz m)"

record EgmQuaternion =
  equ0 :: "double option"
  equ1 :: "double option"
  equ2 :: "double option"
  equ3 :: "double option"

definition default_EgmQuaternion :: EgmQuaternion where
  "default_EgmQuaternion = \<lparr>equ0 = None, equ1 = None, equ2 = None, equ3 = None\<rparr>"

abbreviation equ0_of :: "EgmQuaternion \<Rightarrow> double" where
  "equ0_of m \<equiv> getd (Fin 0) (equ0 m)"

abbreviation equ1_of :: "EgmQuaternion \<Rightarrow> double" where
  "equ1_of m \<equiv> getd (Fin 0) (equ1 m)"

abbreviation equ2_of :: "EgmQuaternion \<Rightarrow> double" where
  "equ2_of m \<equiv> getd (Fin 0) (equ2 m)"

abbreviation equ3_of :: "EgmQuaternion \<Rightarrow> double" where
  "equ3_of m \<equiv> getd (Fin 0) (equ3 m)"

record EgmEuler =
  eex :: "double option"
  eey :: "double option"
  eez :: "double option"

definition default_EgmEuler :: EgmEuler where
  "default_EgmEuler = \<lparr>eex = None, eey = None, eez = None\<rparr>"

abbreviation eex_of :: "EgmEuler \<Rightarrow> double" where
  "eex_of m \<equiv> getd (Fin 0) (eex m)"

abbreviation eey_of :: "EgmEuler \<Rightarrow> double" where
  "eey_of m \<equiv> getd (Fin 0) (eey m)"

abbreviation eez_of :: "EgmEuler \<Rightarrow> double" where
  "eez_of m \<equiv> getd (Fin 0) (eez m)"

record EgmClock =
  eclk_sec :: "u64 option"
  eclk_usec :: "u64 option"

definition default_EgmClock :: EgmClock where
  "default_EgmClock = \<lparr>eclk_sec = None, eclk_usec = None\<rparr>"

abbreviation eclk_sec_of :: "EgmClock \<Rightarrow> u64" where
  "eclk_sec_of m \<equiv> getd 0 (eclk_sec m)"

abbreviation eclk_usec_of :: "EgmClock \<Rightarrow> u64" where
  "eclk_usec_of m \<equiv> getd 0 (eclk_usec m)"

record EgmPose =
  pos :: "EgmCartesian option"
  orient :: "EgmQuaternion option"
  epose_euler :: "EgmEuler option"

definition default_EgmPose :: EgmPose where
  "default_EgmPose = \<lparr>pos = None, orient = None, epose_euler = None\<rparr>"

abbreviation pos_of :: "EgmPose \<Rightarrow> EgmCartesian" where
  "pos_of m \<equiv> getd default_EgmCartesian (pos m)"

abbreviation pos_mut :: "(EgmCartesian \<Rightarrow> EgmCartesian) \<Rightarrow> EgmPose \<Rightarrow> EgmPose" where
  "pos_mut g \<equiv> pos_update (mut default_EgmCartesian g)"

abbreviation orient_of :: "EgmPose \<Rightarrow> EgmQuaternion" where
  "orient_of m \<equiv> getd default_EgmQuaternion (orient m)"

abbreviation orient_mut :: "(EgmQuaternion \<Rightarrow> EgmQuaternion) \<Rightarrow> EgmPose \<Rightarrow> EgmPose" where
  "orient_mut g \<equiv> orient_update (mut default_EgmQuaternion g)"

abbreviation epose_euler_of :: "EgmPose \<Rightarrow> EgmEuler" where
  "epose_euler_of m \<equiv> getd default_EgmEuler (epose_euler m)"

abbreviation epose_euler_mut :: "(EgmEuler \<Rightarrow> EgmEuler) \<Rightarrow> EgmPose \<Rightarrow> EgmPose" where
  "epose_euler_mut g \<equiv> epose_euler_update (mut default_EgmEuler g)"

record EgmCartesianSpeed =
  cspeed_value :: "double list"

definition default_EgmCartesianSpeed :: EgmCartesianSpeed where
  "default_EgmCartesianSpeed = \<lparr>cspeed_value = []\<rparr>"

record EgmJoints =
  ej_joints :: "double list"

definition default_EgmJoints :: EgmJoints where
  "default_EgmJoints = \<lparr>ej_joints = []\<rparr>"

record EgmPlanned =
  epl_joints :: "EgmJoints option"
  epl_cartesian :: "EgmPose option"
  epl_externalJoints :: "EgmJoints option"
  epl_time :: "EgmClock option"

definition default_EgmPlanned :: EgmPlanned where
  "default_EgmPlanned = \<lparr>epl_joints = None, epl_cartesian = None, epl_externalJoints = None, epl_time = None\<rparr>"

abbreviation epl_joints_of :: "EgmPlanned \<Rightarrow> EgmJoints" where
  "epl_joints_of m \<equiv> getd default_EgmJoints (epl_joints m)"

abbreviation epl_joints_mut :: "(EgmJoints \<Rightarrow> EgmJoints) \<Rightarrow> EgmPlanned \<Rightarrow> EgmPlanned" where
  "epl_joints_mut g \<equiv> epl_joints_update (mut default_EgmJoints g)"

abbreviation epl_cartesian_of :: "EgmPlanned \<Rightarrow> EgmPose" where
  "epl_cartesian_of m \<equiv> getd default_EgmPose (epl_cartesian m)"

abbreviation epl_cartesian_mut :: "(EgmPose \<Rightarrow> EgmPose) \<Rightarrow> EgmPlanned \<Rightarrow> EgmPlanned" where
  "epl_cartesian_mut g \<equiv> epl_cartesian_update (mut default_EgmPose g)"

abbreviation epl_externalJoints_of :: "EgmPlanned \<Rightarrow> EgmJoints" where
  "epl_externalJoints_of m \<equiv> getd default_EgmJoints (epl_externalJoints m)"

abbreviation epl_externalJoints_mut :: "(EgmJoints \<Rightarrow> EgmJoints) \<Rightarrow> EgmPlanned \<Rightarrow> EgmPlanned" where
  "epl_externalJoints_mut g \<equiv> epl_externalJoints_update (mut default_EgmJoints g)"

abbreviation epl_time_of :: "EgmPlanned \<Rightarrow> EgmClock" where
  "epl_time_of m \<equiv> getd default_EgmClock (epl_time m)"

abbreviation epl_time_mut :: "(EgmClock \<Rightarrow> EgmClock) \<Rightarrow> EgmPlanned \<Rightarrow> EgmPlanned" where
  "epl_time_mut g \<equiv> epl_time_update (mut default_EgmClock g)"

record EgmSpeedRef =
  sref_joints :: "EgmJoints option"
  sref_cartesians :: "EgmCartesianSpeed option"
  sref_externalJoints :: "EgmJoints option"

definition default_EgmSpeedRef :: EgmSpeedRef where
  "default_EgmSpeedRef = \<lparr>sref_joints = None, sref_cartesians = None, sref_externalJoints = None\<rparr>"

abbreviation sref_joints_of :: "EgmSpeedRef \<Rightarrow> EgmJoints" where
  "sref_joints_of m \<equiv> getd default_EgmJoints (sref_joints m)"

abbreviation sref_joints_mut :: "(EgmJoints \<Rightarrow> EgmJoints) \<Rightarrow> EgmSpeedRef \<Rightarrow> EgmSpeedRef" where
  "sref_joints_mut g \<equiv> sref_joints_update (mut default_EgmJoints g)"

abbreviation sref_cartesians_of :: "EgmSpeedRef \<Rightarrow> EgmCartesianSpeed" where
  "sref_cartesians_of m \<equiv> getd default_EgmCartesianSpeed (sref_cartesians m)"

abbreviation sref_cartesians_mut :: "(EgmCartesianSpeed \<Rightarrow> EgmCartesianSpeed) \<Rightarrow> EgmSpeedRef \<Rightarrow> EgmSpeedRef" where
  "sref_cartesians_mut g \<equiv> sref_cartesians_update (mut default_EgmCartesianSpeed g)"

abbreviation sref_externalJoints_of :: "EgmSpeedRef \<Rightarrow> EgmJoints" where
  "sref_externalJoints_of m \<equiv> getd default_EgmJoints (sref_externalJoints m)"

abbreviation sref_externalJoints_mut :: "(EgmJoints \<Rightarrow> EgmJoints) \<Rightarrow> EgmSpeedRef \<Rightarrow> EgmSpeedRef" where
  "sref_externalJoints_mut g \<equiv> sref_externalJoints_update (mut default_EgmJoints g)"

record EgmFeedBack =
  efb_joints :: "EgmJoints option"
  efb_cartesian :: "EgmPose option"
  efb_externalJoints :: "EgmJoints option"
  efb_time :: "EgmClock option"

definition default_EgmFeedBack :: EgmFeedBack where
  "default_EgmFeedBack = \<lparr>efb_joints = None, efb_cartesian = None, efb_externalJoints = None, efb_time = None\<rparr>"

abbreviation efb_joints_of :: "EgmFeedBack \<Rightarrow> EgmJoints" where
  "efb_joints_of m \<equiv> getd default_EgmJoints (efb_joints m)"

abbreviation efb_joints_mut :: "(EgmJoints \<Rightarrow> EgmJoints) \<Rightarrow> EgmFeedBack \<Rightarrow> EgmFeedBack" where
  "efb_joints_mut g \<equiv> efb_joints_update (mut default_EgmJoints g)"

abbreviation efb_cartesian_of :: "EgmFeedBack \<Rightarrow> EgmPose" where
  "efb_cartesian_of m \<equiv> getd default_EgmPose (efb_cartesian m)"

abbreviation efb_cartesian_mut :: "(EgmPose \<Rightarrow> EgmPose) \<Rightarrow> EgmFeedBack \<Rightarrow> EgmFeedBack" where
  "efb_cartesian_mut g \<equiv> efb_cartesian_update (mut default_EgmPose g)"

abbreviation efb_externalJoints_of :: "EgmFeedBack \<Rightarrow> EgmJoints" where
  "efb_externalJoints_of m \<equiv> getd default_EgmJoints (efb_externalJoints m)"

abbreviation efb_externalJoints_mut :: "(EgmJoints \<Rightarrow> EgmJoints) \<Rightarrow> EgmFeedBack \<Rightarrow> EgmFeedBack" where
  "efb_externalJoints_mut g \<equiv> efb_externalJoints_update (mut default_EgmJoints g)"

abbreviation efb_time_of :: "EgmFeedBack \<Rightarrow> EgmClock" where
  "efb_time_of m \<equiv> getd default_EgmClock (efb_time m)"

abbreviation efb_time_mut :: "(EgmClock \<Rightarrow> EgmClock) \<Rightarrow> EgmFeedBack \<Rightarrow> EgmFeedBack" where
  "efb_time_mut g \<equiv> efb_time_update (mut default_EgmClock g)"

record EgmMotorState =
  motor_state_type :: "MotorStateType option"

definition default_EgmMotorState :: EgmMotorState where
  "default_EgmMotorState = \<lparr>motor_state_type = None\<rparr>"

abbreviation motor_state_type_of :: "EgmMotorState \<Rightarrow> MotorStateType" where
  "motor_state_type_of m \<equiv> getd EGM_MOTORS_UNDEFINED (motor_state_type m)"

record EgmMCIState =
  mci_state_type :: "MCIStateType option"

definition default_EgmMCIState :: EgmMCIState where
  "default_EgmMCIState = \<lparr>mci_state_type = None\<rparr>"

abbreviation mci_state_type_of :: "EgmMCIState \<Rightarrow> MCIStateType" where
  "mci_state_type_of m \<equiv> getd MCI_UNDEFINED (mci_state_type m)"

record EgmRapidCtrlExecState =
  rapid_state_type :: "RapidCtrlExecStateType option"

definition default_EgmRapidCtrlExecState :: EgmRapidCtrlExecState where
  "default_EgmRapidCtrlExecState = \<lparr>rapid_state_type = None\<rparr>"

abbreviation rapid_state_type_of :: "EgmRapidCtrlExecState \<Rightarrow> RapidCtrlExecStateType" where
  "rapid_state_type_of m \<equiv> getd CTRL_RAPID_UNDEFINED (rapid_state_type m)"

record EgmTestSignals =
  signals :: "double list"

definition default_EgmTestSignals :: EgmTestSignals where
  "default_EgmTestSignals = \<lparr>signals = []\<rparr>"

record EgmMeasuredForce =
  emf_force :: "double list"

definition default_EgmMeasuredForce :: EgmMeasuredForce where
  "default_EgmMeasuredForce = \<lparr>emf_force = []\<rparr>"

record EgmRobot =
  erb_header :: "EgmHeader option"
  erb_feedBack :: "EgmFeedBack option"
  erb_planned :: "EgmPlanned option"
  motorState :: "EgmMotorState option"
  mciState :: "EgmMCIState option"
  mciConvergenceMet :: "bool option"
  testSignals :: "EgmTestSignals option"
  rapidExecState :: "EgmRapidCtrlExecState option"
  erb_measuredForce :: "EgmMeasuredForce option"
  utilizationRate :: "double option"

definition default_EgmRobot :: EgmRobot where
  "default_EgmRobot = \<lparr>erb_header = None, erb_feedBack = None, erb_planned = None, motorState = None, mciState = None, mciConvergenceMet = None, testSignals = None, rapidExecState = None, erb_measuredForce = None, utilizationRate = None\<rparr>"

abbreviation erb_header_of :: "EgmRobot \<Rightarrow> EgmHeader" where
  "erb_header_of m \<equiv> getd default_EgmHeader (erb_header m)"

abbreviation erb_header_mut :: "(EgmHeader \<Rightarrow> EgmHeader) \<Rightarrow> EgmRobot \<Rightarrow> EgmRobot" where
  "erb_header_mut g \<equiv> erb_header_update (mut default_EgmHeader g)"

abbreviation erb_feedBack_of :: "EgmRobot \<Rightarrow> EgmFeedBack" where
  "erb_feedBack_of m \<equiv> getd default_EgmFeedBack (erb_feedBack m)"

abbreviation erb_feedBack_mut :: "(EgmFeedBack \<Rightarrow> EgmFeedBack) \<Rightarrow> EgmRobot \<Rightarrow> EgmRobot" where
  "erb_feedBack_mut g \<equiv> erb_feedBack_update (mut default_EgmFeedBack g)"

abbreviation erb_planned_of :: "EgmRobot \<Rightarrow> EgmPlanned" where
  "erb_planned_of m \<equiv> getd default_EgmPlanned (erb_planned m)"

abbreviation erb_planned_mut :: "(EgmPlanned \<Rightarrow> EgmPlanned) \<Rightarrow> EgmRobot \<Rightarrow> EgmRobot" where
  "erb_planned_mut g \<equiv> erb_planned_update (mut default_EgmPlanned g)"

abbreviation motorState_of :: "EgmRobot \<Rightarrow> EgmMotorState" where
  "motorState_of m \<equiv> getd default_EgmMotorState (motorState m)"

abbreviation motorState_mut :: "(EgmMotorState \<Rightarrow> EgmMotorState) \<Rightarrow> EgmRobot \<Rightarrow> EgmRobot" where
  "motorState_mut g \<equiv> motorState_update (mut default_EgmMotorState g)"

abbreviation mciState_of :: "EgmRobot \<Rightarrow> EgmMCIState" where
  "mciState_of m \<equiv> getd default_EgmMCIState (mciState m)"

abbreviation mciState_mut :: "(EgmMCIState \<Rightarrow> EgmMCIState) \<Rightarrow> EgmRobot \<Rightarrow> EgmRobot" where
  "mciState_mut g \<equiv> mciState_update (mut default_EgmMCIState g)"

abbreviation mciConvergenceMet_of :: "EgmRobot \<Rightarrow> bool" where
  "mciConvergenceMet_of m \<equiv> getd False (mciConvergenceMet m)"

abbreviation testSignals_of :: "EgmRobot \<Rightarrow> EgmTestSignals" where
  "testSignals_of m \<equiv> getd default_EgmTestSignals (testSignals m)"

abbreviation testSignals_mut :: "(EgmTestSignals \<Rightarrow> EgmTestSignals) \<Rightarrow> EgmRobot \<Rightarrow> EgmRobot" where
  "testSignals_mut g \<equiv> testSignals_update (mut default_EgmTestSignals g)"

abbreviation rapidExecState_of :: "EgmRobot \<Rightarrow> EgmRapidCtrlExecState" where
  "rapidExecState_of m \<equiv> getd default_EgmRapidCtrlExecState (rapidExecState m)"

abbreviation rapidExecState_mut :: "(EgmRapidCtrlExecState \<Rightarrow> EgmRapidCtrlExecState) \<Rightarrow> EgmRobot \<Rightarrow> EgmRobot" where
  "rapidExecState_mut g \<equiv> rapidExecState_update (mut default_EgmRapidCtrlExecState g)"

abbreviation erb_measuredForce_of :: "EgmRobot \<Rightarrow> EgmMeasuredForce" where
  "erb_measuredForce_of m \<equiv> getd default_EgmMeasuredForce (erb_measuredForce m)"

abbreviation erb_measuredForce_mut :: "(EgmMeasuredForce \<Rightarrow> EgmMeasuredForce) \<Rightarrow> EgmRobot \<Rightarrow> EgmRobot" where
  "erb_measuredForce_mut g \<equiv> erb_measuredForce_update (mut default_EgmMeasuredForce g)"

abbreviation utilizationRate_of :: "EgmRobot \<Rightarrow> double" where
  "utilizationRate_of m \<equiv> getd (Fin 0) (utilizationRate m)"

record EgmSensor =
  sns_header :: "EgmHeader option"
  sns_planned :: "EgmPlanned option"
  sns_speedRef :: "EgmSpeedRef option"

definition default_EgmSensor :: EgmSensor where
  "default_EgmSensor = \<lparr>sns_header = None, sns_planned = None, sns_speedRef = None\<rparr>"

abbreviation sns_header_of :: "EgmSensor \<Rightarrow> EgmHeader" where
  "sns_header_of m \<equiv> getd default_EgmHeader (sns_header m)"

abbreviation sns_header_mut :: "(EgmHeader \<Rightarrow> EgmHeader) \<Rightarrow> EgmSensor \<Rightarrow> EgmSensor" where
  "sns_header_mut g \<equiv> sns_header_update (mut default_EgmHeader g)"

abbreviation sns_planned_of :: "EgmSensor \<Rightarrow> EgmPlanned" where
  "sns_planned_of m \<equiv> getd default_EgmPlanned (sns_planned m)"

abbreviation sns_planned_mut :: "(EgmPlanned \<Rightarrow> EgmPlanned) \<Rightarrow> EgmSensor \<Rightarrow> EgmSensor" where
  "sns_planned_mut g \<equiv> sns_planned_update (mut default_EgmPlanned g)"

abbreviation sns_speedRef_of :: "EgmSensor \<Rightarrow> EgmSpeedRef" where
  "sns_speedRef_of m \<equiv> getd default_EgmSpeedRef (sns_speedRef m)"

abbreviation sns_speedRef_mut :: "(EgmSpeedRef \<Rightarrow> EgmSpeedRef) \<Rightarrow> EgmSensor \<Rightarrow> EgmSensor" where
  "sns_speedRef_mut g \<equiv> sns_speedRef_update (mut default_EgmSpeedRef g)"

section \<open>The wrapper messages: egm\_wrapper.proto\<close>

datatype HeaderMessageType = MT_UNDEFINED | MT_DATA

datatype RWVersion = RW_UNKNOWN | RW_6_10_AND_NEWER | RW_BETWEEN_6_AND_6_06_03 | RW_BETWEEN_6_07_AND_6_09_02

datatype EGMVersion = EGM_UNKNOWN | EGM_1_0 | EGM_1_1

datatype EGMState = EGM_UNDEFINED | EGM_ERROR | EGM_STOPPED | EGM_RUNNING

datatype MotorState = MOTORS_UNDEFINED | MOTORS_ON | MOTORS_OFF

datatype RAPIDExecutionState = RAPID_UNDEFINED | RAPID_STOPPED | RAPID_RUNNING

record Header =
  sequence_number :: "u32 option"
  time_stamp :: "u32 option"
  message_type :: "HeaderMessageType option"
  rw_version :: "RWVersion option"
  egm_version :: "EGMVersion option"

definition default_Header :: Header where
  "default_Header = \<lparr>sequence_number = None, time_stamp = None, message_type = None, rw_version = None, egm_version = None\<rparr>"

abbreviation sequence_number_of :: "Header \<Rightarrow> u32" where
  "sequence_number_of m \<equiv> getd 0 (sequence_number m)"

abbreviation time_stamp_of :: "Header \<Rightarrow> u32" where
  "time_stamp_of m \<equiv> getd 0 (time_stamp m)"

abbreviation message_type_of :: "Header \<Rightarrow> HeaderMessageType" where
  "message_type_of m \<equiv> getd MT_UNDEFINED (message_type m)"

abbreviation rw_version_of :: "Header \<Rightarrow> RWVersion" where
  "rw_version_of m \<equiv> getd RW_UNKNOWN (rw_version m)"

abbreviation egm_version_of :: "Header \<Rightarrow> EGMVersion" where
  "egm_version_of m \<equiv> getd EGM_UNKNOWN (egm_version m)"

record Status =
  egm_convergence_met :: "bool option"
  egm_state :: "EGMState option"
  motor_state :: "MotorState option"
  rapid_execution_state :: "RAPIDExecutionState option"
  utilization_rate :: "double option"

definition default_Status :: Status where
  "default_Status = \<lparr>egm_convergence_met = None, egm_state = None, motor_state = None, rapid_execution_state = None, utilization_rate = None\<rparr>"

abbreviation egm_convergence_met_of :: "Status \<Rightarrow> bool" where
  "egm_convergence_met_of m \<equiv> getd False (egm_convergence_met m)"

abbreviation egm_state_of :: "Status \<Rightarrow> EGMState" where
  "egm_state_of m \<equiv> getd EGM_UNDEFINED (egm_state m)"

abbreviation motor_state_of :: "Status \<Rightarrow> MotorState" where
  "motor_state_of m \<equiv> getd MOTORS_UNDEFINED (motor_state m)"

abbreviation rapid_execution_state_of :: "Status \<Rightarrow> RAPIDExecutionState" where
  "rapid_execution_state_of m \<equiv> getd RAPID_UNDEFINED (rapid_execution_state m)"

abbreviation utilization_rate_of :: "Status \<Rightarrow> double" where
  "utilization_rate_of m \<equiv> getd (Fin 0) (utilization_rate m)"

record Clock =
  clk_sec :: "u64 option"
  clk_usec :: "u64 option"

definition default_Clock :: Clock where
  "default_Clock = \<lparr>clk_sec = None, clk_usec = None\<rparr>"

abbreviation clk_sec_of :: "Clock \<Rightarrow> u64" where
  "clk_sec_of m \<equiv> getd 0 (clk_sec m)"

abbreviation clk_usec_of :: "Clock \<Rightarrow> u64" where
  "clk_usec_of m \<equiv> getd 0 (clk_usec m)"

record Joints =
  jvalues :: "double list"

definition default_Joints :: Joints where
  "default_Joints = \<lparr>jvalues = []\<rparr>"

record JointSpace =
  js_position :: "Joints option"
  js_velocity :: "Joints option"

definition default_JointSpace :: JointSpace where
  "default_JointSpace = \<lparr>js_position = None, js_velocity = None\<rparr>"

abbreviation js_position_of :: "JointSpace \<Rightarrow> Joints" where
  "js_position_of m \<equiv> getd default_Joints (js_position m)"

abbreviation js_position_mut :: "(Joints \<Rightarrow> Joints) \<Rightarrow> JointSpace \<Rightarrow> JointSpace" where
  "js_position_mut g \<equiv> js_position_update (mut default_Joints g)"

abbreviation js_velocity_of :: "JointSpace \<Rightarrow> Joints" where
  "js_velocity_of m \<equiv> getd default_Joints (js_velocity m)"

abbreviation js_velocity_mut :: "(Joints \<Rightarrow> Joints) \<Rightarrow> JointSpace \<Rightarrow> JointSpace" where
  "js_velocity_mut g \<equiv> js_velocity_update (mut default_Joints g)"

record Cartesian =
  cx :: "double option"
  cy :: "double option"
  cz :: "double option"

definition default_Cartesian :: Cartesian where
  "default_Cartesian = \<lparr>cx = None, cy = None, cz = None\<rparr>"

abbreviation cx_of :: "Cartesian \<Rightarrow> double" where
  "cx_of m \<equiv> getd (Fin 0) (cx m)"

abbreviation cy_of :: "Cartesian \<Rightarrow> double" where
  "cy_of m \<equiv> getd (Fin 0) (cy m)"

abbreviation cz_of :: "Cartesian \<Rightarrow> double" where
  "cz_of m \<equiv> getd (Fin 0) (cz m)"

record Euler =
  ex :: "double option"
  ey :: "double option"
  ez :: "double option"

definition default_Euler :: Euler where
  "default_Euler = \<lparr>ex = None, ey = None, ez = None\<rparr>"

abbreviation ex_of :: "Euler \<Rightarrow> double" where
  "ex_of m \<equiv> getd (Fin 0) (ex m)"

abbreviation ey_of :: "Euler \<Rightarrow> double" where
  "ey_of m \<equiv> getd (Fin 0) (ey m)"

abbreviation ez_of :: "Euler \<Rightarrow> double" where
  "ez_of m \<equiv> getd (Fin 0) (ez m)"

record Quaternion =
  u0 :: "double option"
  u1 :: "double option"
  u2 :: "double option"
  u3 :: "double option"

definition default_Quaternion :: Quaternion where
  "default_Quaternion = \<lparr>u0 = None, u1 = None, u2 = None, u3 = None\<rparr>"

abbreviation u0_of :: "Quaternion \<Rightarrow> double" where
  "u0_of m \<equiv> getd (Fin 0) (u0 m)"

abbreviation u1_of :: "Quaternion \<Rightarrow> double" where
  "u1_of m \<equiv> getd (Fin 0) (u1 m)"

abbreviation u2_of :: "Quaternion \<Rightarrow> double" where
  "u2_of m \<equiv> getd (Fin 0) (u2 m)"

abbreviation u3_of :: "Quaternion \<Rightarrow> double" where
  "u3_of m \<equiv> getd (Fin 0) (u3 m)"

record CartesianPose =
  pose_position :: "Cartesian option"
  pose_euler :: "Euler option"
  pose_quaternion :: "Quaternion option"

definition default_CartesianPose :: CartesianPose where
  "default_CartesianPose = \<lparr>pose_position = None, pose_euler = None, pose_quaternion = None\<rparr>"

abbreviation pose_position_of :: "CartesianPose \<Rightarrow> Cartesian" where
  "pose_position_of m \<equiv> getd default_Cartesian (pose_position m)"

abbreviation pose_position_mut :: "(Cartesian \<Rightarrow> Cartesian) \<Rightarrow> CartesianPose \<Rightarrow> CartesianPose" where
  "pose_position_mut g \<equiv> pose_position_update (mut default_Cartesian g)"

abbreviation pose_euler_of :: "CartesianPose \<Rightarrow> Euler" where
  "pose_euler_of m \<equiv> getd default_Euler (pose_euler m)"

abbreviation pose_euler_mut :: "(Euler \<Rightarrow> Euler) \<Rightarrow> CartesianPose \<Rightarrow> CartesianPose" where
  "pose_euler_mut g \<equiv> pose_euler_update (mut default_Euler g)"

abbreviation pose_quaternion_of :: "CartesianPose \<Rightarrow> Quaternion" where
  "pose_quaternion_of m \<equiv> getd default_Quaternion (pose_quaternion m)"

abbreviation pose_quaternion_mut :: "(Quaternion \<Rightarrow> Quaternion) \<Rightarrow> CartesianPose \<Rightarrow> CartesianPose" where
  "pose_quaternion_mut g \<equiv> pose_quaternion_update (mut default_Quaternion g)"

record CartesianVelocity =
  linear :: "Cartesian option"
  angular :: "Euler option"

definition default_CartesianVelocity :: CartesianVelocity where
  "default_CartesianVelocity = \<lparr>linear = None, angular = None\<rparr>"

abbreviation linear_of :: "CartesianVelocity \<Rightarrow> Cartesian" where
  "linear_of m \<equiv> getd default_Cartesian (linear m)"

abbreviation linear_mut :: "(Cartesian \<Rightarrow> Cartesian) \<Rightarrow> CartesianVelocity \<Rightarrow> CartesianVelocity" where
  "linear_mut g \<equiv> linear_update (mut default_Cartesian g)"

abbreviation angular_of :: "CartesianVelocity \<Rightarrow> Euler" where
  "angular_of m \<equiv> getd default_Euler (angular m)"

abbreviation angular_mut :: "(Euler \<Rightarrow> Euler) \<Rightarrow> CartesianVelocity \<Rightarrow> CartesianVelocity" where
  "angular_mut g \<equiv> angular_update (mut default_Euler g)"

record CartesianSpace =
  cs_pose :: "CartesianPose option"
  cs_velocity :: "CartesianVelocity option"

definition default_CartesianSpace :: CartesianSpace where
  "default_CartesianSpace = \<lparr>cs_pose = None, cs_velocity = None\<rparr>"

abbreviation cs_pose_of :: "CartesianSpace \<Rightarrow> CartesianPose" where
  "cs_pose_of m \<equiv> getd default_CartesianPose (cs_pose m)"

abbreviation cs_pose_mut :: "(CartesianPose \<Rightarrow> CartesianPose) \<Rightarrow> CartesianSpace \<Rightarrow> CartesianSpace" where
  "cs_pose_mut g \<equiv> cs_pose_update (mut default_CartesianPose g)"

abbreviation cs_velocity_of :: "CartesianSpace \<Rightarrow> CartesianVelocity" where
  "cs_velocity_of m \<equiv> getd default_CartesianVelocity (cs_velocity m)"

abbreviation cs_velocity_mut :: "(CartesianVelocity \<Rightarrow> CartesianVelocity) \<Rightarrow> CartesianSpace \<Rightarrow> CartesianSpace" where
  "cs_velocity_mut g \<equiv> cs_velocity_update (mut default_CartesianVelocity g)"

record Robot =
  rob_joints :: "JointSpace option"
  rob_cartesian :: "CartesianSpace option"

definition default_Robot :: Robot where
  "default_Robot = \<lparr>rob_joints = None, rob_cartesian = None\<rparr>"

abbreviation rob_joints_of :: "Robot \<Rightarrow> JointSpace" where
  "rob_joints_of m \<equiv> getd default_JointSpace (rob_joints m)"

abbreviation rob_joints_mut :: "(JointSpace \<Rightarrow> JointSpace) \<Rightarrow> Robot \<Rightarrow> Robot" where
  "rob_joints_mut g \<equiv> rob_joints_update (mut default_JointSpace g)"

abbreviation rob_cartesian_of :: "Robot \<Rightarrow> CartesianSpace" where
  "rob_cartesian_of m \<equiv> getd default_CartesianSpace (rob_cartesian m)"

abbreviation rob_cartesian_mut :: "(CartesianSpace \<Rightarrow> CartesianSpace) \<Rightarrow> Robot \<Rightarrow> Robot" where
  "rob_cartesian_mut g \<equiv> rob_cartesian_update (mut default_CartesianSpace g)"

record External =
  ext_joints :: "JointSpace option"

definition default_External :: External where
  "default_External = \<lparr>ext_joints = None\<rparr>"

abbreviation ext_joints_of :: "External \<Rightarrow> JointSpace" where
  "ext_joints_of m \<equiv> getd default_JointSpace (ext_joints m)"

abbreviation ext_joints_mut :: "(JointSpace \<Rightarrow> JointSpace) \<Rightarrow> External \<Rightarrow> External" where
  "ext_joints_mut g \<equiv> ext_joints_update (mut default_JointSpace g)"

record Feedback =
  fb_robot :: "Robot option"
  fb_external :: "External option"
  fb_time :: "Clock option"

definition default_Feedback :: Feedback where
  "default_Feedback = \<lparr>fb_robot = None, fb_external = None, fb_time = None\<rparr>"

abbreviation fb_robot_of :: "Feedback \<Rightarrow> Robot" where
  "fb_robot_of m \<equiv> getd default_Robot (fb_robot m)"

abbreviation fb_robot_mut :: "(Robot \<Rightarrow> Robot) \<Rightarrow> Feedback \<Rightarrow> Feedback" where
  "fb_robot_mut g \<equiv> fb_robot_update (mut default_Robot g)"

abbreviation fb_external_of :: "Feedback \<Rightarrow> External" where
  "fb_external_of m \<equiv> getd default_External (fb_external m)"

abbreviation fb_external_mut :: "(External \<Rightarrow> External) \<Rightarrow> Feedback \<Rightarrow> Feedback" where
  "fb_external_mut g \<equiv> fb_external_update (mut default_External g)"

abbreviation fb_time_of :: "Feedback \<Rightarrow> Clock" where
  "fb_time_of m \<equiv> getd default_Clock (fb_time m)"

abbreviation fb_time_mut :: "(Clock \<Rightarrow> Clock) \<Rightarrow> Feedback \<Rightarrow> Feedback" where
  "fb_time_mut g \<equiv> fb_time_update (mut default_Clock g)"

record Planned =
  pl_robot :: "Robot option"
  pl_external :: "External option"
  pl_time :: "Clock option"

definition default_Planned :: Planned where
  "default_Planned = \<lparr>pl_robot = None, pl_external = None, pl_time = None\<rparr>"

abbreviation pl_robot_of :: "Planned \<Rightarrow> Robot" where
  "pl_robot_of m \<equiv> getd default_Robot (pl_robot m)"

abbreviation pl_robot_mut :: "(Robot \<Rightarrow> Robot) \<Rightarrow> Planned \<Rightarrow> Planned" where
  "pl_robot_mut g \<equiv> pl_robot_update (mut default_Robot g)"

abbreviation pl_external_of :: "Planned \<Rightarrow> External" where
  "pl_external_of m \<equiv> getd default_External (pl_external m)"

abbreviation pl_external_mut :: "(External \<Rightarrow> External) \<Rightarrow> Planned \<Rightarrow> Planned" where
  "pl_external_mut g \<equiv> pl_external_update (mut default_External g)"

abbreviation pl_time_of :: "Planned \<Rightarrow> Clock" where
  "pl_time_of m \<equiv> getd default_Clock (pl_time m)"

abbreviation pl_time_mut :: "(Clock \<Rightarrow> Clock) \<Rightarrow> Planned \<Rightarrow> Planned" where
  "pl_time_mut g \<equiv> pl_time_update (mut default_Clock g)"

record MeasuredForce =
  mf_force :: "double list"

definition default_MeasuredForce :: MeasuredForce where
  "default_MeasuredForce = \<lparr>mf_force = []\<rparr>"

record Input =
  in_header :: "Header option"
  in_feedback :: "Feedback option"
  in_planned :: "Planned option"
  in_status :: "Status option"
  in_measuredForce :: "MeasuredForce option"

definition default_Input :: Input where
  "default_Input = \<lparr>in_header = None, in_feedback = None, in_planned = None, in_status = None, in_measuredForce = None\<rparr>"

abbreviation in_header_of :: "Input \<Rightarrow> Header" where
  "in_header_of m \<equiv> getd default_Header (in_header m)"

abbreviation in_header_mut :: "(Header \<Rightarrow> Header) \<Rightarrow> Input \<Rightarrow> Input" where
  "in_header_mut g \<equiv> in_header_update (mut default_Header g)"

abbreviation in_feedback_of :: "Input \<Rightarrow> Feedback" where
  "in_feedback_of m \<equiv> getd default_Feedback (in_feedback m)"

abbreviation in_feedback_mut :: "(Feedback \<Rightarrow> Feedback) \<Rightarrow> Input \<Rightarrow> Input" where
  "in_feedback_mut g \<equiv> in_feedback_update (mut default_Feedback g)"

abbreviation in_planned_of :: "Input \<Rightarrow> Planned" where
  "in_planned_of m \<equiv> getd default_Planned (in_planned m)"

abbreviation in_planned_mut :: "(Planned \<Rightarrow> Planned) \<Rightarrow> Input \<Rightarrow> Input" where
  "in_planned_mut g \<equiv> in_planned_update (mut default_Planned g)"

abbreviation in_status_of :: "Input \<Rightarrow> Status" where
  "in_status_of m \<equiv> getd default_Status (in_status m)"

abbreviation in_status_mut :: "(Status \<Rightarrow> Status) \<Rightarrow> Input \<Rightarrow> Input" where
  "in_status_mut g \<equiv> in_status_update (mut default_Status g)"

abbreviation in_measuredForce_of :: "Input \<Rightarrow> MeasuredForce" where
  "in_measuredForce_of m \<equiv> getd default_MeasuredForce (in_measuredForce m)"

abbreviation in_measuredForce_mut :: "(MeasuredForce \<Rightarrow> MeasuredForce) \<Rightarrow> Input \<Rightarrow> Input" where
  "in_measuredForce_mut g \<equiv> in_measuredForce_update (mut default_MeasuredForce g)"

record Output =
  out_robot :: "Robot option"
  out_external :: "External option"

definition default_Output :: Output where
  "default_Output = \<lparr>out_robot = None, out_external = None\<rparr>"

abbreviation out_robot_of :: "Output \<Rightarrow> Robot" where
  "out_robot_of m \<equiv> getd default_Robot (out_robot m)"

abbreviation out_robot_mut :: "(Robot \<Rightarrow> Robot) \<Rightarrow> Output \<Rightarrow> Output" where
  "out_robot_mut g \<equiv> out_robot_update (mut default_Robot g)"

abbreviation out_external_of :: "Output \<Rightarrow> External" where
  "out_external_of m \<equiv> getd default_External (out_external m)"

abbreviation out_external_mut :: "(External \<Rightarrow> External) \<Rightarrow> Output \<Rightarrow> Output" where
  "out_external_mut g \<equiv> out_external_update (mut default_External g)"

section \<open>The trajectory messages: egm\_wrapper\_trajectory.proto\<close>

datatype ExecState = ES_UNDEFINED | ES_NORMAL | ES_RAMP_DOWN | ES_STATIC_GOAL

datatype ExecSubState = ESS_NONE | ESS_RUNNING | ESS_FINISHED

record JointGoal =
  jg_position :: "Joints option"
  jg_velocity :: "Joints option"
  jg_acceleration :: "Joints option"

definition default_JointGoal :: JointGoal where
  "default_JointGoal = \<lparr>jg_position = None, jg_velocity = None, jg_acceleration = None\<rparr>"

abbreviation jg_position_of :: "JointGoal \<Rightarrow> Joints" where
  "jg_position_of m \<equiv> getd default_Joints (jg_position m)"

abbreviation jg_position_mut :: "(Joints \<Rightarrow> Joints) \<Rightarrow> JointGoal \<Rightarrow> JointGoal" where
  "jg_position_mut g \<equiv> jg_position_update (mut default_Joints g)"

abbreviation jg_velocity_of :: "JointGoal \<Rightarrow> Joints" where
  "jg_velocity_of m \<equiv> getd default_Joints (jg_velocity m)"

abbreviation jg_velocity_mut :: "(Joints \<Rightarrow> Joints) \<Rightarrow> JointGoal \<Rightarrow> JointGoal" where
  "jg_velocity_mut g \<equiv> jg_velocity_update (mut default_Joints g)"

abbreviation jg_acceleration_of :: "JointGoal \<Rightarrow> Joints" where
  "jg_acceleration_of m \<equiv> getd default_Joints (jg_acceleration m)"

abbreviation jg_acceleration_mut :: "(Joints \<Rightarrow> Joints) \<Rightarrow> JointGoal \<Rightarrow> JointGoal" where
  "jg_acceleration_mut g \<equiv> jg_acceleration_update (mut default_Joints g)"

record CartesianGoal =
  cg_pose :: "CartesianPose option"
  cg_velocity :: "Cartesian option"
  cg_acceleration :: "Cartesian option"

definition default_CartesianGoal :: CartesianGoal where
  "default_CartesianGoal = \<lparr>cg_pose = None, cg_velocity = None, cg_acceleration = None\<rparr>"

abbreviation cg_pose_of :: "CartesianGoal \<Rightarrow> CartesianPose" where
  "cg_pose_of m \<equiv> getd default_CartesianPose (cg_pose m)"

abbreviation cg_pose_mut :: "(CartesianPose \<Rightarrow> CartesianPose) \<Rightarrow> CartesianGoal \<Rightarrow> CartesianGoal" where
  "cg_pose_mut g \<equiv> cg_pose_update (mut default_CartesianPose g)"

abbreviation cg_velocity_of :: "CartesianGoal \<Rightarrow> Cartesian" where
  "cg_velocity_of m \<equiv> getd default_Cartesian (cg_velocity m)"

abbreviation cg_velocity_mut :: "(Cartesian \<Rightarrow> Cartesian) \<Rightarrow> CartesianGoal \<Rightarrow> CartesianGoal" where
  "cg_velocity_mut g \<equiv> cg_velocity_update (mut default_Cartesian g)"

abbreviation cg_acceleration_of :: "CartesianGoal \<Rightarrow> Cartesian" where
  "cg_acceleration_of m \<equiv> getd default_Cartesian (cg_acceleration m)"

abbreviation cg_acceleration_mut :: "(Cartesian \<Rightarrow> Cartesian) \<Rightarrow> CartesianGoal \<Rightarrow> CartesianGoal" where
  "cg_acceleration_mut g \<equiv> cg_acceleration_update (mut default_Cartesian g)"

record RobotGoal =
  rg_joints :: "JointGoal option"
  rg_cartesian :: "CartesianGoal option"

definition default_RobotGoal :: RobotGoal where
  "default_RobotGoal = \<lparr>rg_joints = None, rg_cartesian = None\<rparr>"

abbreviation rg_joints_of :: "RobotGoal \<Rightarrow> JointGoal" where
  "rg_joints_of m \<equiv> getd default_JointGoal (rg_joints m)"

abbreviation rg_joints_mut :: "(JointGoal \<Rightarrow> JointGoal) \<Rightarrow> RobotGoal \<Rightarrow> RobotGoal" where
  "rg_joints_mut g \<equiv> rg_joints_update (mut default_JointGoal g)"

abbreviation rg_cartesian_of :: "RobotGoal \<Rightarrow> CartesianGoal" where
  "rg_cartesian_of m \<equiv> getd default_CartesianGoal (rg_cartesian m)"

abbreviation rg_cartesian_mut :: "(CartesianGoal \<Rightarrow> CartesianGoal) \<Rightarrow> RobotGoal \<Rightarrow> RobotGoal" where
  "rg_cartesian_mut g \<equiv> rg_cartesian_update (mut default_CartesianGoal g)"

record ExternalGoal =
  eg_joints :: "JointGoal option"

definition default_ExternalGoal :: ExternalGoal where
  "default_ExternalGoal = \<lparr>eg_joints = None\<rparr>"

abbreviation eg_joints_of :: "ExternalGoal \<Rightarrow> JointGoal" where
  "eg_joints_of m \<equiv> getd default_JointGoal (eg_joints m)"

abbreviation eg_joints_mut :: "(JointGoal \<Rightarrow> JointGoal) \<Rightarrow> ExternalGoal \<Rightarrow> ExternalGoal" where
  "eg_joints_mut g \<equiv> eg_joints_update (mut default_JointGoal g)"

record PointGoal =
  pg_duration :: "double option"
  pg_robot :: "RobotGoal option"
  pg_external :: "ExternalGoal option"
  pg_reach :: "bool option"

definition default_PointGoal :: PointGoal where
  "default_PointGoal = \<lparr>pg_duration = None, pg_robot = None, pg_external = None, pg_reach = None\<rparr>"

abbreviation pg_duration_of :: "PointGoal \<Rightarrow> double" where
  "pg_duration_of m \<equiv> getd (Fin 0) (pg_duration m)"

abbreviation pg_robot_of :: "PointGoal \<Rightarrow> RobotGoal" where
  "pg_robot_of m \<equiv> getd default_RobotGoal (pg_robot m)"

abbreviation pg_robot_mut :: "(RobotGoal \<Rightarrow> RobotGoal) \<Rightarrow> PointGoal \<Rightarrow> PointGoal" where
  "pg_robot_mut g \<equiv> pg_robot_update (mut default_RobotGoal g)"

abbreviation pg_external_of :: "PointGoal \<Rightarrow> ExternalGoal" where
  "pg_external_of m \<equiv> getd default_ExternalGoal (pg_external m)"

abbreviation pg_external_mut :: "(ExternalGoal \<Rightarrow> ExternalGoal) \<Rightarrow> PointGoal \<Rightarrow> PointGoal" where
  "pg_external_mut g \<equiv> pg_external_update (mut default_ExternalGoal g)"

abbreviation pg_reach_of :: "PointGoal \<Rightarrow> bool" where
  "pg_reach_of m \<equiv> getd False (pg_reach m)"

record RobotPositionGoal =
  rpg_joints :: "Joints option"
  rpg_cartesian :: "CartesianPose option"

definition default_RobotPositionGoal :: RobotPositionGoal where
  "default_RobotPositionGoal = \<lparr>rpg_joints = None, rpg_cartesian = None\<rparr>"

abbreviation rpg_joints_of :: "RobotPositionGoal \<Rightarrow> Joints" where
  "rpg_joints_of m \<equiv> getd default_Joints (rpg_joints m)"

abbreviation rpg_joints_mut :: "(Joints \<Rightarrow> Joints) \<Rightarrow> RobotPositionGoal \<Rightarrow> RobotPositionGoal" where
  "rpg_joints_mut g \<equiv> rpg_joints_update (mut default_Joints g)"

abbreviation rpg_cartesian_of :: "RobotPositionGoal \<Rightarrow> CartesianPose" where
  "rpg_cartesian_of m \<equiv> getd default_CartesianPose (rpg_cartesian m)"

abbreviation rpg_cartesian_mut :: "(CartesianPose \<Rightarrow> CartesianPose) \<Rightarrow> RobotPositionGoal \<Rightarrow> RobotPositionGoal" where
  "rpg_cartesian_mut g \<equiv> rpg_cartesian_update (mut default_CartesianPose g)"

record RobotVelocityGoal =
  rvg_joints :: "Joints option"
  rvg_cartesian :: "CartesianVelocity option"

definition default_RobotVelocityGoal :: RobotVelocityGoal where
  "default_RobotVelocityGoal = \<lparr>rvg_joints = None, rvg_cartesian = None\<rparr>"

abbreviation rvg_joints_of :: "RobotVelocityGoal \<Rightarrow> Joints" where
  "rvg_joints_of m \<equiv> getd default_Joints (rvg_joints m)"

abbreviation rvg_joints_mut :: "(Joints \<Rightarrow> Joints) \<Rightarrow> RobotVelocityGoal \<Rightarrow> RobotVelocityGoal" where
  "rvg_joints_mut g \<equiv> rvg_joints_update (mut default_Joints g)"

abbreviation rvg_cartesian_of :: "RobotVelocityGoal \<Rightarrow> CartesianVelocity" where
  "rvg_cartesian_of m \<equiv> getd default_CartesianVelocity (rvg_cartesian m)"

abbreviation rvg_cartesian_mut :: "(CartesianVelocity \<Rightarrow> CartesianVelocity) \<Rightarrow> RobotVelocityGoal \<Rightarrow> RobotVelocityGoal" where
  "rvg_cartesian_mut g \<equiv> rvg_cartesian_update (mut default_CartesianVelocity g)"

record TrajectoryGoal =
  tg_points :: "PointGoal list"

definition default_TrajectoryGoal :: TrajectoryGoal where
  "default_TrajectoryGoal = \<lparr>tg_points = []\<rparr>"

record StaticPositionGoal =
  spg_robot :: "RobotPositionGoal option"
  spg_external :: "Joints option"

definition default_StaticPositionGoal :: StaticPositionGoal where
  "default_StaticPositionGoal = \<lparr>spg_robot = None, spg_external = None\<rparr>"

abbreviation spg_robot_of :: "StaticPositionGoal \<Rightarrow> RobotPositionGoal" where
  "spg_robot_of m \<equiv> getd default_RobotPositionGoal (spg_robot m)"

abbreviation spg_robot_mut :: "(RobotPositionGoal \<Rightarrow> RobotPositionGoal) \<Rightarrow> StaticPositionGoal \<Rightarrow> StaticPositionGoal" where
  "spg_robot_mut g \<equiv> spg_robot_update (mut default_RobotPositionGoal g)"

abbreviation spg_external_of :: "StaticPositionGoal \<Rightarrow> Joints" where
  "spg_external_of m \<equiv> getd default_Joints (spg_external m)"

abbreviation spg_external_mut :: "(Joints \<Rightarrow> Joints) \<Rightarrow> StaticPositionGoal \<Rightarrow> StaticPositionGoal" where
  "spg_external_mut g \<equiv> spg_external_update (mut default_Joints g)"

record StaticVelocityGoal =
  svg_robot :: "RobotVelocityGoal option"
  svg_external :: "Joints option"

definition default_StaticVelocityGoal :: StaticVelocityGoal where
  "default_StaticVelocityGoal = \<lparr>svg_robot = None, svg_external = None\<rparr>"

abbreviation svg_robot_of :: "StaticVelocityGoal \<Rightarrow> RobotVelocityGoal" where
  "svg_robot_of m \<equiv> getd default_RobotVelocityGoal (svg_robot m)"

abbreviation svg_robot_mut :: "(RobotVelocityGoal \<Rightarrow> RobotVelocityGoal) \<Rightarrow> StaticVelocityGoal \<Rightarrow> StaticVelocityGoal" where
  "svg_robot_mut g \<equiv> svg_robot_update (mut default_RobotVelocityGoal g)"

abbreviation svg_external_of :: "StaticVelocityGoal \<Rightarrow> Joints" where
  "svg_external_of m \<equiv> getd default_Joints (svg_external m)"

abbreviation svg_external_mut :: "(Joints \<Rightarrow> Joints) \<Rightarrow> StaticVelocityGoal \<Rightarrow> StaticVelocityGoal" where
  "svg_external_mut g \<equiv> svg_external_update (mut default_Joints g)"

record ExecutionProgress =
  ep_state :: "ExecState option"
  ep_sub_state :: "ExecSubState option"
  ep_inputs :: "Input option"
  ep_outputs :: "Output option"
  ep_time_passed :: "double option"
  ep_goal_active :: "bool option"
  ep_goal :: "PointGoal option"
  ep_active_trajectory :: "TrajectoryGoal option"
  ep_pending_trajectories :: "u32 option"

definition default_ExecutionProgress :: ExecutionProgress where
  "default_ExecutionProgress = \<lparr>ep_state = None, ep_sub_state = None, ep_inputs = None, ep_outputs = None, ep_time_passed = None, ep_goal_active = None, ep_goal = None, ep_active_trajectory = None, ep_pending_trajectories = None\<rparr>"

abbreviation ep_state_of :: "ExecutionProgress \<Rightarrow> ExecState" where
  "ep_state_of m \<equiv> getd ES_UNDEFINED (ep_state m)"

abbreviation ep_sub_state_of :: "ExecutionProgress \<Rightarrow> ExecSubState" where
  "ep_sub_state_of m \<equiv> getd ESS_NONE (ep_sub_state m)"

abbreviation ep_inputs_of :: "ExecutionProgress \<Rightarrow> Input" where
  "ep_inputs_of m \<equiv> getd default_Input (ep_inputs m)"

abbreviation ep_inputs_mut :: "(Input \<Rightarrow> Input) \<Rightarrow> ExecutionProgress \<Rightarrow> ExecutionProgress" where
  "ep_inputs_mut g \<equiv> ep_inputs_update (mut default_Input g)"

abbreviation ep_outputs_of :: "ExecutionProgress \<Rightarrow> Output" where
  "ep_outputs_of m \<equiv> getd default_Output (ep_outputs m)"

abbreviation ep_outputs_mut :: "(Output \<Rightarrow> Output) \<Rightarrow> ExecutionProgress \<Rightarrow> ExecutionProgress" where
  "ep_outputs_mut g \<equiv> ep_outputs_update (mut default_Output g)"

abbreviation ep_time_passed_of :: "ExecutionProgress \<Rightarrow> double" where
  "ep_time_passed_of m \<equiv> getd (Fin 0) (ep_time_passed m)"

abbreviation ep_goal_active_of :: "ExecutionProgress \<Rightarrow> bool" where
  "ep_goal_active_of m \<equiv> getd False (ep_goal_active m)"

abbreviation ep_goal_of :: "ExecutionProgress \<Rightarrow> PointGoal" where
  "ep_goal_of m \<equiv> getd default_PointGoal (ep_goal m)"

abbreviation ep_goal_mut :: "(PointGoal \<Rightarrow> PointGoal) \<Rightarrow> ExecutionProgress \<Rightarrow> ExecutionProgress" where
  "ep_goal_mut g \<equiv> ep_goal_update (mut default_PointGoal g)"

abbreviation ep_active_trajectory_of :: "ExecutionProgress \<Rightarrow> TrajectoryGoal" where
  "ep_active_trajectory_of m \<equiv> getd default_TrajectoryGoal (ep_active_trajectory m)"

abbreviation ep_active_trajectory_mut :: "(TrajectoryGoal \<Rightarrow> TrajectoryGoal) \<Rightarrow> ExecutionProgress \<Rightarrow> ExecutionProgress" where
  "ep_active_trajectory_mut g \<equiv> ep_active_trajectory_update (mut default_TrajectoryGoal g)"

abbreviation ep_pending_trajectories_of :: "ExecutionProgress \<Rightarrow> u32" where
  "ep_pending_trajectories_of m \<equiv> getd 0 (ep_pending_trajectories m)"

section \<open>Default instances\<close>

lemma default_EgmHeader_sel [simp, field_simps_msg]:
  "seqno default_EgmHeader = None"
  "tm default_EgmHeader = None"
  "mtype default_EgmHeader = None"
  by (simp_all add: default_EgmHeader_def)

lemma default_EgmCartesian_sel [simp, field_simps_msg]:
  "ecx default_EgmCartesian = None"
  "ecy default_EgmCartesian = None"
  "ecz default_EgmCartesian = None"
  by (simp_all add: default_EgmCartesian_def)

lemma default_EgmQuaternion_sel [simp, field_simps_msg]:
  "equ0 default_EgmQuaternion = None"
  "equ1 default_EgmQuaternion = None"
  "equ2 default_EgmQuaternion = None"
  "equ3 default_EgmQuaternion = None"
  by (simp_all add: default_EgmQuaternion_def)

lemma default_EgmEuler_sel [simp, field_simps_msg]:
  "eex default_EgmEuler = None"
  "eey default_EgmEuler = None"
  "eez default_EgmEuler = None"
  by (simp_all add: default_EgmEuler_def)

lemma default_EgmClock_sel [simp, field_simps_msg]:
  "eclk_sec default_EgmClock = None"
  "eclk_usec default_EgmClock = None"
  by (simp_all add: default_EgmClock_def)

lemma default_EgmPose_sel [simp, field_simps_msg]:
  "pos default_EgmPose = None"
  "orient default_EgmPose = None"
  "epose_euler default_EgmPose = None"
  by (simp_all add: default_EgmPose_def)

lemma default_EgmCartesianSpeed_sel [simp, field_simps_msg]:
  "cspeed_value default_EgmCartesianSpeed = []"
  by (simp_all add: default_EgmCartesianSpeed_def)

lemma default_EgmJoints_sel [simp, field_simps_msg]:
  "ej_joints default_EgmJoints = []"
  by (simp_all add: default_EgmJoints_def)

lemma default_EgmPlanned_sel [simp, field_simps_msg]:
  "epl_joints default_EgmPlanned = None"
  "epl_cartesian default_EgmPlanned = None"
  "epl_externalJoints default_EgmPlanned = None"
  "epl_time default_EgmPlanned = None"
  by (simp_all add: default_EgmPlanned_def)

lemma default_EgmSpeedRef_sel [simp, field_simps_msg]:
  "sref_joints default_EgmSpeedRef = None"
  "sref_cartesians default_EgmSpeedRef = None"
  "sref_externalJoints default_EgmSpeedRef = None"
  by (simp_all add: default_EgmSpeedRef_def)

lemma default_EgmFeedBack_sel [simp, field_simps_msg]:
  "efb_joints default_EgmFeedBack = None"
  "efb_cartesian default_EgmFeedBack = None"
  "efb_externalJoints default_EgmFeedBack = None"
  "efb_time default_EgmFeedBack = None"
  by (simp_all add: default_EgmFeedBack_def)

lemma default_EgmMotorState_sel [simp, field_simps_msg]:
  "motor_state_type default_EgmMotorState = None"
  by (simp_all add: default_EgmMotorState_def)

lemma default_EgmMCIState_sel [simp, field_simps_msg]:
  "mci_state_type default_EgmMCIState = None"
  by (simp_all add: default_EgmMCIState_def)

lemma default_EgmRapidCtrlExecState_sel [simp, field_simps_msg]:
  "rapid_state_type default_EgmRapidCtrlExecState = None"
  by (simp_all add: default_EgmRapidCtrlExecState_def)

lemma default_EgmTestSignals_sel [simp, field_simps_msg]:
  "signals default_EgmTestSignals = []"
  by (simp_all add: default_EgmTestSignals_def)

lemma default_EgmMeasuredForce_sel [simp, field_simps_msg]:
  "emf_force default_EgmMeasuredForce = []"
  by (simp_all add: default_EgmMeasuredForce_def)

lemma default_EgmRobot_sel [simp, field_simps_msg]:
  "erb_header default_EgmRobot = None"
  "erb_feedBack default_EgmRobot = None"
  "erb_planned default_EgmRobot = None"
  "motorState default_EgmRobot = None"
  "mciState default_EgmRobot = None"
  "mciConvergenceMet default_EgmRobot = None"
  "testSignals default_EgmRobot = None"
  "rapidExecState default_EgmRobot = None"
  "erb_measuredForce default_EgmRobot = None"
  "utilizationRate default_EgmRobot = None"
  by (simp_all add: default_EgmRobot_def)

lemma default_EgmSensor_sel [simp, field_simps_msg]:
  "sns_header default_EgmSensor = None"
  "sns_planned default_EgmSensor = None"
  "sns_speedRef default_EgmSensor = None"
  by (simp_all add: default_EgmSensor_def)

lemma default_Header_sel [simp, field_simps_msg]:
  "sequence_number default_Header = None"
  "time_stamp default_Header = None"
  "message_type default_Header = None"
  "rw_version default_Header = None"
  "egm_version default_Header = None"
  by (simp_all add: default_Header_def)

lemma default_Status_sel [simp, field_simps_msg]:
  "egm_convergence_met default_Status = None"
  "egm_state default_Status = None"
  "motor_state default_Status = None"
  "rapid_execution_state default_Status = None"
  "utilization_rate default_Status = None"
  by (simp_all add: default_Status_def)

lemma default_Clock_sel [simp, field_simps_msg]:
  "clk_sec default_Clock = None"
  "clk_usec default_Clock = None"
  by (simp_all add: default_Clock_def)

lemma default_Joints_sel [simp, field_simps_msg]:
  "jvalues default_Joints = []"
  by (simp_all add: default_Joints_def)

lemma default_JointSpace_sel [simp, field_simps_msg]:
  "js_position default_JointSpace = None"
  "js_velocity default_JointSpace = None"
  by (simp_all add: default_JointSpace_def)

lemma default_Cartesian_sel [simp, field_simps_msg]:
  "cx default_Cartesian = None"
  "cy default_Cartesian = None"
  "cz default_Cartesian = None"
  by (simp_all add: default_Cartesian_def)

lemma default_Euler_sel [simp, field_simps_msg]:
  "ex default_Euler = None"
  "ey default_Euler = None"
  "ez default_Euler = None"
  by (simp_all add: default_Euler_def)

lemma default_Quaternion_sel [simp, field_simps_msg]:
  "u0 default_Quaternion = None"
  "u1 default_Quaternion = None"
  "u2 default_Quaternion = None"
  "u3 default_Quaternion = None"
  by (simp_all add: default_Quaternion_def)

lemma default_CartesianPose_sel [simp, field_simps_msg]:
  "pose_position default_CartesianPose = None"
  "pose_euler default_CartesianPose = None"
  "pose_quaternion default_CartesianPose = None"
  by (simp_all add: default_CartesianPose_def)

lemma default_CartesianVelocity_sel [simp, field_simps_msg]:
  "linear default_CartesianVelocity = None"
  "angular default_CartesianVelocity = None"
  by (simp_all add: default_CartesianVelocity_def)

lemma default_CartesianSpace_sel [simp, field_simps_msg]:
  "cs_pose default_CartesianSpace = None"
  "cs_velocity default_CartesianSpace = None"
  by (simp_all add: default_CartesianSpace_def)

lemma default_Robot_sel [simp, field_simps_msg]:
  "rob_joints default_Robot = None"
  "rob_cartesian default_Robot = None"
  by (simp_all add: default_Robot_def)

lemma default_External_sel [simp, field_simps_msg]:
  "ext_joints default_External = None"
  by (simp_all add: default_External_def)

lemma default_Feedback_sel [simp, field_simps_msg]:
  "fb_robot default_Feedback = None"
  "fb_external default_Feedback = None"
  "fb_time default_Feedback = None"
  by (simp_all add: default_Feedback_def)

lemma default_Planned_sel [simp, field_simps_msg]:
  "pl_robot default_Planned = None"
  "pl_external default_Planned = None"
  "pl_time default_Planned = None"
  by (simp_all add: default_Planned_def)

lemma default_MeasuredForce_sel [simp, field_simps_msg]:
  "mf_force default_MeasuredForce = []"
  by (simp_all add: default_MeasuredForce_def)

lemma default_Input_sel [simp, field_simps_msg]:
  "in_header default_Input = None"
  "in_feedback default_Input = None"
  "in_planned default_Input = None"
  "in_status default_Input = None"
  "in_measuredForce default_Input = None"
  by (simp_all add: default_Input_def)

lemma default_Output_sel [simp, field_simps_msg]:
  "out_robot default_Output = None"
  "out_external default_Output = None"
  by (simp_all add: default_Output_def)

lemma default_JointGoal_sel [simp, field_simps_msg]:
  "jg_position default_JointGoal = None"
  "jg_velocity default_JointGoal = None"
  "jg_acceleration default_JointGoal = None"
  by (simp_all add: default_JointGoal_def)

lemma default_CartesianGoal_sel [simp, field_simps_msg]:
  "cg_pose default_CartesianGoal = None"
  "cg_velocity default_CartesianGoal = None"
  "cg_acceleration default_CartesianGoal = None"
  by (simp_all add: default_CartesianGoal_def)

lemma default_RobotGoal_sel [simp, field_simps_msg]:
  "rg_joints default_RobotGoal = None"
  "rg_cartesian default_RobotGoal = None"
  by (simp_all add: default_RobotGoal_def)

lemma default_ExternalGoal_sel [simp, field_simps_msg]:
  "eg_joints default_ExternalGoal = None"
  by (simp_all add: default_ExternalGoal_def)

lemma default_PointGoal_sel [simp, field_simps_msg]:
  "pg_duration default_PointGoal = None"
  "pg_robot default_PointGoal = None"
  "pg_external default_PointGoal = None"
  "pg_reach default_PointGoal = None"
  by (simp_all add: default_PointGoal_def)

lemma default_RobotPositionGoal_sel [simp, field_simps_msg]:
  "rpg_joints default_RobotPositionGoal = None"
  "rpg_cartesian default_RobotPositionGoal = None"
  by (simp_all add: default_RobotPositionGoal_def)

lemma default_RobotVelocityGoal_sel [simp, field_simps_msg]:
  "rvg_joints default_RobotVelocityGoal = None"
  "rvg_cartesian default_RobotVelocityGoal = None"
  by (simp_all add: default_RobotVelocityGoal_def)

lemma default_TrajectoryGoal_sel [simp, field_simps_msg]:
  "tg_points default_TrajectoryGoal = []"
  by (simp_all add: default_TrajectoryGoal_def)

lemma default_StaticPositionGoal_sel [simp, field_simps_msg]:
  "spg_robot default_StaticPositionGoal = None"
  "spg_external default_StaticPositionGoal = None"
  by (simp_all add: default_StaticPositionGoal_def)

lemma default_StaticVelocityGoal_sel [simp, field_simps_msg]:
  "svg_robot default_StaticVelocityGoal = None"
  "svg_external default_StaticVelocityGoal = None"
  by (simp_all add: default_StaticVelocityGoal_def)

lemma default_ExecutionProgress_sel [simp, field_simps_msg]:
  "ep_state default_ExecutionProgress = None"
  "ep_sub_state default_ExecutionProgress = None"
  "ep_inputs default_ExecutionProgress = None"
  "ep_outputs default_ExecutionProgress = None"
  "ep_time_passed default_ExecutionProgress = None"
  "ep_goal_active default_ExecutionProgress = None"
  "ep_goal default_ExecutionProgress = None"
  "ep_active_trajectory default_ExecutionProgress = None"
  "ep_pending_trajectories default_ExecutionProgress = None"
  by (simp_all add: default_ExecutionProgress_def)

end
