(* ===== verification/EGM_Common.thy ===== *)
theory EGM_Common
  imports EGM_Messages
begin

text \<open>
  \<open>egm_common.h\<close> and \<open>egm_common.cpp\<close>: the constants of the robot controller system and of the
  unit conversions, the enumerations, and the two configuration structs. Also the record of the
  operations of \<open>boost::math::quaternion\<close> the code calls: Boost is not part of the repository, so
  the definitions that use it take it as an argument.
\<close>

section \<open>Enumerations\<close>

text \<open>\<open>RobotAxes::None\<close> is \<open>NoAxes\<close> here.\<close>

datatype RobotAxes = NoAxes | Six | Seven

datatype EGMModes = EGMJoint | EGMPose

datatype SplineMethod = Linear | Square | Cubic | Quintic

section \<open>Constants\<close>

definition LOWEST_SAMPLE_TIME :: double where
  "LOWEST_SAMPLE_TIME = Fin 0.004"

definition DEFAULT_PORT_NUMBER :: "16 word" where
  "DEFAULT_PORT_NUMBER = 6511"

definition DEFAULT_NUMBER_OF_ROBOT_JOINTS :: nat where
  "DEFAULT_NUMBER_OF_ROBOT_JOINTS = 6"

definition DEFAULT_NUMBER_OF_EXTERNAL_JOINTS :: nat where
  "DEFAULT_NUMBER_OF_EXTERNAL_JOINTS = 6"

definition MAX_NUMBER_OF_JOINTS :: nat where
  "MAX_NUMBER_OF_JOINTS = DEFAULT_NUMBER_OF_ROBOT_JOINTS + DEFAULT_NUMBER_OF_EXTERNAL_JOINTS"

definition RAD_TO_DEG :: double where
  "RAD_TO_DEG = Fin 180 / M_PI"

definition DEG_TO_RAD :: double where
  "DEG_TO_RAD = M_PI / Fin 180"

definition MM_TO_M :: double where
  "MM_TO_M = Fin 0.001"

definition MS_TO_S :: double where
  "MS_TO_S = Fin 0.001"

definition S_TO_US :: double where
  "S_TO_US = Fin 1000000"

section \<open>Configurations\<close>

text \<open>
  The optional condition variable \<open>p_new_message_cv\<close> is modelled by its presence: notifying it
  changes no state of the library.
\<close>

record BaseConfiguration =
  axes :: RobotAxes
  use_demo_outputs :: bool
  use_velocity_outputs :: bool
  use_logging :: bool
  max_logging_duration :: double
  has_new_message_cv :: bool

definition default_BaseConfiguration :: BaseConfiguration where
  "default_BaseConfiguration =
     \<lparr>axes = Six, use_demo_outputs = False, use_velocity_outputs = False, use_logging = False,
      max_logging_duration = Fin 60, has_new_message_cv = False\<rparr>"

record TrajectoryConfiguration =
  tc_base :: BaseConfiguration
  tc_spline_method :: SplineMethod

definition make_TrajectoryConfiguration :: "BaseConfiguration \<Rightarrow> TrajectoryConfiguration" where
  "make_TrajectoryConfiguration b = \<lparr>tc_base = b, tc_spline_method = Quintic\<rparr>"

section \<open>The operations of boost::math::quaternion\<close>

type_synonym bquat = "double \<times> double \<times> double \<times> double"

record boost_quaternion =
  bq_minus :: "bquat \<Rightarrow> bquat \<Rightarrow> bquat"
  bq_scale :: "double \<Rightarrow> bquat \<Rightarrow> bquat"
  bq_divide :: "bquat \<Rightarrow> double \<Rightarrow> bquat"
  bq_times :: "bquat \<Rightarrow> bquat \<Rightarrow> bquat"
  bq_conj :: "bquat \<Rightarrow> bquat"

text \<open>
  The operations as the documentation of Boost defines them: the components of the difference, of the
  product with a scalar and of the quotient by one, Hamilton's product and the conjugate. Concrete
  instances of the theorems use this record.
\<close>

definition hamilton :: boost_quaternion where
  "hamilton =
     \<lparr>bq_minus = (\<lambda>(a, b, c, d) (a', b', c', d'). (a - a', b - b', c - c', d - d')),
      bq_scale = (\<lambda>k (a, b, c, d). (k * a, k * b, k * c, k * d)),
      bq_divide = (\<lambda>(a, b, c, d) k. (a / k, b / k, c / k, d / k)),
      bq_times = (\<lambda>(a, b, c, d) (a', b', c', d').
        (a * a' - b * b' - c * c' - d * d', a * b' + b * a' + c * d' - d * c',
         a * c' - b * d' + c * a' + d * b', a * d' + b * c' - c * b' + d * a')),
      bq_conj = (\<lambda>(a, b, c, d). (a, - b, - c, - d))\<rparr>"

section \<open>Lemmas\<close>

lemma LOWEST_SAMPLE_TIME_pos: "Fin 0 < LOWEST_SAMPLE_TIME"
  by (simp add: LOWEST_SAMPLE_TIME_def)

lemma deg_rad_inverse [simp]:
  "Fin a * DEG_TO_RAD * RAD_TO_DEG = Fin a"
  "Fin a * RAD_TO_DEG * DEG_TO_RAD = Fin a"
  by (simp_all add: DEG_TO_RAD_def RAD_TO_DEG_def M_PI_def)

lemma conversion_Fin:
  "DEG_TO_RAD = Fin (pi / 180)"
  "RAD_TO_DEG = Fin (180 / pi)"
  by (simp_all add: DEG_TO_RAD_def RAD_TO_DEG_def M_PI_def)

lemmas joint_counts =
  DEFAULT_NUMBER_OF_ROBOT_JOINTS_def DEFAULT_NUMBER_OF_EXTERNAL_JOINTS_def MAX_NUMBER_OF_JOINTS_def

end
