(* ===== verification/EGM_Auxiliary.thy ===== *)
theory EGM_Auxiliary
  imports EGM_Common
begin

text \<open>
  \<open>egm_common_auxiliary.cpp\<close>: the math, estimation, find, copy, parse, reset and verify functions on
  messages. An overloaded C++ function has one definition per overload, named after the message it
  works on. A function that writes through a pointer takes the message the pointer refers to and
  returns the updated one; every call in the library passes the address of a live message (a
  \<open>mutable_x()\<close> accessor or a local variable). The null-pointer guards of the public functions are
  the combinators \<open>ptr_void\<close> and \<open>ptr_bool\<close>: a null pointer is \<open>None\<close>, a void function does
  nothing on it, a bool function returns the value its local \<open>success\<close> starts from.
\<close>

section \<open>Null-pointer guards\<close>

definition ptr_void :: "('a \<Rightarrow> 'a) \<Rightarrow> 'a option \<Rightarrow> 'a option" where
  "ptr_void f p = map_option f p"

definition ptr_bool :: "bool \<Rightarrow> ('a \<Rightarrow> bool \<times> 'a) \<Rightarrow> 'a option \<Rightarrow> bool \<times> 'a option" where
  "ptr_bool success f p =
     (case p of None \<Rightarrow> (success, None) | Some t \<Rightarrow> (let (b, t') = f t in (b, Some t')))"

section \<open>Checked write of a joint value\<close>

text \<open>The generated accessor \<open>set_values(i, v)\<close> of \<open>wrapper::Joints\<close>.\<close>

definition set_values :: "nat \<Rightarrow> double \<Rightarrow> Joints \<Rightarrow> Joints option" where
  "set_values i v j = map_option (\<lambda>vs. j\<lparr>jvalues := vs\<rparr>) (set_at i v (jvalues j))"

section \<open>Math functions\<close>

definition saturate :: "double \<Rightarrow> double \<Rightarrow> double \<Rightarrow> double" where
  "saturate value lower upper =
     (if value < lower then lower else (if upper < value then upper else value))"

definition multiply_Joints :: "Joints \<Rightarrow> double \<Rightarrow> Joints" where
  "multiply_Joints j factor =
     for_range (length (jvalues j))
       (\<lambda>i. jvalues_update (\<lambda>vs. vs[i := (vs ! i) * factor])) j"

definition multiply_Cartesian :: "Cartesian \<Rightarrow> double \<Rightarrow> Cartesian" where
  "multiply_Cartesian c factor =
     c\<lparr>cx := Some (cx_of c * factor), cy := Some (cy_of c * factor), cz := Some (cz_of c * factor)\<rparr>"

definition multiply_Euler :: "Euler \<Rightarrow> double \<Rightarrow> Euler" where
  "multiply_Euler e factor =
     e\<lparr>ex := Some (ex_of e * factor), ey := Some (ey_of e * factor), ez := Some (ez_of e * factor)\<rparr>"

definition multiply_Quaternion :: "Quaternion \<Rightarrow> double \<Rightarrow> Quaternion" where
  "multiply_Quaternion q factor =
     q\<lparr>u0 := Some (u0_of q * factor), u1 := Some (u1_of q * factor),
       u2 := Some (u2_of q * factor), u3 := Some (u3_of q * factor)\<rparr>"

definition multiply_Quaternions :: "Quaternion \<Rightarrow> Quaternion \<Rightarrow> Quaternion" where
  "multiply_Quaternions q1 q2 = default_Quaternion
     \<lparr>u0 := Some (u0_of q1 * u0_of q2 - u1_of q1 * u1_of q2 - u2_of q1 * u2_of q2 - u3_of q1 * u3_of q2),
      u1 := Some (u0_of q1 * u1_of q2 + u1_of q1 * u0_of q2 + u2_of q1 * u3_of q2 - u3_of q1 * u2_of q2),
      u2 := Some (u0_of q1 * u2_of q2 + u2_of q1 * u0_of q2 + u3_of q1 * u1_of q2 - u1_of q1 * u3_of q2),
      u3 := Some (u0_of q1 * u3_of q2 + u3_of q1 * u0_of q2 + u1_of q1 * u2_of q2 - u2_of q1 * u1_of q2)\<rparr>"

definition dotProduct :: "Quaternion \<Rightarrow> Quaternion \<Rightarrow> double" where
  "dotProduct q1 q2 = u0_of q1 * u0_of q2 + u1_of q1 * u1_of q2 + u2_of q1 * u2_of q2 + u3_of q1 * u3_of q2"

definition euclideanNorm :: "Quaternion \<Rightarrow> double" where
  "euclideanNorm q = fsqrt (dotProduct q q)"

definition normalize :: "Quaternion \<Rightarrow> Quaternion" where
  "normalize q =
     (let norm = euclideanNorm q in
      if norm \<noteq> Fin 0
      then q\<lparr>u0 := Some (u0_of q / norm), u1 := Some (u1_of q / norm),
             u2 := Some (u2_of q / norm), u3 := Some (u3_of q / norm)\<rparr>
      else q)"

definition convert_Quaternion :: "Quaternion \<Rightarrow> Euler \<Rightarrow> Quaternion" where
  "convert_Quaternion q e =
     (let z = ez_of e * DEG_TO_RAD;
          y = ey_of e * DEG_TO_RAD;
          x = ex_of e * DEG_TO_RAD;
          cosx = fcos (Fin 0.5 * x);
          sinx = fsin (Fin 0.5 * x);
          cosy = fcos (Fin 0.5 * y);
          siny = fsin (Fin 0.5 * y);
          cosz = fcos (Fin 0.5 * z);
          sinz = fsin (Fin 0.5 * z)
      in normalize
           (q\<lparr>u0 := Some (sinx * siny * sinz + cosx * cosy * cosz),
              u1 := Some (- cosx * siny * sinz + sinx * cosy * cosz),
              u2 := Some (sinx * cosy * sinz + cosx * siny * cosz),
              u3 := Some (cosx * cosy * sinz - sinx * siny * cosz)\<rparr>))"

definition SINGULARITY_THRESHOLD :: double where
  "SINGULARITY_THRESHOLD = Fin 0.000001"

definition convert_Euler :: "Euler \<Rightarrow> Quaternion \<Rightarrow> Euler" where
  "convert_Euler e q =
     (if euclideanNorm q \<noteq> Fin 0
      then
        let q0 = u0_of q; q1 = u1_of q; q2 = u2_of q; q3 = u3_of q;
            singularity_check = q0 * q2 - q1 * q3;
            (x, y, z) =
              (if \<bar>singularity_check - Fin 0.5\<bar> \<le> SINGULARITY_THRESHOLD
               then (Fin 2 * fatan2 q1 q0, Fin (pi / 2), Fin 0)
               else if \<bar>singularity_check + Fin 0.5\<bar> \<le> SINGULARITY_THRESHOLD
               then (Fin 2 * fatan2 q1 q0, - Fin (pi / 2), Fin 0)
               else (fatan2 (Fin 2 * (q0 * q1 + q2 * q3)) (Fin 1 - Fin 2 * (q1 * q1 + q2 * q2)),
                     fasin (Fin 2 * (q0 * q2 - q1 * q3)),
                     fatan2 (Fin 2 * (q0 * q3 + q1 * q2)) (Fin 1 - Fin 2 * (q2 * q2 + q3 * q3))))
        in e\<lparr>ex := Some (x * RAD_TO_DEG), ey := Some (y * RAD_TO_DEG), ez := Some (z * RAD_TO_DEG)\<rparr>
      else e)"

text \<open>The quaternion derivative; \<open>p_dq\<close> is overwritten as a whole, so its old value is no argument.\<close>

definition convert_derivate :: "Quaternion \<Rightarrow> Euler \<Rightarrow> Quaternion" where
  "convert_derivate previous_q av =
     (let temp = default_Quaternion
            \<lparr>u0 := Some (Fin 0), u1 := Some (ex_of av * DEG_TO_RAD),
             u2 := Some (ey_of av * DEG_TO_RAD), u3 := Some (ez_of av * DEG_TO_RAD)\<rparr>
      in multiply_Quaternion (multiply_Quaternions temp previous_q) (Fin 0.5))"

section \<open>Estimation functions\<close>

definition estimateVelocities_Joints ::
  "Joints \<Rightarrow> Joints \<Rightarrow> Joints \<Rightarrow> double \<Rightarrow> bool \<times> Joints" where
  "estimateVelocities_Joints p_estimate current previous sample_time =
     (if Fin 0 < sample_time
      then (True,
            for_range (min (length (jvalues current)) (length (jvalues previous)))
              (\<lambda>i. jvalues_update
                     (\<lambda>vs. vs @ [(jvalues current ! i - jvalues previous ! i) / sample_time]))
              default_Joints)
      else (False, p_estimate))"

definition to_bquat :: "Quaternion \<Rightarrow> bquat" where
  "to_bquat q = (u0_of q, u1_of q, u2_of q, u3_of q)"

definition estimateVelocities_Euler ::
  "boost_quaternion \<Rightarrow> Euler \<Rightarrow> Quaternion \<Rightarrow> Quaternion \<Rightarrow> double \<Rightarrow> bool \<times> Euler" where
  "estimateVelocities_Euler bq p_estimate current previous sample_time =
     (if Fin 0 < sample_time
      then
        let q1 = to_bquat previous;
            q2 = to_bquat current;
            (r1, r2, r3, r4) =
              bq_times bq (bq_divide bq (bq_scale bq (Fin 2) (bq_minus bq q2 q1)) sample_time)
                (bq_conj bq q1)
        in (True, p_estimate\<lparr>ex := Some (r2 * RAD_TO_DEG), ey := Some (r3 * RAD_TO_DEG),
                             ez := Some (r4 * RAD_TO_DEG)\<rparr>)
      else (False, p_estimate))"

definition estimateVelocities_Cartesian ::
  "boost_quaternion \<Rightarrow> CartesianVelocity \<Rightarrow> CartesianPose \<Rightarrow> CartesianPose \<Rightarrow> double
     \<Rightarrow> bool \<times> CartesianVelocity" where
  "estimateVelocities_Cartesian bq p_estimate current previous sample_time =
     (if Fin 0 < sample_time
      then
        let c = pose_position_of current; p = pose_position_of previous;
            est = linear_mut (\<lambda>l. l\<lparr>cx := Some ((cx_of c - cx_of p) / sample_time),
                                    cy := Some ((cy_of c - cy_of p) / sample_time),
                                    cz := Some ((cz_of c - cz_of p) / sample_time)\<rparr>) p_estimate;
            (success, ang) =
              estimateVelocities_Euler bq (angular_of est) (pose_quaternion_of current)
                (pose_quaternion_of previous) sample_time
        in (success, est\<lparr>angular := Some ang\<rparr>)
      else (False, p_estimate))"

section \<open>Find functions\<close>

definition findMaxDifference_Joints :: "Joints \<Rightarrow> Joints \<Rightarrow> double" where
  "findMaxDifference_Joints j1 j2 =
     for_range (min (length (jvalues j1)) (length (jvalues j2)))
       (\<lambda>i max_difference. fmax max_difference \<bar>jvalues j1 ! i - jvalues j2 ! i\<bar>) (Fin 0)"

definition findMaxDifference_Cartesian :: "Cartesian \<Rightarrow> Cartesian \<Rightarrow> double" where
  "findMaxDifference_Cartesian c1 c2 =
     fmax (fmax \<bar>cx_of c1 - cx_of c2\<bar> \<bar>cy_of c1 - cy_of c2\<bar>) \<bar>cz_of c1 - cz_of c2\<bar>"

definition findMaxDifference_Euler :: "Euler \<Rightarrow> Euler \<Rightarrow> double" where
  "findMaxDifference_Euler e1 e2 =
     fmax (fmax \<bar>ex_of e1 - ex_of e2\<bar> \<bar>ey_of e1 - ey_of e2\<bar>) \<bar>ez_of e1 - ez_of e2\<bar>"

section \<open>Copy functions\<close>

definition copy_field :: "'a option \<Rightarrow> 'a option \<Rightarrow> 'a option" where
  "copy_field target source = (if has source then source else target)"

definition copyPresent_Joints :: "Joints \<Rightarrow> Joints \<Rightarrow> Joints" where
  "copyPresent_Joints target source =
     for_range (min (length (jvalues source)) (length (jvalues target)))
       (\<lambda>i. jvalues_update (\<lambda>vs. vs[i := jvalues source ! i])) target"

definition copyPresent_JointSpace :: "JointSpace \<Rightarrow> JointSpace \<Rightarrow> JointSpace" where
  "copyPresent_JointSpace target source =
     (let t1 = (if has (js_position source)
                then js_position_mut (\<lambda>p. copyPresent_Joints p (js_position_of source)) target
                else target)
      in if has (js_velocity source)
         then js_velocity_mut (\<lambda>v. copyPresent_Joints v (js_velocity_of source)) t1
         else t1)"

definition copyPresent_Cartesian :: "Cartesian \<Rightarrow> Cartesian \<Rightarrow> Cartesian" where
  "copyPresent_Cartesian target source =
     target\<lparr>cx := copy_field (cx target) (cx source), cy := copy_field (cy target) (cy source),
            cz := copy_field (cz target) (cz source)\<rparr>"

definition copyPresent_Euler :: "Euler \<Rightarrow> Euler \<Rightarrow> Euler" where
  "copyPresent_Euler target source =
     target\<lparr>ex := copy_field (ex target) (ex source), ey := copy_field (ey target) (ey source),
            ez := copy_field (ez target) (ez source)\<rparr>"

definition copyPresent_Quaternion :: "Quaternion \<Rightarrow> Quaternion \<Rightarrow> Quaternion" where
  "copyPresent_Quaternion target source =
     normalize
       (target\<lparr>u0 := copy_field (u0 target) (u0 source), u1 := copy_field (u1 target) (u1 source),
               u2 := copy_field (u2 target) (u2 source), u3 := copy_field (u3 target) (u3 source)\<rparr>)"

definition copyPresent_CartesianPose :: "CartesianPose \<Rightarrow> CartesianPose \<Rightarrow> CartesianPose" where
  "copyPresent_CartesianPose target source =
     (let t1 = (if has (pose_position source)
                then pose_position_mut (\<lambda>p. copyPresent_Cartesian p (pose_position_of source)) target
                else target)
      in if has (pose_euler source)
         then
           let t2 = pose_euler_mut (\<lambda>e. copyPresent_Euler e (pose_euler_of source)) t1
           in pose_quaternion_mut (\<lambda>q. convert_Quaternion q (pose_euler_of t2)) t2
         else if has (pose_quaternion source)
         then
           let t2 = pose_quaternion_mut (\<lambda>q. copyPresent_Quaternion q (pose_quaternion_of source)) t1;
               t3 = pose_quaternion_mut normalize t2
           in pose_euler_mut (\<lambda>e. convert_Euler e (pose_quaternion_of t3)) t3
         else t1)"

definition copyPresent_CartesianVelocity ::
  "CartesianVelocity \<Rightarrow> CartesianVelocity \<Rightarrow> CartesianVelocity" where
  "copyPresent_CartesianVelocity target source =
     (let t1 = (if has (linear source)
                then linear_mut (\<lambda>l. copyPresent_Cartesian l (linear_of source)) target else target)
      in if has (angular source)
         then angular_mut (\<lambda>a. copyPresent_Euler a (angular_of source)) t1 else t1)"

definition copyPresent_CartesianSpace :: "CartesianSpace \<Rightarrow> CartesianSpace \<Rightarrow> CartesianSpace" where
  "copyPresent_CartesianSpace target source =
     (let t1 = (if has (cs_pose source)
                then cs_pose_mut (\<lambda>p. copyPresent_CartesianPose p (cs_pose_of source)) target
                else target)
      in if has (cs_velocity source)
         then cs_velocity_mut (\<lambda>v. copyPresent_CartesianVelocity v (cs_velocity_of source)) t1
         else t1)"

definition copyPresent_Robot :: "Robot \<Rightarrow> Robot \<Rightarrow> Robot" where
  "copyPresent_Robot target source =
     (let t1 = (if has (rob_joints source)
                then rob_joints_mut (\<lambda>j. copyPresent_JointSpace j (rob_joints_of source)) target
                else target)
      in if has (rob_cartesian source)
         then rob_cartesian_mut (\<lambda>c. copyPresent_CartesianSpace c (rob_cartesian_of source)) t1
         else t1)"

definition copyPresent_External :: "External \<Rightarrow> External \<Rightarrow> External" where
  "copyPresent_External target source =
     (if has (ext_joints source)
      then ext_joints_mut (\<lambda>j. copyPresent_JointSpace j (ext_joints_of source)) target
      else target)"

definition copyPresent_Output :: "Output \<Rightarrow> Output \<Rightarrow> Output" where
  "copyPresent_Output target source =
     (let t1 = (if has (out_robot source)
                then out_robot_mut (\<lambda>r. copyPresent_Robot r (out_robot_of source)) target else target)
      in if has (out_external source)
         then out_external_mut (\<lambda>e. copyPresent_External e (out_external_of source)) t1 else t1)"

section \<open>Parse functions\<close>

definition parse_Header :: "Header \<Rightarrow> EgmHeader \<Rightarrow> bool \<times> Header" where
  "parse_Header target source =
     (if has (seqno source) \<and> has (tm source) \<and> has (mtype source)
      then
        let t1 = target\<lparr>sequence_number := Some (seqno_of source), time_stamp := Some (tm_of source)\<rparr>
        in case mtype_of source of
             MSGTYPE_DATA \<Rightarrow> (True, t1\<lparr>message_type := Some MT_DATA\<rparr>)
           | _ \<Rightarrow> (False, t1\<lparr>message_type := Some MT_UNDEFINED\<rparr>)
      else (False, target))"

definition parse_Status :: "Status \<Rightarrow> EgmRobot \<Rightarrow> bool \<times> Status" where
  "parse_Status target source =
     (if has (motorState source) \<and> has (motor_state_type (motorState_of source)) \<and>
         has (mciState source) \<and> has (mci_state_type (mciState_of source)) \<and>
         has (rapidExecState source) \<and> has (rapid_state_type (rapidExecState_of source)) \<and>
         has (mciConvergenceMet source)
      then
        let t1 = target\<lparr>motor_state := Some
                   (case motor_state_type_of (motorState_of source) of
                      EGM_MOTORS_UNDEFINED \<Rightarrow> MOTORS_UNDEFINED
                    | EGM_MOTORS_ON \<Rightarrow> MOTORS_ON
                    | EGM_MOTORS_OFF \<Rightarrow> MOTORS_OFF)\<rparr>;
            t2 = t1\<lparr>egm_state := Some
                   (case mci_state_type_of (mciState_of source) of
                      MCI_UNDEFINED \<Rightarrow> EGM_UNDEFINED
                    | MCI_ERROR \<Rightarrow> EGM_ERROR
                    | MCI_STOPPED \<Rightarrow> EGM_STOPPED
                    | MCI_RUNNING \<Rightarrow> EGM_RUNNING)\<rparr>;
            t3 = t2\<lparr>rapid_execution_state := Some
                   (case rapid_state_type_of (rapidExecState_of source) of
                      CTRL_RAPID_UNDEFINED \<Rightarrow> RAPID_UNDEFINED
                    | CTRL_RAPID_STOPPED \<Rightarrow> RAPID_STOPPED
                    | CTRL_RAPID_RUNNING \<Rightarrow> RAPID_RUNNING)\<rparr>;
            t4 = t3\<lparr>egm_convergence_met := Some (mciConvergenceMet_of source)\<rparr>;
            t5 = (if has (utilizationRate source)
                  then t4\<lparr>utilization_rate := Some (utilizationRate_of source)\<rparr> else t4)
        in (True, t5)
      else (False, target))"

definition parse_Clock :: "Clock \<Rightarrow> EgmClock \<Rightarrow> bool \<times> Clock" where
  "parse_Clock target source =
     (if has (eclk_sec source) \<and> has (eclk_usec source)
      then (True, target\<lparr>clk_sec := Some (eclk_sec_of source), clk_usec := Some (eclk_usec_of source)\<rparr>)
      else (False, target))"

text \<open>
  The two targets are cleared first, so the old values are no arguments. The reads of \<open>joints(i)\<close>
  are guarded by the checks on \<open>joints_size()\<close>.
\<close>

definition parse_Joints :: "EgmJoints \<Rightarrow> EgmJoints \<Rightarrow> RobotAxes \<Rightarrow> bool \<times> Joints \<times> Joints" where
  "parse_Joints source_robot source_external ax =
     (let r = ej_joints source_robot; e = ej_joints source_external in
      case ax of
        NoAxes \<Rightarrow>
          if length r = 0 then (True, \<lparr>jvalues = []\<rparr>, \<lparr>jvalues = e\<rparr>)
          else (False, \<lparr>jvalues = []\<rparr>, \<lparr>jvalues = []\<rparr>)
      | Six \<Rightarrow>
          if length r = DEFAULT_NUMBER_OF_ROBOT_JOINTS then (True, \<lparr>jvalues = r\<rparr>, \<lparr>jvalues = e\<rparr>)
          else (False, \<lparr>jvalues = []\<rparr>, \<lparr>jvalues = []\<rparr>)
      | Seven \<Rightarrow>
          if length r = DEFAULT_NUMBER_OF_ROBOT_JOINTS \<and> 1 \<le> length e
          then (True, \<lparr>jvalues = [r ! 0, r ! 1, e ! 0, r ! 2, r ! 3, r ! 4, r ! 5]\<rparr>,
                      \<lparr>jvalues = map (\<lambda>i. e ! i) [1..<length e]\<rparr>)
          else (False, \<lparr>jvalues = []\<rparr>, \<lparr>jvalues = []\<rparr>))"

definition parse_CartesianPose :: "EgmPose \<Rightarrow> bool \<times> CartesianPose" where
  "parse_CartesianPose source =
     (let t0 = default_CartesianPose;
          p = pos_of source; o4 = orient_of source; e3 = epose_euler_of source;
          (s1, t1) =
            (if has (pos source) \<and> has (ecx p) \<and> has (ecy p) \<and> has (ecz p)
             then (True, pose_position_mut
                     (\<lambda>c. c\<lparr>cx := Some (ecx_of p), cy := Some (ecy_of p), cz := Some (ecz_of p)\<rparr>) t0)
             else (False, t0));
          (s2, t2) =
            (if s1 \<and> has (orient source) \<and> has (equ0 o4) \<and> has (equ1 o4) \<and> has (equ2 o4) \<and> has (equ3 o4)
             then (True, pose_quaternion_mut
                     (\<lambda>q. q\<lparr>u0 := Some (equ0_of o4), u1 := Some (equ1_of o4), u2 := Some (equ2_of o4),
                            u3 := Some (equ3_of o4)\<rparr>) t1)
             else (False, t1))
      in if s2
         then
           if has (epose_euler source) \<and> has (eex e3) \<and> has (eey e3) \<and> has (eez e3)
           then (True, pose_euler_mut
                   (\<lambda>e. e\<lparr>ex := Some (eex_of e3), ey := Some (eey_of e3), ez := Some (eez_of e3)\<rparr>) t2)
           else (True, pose_euler_mut (\<lambda>e. convert_Euler e (pose_quaternion_of t2)) t2)
         else (False, t2))"

definition parse_Feedback :: "Feedback \<Rightarrow> EgmFeedBack \<Rightarrow> RobotAxes \<Rightarrow> bool \<times> Feedback" where
  "parse_Feedback target source ax =
     (let (s1, rj, ej) = parse_Joints (efb_joints_of source) (efb_externalJoints_of source) ax;
          t1 = fb_external_mut (ext_joints_mut (\<lambda>j. j\<lparr>js_position := Some ej\<rparr>))
                 (fb_robot_mut (rob_joints_mut (\<lambda>j. j\<lparr>js_position := Some rj\<rparr>)) target)
      in if s1
         then
           let (s2, t2) =
                 (if ax = NoAxes then (\<not> has (efb_cartesian source), t1)
                  else
                    let (s, p) = parse_CartesianPose (efb_cartesian_of source)
                    in (s, fb_robot_mut (rob_cartesian_mut (\<lambda>c. c\<lparr>cs_pose := Some p\<rparr>)) t1))
           in if s2
              then
                let (s3, clk) = parse_Clock (fb_time_of t2) (efb_time_of source)
                in (s3, t2\<lparr>fb_time := Some clk\<rparr>)
              else (False, t2)
         else (False, t1))"

definition parse_Planned :: "Planned \<Rightarrow> EgmPlanned \<Rightarrow> RobotAxes \<Rightarrow> bool \<times> Planned" where
  "parse_Planned target source ax =
     (let (s1, rj, ej) = parse_Joints (epl_joints_of source) (epl_externalJoints_of source) ax;
          t1 = pl_external_mut (ext_joints_mut (\<lambda>j. j\<lparr>js_position := Some ej\<rparr>))
                 (pl_robot_mut (rob_joints_mut (\<lambda>j. j\<lparr>js_position := Some rj\<rparr>)) target)
      in if s1
         then
           let (s2, t2) =
                 (if ax = NoAxes then (\<not> has (epl_cartesian source), t1)
                  else
                    let (s, p) = parse_CartesianPose (epl_cartesian_of source)
                    in (s, pl_robot_mut (rob_cartesian_mut (\<lambda>c. c\<lparr>cs_pose := Some p\<rparr>)) t1))
           in if s2
              then
                let (s3, clk) = parse_Clock (pl_time_of t2) (epl_time_of source)
                in (s3, t2\<lparr>pl_time := Some clk\<rparr>)
              else (False, t2)
         else (False, t1))"

definition parse_MeasuredForce :: "EgmMeasuredForce \<Rightarrow> bool \<times> MeasuredForce" where
  "parse_MeasuredForce source =
     (if length (emf_force source) = 6 then (True, \<lparr>mf_force = emf_force source\<rparr>)
      else (False, default_MeasuredForce))"

section \<open>Reset functions\<close>

text \<open>The joint values are cleared first, so the old value is no argument.\<close>

definition reset_Joints :: "nat \<Rightarrow> Joints" where
  "reset_Joints number_of_joints =
     for_range number_of_joints (\<lambda>i. jvalues_update (\<lambda>vs. vs @ [Fin 0])) default_Joints"

definition reset_Cartesian :: "Cartesian \<Rightarrow> Cartesian" where
  "reset_Cartesian c = c\<lparr>cx := Some (Fin 0), cy := Some (Fin 0), cz := Some (Fin 0)\<rparr>"

definition reset_Euler :: "Euler \<Rightarrow> Euler" where
  "reset_Euler e = e\<lparr>ex := Some (Fin 0), ey := Some (Fin 0), ez := Some (Fin 0)\<rparr>"

section \<open>Verify functions\<close>

definition verify :: "double \<Rightarrow> bool" where
  "verify value = (\<not> isnan value \<and> \<not> isinf value)"

fun verify_values :: "double list \<Rightarrow> bool" where
  "verify_values [] = True"
| "verify_values (v # vs) = (if \<not> verify v then False else verify_values vs)"

definition verify_Joints :: "Joints \<Rightarrow> bool" where
  "verify_Joints joints = verify_values (jvalues joints)"

definition verify_Cartesian :: "Cartesian \<Rightarrow> bool" where
  "verify_Cartesian c =
     (if (has (cx c) \<and> \<not> verify (cx_of c)) \<or> (has (cy c) \<and> \<not> verify (cy_of c)) \<or>
         (has (cz c) \<and> \<not> verify (cz_of c))
      then False else True)"

definition verify_Euler :: "Euler \<Rightarrow> bool" where
  "verify_Euler e =
     (if (has (ex e) \<and> \<not> verify (ex_of e)) \<or> (has (ey e) \<and> \<not> verify (ey_of e)) \<or>
         (has (ez e) \<and> \<not> verify (ez_of e))
      then False else True)"

definition verify_Quaternion :: "Quaternion \<Rightarrow> bool" where
  "verify_Quaternion q =
     (if (has (u0 q) \<and> \<not> verify (u0_of q)) \<or> (has (u1 q) \<and> \<not> verify (u1_of q)) \<or>
         (has (u2 q) \<and> \<not> verify (u2_of q)) \<or> (has (u3 q) \<and> \<not> verify (u3_of q))
      then False else True)"

definition verify_CartesianPose :: "CartesianPose \<Rightarrow> bool" where
  "verify_CartesianPose pose =
     (if (has (pose_position pose) \<and> \<not> verify_Cartesian (pose_position_of pose)) \<or>
         (has (pose_euler pose) \<and> \<not> verify_Euler (pose_euler_of pose)) \<or>
         (has (pose_quaternion pose) \<and> \<not> verify_Quaternion (pose_quaternion_of pose))
      then False else True)"

definition verify_CartesianVelocity :: "CartesianVelocity \<Rightarrow> bool" where
  "verify_CartesianVelocity velocity =
     (if (has (angular velocity) \<and> \<not> verify_Euler (angular_of velocity)) \<or>
         (has (linear velocity) \<and> \<not> verify_Cartesian (linear_of velocity))
      then False else True)"

section \<open>Predicates of the lemmas\<close>

definition fin_Quaternion :: "Quaternion \<Rightarrow> bool" where
  "fin_Quaternion q \<longleftrightarrow> is_fin (u0_of q) \<and> is_fin (u1_of q) \<and> is_fin (u2_of q) \<and> is_fin (u3_of q)"

definition unit_Quaternion :: "Quaternion \<Rightarrow> bool" where
  "unit_Quaternion q \<longleftrightarrow> fin_Quaternion q \<and> dotProduct q q = Fin 1"

definition fin_Euler :: "Euler \<Rightarrow> bool" where
  "fin_Euler e \<longleftrightarrow> is_fin (ex_of e) \<and> is_fin (ey_of e) \<and> is_fin (ez_of e)"

definition fin_Cartesian :: "Cartesian \<Rightarrow> bool" where
  "fin_Cartesian c \<longleftrightarrow> is_fin (cx_of c) \<and> is_fin (cy_of c) \<and> is_fin (cz_of c)"

section \<open>Contracts of the copy functions\<close>

text \<open>
  What a caller relies on when it merges a sparse message into a full one: a source without any
  present field changes nothing, and merging the same source again changes nothing more.
\<close>

locale partial_copy =
  fixes copy :: "'a \<Rightarrow> 'a \<Rightarrow> 'a" and empty :: 'a
  assumes copy_empty: "copy t empty = t"

locale idem_copy = partial_copy +
  assumes copy_idem: "copy (copy t s) s = copy t s"
begin

lemma copy_repeated: "0 < n \<Longrightarrow> for_range n (\<lambda>i t. copy t s) t = copy t s"
proof (induction n)
  case (Suc n)
  then show ?case by (cases n) (auto simp: copy_idem)
qed simp

end

section \<open>Lemmas: math functions\<close>

lemma saturate_bounds:
  assumes "lower \<le> upper" and "value \<noteq> NaN"
  shows "lower \<le> saturate value lower upper \<and> saturate value lower upper \<le> upper"
  using assms
  by (cases "value"; cases lower; cases upper) (auto simp: saturate_def less_eq_double_def)

lemma saturate_inside: "\<lbrakk>lower \<le> value; value \<le> upper\<rbrakk> \<Longrightarrow> saturate value lower upper = value"
  by (cases "value"; cases lower; cases upper) (auto simp: saturate_def less_eq_double_def)

lemma saturate_NaN [simp]: "saturate NaN lower upper = NaN"
  by (simp add: saturate_def)

lemma saturate_Fin:
  "l \<le> u \<Longrightarrow> saturate (Fin v) (Fin l) (Fin u) = Fin (max l (min v u))"
  by (auto simp: saturate_def max_def min_def)

lemma jvalues_for_range [loop_simps]:
  "jvalues (for_range n (\<lambda>i. jvalues_update (h i)) j) = for_range n h (jvalues j)"
  by (induction n) auto

lemma for_range_map_upd:
  assumes "n \<le> length xs"
  shows "for_range n (\<lambda>i xs. xs[i := g (xs ! i)]) xs = map g (take n xs) @ drop n xs"
  using assms
proof (induction n)
  case 0
  then show ?case by simp
next
  case (Suc n)
  then have "for_range n (\<lambda>i xs. xs[i := g (xs ! i)]) xs = map g (take n xs) @ drop n xs"
    by simp
  with Suc.prems show ?case
    by (intro nth_equalityI) (auto simp: nth_append nth_list_update less_Suc_eq)
qed

lemma multiply_Joints_values [simp]: "jvalues (multiply_Joints j k) = map (\<lambda>v. v * k) (jvalues j)"
  by (simp add: multiply_Joints_def jvalues_for_range for_range_map_upd [where g = "\<lambda>v. v * k"])

lemma multiply_Cartesian_sel [simp]:
  "cx_of (multiply_Cartesian c k) = cx_of c * k"
  "cy_of (multiply_Cartesian c k) = cy_of c * k"
  "cz_of (multiply_Cartesian c k) = cz_of c * k"
  by (simp_all add: multiply_Cartesian_def)

lemma fin_QuaternionE:
  assumes "fin_Quaternion q"
  obtains a b c d where "u0_of q = Fin a" "u1_of q = Fin b" "u2_of q = Fin c" "u3_of q = Fin d"
  using assms by (auto simp: fin_Quaternion_def is_fin_iff)

lemma fin_EulerE:
  assumes "fin_Euler e"
  obtains a b c where "ex_of e = Fin a" "ey_of e = Fin b" "ez_of e = Fin c"
  using assms by (auto simp: fin_Euler_def is_fin_iff)

lemma dotProduct_Fin:
  assumes "u0_of p = Fin a" "u1_of p = Fin b" "u2_of p = Fin c" "u3_of p = Fin d"
    and "u0_of q = Fin a'" "u1_of q = Fin b'" "u2_of q = Fin c'" "u3_of q = Fin d'"
  shows "dotProduct p q = Fin (a * a' + b * b' + c * c' + d * d')"
  using assms by (simp add: dotProduct_def)

lemma sum_squares_nonneg: "0 \<le> a * a + b * b + c * c + d * (d :: real)"
  by (simp add: add_nonneg_nonneg)

lemma euclideanNorm_Fin:
  assumes "u0_of q = Fin a" "u1_of q = Fin b" "u2_of q = Fin c" "u3_of q = Fin d"
  shows "euclideanNorm q = Fin (sqrt (a * a + b * b + c * c + d * d))"
  using sum_squares_nonneg [of a b c d] assms by (simp add: euclideanNorm_def dotProduct_def not_less)

lemma normalize_Fin:
  assumes q: "u0_of q = Fin a" "u1_of q = Fin b" "u2_of q = Fin c" "u3_of q = Fin d"
    and nz: "a * a + b * b + c * c + d * d \<noteq> 0" (is "?s \<noteq> 0")
  shows "u0_of (normalize q) = Fin (a / sqrt ?s)" "u1_of (normalize q) = Fin (b / sqrt ?s)"
    "u2_of (normalize q) = Fin (c / sqrt ?s)" "u3_of (normalize q) = Fin (d / sqrt ?s)"
  using q nz euclideanNorm_Fin [OF q] by (simp_all add: normalize_def Let_def)

lemma unit_normalize:
  assumes "fin_Quaternion q" and "dotProduct q q \<noteq> Fin 0"
  shows "unit_Quaternion (normalize q)"
proof -
  from assms(1) obtain a b c d where q: "u0_of q = Fin a" "u1_of q = Fin b" "u2_of q = Fin c"
    "u3_of q = Fin d" by (rule fin_QuaternionE)
  let ?s = "a * a + b * b + c * c + d * d"
  from assms(2) q have nz: "?s \<noteq> 0" by (simp add: dotProduct_def)
  note n = normalize_Fin [OF q nz]
  have "sqrt ?s * sqrt ?s = ?s" using sum_squares_nonneg by simp
  then have "dotProduct (normalize q) (normalize q) = Fin (?s / ?s)"
    by (simp only: dotProduct_Fin [OF n n] times_divide_times_eq add_divide_distrib)
  with nz n show ?thesis by (simp add: unit_Quaternion_def fin_Quaternion_def)
qed

lemma normalize_zero:
  "euclideanNorm q = Fin 0 \<Longrightarrow> normalize q = q"
  by (simp add: normalize_def)

lemma normalize_of_unit: "unit_Quaternion q \<Longrightarrow> u0_of (normalize q) = u0_of q \<and> u1_of (normalize q) = u1_of q
    \<and> u2_of (normalize q) = u2_of q \<and> u3_of (normalize q) = u3_of q"
  by (auto simp: unit_Quaternion_def normalize_def euclideanNorm_def fin_Quaternion_def is_fin_iff)

lemma multiply_Quaternions_sel:
  assumes "u0_of p = Fin a" "u1_of p = Fin b" "u2_of p = Fin c" "u3_of p = Fin d"
    and "u0_of q = Fin a'" "u1_of q = Fin b'" "u2_of q = Fin c'" "u3_of q = Fin d'"
  shows "u0_of (multiply_Quaternions p q) = Fin (a * a' - b * b' - c * c' - d * d')"
    "u1_of (multiply_Quaternions p q) = Fin (a * b' + b * a' + c * d' - d * c')"
    "u2_of (multiply_Quaternions p q) = Fin (a * c' + c * a' + d * b' - b * d')"
    "u3_of (multiply_Quaternions p q) = Fin (a * d' + d * a' + b * c' - c * b')"
  using assms by (simp_all add: multiply_Quaternions_def)

section \<open>Lemmas: copy functions\<close>

lemma copy_field_simps [simp]:
  "copy_field t None = t"
  "copy_field t (Some v) = Some v"
  "copy_field (copy_field t s) s = copy_field t s"
  by (simp_all add: copy_field_def)

lemma copyPresent_Joints_values [simp]:
  "jvalues (copyPresent_Joints t s) = take (length (jvalues t)) (jvalues s) @ drop (length (jvalues s)) (jvalues t)"
  by (simp add: copyPresent_Joints_def jvalues_for_range for_range_copy)

lemma Joints_eqI: "jvalues a = jvalues b \<Longrightarrow> a = (b :: Joints)"
  by (cases a; cases b) simp

interpretation cp_Joints: idem_copy copyPresent_Joints default_Joints
proof
  show "copyPresent_Joints (copyPresent_Joints t s) s = copyPresent_Joints t s" for t s
    by (rule Joints_eqI, cases "length (jvalues s) \<le> length (jvalues t)") simp_all
qed (rule Joints_eqI, simp)

lemma copyPresent_Joints_self [simp]: "copyPresent_Joints t t = t"
  by (rule Joints_eqI) simp

interpretation cp_JointSpace: idem_copy copyPresent_JointSpace default_JointSpace
  by unfold_locales
    (auto simp: copyPresent_JointSpace_def Let_def mut_def cp_Joints.copy_idem)

interpretation cp_Cartesian: idem_copy copyPresent_Cartesian default_Cartesian
  by unfold_locales (auto simp: copyPresent_Cartesian_def)

interpretation cp_Euler: idem_copy copyPresent_Euler default_Euler
  by unfold_locales (auto simp: copyPresent_Euler_def)

interpretation cp_CartesianVelocity: idem_copy copyPresent_CartesianVelocity default_CartesianVelocity
  by unfold_locales
    (auto simp: copyPresent_CartesianVelocity_def Let_def mut_def cp_Cartesian.copy_idem
       cp_Euler.copy_idem)

interpretation cp_CartesianPose: partial_copy copyPresent_CartesianPose default_CartesianPose
  by unfold_locales (simp add: copyPresent_CartesianPose_def)

interpretation cp_CartesianSpace: partial_copy copyPresent_CartesianSpace default_CartesianSpace
  by unfold_locales (simp add: copyPresent_CartesianSpace_def)

interpretation cp_Robot: partial_copy copyPresent_Robot default_Robot
  by unfold_locales (simp add: copyPresent_Robot_def)

interpretation cp_External: idem_copy copyPresent_External default_External
  by unfold_locales
    (auto simp: copyPresent_External_def mut_def cp_JointSpace.copy_idem)

interpretation cp_Output: partial_copy copyPresent_Output default_Output
  by unfold_locales (simp add: copyPresent_Output_def)

section \<open>Lemmas: estimation, find, reset and verify functions\<close>

lemma for_range_snoc [loop_simps]:
  "for_range n (\<lambda>i xs. xs @ [g i]) xs = xs @ map g [0..<n]"
  by (induction n) auto

lemma estimateVelocities_Joints_eq:
  "Fin 0 < T \<Longrightarrow> estimateVelocities_Joints est current previous T =
     (True, \<lparr>jvalues = map2 (\<lambda>c p. (c - p) / T) (jvalues current) (jvalues previous)\<rparr>)"
  by (auto simp: estimateVelocities_Joints_def jvalues_for_range for_range_snoc
      intro!: Joints_eqI nth_equalityI)

lemma estimateVelocities_Cartesian_ok [simp]:
  "Fin 0 < T \<Longrightarrow> fst (estimateVelocities_Cartesian bq est current previous T)"
  by (simp add: estimateVelocities_Cartesian_def estimateVelocities_Euler_def Let_def split: prod.splits)

lemma reset_Joints_values [simp]: "jvalues (reset_Joints n) = replicate n (Fin 0)"
  by (simp add: reset_Joints_def jvalues_for_range for_range_snoc)

lemma reset_Cartesian_sel [simp]:
  "cx (reset_Cartesian c) = Some (Fin 0)" "cy (reset_Cartesian c) = Some (Fin 0)"
  "cz (reset_Cartesian c) = Some (Fin 0)"
  by (simp_all add: reset_Cartesian_def)

lemma reset_Euler_sel [simp]:
  "ex (reset_Euler e) = Some (Fin 0)" "ey (reset_Euler e) = Some (Fin 0)"
  "ez (reset_Euler e) = Some (Fin 0)"
  by (simp_all add: reset_Euler_def)

lemma verify_iff [simp]: "verify v \<longleftrightarrow> is_fin v"
  by (cases v) (auto simp: verify_def isnan_def isinf_def)

lemma verify_values_iff [simp]: "verify_values vs \<longleftrightarrow> (\<forall>v \<in> set vs. is_fin v)"
  by (induction vs) auto

lemma verify_Joints_iff [simp]: "verify_Joints j \<longleftrightarrow> (\<forall>v \<in> set (jvalues j). is_fin v)"
  by (simp add: verify_Joints_def)

lemma is_fin_getd [simp]: "has x \<longrightarrow> is_fin (getd (Fin 0) x) \<Longrightarrow> is_fin (getd (Fin 0) x)"
  by (cases x) auto

lemma verify_Cartesian_iff [simp]: "verify_Cartesian c \<longleftrightarrow> fin_Cartesian c"
  by (cases "cx c"; cases "cy c"; cases "cz c") (auto simp: verify_Cartesian_def fin_Cartesian_def)

lemma verify_Euler_iff [simp]: "verify_Euler e \<longleftrightarrow> fin_Euler e"
  by (cases "ex e"; cases "ey e"; cases "ez e") (auto simp: verify_Euler_def fin_Euler_def)

lemma verify_Quaternion_iff [simp]: "verify_Quaternion q \<longleftrightarrow> fin_Quaternion q"
  by (cases "u0 q"; cases "u1 q"; cases "u2 q"; cases "u3 q")
    (auto simp: verify_Quaternion_def fin_Quaternion_def)

lemma fin_default [simp]:
  "fin_Cartesian default_Cartesian" "fin_Euler default_Euler" "fin_Quaternion default_Quaternion"
  by (simp_all add: fin_Cartesian_def fin_Euler_def fin_Quaternion_def)

lemma verify_CartesianPose_iff [simp]:
  "verify_CartesianPose p \<longleftrightarrow>
     fin_Cartesian (pose_position_of p) \<and> fin_Euler (pose_euler_of p) \<and> fin_Quaternion (pose_quaternion_of p)"
  by (cases "pose_position p"; cases "pose_euler p"; cases "pose_quaternion p")
    (auto simp: verify_CartesianPose_def)

lemma verify_CartesianVelocity_iff [simp]:
  "verify_CartesianVelocity v \<longleftrightarrow> fin_Cartesian (linear_of v) \<and> fin_Euler (angular_of v)"
  by (cases "linear v"; cases "angular v") (auto simp: verify_CartesianVelocity_def)

end
