(* ===== verification/EGM_Rotation.thy ===== *)
theory EGM_Rotation
  imports EGM_Auxiliary
begin

text \<open>
  The orientation arithmetic of \<open>egm_common_auxiliary.cpp\<close>: the conversions between ZYX Euler angles
  and quaternions, and the quaternion product. The lemmas reduce each computed component to the
  half-angle formula it is an instance of; the theorems state that the conversion to a quaternion
  gives a unit quaternion, that the two conversions are inverse away from the singularity, and that
  the product of quaternions multiplies norms.
\<close>

section \<open>The components of the conversions\<close>

text \<open>Half-angle products: the components of the quaternion of the angles \<open>x\<close>, \<open>y\<close>, \<open>z\<close> (radians).\<close>

definition zyx0 :: "real \<Rightarrow> real \<Rightarrow> real \<Rightarrow> real" where
  "zyx0 x y z = sin (x/2) * sin (y/2) * sin (z/2) + cos (x/2) * cos (y/2) * cos (z/2)"

definition zyx1 :: "real \<Rightarrow> real \<Rightarrow> real \<Rightarrow> real" where
  "zyx1 x y z = - cos (x/2) * sin (y/2) * sin (z/2) + sin (x/2) * cos (y/2) * cos (z/2)"

definition zyx2 :: "real \<Rightarrow> real \<Rightarrow> real \<Rightarrow> real" where
  "zyx2 x y z = sin (x/2) * cos (y/2) * sin (z/2) + cos (x/2) * sin (y/2) * cos (z/2)"

definition zyx3 :: "real \<Rightarrow> real \<Rightarrow> real \<Rightarrow> real" where
  "zyx3 x y z = cos (x/2) * cos (y/2) * sin (z/2) - sin (x/2) * sin (y/2) * cos (z/2)"

definition rad :: "real \<Rightarrow> real" where
  "rad a = a * (pi / 180)"

lemmas zyx_defs = zyx0_def zyx1_def zyx2_def zyx3_def

lemma zyx_unit: "zyx0 x y z * zyx0 x y z + zyx1 x y z * zyx1 x y z + zyx2 x y z * zyx2 x y z
    + zyx3 x y z * zyx3 x y z = 1"
proof -
  have "zyx0 x y z * zyx0 x y z + zyx1 x y z * zyx1 x y z + zyx2 x y z * zyx2 x y z
      + zyx3 x y z * zyx3 x y z
    = ((sin (x/2))\<^sup>2 + (cos (x/2))\<^sup>2) * ((sin (y/2))\<^sup>2 + (cos (y/2))\<^sup>2) * ((sin (z/2))\<^sup>2 + (cos (z/2))\<^sup>2)"
    unfolding zyx_defs by algebra
  then show ?thesis by simp
qed

lemma half_angles:
  "sin (a :: real) = 2 * sin (a/2) * cos (a/2)"
  "cos (a :: real) = (cos (a/2))\<^sup>2 - (sin (a/2))\<^sup>2"
  using sin_double [of "a/2"] cos_double [of "a/2"] by simp_all

lemma zyx_sin_y: "2 * (zyx0 x y z * zyx2 x y z - zyx1 x y z * zyx3 x y z) = sin y"
proof -
  have "2 * (zyx0 x y z * zyx2 x y z - zyx1 x y z * zyx3 x y z)
    = 2 * sin (y/2) * cos (y/2) * ((sin (x/2))\<^sup>2 + (cos (x/2))\<^sup>2) * ((sin (z/2))\<^sup>2 + (cos (z/2))\<^sup>2)"
    unfolding zyx_defs by algebra
  then show ?thesis by (simp add: half_angles(1) [of y])
qed

lemma zyx_sin_x: "2 * (zyx0 x y z * zyx1 x y z + zyx2 x y z * zyx3 x y z) = cos y * sin x"
proof -
  have "2 * (zyx0 x y z * zyx1 x y z + zyx2 x y z * zyx3 x y z)
    = ((cos (y/2))\<^sup>2 - (sin (y/2))\<^sup>2) * (2 * sin (x/2) * cos (x/2)) * ((sin (z/2))\<^sup>2 + (cos (z/2))\<^sup>2)"
    unfolding zyx_defs by algebra
  then show ?thesis by (simp add: half_angles(1) [of x] half_angles(2) [of y])
qed

lemma zyx_cos_x: "1 - 2 * (zyx1 x y z * zyx1 x y z + zyx2 x y z * zyx2 x y z) = cos y * cos x"
proof -
  have "zyx0 x y z * zyx0 x y z + zyx3 x y z * zyx3 x y z - zyx1 x y z * zyx1 x y z - zyx2 x y z * zyx2 x y z
    = ((cos (y/2))\<^sup>2 - (sin (y/2))\<^sup>2) * ((cos (x/2))\<^sup>2 - (sin (x/2))\<^sup>2) * ((sin (z/2))\<^sup>2 + (cos (z/2))\<^sup>2)"
    unfolding zyx_defs by algebra
  with zyx_unit [of x y z] show ?thesis by (simp add: half_angles(2) [of x] half_angles(2) [of y])
qed

lemma zyx_sin_z: "2 * (zyx0 x y z * zyx3 x y z + zyx1 x y z * zyx2 x y z) = cos y * sin z"
proof -
  have "2 * (zyx0 x y z * zyx3 x y z + zyx1 x y z * zyx2 x y z)
    = ((cos (y/2))\<^sup>2 - (sin (y/2))\<^sup>2) * (2 * sin (z/2) * cos (z/2)) * ((sin (x/2))\<^sup>2 + (cos (x/2))\<^sup>2)"
    unfolding zyx_defs by algebra
  then show ?thesis by (simp add: half_angles(1) [of z] half_angles(2) [of y])
qed

lemma zyx_cos_z: "1 - 2 * (zyx2 x y z * zyx2 x y z + zyx3 x y z * zyx3 x y z) = cos y * cos z"
proof -
  have "zyx0 x y z * zyx0 x y z + zyx1 x y z * zyx1 x y z - zyx2 x y z * zyx2 x y z - zyx3 x y z * zyx3 x y z
    = ((cos (y/2))\<^sup>2 - (sin (y/2))\<^sup>2) * ((cos (z/2))\<^sup>2 - (sin (z/2))\<^sup>2) * ((sin (x/2))\<^sup>2 + (cos (x/2))\<^sup>2)"
    unfolding zyx_defs by algebra
  with zyx_unit [of x y z] show ?thesis by (simp add: half_angles(2) [of z] half_angles(2) [of y])
qed

section \<open>The two-argument arctangent\<close>

lemma tan_shift_pi: "tan (x - pi) = tan (x :: real)"
  using tan_periodic_pi [of "x - pi"] by simp

lemma atan2_real_polar:
  assumes r: "0 < r" and x: "- pi < x" "x \<le> pi"
  shows "atan2_real (r * sin x) (r * cos x) = x"
proof -
  consider "- (pi/2) < x \<and> x < pi/2" | "x = pi/2" | "x = - (pi/2)" | "pi/2 < x" | "x < - (pi/2)"
    by linarith
  then show ?thesis
  proof cases
    case 1
    then have "0 < cos x" by (intro cos_gt_zero_pi) auto
    moreover have "arctan (tan x) = x" using 1 by (simp add: arctan_tan)
    ultimately show ?thesis using r by (simp add: atan2_real_def tan_def)
  next
    case 2
    then have "sin x = 1" "cos x = 0" by (simp_all only: sin_pi_half cos_pi_half)
    with r 2 show ?thesis by (simp add: atan2_real_def)
  next
    case 3
    then have "sin x = -1" "cos x = 0" by (simp_all only: sin_minus cos_minus sin_pi_half cos_pi_half)
    with r 3 show ?thesis by (simp add: atan2_real_def)
  next
    case 4
    have "0 < cos (x - pi)" using 4 x by (intro cos_gt_zero_pi) auto
    then have c: "cos x < 0" by (simp add: cos_diff)
    have s: "0 \<le> sin x" using 4 x pi_ge_zero by (intro sin_ge_zero) linarith+
    have "arctan (tan x) = x - pi"
      using arctan_tan [of "x - pi"] 4 x by (simp add: tan_shift_pi)
    with c s r show ?thesis
      by (auto simp: atan2_real_def tan_def mult_less_0_iff zero_less_mult_iff zero_le_mult_iff)
  next
    case 5
    have "0 < cos (x + pi)" using 5 x by (intro cos_gt_zero_pi) auto
    then have c: "cos x < 0" by (simp add: cos_add)
    have s: "sin x < 0" using 5 x sin_gt_zero [of "- x"] by simp
    have "arctan (tan x) = x + pi"
      using arctan_tan [of "x + pi"] 5 x by simp
    with c s r show ?thesis
      by (auto simp: atan2_real_def tan_def mult_less_0_iff zero_less_mult_iff zero_le_mult_iff)
  qed
qed

section \<open>Conversion of Euler angles\<close>

lemma convert_Quaternion_sel:
  assumes "ex_of e = Fin x" "ey_of e = Fin y" "ez_of e = Fin z"
  shows "u0_of (convert_Quaternion q e) = Fin (zyx0 (rad x) (rad y) (rad z))"
    "u1_of (convert_Quaternion q e) = Fin (zyx1 (rad x) (rad y) (rad z))"
    "u2_of (convert_Quaternion q e) = Fin (zyx2 (rad x) (rad y) (rad z))"
    "u3_of (convert_Quaternion q e) = Fin (zyx3 (rad x) (rad y) (rad z))"
proof -
  define r where "r = q\<lparr>u0 := Some (Fin (zyx0 (rad x) (rad y) (rad z))),
    u1 := Some (Fin (zyx1 (rad x) (rad y) (rad z))), u2 := Some (Fin (zyx2 (rad x) (rad y) (rad z))),
    u3 := Some (Fin (zyx3 (rad x) (rad y) (rad z)))\<rparr>"
  have r: "u0_of r = Fin (zyx0 (rad x) (rad y) (rad z))" "u1_of r = Fin (zyx1 (rad x) (rad y) (rad z))"
    "u2_of r = Fin (zyx2 (rad x) (rad y) (rad z))" "u3_of r = Fin (zyx3 (rad x) (rad y) (rad z))"
    by (simp_all add: r_def)
  have "convert_Quaternion q e = normalize r"
    using assms by (simp add: convert_Quaternion_def conversion_Fin Let_def r_def zyx_defs rad_def)
  moreover have "unit_Quaternion r"
    using r zyx_unit by (simp add: unit_Quaternion_def fin_Quaternion_def dotProduct_Fin [OF r r])
  ultimately show "u0_of (convert_Quaternion q e) = Fin (zyx0 (rad x) (rad y) (rad z))"
    "u1_of (convert_Quaternion q e) = Fin (zyx1 (rad x) (rad y) (rad z))"
    "u2_of (convert_Quaternion q e) = Fin (zyx2 (rad x) (rad y) (rad z))"
    "u3_of (convert_Quaternion q e) = Fin (zyx3 (rad x) (rad y) (rad z))"
    using r normalize_of_unit [of r] by simp_all
qed

lemma unit_convert_Quaternion:
  assumes "fin_Euler e"
  shows "unit_Quaternion (convert_Quaternion q e)"
proof -
  from assms obtain x y z where "ex_of e = Fin x" "ey_of e = Fin y" "ez_of e = Fin z"
    by (rule fin_EulerE)
  note s = convert_Quaternion_sel [OF this, of q]
  show ?thesis
    using zyx_unit by (simp add: unit_Quaternion_def fin_Quaternion_def dotProduct_Fin [OF s s] s)
qed

lemma convert_Euler_regular:
  assumes q: "u0_of q = Fin q0" "u1_of q = Fin q1" "u2_of q = Fin q2" "u3_of q = Fin q3"
    and nz: "q0 * q0 + q1 * q1 + q2 * q2 + q3 * q3 = 1"
    and reg: "\<bar>2 * (q0 * q2 - q1 * q3)\<bar> < 1 - 2 * 0.000001"
  shows "ex (convert_Euler e q) = Some (Fin (atan2_real (2 * (q0 * q1 + q2 * q3)) (1 - 2 * (q1 * q1 + q2 * q2)) * (180 / pi)))"
    "ey (convert_Euler e q) = Some (Fin (arcsin (2 * (q0 * q2 - q1 * q3)) * (180 / pi)))"
    "ez (convert_Euler e q) = Some (Fin (atan2_real (2 * (q0 * q3 + q1 * q2)) (1 - 2 * (q2 * q2 + q3 * q3)) * (180 / pi)))"
proof -
  have "euclideanNorm q \<noteq> Fin 0" by (simp add: euclideanNorm_Fin [OF q] nz)
  moreover have "\<not> \<bar>q0 * q2 - q1 * q3 - 1 / 2\<bar> \<le> 1 / 1000000"
    using reg by (simp add: abs_if split: if_splits)
  moreover have "\<not> \<bar>q0 * q2 - q1 * q3 + 1 / 2\<bar> \<le> 1 / 1000000"
    using reg by (simp add: abs_if split: if_splits)
  moreover have "\<bar>2 * (q0 * q2 - q1 * q3)\<bar> \<le> 1"
    using reg by (simp add: abs_if split: if_splits)
  ultimately show "ex (convert_Euler e q) = Some (Fin (atan2_real (2 * (q0 * q1 + q2 * q3)) (1 - 2 * (q1 * q1 + q2 * q2)) * (180 / pi)))"
    "ey (convert_Euler e q) = Some (Fin (arcsin (2 * (q0 * q2 - q1 * q3)) * (180 / pi)))"
    "ez (convert_Euler e q) = Some (Fin (atan2_real (2 * (q0 * q3 + q1 * q2)) (1 - 2 * (q2 * q2 + q3 * q3)) * (180 / pi)))"
    using q by (simp_all add: convert_Euler_def SINGULARITY_THRESHOLD_def conversion_Fin Let_def)
qed

lemma rad_bounds:
  "-180 < x \<Longrightarrow> x \<le> 180 \<Longrightarrow> - pi < rad x \<and> rad x \<le> pi"
  "-90 < x \<Longrightarrow> x < 90 \<Longrightarrow> - (pi/2) < rad x \<and> rad x < pi/2"
  using mult_strict_right_mono [of "-180" x "pi / 180"] mult_right_mono [of x 180 "pi / 180"]
    mult_strict_right_mono [of "-90" x "pi / 180"] mult_strict_right_mono [of x 90 "pi / 180"]
  by (simp_all add: rad_def)

text \<open>
  C22: Converting ZYX Euler angles (in degrees) to a quaternion and back returns the angles exactly, for
  every finite roll and yaw in (-180, 180] and every pitch in (-90, 90) that is not within the
  singularity threshold of +-90 degrees, whatever the two targets held before.
\<close>

theorem euler_quaternion_roundtrip:
  assumes e: "ex_of e = Fin x" "ey_of e = Fin y" "ez_of e = Fin z"
    and x: "-180 < x" "x \<le> 180" and y: "-90 < y" "y < 90" and z: "-180 < z" "z \<le> 180"
    and regular: "\<bar>sin (y * (pi / 180))\<bar> < 1 - 2 * 0.000001"
  shows "convert_Euler e' (convert_Quaternion q e) =
           \<lparr>ex = Some (Fin x), ey = Some (Fin y), ez = Some (Fin z)\<rparr>"
proof -
  note s = convert_Quaternion_sel [OF e, of q]
  have reg: "\<bar>2 * (zyx0 (rad x) (rad y) (rad z) * zyx2 (rad x) (rad y) (rad z)
      - zyx1 (rad x) (rad y) (rad z) * zyx3 (rad x) (rad y) (rad z))\<bar> < 1 - 2 * 0.000001"
    using regular by (simp only: zyx_sin_y) (simp add: rad_def)
  note c = convert_Euler_regular [OF s zyx_unit reg, of e']
  from y have cy: "0 < cos (rad y)" by (intro cos_gt_zero_pi) (auto dest: rad_bounds)
  have "ex (convert_Euler e' (convert_Quaternion q e)) = Some (Fin x)"
    using rad_bounds(1) [OF x] cy
    by (simp only: c zyx_sin_x zyx_cos_x) (simp add: atan2_real_polar rad_def)
  moreover have "ey (convert_Euler e' (convert_Quaternion q e)) = Some (Fin y)"
    using rad_bounds(2) [OF y] by (simp only: c zyx_sin_y) (simp add: arcsin_sin rad_def)
  moreover have "ez (convert_Euler e' (convert_Quaternion q e)) = Some (Fin z)"
    using rad_bounds(1) [OF z] cy
    by (simp only: c zyx_sin_z zyx_cos_z) (simp add: atan2_real_polar rad_def)
  ultimately show ?thesis by (cases "convert_Euler e' (convert_Quaternion q e)") simp
qed

theorem euler_quaternion_roundtrip_witness:
  "convert_Euler default_Euler (convert_Quaternion default_Quaternion
       \<lparr>ex = Some (Fin 90), ey = Some (Fin 30), ez = Some (Fin (-45))\<rparr>)
     = \<lparr>ex = Some (Fin 90), ey = Some (Fin 30), ez = Some (Fin (-45))\<rparr>"
proof -
  have "sin (30 * (pi / 180)) = 1 / 2" using sin_30 by simp
  then show ?thesis
    by (intro euler_quaternion_roundtrip) simp_all
qed

section \<open>The quaternion product\<close>

lemma dot_multiply_Quaternions:
  assumes "fin_Quaternion p" and "fin_Quaternion q"
  shows "dotProduct (multiply_Quaternions p q) (multiply_Quaternions p q) = dotProduct p p * dotProduct q q"
proof -
  from assms(1) obtain a b c d where p: "u0_of p = Fin a" "u1_of p = Fin b" "u2_of p = Fin c"
    "u3_of p = Fin d" by (rule fin_QuaternionE)
  from assms(2) obtain a' b' c' d' where q: "u0_of q = Fin a'" "u1_of q = Fin b'" "u2_of q = Fin c'"
    "u3_of q = Fin d'" by (rule fin_QuaternionE)
  note m = multiply_Quaternions_sel [OF p q]
  show ?thesis
    unfolding dotProduct_Fin [OF m m] dotProduct_Fin [OF p p] dotProduct_Fin [OF q q]
    by (simp, algebra)
qed

lemma unit_multiply_Quaternions:
  "unit_Quaternion p \<Longrightarrow> unit_Quaternion q \<Longrightarrow> unit_Quaternion (multiply_Quaternions p q)"
  by (auto simp: unit_Quaternion_def dot_multiply_Quaternions)
    (auto simp: fin_Quaternion_def multiply_Quaternions_def)

section \<open>Composition of rotations\<close>

text \<open>The rotations by an angle in degrees about the coordinate axes, as quaternions.\<close>

definition x_rotation :: "real \<Rightarrow> Quaternion" where
  "x_rotation a = \<lparr>u0 = Some (Fin (cos (rad a / 2))), u1 = Some (Fin (sin (rad a / 2))), u2 = Some (Fin 0), u3 = Some (Fin 0)\<rparr>"

definition y_rotation :: "real \<Rightarrow> Quaternion" where
  "y_rotation a = \<lparr>u0 = Some (Fin (cos (rad a / 2))), u1 = Some (Fin 0), u2 = Some (Fin (sin (rad a / 2))), u3 = Some (Fin 0)\<rparr>"

definition z_rotation :: "real \<Rightarrow> Quaternion" where
  "z_rotation a = \<lparr>u0 = Some (Fin (cos (rad a / 2))), u1 = Some (Fin 0), u2 = Some (Fin 0), u3 = Some (Fin (sin (rad a / 2)))\<rparr>"

text \<open>
  C23: The conversion of ZYX Euler angles computes what its name says: for all finite angles it is the quaternion
  product, by the code's own multiplication, of the rotations about the z axis, the y axis and the x axis, whatever
  the target held before.
\<close>

theorem euler_is_zyx_composition:
  assumes "ex_of e = Fin x" "ey_of e = Fin y" "ez_of e = Fin z"
  shows "to_bquat (convert_Quaternion q e) =
    to_bquat (multiply_Quaternions (multiply_Quaternions (z_rotation z) (y_rotation y)) (x_rotation x))"
  by (simp add: to_bquat_def convert_Quaternion_sel [OF assms])
    (simp add: multiply_Quaternions_def x_rotation_def y_rotation_def z_rotation_def zyx_defs algebra_simps)

theorem euler_is_zyx_composition_witness:
  "to_bquat (convert_Quaternion default_Quaternion \<lparr>ex = Some (Fin 10), ey = Some (Fin 20), ez = Some (Fin 30)\<rparr>) =
   to_bquat (multiply_Quaternions (multiply_Quaternions (z_rotation 30) (y_rotation 20)) (x_rotation 10))"
  by (rule euler_is_zyx_composition) simp_all

end
