(* ===== verification/EGM_Input.thy ===== *)
theory EGM_Input
  imports EGM_Rotation
begin

text \<open>
  \<open>EGMBaseInterface::InputContainer\<close> of \<open>egm_base_interface.h\<close> and \<open>egm_base_interface.cpp\<close>: the
  container of the robot's messages. The decoder \<open>EgmRobot::ParseFromArray\<close> that \<open>protoc\<close>
  generates is an argument: it maps the bytes of a datagram to its result and to the message it
  leaves in the object (it clears the object first).
\<close>

section \<open>Data\<close>

type_synonym decoder = "bytes \<Rightarrow> bool \<times> EgmRobot"

record InputContainer =
  ic_egm_robot :: EgmRobot
  ic_initial :: Input
  ic_current :: Input
  ic_previous :: Input
  ic_has_new_data :: bool
  ic_first_call :: bool
  ic_first_message :: bool
  ic_estimated_sample_time :: double

section \<open>Operations\<close>

definition init_InputContainer :: InputContainer where
  "init_InputContainer =
     \<lparr>ic_egm_robot = default_EgmRobot, ic_initial = default_Input, ic_current = default_Input,
      ic_previous = default_Input, ic_has_new_data = False, ic_first_call = True,
      ic_first_message = False, ic_estimated_sample_time = LOWEST_SAMPLE_TIME\<rparr>"

text \<open>The null pointer is \<open>None\<close>.\<close>

definition parseFromArray :: "decoder \<Rightarrow> bytes option \<Rightarrow> InputContainer \<Rightarrow> bool \<times> InputContainer" where
  "parseFromArray dec data ic =
     (let ic1 = ic\<lparr>ic_has_new_data := False\<rparr>;
          ic2 = (case data of
                   None \<Rightarrow> ic1
                 | Some bs \<Rightarrow>
                     let (ok, msg) = dec bs in ic1\<lparr>ic_egm_robot := msg, ic_has_new_data := ok\<rparr>);
          ic3 = (if ic_has_new_data ic2
                 then ic2\<lparr>ic_first_message :=
                        (ic_first_call ic2 \<or> seqno_of (erb_header_of (ic_egm_robot ic2)) = 0),
                      ic_first_call := False\<rparr>
                 else ic2)
      in (ic_has_new_data ic3, ic3))"

definition detectRWAndEGMVersions :: "InputContainer \<Rightarrow> InputContainer" where
  "detectRWAndEGMVersions ic =
     (let (rw, egm) =
        (if ic_has_new_data ic
         then
           if has (efb_time (erb_feedBack_of (ic_egm_robot ic)))
           then
             if has (utilizationRate (ic_egm_robot ic))
             then (RW_6_10_AND_NEWER, EGM_1_1)
             else (RW_BETWEEN_6_07_AND_6_09_02, EGM_1_1)
           else (RW_BETWEEN_6_AND_6_06_03, EGM_1_0)
         else (RW_UNKNOWN, EGM_UNKNOWN))
      in ic\<lparr>ic_current :=
             in_header_mut (\<lambda>h. h\<lparr>rw_version := Some rw, egm_version := Some egm\<rparr>) (ic_current ic)\<rparr>)"

text \<open>The subtractions, the product and the sum are on 64-bit unsigned integers and wrap around.\<close>

definition estimateSampleTime :: "InputContainer \<Rightarrow> double" where
  "estimateSampleTime ic =
     (let cur = ic_current ic; prev = ic_previous ic;
          ct = fb_time_of (in_feedback_of cur); pt = fb_time_of (in_feedback_of prev);
          estimate =
            (if has (in_feedback cur) \<and> has (in_feedback prev) \<and>
                has (fb_time (in_feedback_of cur)) \<and> has (fb_time (in_feedback_of prev)) \<and>
                has (clk_sec ct) \<and> has (clk_sec pt) \<and> has (clk_usec ct) \<and> has (clk_usec pt)
             then
               let diff_s = clk_sec_of ct - clk_sec_of pt;
                   diff_us = clk_usec_of ct - clk_usec_of pt;
                   diff_us' = (if 0 < diff_s then diff_us + diff_s * 1000000 else diff_us)
               in ffloor (of_u64 diff_us' * MS_TO_S) * MS_TO_S
             else Fin 0)
      in if estimate < LOWEST_SAMPLE_TIME then LOWEST_SAMPLE_TIME else estimate)"

definition feedback_joint_velocity :: "double \<Rightarrow> Input \<Rightarrow> Input \<Rightarrow> bool \<times> Input" where
  "feedback_joint_velocity T prev cur =
     (let j = rob_joints_of (fb_robot_of (in_feedback_of cur));
          (s, v) = estimateVelocities_Joints (js_velocity_of j) (js_position_of j)
            (js_position_of (rob_joints_of (fb_robot_of (in_feedback_of prev)))) T
      in (s, in_feedback_mut (fb_robot_mut (rob_joints_mut (\<lambda>j. j\<lparr>js_velocity := Some v\<rparr>))) cur))"

definition feedback_cartesian_velocity :: "boost_quaternion \<Rightarrow> double \<Rightarrow> Input \<Rightarrow> Input \<Rightarrow> bool \<times> Input" where
  "feedback_cartesian_velocity bq T prev cur =
     (let c = rob_cartesian_of (fb_robot_of (in_feedback_of cur));
          (s, v) = estimateVelocities_Cartesian bq (cs_velocity_of c) (cs_pose_of c)
            (cs_pose_of (rob_cartesian_of (fb_robot_of (in_feedback_of prev)))) T
      in (s, in_feedback_mut (fb_robot_mut (rob_cartesian_mut (\<lambda>c. c\<lparr>cs_velocity := Some v\<rparr>))) cur))"

definition feedback_external_velocity :: "double \<Rightarrow> Input \<Rightarrow> Input \<Rightarrow> bool \<times> Input" where
  "feedback_external_velocity T prev cur =
     (let j = ext_joints_of (fb_external_of (in_feedback_of cur));
          (s, v) = estimateVelocities_Joints (js_velocity_of j) (js_position_of j)
            (js_position_of (ext_joints_of (fb_external_of (in_feedback_of prev)))) T
      in (s, in_feedback_mut (fb_external_mut (ext_joints_mut (\<lambda>j. j\<lparr>js_velocity := Some v\<rparr>))) cur))"

definition planned_joint_velocity :: "double \<Rightarrow> Input \<Rightarrow> Input \<Rightarrow> bool \<times> Input" where
  "planned_joint_velocity T prev cur =
     (let j = rob_joints_of (pl_robot_of (in_planned_of cur));
          (s, v) = estimateVelocities_Joints (js_velocity_of j) (js_position_of j)
            (js_position_of (rob_joints_of (pl_robot_of (in_planned_of prev)))) T
      in (s, in_planned_mut (pl_robot_mut (rob_joints_mut (\<lambda>j. j\<lparr>js_velocity := Some v\<rparr>))) cur))"

definition planned_cartesian_velocity :: "boost_quaternion \<Rightarrow> double \<Rightarrow> Input \<Rightarrow> Input \<Rightarrow> bool \<times> Input" where
  "planned_cartesian_velocity bq T prev cur =
     (let c = rob_cartesian_of (pl_robot_of (in_planned_of cur));
          (s, v) = estimateVelocities_Cartesian bq (cs_velocity_of c) (cs_pose_of c)
            (cs_pose_of (rob_cartesian_of (pl_robot_of (in_planned_of prev)))) T
      in (s, in_planned_mut (pl_robot_mut (rob_cartesian_mut (\<lambda>c. c\<lparr>cs_velocity := Some v\<rparr>))) cur))"

definition planned_external_velocity :: "double \<Rightarrow> Input \<Rightarrow> Input \<Rightarrow> bool \<times> Input" where
  "planned_external_velocity T prev cur =
     (let j = ext_joints_of (pl_external_of (in_planned_of cur));
          (s, v) = estimateVelocities_Joints (js_velocity_of j) (js_position_of j)
            (js_position_of (ext_joints_of (pl_external_of (in_planned_of prev)))) T
      in (s, in_planned_mut (pl_external_mut (ext_joints_mut (\<lambda>j. j\<lparr>js_velocity := Some v\<rparr>))) cur))"

text \<open>A step that runs only while all steps before it succeeded.\<close>

definition and_then :: "bool \<times> 'a \<Rightarrow> ('a \<Rightarrow> bool \<times> 'a) \<Rightarrow> bool \<times> 'a" where
  "and_then r f = (if fst r then f (snd r) else r)"

definition estimateAllVelocities :: "boost_quaternion \<Rightarrow> InputContainer \<Rightarrow> bool \<times> InputContainer" where
  "estimateAllVelocities bq ic =
     (let T = ic_estimated_sample_time ic; prev = ic_previous ic;
          r1 = feedback_joint_velocity T prev (ic_current ic);
          r2 = and_then r1 (feedback_cartesian_velocity bq T prev);
          r3 = and_then r2 (feedback_external_velocity T prev);
          r4 = and_then r3 (planned_joint_velocity T prev);
          r5 = and_then r4 (planned_cartesian_velocity bq T prev);
          r6 = and_then r5 (planned_external_velocity T prev)
      in (fst r6, ic\<lparr>ic_current := snd r6\<rparr>))"

text \<open>The chain of \<open>parse\<close> calls in the condition of \<open>extractParsedInformation\<close>.\<close>

definition parse_Input :: "EgmRobot \<Rightarrow> RobotAxes \<Rightarrow> Input \<Rightarrow> bool \<times> Input" where
  "parse_Input msg ax cur =
     (let r1 = (let (s, h) = parse_Header (in_header_of cur) (erb_header_of msg)
                in (s, cur\<lparr>in_header := Some h\<rparr>));
          r2 = and_then r1 (\<lambda>c. let (s, f) = parse_Feedback (in_feedback_of c) (erb_feedBack_of msg) ax
                                in (s, c\<lparr>in_feedback := Some f\<rparr>));
          r3 = and_then r2 (\<lambda>c. let (s, p) = parse_Planned (in_planned_of c) (erb_planned_of msg) ax
                                in (s, c\<lparr>in_planned := Some p\<rparr>));
          r4 = and_then r3 (\<lambda>c. let (s, st) = parse_Status (in_status_of c) msg
                                in (s, c\<lparr>in_status := Some st\<rparr>))
      in and_then r4 (\<lambda>c. let (s, m) = parse_MeasuredForce (erb_measuredForce_of msg)
                          in (s, c\<lparr>in_measuredForce := Some m\<rparr>)))"

definition extractParsedInformation ::
  "boost_quaternion \<Rightarrow> RobotAxes \<Rightarrow> InputContainer \<Rightarrow> bool \<times> InputContainer" where
  "extractParsedInformation bq ax ic =
     (let ic1 = detectRWAndEGMVersions ic
      in if ic_has_new_data ic1
         then
           let (parsed, cur) = parse_Input (ic_egm_robot ic1) ax (ic_current ic1);
               ic2 = ic1\<lparr>ic_current := cur\<rparr>
           in if parsed
              then
                let ic3 = (if ic_first_message ic2
                           then ic2\<lparr>ic_initial := ic_current ic2, ic_previous := ic_current ic2\<rparr> else ic2);
                    ic4 = ic3\<lparr>ic_estimated_sample_time := estimateSampleTime ic3\<rparr>;
                    (success, ic5) = estimateAllVelocities bq ic4
                in (success, ic5\<lparr>ic_has_new_data := False\<rparr>)
              else (False, ic2)
         else (False, ic1))"

definition updatePrevious :: "InputContainer \<Rightarrow> InputContainer" where
  "updatePrevious ic = ic\<lparr>ic_previous := ic_current ic\<rparr>"

definition statesOk :: "InputContainer \<Rightarrow> bool" where
  "statesOk ic =
     (let st = in_status_of (ic_current ic) in
      motor_state_of st = MOTORS_ON \<and>
      (rapid_execution_state_of st = RAPID_UNDEFINED \<or> rapid_execution_state_of st = RAPID_RUNNING) \<and>
      egm_state_of st = EGM_RUNNING)"

section \<open>Which messages are accepted\<close>

definition joints_ok :: "RobotAxes \<Rightarrow> EgmJoints \<Rightarrow> EgmJoints \<Rightarrow> bool" where
  "joints_ok ax r e =
     (case ax of
        NoAxes \<Rightarrow> ej_joints r = []
      | Six \<Rightarrow> length (ej_joints r) = 6
      | Seven \<Rightarrow> length (ej_joints r) = 6 \<and> ej_joints e \<noteq> [])"

definition pose_ok :: "EgmPose \<Rightarrow> bool" where
  "pose_ok p \<longleftrightarrow> has (pos p) \<and> has (ecx (pos_of p)) \<and> has (ecy (pos_of p)) \<and> has (ecz (pos_of p)) \<and>
     has (orient p) \<and> has (equ0 (orient_of p)) \<and> has (equ1 (orient_of p)) \<and> has (equ2 (orient_of p)) \<and>
     has (equ3 (orient_of p))"

definition clock_ok :: "EgmClock \<Rightarrow> bool" where
  "clock_ok c \<longleftrightarrow> has (eclk_sec c) \<and> has (eclk_usec c)"

definition header_ok :: "EgmHeader \<Rightarrow> bool" where
  "header_ok h \<longleftrightarrow> has (seqno h) \<and> has (tm h) \<and> mtype h = Some MSGTYPE_DATA"

definition status_ok :: "EgmRobot \<Rightarrow> bool" where
  "status_ok m \<longleftrightarrow> has (motorState m) \<and> has (motor_state_type (motorState_of m)) \<and>
     has (mciState m) \<and> has (mci_state_type (mciState_of m)) \<and>
     has (rapidExecState m) \<and> has (rapid_state_type (rapidExecState_of m)) \<and> has (mciConvergenceMet m)"

text \<open>
  The conditions the parser puts on a message as a whole. Without robot axes there must be no pose, else there must be one.
\<close>

definition acceptable :: "RobotAxes \<Rightarrow> EgmRobot \<Rightarrow> bool" where
  "acceptable ax m \<longleftrightarrow>
     (let fb = erb_feedBack_of m; pl = erb_planned_of m in
      header_ok (erb_header_of m) \<and>
      joints_ok ax (efb_joints_of fb) (efb_externalJoints_of fb) \<and>
      (if ax = NoAxes then \<not> has (efb_cartesian fb) else pose_ok (efb_cartesian_of fb)) \<and>
      clock_ok (efb_time_of fb) \<and>
      joints_ok ax (epl_joints_of pl) (epl_externalJoints_of pl) \<and>
      (if ax = NoAxes then \<not> has (epl_cartesian pl) else pose_ok (epl_cartesian_of pl)) \<and>
      clock_ok (epl_time_of pl) \<and>
      status_ok m \<and> length (emf_force (erb_measuredForce_of m)) = 6)"

lemma has_eq_Some: "has x \<longleftrightarrow> (\<exists>v. x = Some v)"
  by (cases x) auto

lemma fst_parse_Header: "fst (parse_Header t s) \<longleftrightarrow> header_ok s"
  by (auto simp: parse_Header_def header_ok_def Let_def has_eq_Some split: EgmMessageType.split)

lemma fst_parse_Status: "fst (parse_Status t m) \<longleftrightarrow> status_ok m"
  by (auto simp: parse_Status_def status_ok_def Let_def)

lemma fst_parse_Clock: "fst (parse_Clock t c) \<longleftrightarrow> clock_ok c"
  by (auto simp: parse_Clock_def clock_ok_def)

lemma fst_parse_Joints: "fst (parse_Joints r e ax) \<longleftrightarrow> joints_ok ax r e"
  by (auto simp: parse_Joints_def joints_ok_def Let_def joint_counts Suc_le_eq split: RobotAxes.split)

lemma fst_parse_CartesianPose: "fst (parse_CartesianPose p) \<longleftrightarrow> pose_ok p"
  by (auto simp: parse_CartesianPose_def pose_ok_def Let_def)

lemma fst_parse_Feedback:
  "fst (parse_Feedback t s ax) \<longleftrightarrow> joints_ok ax (efb_joints_of s) (efb_externalJoints_of s) \<and>
     (if ax = NoAxes then \<not> has (efb_cartesian s) else pose_ok (efb_cartesian_of s)) \<and> clock_ok (efb_time_of s)"
  by (auto simp: parse_Feedback_def Let_def case_prod_beta fst_parse_Joints fst_parse_CartesianPose
      fst_parse_Clock)

lemma fst_parse_Planned:
  "fst (parse_Planned t s ax) \<longleftrightarrow> joints_ok ax (epl_joints_of s) (epl_externalJoints_of s) \<and>
     (if ax = NoAxes then \<not> has (epl_cartesian s) else pose_ok (epl_cartesian_of s)) \<and> clock_ok (epl_time_of s)"
  by (auto simp: parse_Planned_def Let_def case_prod_beta fst_parse_Joints fst_parse_CartesianPose
      fst_parse_Clock)

lemma fst_parse_MeasuredForce: "fst (parse_MeasuredForce m) \<longleftrightarrow> length (emf_force m) = 6"
  by (simp add: parse_MeasuredForce_def)

lemmas fst_parse = fst_parse_Header fst_parse_Status fst_parse_Feedback fst_parse_Planned
  fst_parse_MeasuredForce

lemma fst_and_then [simp]: "fst (and_then r f) \<longleftrightarrow> fst r \<and> fst (f (snd r))"
  by (simp add: and_then_def)

lemma fst_parse_Input: "fst (parse_Input m ax cur) \<longleftrightarrow> acceptable ax m"
  by (simp add: parse_Input_def Let_def case_prod_beta fst_parse acceptable_def)

section \<open>The sample time\<close>

definition clock_us :: "Clock \<Rightarrow> int" where
  "clock_us c = uint (clk_sec_of c) * 1000000 + uint (clk_usec_of c)"

definition has_clock :: "Input \<Rightarrow> bool" where
  "has_clock i \<longleftrightarrow> has (in_feedback i) \<and> has (fb_time (in_feedback_of i)) \<and>
     has (clk_sec (fb_time_of (in_feedback_of i))) \<and> has (clk_usec (fb_time_of (in_feedback_of i)))"

definition input_clock :: "Input \<Rightarrow> Clock" where
  "input_clock i = fb_time_of (in_feedback_of i)"

lemma clock_difference:
  fixes s s' u u' :: u64
  shows "(if 0 < s - s' then u - u' + (s - s') * 1000000 else u - u')
    = word_of_int ((uint s * 1000000 + uint u) - (uint s' * 1000000 + uint u'))"
proof -
  have "u - u' + (s - s') * 1000000 =
      word_of_int ((uint s * 1000000 + uint u) - (uint s' * 1000000 + uint u'))"
    by (simp add: algebra_simps)
  moreover have "\<not> 0 < s - s' \<Longrightarrow> s - s' = 0" by (simp add: word_gt_0)
  ultimately show ?thesis by auto
qed

lemma of_u64_word_of_int: "of_u64 (word_of_int k) = Fin (real_of_int (k mod 2 ^ 64))"
  by (simp add: of_u64_def of_nat_unat unsigned_of_int take_bit_eq_mod)

lemma floor_ms: "ffloor (Fin (real_of_int k) * MS_TO_S) * MS_TO_S = Fin (real_of_int (k div 1000) / 1000)"
proof -
  have "\<lfloor>real_of_int k * (1 / 1000)\<rfloor> = k div 1000"
    using floor_divide_of_int_eq [where ?'a = real, of k 1000] by simp
  then show ?thesis by (simp add: MS_TO_S_def)
qed

lemma clock_estimate:
  fixes s s' u u' :: u64
  shows "ffloor (of_u64 (if 0 < s - s' then u - u' + (s - s') * 1000000 else u - u') * MS_TO_S) * MS_TO_S
    = Fin (real_of_int (((uint s * 1000000 + uint u) - (uint s' * 1000000 + uint u')) mod 2 ^ 64 div 1000) / 1000)"
  unfolding clock_difference of_u64_word_of_int floor_ms by (rule refl)

lemma estimateSampleTime_eq:
  assumes "has_clock (ic_current ic)" "has_clock (ic_previous ic)"
  shows "estimateSampleTime ic = Fin (max 0.004 (real_of_int
    ((clock_us (input_clock (ic_current ic)) - clock_us (input_clock (ic_previous ic))) mod 2 ^ 64 div 1000) / 1000))"
  using assms
  by (auto simp: estimateSampleTime_def Let_def has_clock_def clock_estimate LOWEST_SAMPLE_TIME_def clock_us_def input_clock_def max_def)

lemma estimateSampleTime_cases:
  "(has_clock (ic_current ic) \<and> has_clock (ic_previous ic)) \<or> estimateSampleTime ic = LOWEST_SAMPLE_TIME"
  by (auto simp: estimateSampleTime_def Let_def has_clock_def LOWEST_SAMPLE_TIME_def)

lemma estimateSampleTime_fin: "\<exists>T. estimateSampleTime ic = Fin T \<and> 0.004 \<le> T"
  using estimateSampleTime_cases [of ic] estimateSampleTime_eq [of ic]
  by (auto simp: LOWEST_SAMPLE_TIME_def)

lemma estimateSampleTime_pos [simp]: "Fin 0 < estimateSampleTime ic"
  using estimateSampleTime_fin [of ic] by auto

text \<open>
  C34: When the robot's clock has advanced by \<open>d\<close> microseconds between two messages, the estimated sample
  time is \<open>d\<close> in whole milliseconds, in seconds, and at least 4 ms; the wrap-around of the unsigned
  difference of the microsecond fields when a new second starts does not disturb it.
\<close>

theorem sample_time_of_clock:
  assumes "has_clock (ic_current ic)" "has_clock (ic_previous ic)"
    and "clock_us (input_clock (ic_current ic)) = clock_us (input_clock (ic_previous ic)) + d"
    and "0 \<le> d" "d < 2 ^ 64"
  shows "estimateSampleTime ic = Fin (max 0.004 (real_of_int (d div 1000) / 1000))"
  using assms by (simp add: estimateSampleTime_eq)

definition clock_input :: "u64 \<Rightarrow> u64 \<Rightarrow> Input" where
  "clock_input s us = default_Input\<lparr>in_feedback := Some (default_Feedback
     \<lparr>fb_time := Some \<lparr>clk_sec = Some s, clk_usec = Some us\<rparr>\<rparr>)\<rparr>"

theorem sample_time_of_clock_witness:
  "estimateSampleTime (init_InputContainer\<lparr>ic_previous := clock_input 7 999000, ic_current := clock_input 8 23000\<rparr>)
     = Fin 0.024"
  using sample_time_of_clock [of "init_InputContainer\<lparr>ic_previous := clock_input 7 999000,
      ic_current := clock_input 8 23000\<rparr>" 24000]
  by (simp add: clock_input_def has_clock_def clock_us_def input_clock_def)

text \<open>
  A robot clock that steps backwards, by less than a second, between two messages is not detected:
  the difference wraps around and the estimated sample time exceeds \<open>10 ^ 13\<close> seconds.
\<close>

theorem sample_time_backwards:
  assumes "has_clock (ic_current ic)" "has_clock (ic_previous ic)"
    and "clock_us (input_clock (ic_current ic)) < clock_us (input_clock (ic_previous ic))"
    and "clock_us (input_clock (ic_previous ic)) < clock_us (input_clock (ic_current ic)) + 1000000"
  shows "Fin (10 ^ 13) < estimateSampleTime ic"
proof -
  define k where "k = clock_us (input_clock (ic_current ic)) - clock_us (input_clock (ic_previous ic))"
  have "k mod 2 ^ 64 = (k + 2 ^ 64) mod 2 ^ 64" by simp
  also have "\<dots> = k + 2 ^ 64"
    using assms(3,4) by (intro mod_pos_pos_trivial) (simp_all add: k_def)
  finally have "k mod 2 ^ 64 = k + 2 ^ 64" .
  moreover have "10 ^ 16 < (k + 2 ^ 64) div 1000"
    using assms(3,4) by (simp add: k_def)
  ultimately have "real_of_int (10 ^ 16) < real_of_int (k mod 2 ^ 64 div 1000)"
    by (simp only: of_int_less_iff)
  then show ?thesis by (simp add: estimateSampleTime_eq [OF assms(1,2)] k_def [symmetric])
qed

theorem sample_time_backwards_witness:
  "Fin (10 ^ 13) < estimateSampleTime
     (init_InputContainer\<lparr>ic_previous := clock_input 7 5000, ic_current := clock_input 7 4000\<rparr>)"
  by (rule sample_time_backwards)
    (simp_all add: clock_input_def has_clock_def clock_us_def input_clock_def)

section \<open>The velocities\<close>

definition fb_robot_joints :: "Input \<Rightarrow> JointSpace" where
  "fb_robot_joints i = rob_joints_of (fb_robot_of (in_feedback_of i))"

definition fb_external_joints :: "Input \<Rightarrow> JointSpace" where
  "fb_external_joints i = ext_joints_of (fb_external_of (in_feedback_of i))"

definition pl_robot_joints :: "Input \<Rightarrow> JointSpace" where
  "pl_robot_joints i = rob_joints_of (pl_robot_of (in_planned_of i))"

definition pl_external_joints :: "Input \<Rightarrow> JointSpace" where
  "pl_external_joints i = ext_joints_of (pl_external_of (in_planned_of i))"

lemmas joint_views = fb_robot_joints_def fb_external_joints_def pl_robot_joints_def pl_external_joints_def

lemmas velocity_steps = feedback_joint_velocity_def feedback_cartesian_velocity_def
  feedback_external_velocity_def planned_joint_velocity_def planned_cartesian_velocity_def
  planned_external_velocity_def

definition difference_quotient :: "double \<Rightarrow> JointSpace \<Rightarrow> JointSpace \<Rightarrow> bool" where
  "difference_quotient T prev cur \<longleftrightarrow>
     jvalues (js_velocity_of cur) =
       map2 (\<lambda>c p. (c - p) / T) (jvalues (js_position_of cur)) (jvalues (js_position_of prev))"

lemma fst_estimateAllVelocities:
  "Fin 0 < ic_estimated_sample_time ic \<Longrightarrow> fst (estimateAllVelocities bq ic)"
  by (simp add: estimateAllVelocities_def Let_def and_then_def velocity_steps case_prod_beta
      estimateVelocities_Joints_eq)

lemma estimateAllVelocities_frame:
  "ic_previous (snd (estimateAllVelocities bq ic)) = ic_previous ic"
  "ic_initial (snd (estimateAllVelocities bq ic)) = ic_initial ic"
  "ic_estimated_sample_time (snd (estimateAllVelocities bq ic)) = ic_estimated_sample_time ic"
  "ic_first_message (snd (estimateAllVelocities bq ic)) = ic_first_message ic"
  by (simp_all add: estimateAllVelocities_def Let_def)

lemma estimateAllVelocities_spec:
  fixes bq :: boost_quaternion
  assumes "Fin 0 < ic_estimated_sample_time ic"
  defines "cur \<equiv> ic_current (snd (estimateAllVelocities bq ic))" and "T \<equiv> ic_estimated_sample_time ic"
  shows "difference_quotient T (fb_robot_joints (ic_previous ic)) (fb_robot_joints cur)"
    and "difference_quotient T (fb_external_joints (ic_previous ic)) (fb_external_joints cur)"
    and "difference_quotient T (pl_robot_joints (ic_previous ic)) (pl_robot_joints cur)"
    and "difference_quotient T (pl_external_joints (ic_previous ic)) (pl_external_joints cur)"
  using assms(1)
  by (simp_all add: cur_def T_def estimateAllVelocities_def Let_def and_then_def velocity_steps case_prod_beta
      estimateVelocities_Joints_eq joint_views difference_quotient_def)

lemma estimateAllVelocities_positions:
  fixes bq :: boost_quaternion
  assumes "Fin 0 < ic_estimated_sample_time ic"
  defines "cur \<equiv> ic_current (snd (estimateAllVelocities bq ic))"
  shows "js_position_of (fb_robot_joints cur) = js_position_of (fb_robot_joints (ic_current ic))"
    and "js_position_of (fb_external_joints cur) = js_position_of (fb_external_joints (ic_current ic))"
    and "js_position_of (pl_robot_joints cur) = js_position_of (pl_robot_joints (ic_current ic))"
    and "js_position_of (pl_external_joints cur) = js_position_of (pl_external_joints (ic_current ic))"
    and "in_header cur = in_header (ic_current ic)" "in_status cur = in_status (ic_current ic)"
  using assms(1)
  by (simp_all add: cur_def estimateAllVelocities_def Let_def and_then_def velocity_steps case_prod_beta
      estimateVelocities_Joints_eq joint_views)

section \<open>Extraction\<close>

lemma detect_frame [simp]:
  "ic_has_new_data (detectRWAndEGMVersions ic) = ic_has_new_data ic"
  "ic_egm_robot (detectRWAndEGMVersions ic) = ic_egm_robot ic"
  "ic_first_message (detectRWAndEGMVersions ic) = ic_first_message ic"
  "ic_previous (detectRWAndEGMVersions ic) = ic_previous ic"
  by (simp_all add: detectRWAndEGMVersions_def Let_def split: prod.split)

lemma fst_extract:
  "fst (extractParsedInformation bq ax ic) \<longleftrightarrow> ic_has_new_data ic \<and> acceptable ax (ic_egm_robot ic)"
  by (auto simp: extractParsedInformation_def Let_def case_prod_beta fst_parse_Input
      intro: fst_estimateAllVelocities)

lemma extract_accepted:
  assumes "fst (extractParsedInformation bq ax ic)"
  obtains ic4 where "extractParsedInformation bq ax ic = (True, (snd (estimateAllVelocities bq ic4))\<lparr>ic_has_new_data := False\<rparr>)"
    and "Fin 0 < ic_estimated_sample_time ic4"
    and "ic_estimated_sample_time ic4 = estimateSampleTime ic4"
    and "ic_current ic4 = snd (parse_Input (ic_egm_robot ic) ax (ic_current (detectRWAndEGMVersions ic)))"
    and "ic_previous ic4 = (if ic_first_message ic then ic_current ic4 else ic_previous ic)"
    and "ic_first_message ic4 = ic_first_message ic"
proof -
  let ?ic1 = "detectRWAndEGMVersions ic"
  let ?ic2 = "?ic1\<lparr>ic_current := snd (parse_Input (ic_egm_robot ic) ax (ic_current ?ic1))\<rparr>"
  let ?ic3 = "if ic_first_message ?ic2 then ?ic2\<lparr>ic_initial := ic_current ?ic2, ic_previous := ic_current ?ic2\<rparr>
    else ?ic2"
  let ?ic4 = "?ic3\<lparr>ic_estimated_sample_time := estimateSampleTime ?ic3\<rparr>"
  have "estimateSampleTime ?ic4 = estimateSampleTime ?ic3" by (simp add: estimateSampleTime_def Let_def)
  moreover have "extractParsedInformation bq ax ic = (True, (snd (estimateAllVelocities bq ?ic4))\<lparr>ic_has_new_data := False\<rparr>)"
    using assms unfolding fst_extract
    by (simp add: extractParsedInformation_def Let_def case_prod_beta fst_parse_Input fst_estimateAllVelocities)
  ultimately show thesis using that [of ?ic4] by simp
qed

text \<open>
  C33: After an accepted message every joint velocity is the difference quotient of the current and the
  previous position over the estimated sample time, which is a finite number of at least 4 ms: for the
  feedback and the planned values, of the robot and of the external axes.
\<close>

theorem extracted_velocities:
  assumes "extractParsedInformation bq ax ic = (True, ic')"
  shows "difference_quotient (ic_estimated_sample_time ic') (fb_robot_joints (ic_previous ic')) (fb_robot_joints (ic_current ic'))
    \<and> difference_quotient (ic_estimated_sample_time ic') (fb_external_joints (ic_previous ic')) (fb_external_joints (ic_current ic'))
    \<and> difference_quotient (ic_estimated_sample_time ic') (pl_robot_joints (ic_previous ic')) (pl_robot_joints (ic_current ic'))
    \<and> difference_quotient (ic_estimated_sample_time ic') (pl_external_joints (ic_previous ic')) (pl_external_joints (ic_current ic'))
    \<and> (\<exists>T. ic_estimated_sample_time ic' = Fin T \<and> 0.004 \<le> T)"
proof -
  from assms have "fst (extractParsedInformation bq ax ic)" by simp
  then obtain ic4 where ic4: "ic' = (snd (estimateAllVelocities bq ic4))\<lparr>ic_has_new_data := False\<rparr>"
    "Fin 0 < ic_estimated_sample_time ic4" "ic_estimated_sample_time ic4 = estimateSampleTime ic4"
    using assms by (elim extract_accepted) auto
  then show ?thesis
    using estimateAllVelocities_spec [OF ic4(2), of bq] estimateSampleTime_fin [of ic4]
    by (simp add: estimateAllVelocities_frame)
qed

text \<open>A message of a robot with six axes, for the concrete instances.\<close>

definition sample_pose :: EgmPose where
  "sample_pose = \<lparr>pos = Some \<lparr>ecx = Some (Fin 300), ecy = Some (Fin 0), ecz = Some (Fin 600)\<rparr>,
     orient = Some \<lparr>equ0 = Some (Fin 1), equ1 = Some (Fin 0), equ2 = Some (Fin 0), equ3 = Some (Fin 0)\<rparr>,
     epose_euler = Some \<lparr>eex = Some (Fin 0), eey = Some (Fin 0), eez = Some (Fin 0)\<rparr>\<rparr>"

definition sample_clock :: EgmClock where
  "sample_clock = \<lparr>eclk_sec = Some 7, eclk_usec = Some 4000\<rparr>"

definition sample_message :: "u32 \<Rightarrow> EgmRobot" where
  "sample_message n = default_EgmRobot
     \<lparr>erb_header := Some \<lparr>seqno = Some n, tm = Some 100, mtype = Some MSGTYPE_DATA\<rparr>,
      erb_feedBack := Some \<lparr>efb_joints = Some \<lparr>ej_joints = replicate 6 (Fin 10)\<rparr>, efb_cartesian = Some sample_pose,
        efb_externalJoints = Some \<lparr>ej_joints = [Fin 5]\<rparr>, efb_time = Some sample_clock\<rparr>,
      erb_planned := Some \<lparr>epl_joints = Some \<lparr>ej_joints = replicate 6 (Fin 10)\<rparr>, epl_cartesian = Some sample_pose,
        epl_externalJoints = Some \<lparr>ej_joints = [Fin 5]\<rparr>, epl_time = Some sample_clock\<rparr>,
      motorState := Some \<lparr>motor_state_type = Some EGM_MOTORS_ON\<rparr>,
      mciState := Some \<lparr>mci_state_type = Some MCI_RUNNING\<rparr>, mciConvergenceMet := Some True,
      rapidExecState := Some \<lparr>rapid_state_type = Some CTRL_RAPID_RUNNING\<rparr>,
      erb_measuredForce := Some \<lparr>emf_force = replicate 6 (Fin 0)\<rparr>\<rparr>"

lemma sample_acceptable [simp]: "acceptable Six (sample_message n)"
  by (simp add: acceptable_def sample_message_def header_ok_def joints_ok_def pose_ok_def clock_ok_def
      status_ok_def sample_pose_def sample_clock_def)

theorem extracted_velocities_witness:
  "\<exists>ic'. extractParsedInformation hamilton Six
       (init_InputContainer\<lparr>ic_has_new_data := True, ic_egm_robot := sample_message 3\<rparr>) = (True, ic')
    \<and> difference_quotient (ic_estimated_sample_time ic') (fb_robot_joints (ic_previous ic')) (fb_robot_joints (ic_current ic'))"
proof -
  let ?r = "extractParsedInformation hamilton Six
    (init_InputContainer\<lparr>ic_has_new_data := True, ic_egm_robot := sample_message 3\<rparr>)"
  have "?r = (True, snd ?r)" by (simp add: prod_eq_iff fst_extract)
  with extracted_velocities [OF this] show ?thesis by blast
qed

text \<open>
  \<open>detectRWAndEGMVersions\<close> recognises a message without a time stamp in its feedback as one of RobotWare
  6.0 to 6.06.03 with EGM version 1.0, but the same call of \<open>extractParsedInformation\<close> then rejects it.
\<close>

lemma parse_Header_versions:
  "rw_version (snd (parse_Header t s)) = rw_version t" "egm_version (snd (parse_Header t s)) = egm_version t"
  by (simp_all add: parse_Header_def Let_def split: EgmMessageType.split)

lemma old_robotware_rejected:
  fixes bq ax
  assumes "ic_has_new_data ic" "efb_time (erb_feedBack_of (ic_egm_robot ic)) = None"
  defines "r \<equiv> extractParsedInformation bq ax ic"
  shows "\<not> fst r" "rw_version_of (in_header_of (ic_current (snd r))) = RW_BETWEEN_6_AND_6_06_03"
    "egm_version_of (in_header_of (ic_current (snd r))) = EGM_1_0"
proof -
  have f: "\<not> fst (parse_Feedback t (erb_feedBack_of (ic_egm_robot ic)) ax)" for t
    using assms(2) by (simp add: fst_parse_Feedback clock_ok_def)
  show "\<not> fst r" using assms(1,2) by (simp add: r_def fst_extract acceptable_def clock_ok_def Let_def)
  show "rw_version_of (in_header_of (ic_current (snd r))) = RW_BETWEEN_6_AND_6_06_03"
    "egm_version_of (in_header_of (ic_current (snd r))) = EGM_1_0"
    using assms(1,2) f
    by (simp_all add: r_def extractParsedInformation_def Let_def case_prod_beta parse_Input_def and_then_def
        detectRWAndEGMVersions_def parse_Header_versions)
qed

text \<open>
  The first message of a session starts from rest: if it is accepted and its joint positions are finite,
  the initial and the previous positions are the current ones, every estimated joint velocity is zero and
  the sample time is the lowest one, whatever the container held before.
\<close>

theorem first_message_at_rest:
  assumes "extractParsedInformation bq ax ic = (True, ic')" "ic_first_message ic"
    and "\<forall>v \<in> set (jvalues (js_position_of (fb_robot_joints (ic_current ic')))). is_fin v"
  shows "jvalues (js_velocity_of (fb_robot_joints (ic_current ic'))) =
      replicate (length (jvalues (js_position_of (fb_robot_joints (ic_current ic'))))) (Fin 0)
    \<and> js_position_of (fb_robot_joints (ic_previous ic')) = js_position_of (fb_robot_joints (ic_current ic'))
    \<and> ic_estimated_sample_time ic' = LOWEST_SAMPLE_TIME"
proof -
  from assms(1) have "fst (extractParsedInformation bq ax ic)" by simp
  then obtain ic4 where ic4: "ic' = (snd (estimateAllVelocities bq ic4))\<lparr>ic_has_new_data := False\<rparr>"
    "Fin 0 < ic_estimated_sample_time ic4" "ic_estimated_sample_time ic4 = estimateSampleTime ic4"
    "ic_previous ic4 = ic_current ic4"
    using assms(1,2) by (elim extract_accepted) auto
  have T: "estimateSampleTime ic4 = LOWEST_SAMPLE_TIME"
    using estimateSampleTime_cases [of ic4] estimateSampleTime_eq [of ic4] ic4(4)
    by (auto simp: LOWEST_SAMPLE_TIME_def)
  have prev: "js_position_of (fb_robot_joints (ic_previous ic')) = js_position_of (fb_robot_joints (ic_current ic'))"
    using estimateAllVelocities_positions(1) [OF ic4(2), of bq] ic4(1,4) by (simp add: estimateAllVelocities_frame)
  have dq: "difference_quotient LOWEST_SAMPLE_TIME (fb_robot_joints (ic_previous ic')) (fb_robot_joints (ic_current ic'))"
    using estimateAllVelocities_spec(1) [OF ic4(2), of bq] ic4(1,3) T by (simp add: estimateAllVelocities_frame)
  have "map2 (\<lambda>c p. (c - p) / LOWEST_SAMPLE_TIME) vs vs = replicate (length vs) (Fin 0)"
    if "\<forall>v \<in> set vs. is_fin v" for vs
    using that by (induction vs) (auto simp: is_fin_iff LOWEST_SAMPLE_TIME_def)
  with dq prev assms(3) ic4(1,3) T show ?thesis
    by (simp add: difference_quotient_def estimateAllVelocities_frame)
qed

section \<open>The decoded positions\<close>

lemma parse_Feedback_positions:
  "js_position_of (rob_joints_of (fb_robot_of (snd (parse_Feedback t s ax))))
     = fst (snd (parse_Joints (efb_joints_of s) (efb_externalJoints_of s) ax))"
  "js_position_of (ext_joints_of (fb_external_of (snd (parse_Feedback t s ax))))
     = snd (snd (parse_Joints (efb_joints_of s) (efb_externalJoints_of s) ax))"
  by (simp_all add: parse_Feedback_def Let_def case_prod_beta)

lemma parse_Planned_positions:
  "js_position_of (rob_joints_of (pl_robot_of (snd (parse_Planned t s ax))))
     = fst (snd (parse_Joints (epl_joints_of s) (epl_externalJoints_of s) ax))"
  "js_position_of (ext_joints_of (pl_external_of (snd (parse_Planned t s ax))))
     = snd (snd (parse_Joints (epl_joints_of s) (epl_externalJoints_of s) ax))"
  by (simp_all add: parse_Planned_def Let_def case_prod_beta)

lemma parse_Input_positions:
  assumes "acceptable ax m"
  defines "fb \<equiv> erb_feedBack_of m" and "pl \<equiv> erb_planned_of m"
  shows "js_position_of (fb_robot_joints (snd (parse_Input m ax cur)))
      = fst (snd (parse_Joints (efb_joints_of fb) (efb_externalJoints_of fb) ax))"
    and "js_position_of (fb_external_joints (snd (parse_Input m ax cur)))
      = snd (snd (parse_Joints (efb_joints_of fb) (efb_externalJoints_of fb) ax))"
    and "js_position_of (pl_robot_joints (snd (parse_Input m ax cur)))
      = fst (snd (parse_Joints (epl_joints_of pl) (epl_externalJoints_of pl) ax))"
    and "js_position_of (pl_external_joints (snd (parse_Input m ax cur)))
      = snd (snd (parse_Joints (epl_joints_of pl) (epl_externalJoints_of pl) ax))"
  using assms(1)
  by (simp_all add: parse_Input_def Let_def case_prod_beta and_then_def fst_parse acceptable_def joint_views
      parse_Feedback_positions parse_Planned_positions fb_def pl_def)

lemma extracted_positions:
  assumes "extractParsedInformation bq ax ic = (True, ic')"
  defines "fb \<equiv> erb_feedBack_of (ic_egm_robot ic)" and "pl \<equiv> erb_planned_of (ic_egm_robot ic)"
  shows "js_position_of (fb_robot_joints (ic_current ic'))
      = fst (snd (parse_Joints (efb_joints_of fb) (efb_externalJoints_of fb) ax))"
    and "js_position_of (fb_external_joints (ic_current ic'))
      = snd (snd (parse_Joints (efb_joints_of fb) (efb_externalJoints_of fb) ax))"
    and "js_position_of (pl_robot_joints (ic_current ic'))
      = fst (snd (parse_Joints (epl_joints_of pl) (epl_externalJoints_of pl) ax))"
    and "js_position_of (pl_external_joints (ic_current ic'))
      = snd (snd (parse_Joints (epl_joints_of pl) (epl_externalJoints_of pl) ax))"
proof -
  from assms(1) have f: "fst (extractParsedInformation bq ax ic)" by simp
  then have acc: "acceptable ax (ic_egm_robot ic)" by (simp add: fst_extract)
  from f obtain ic4 where ic4: "ic' = (snd (estimateAllVelocities bq ic4))\<lparr>ic_has_new_data := False\<rparr>"
    "Fin 0 < ic_estimated_sample_time ic4"
    "ic_current ic4 = snd (parse_Input (ic_egm_robot ic) ax (ic_current (detectRWAndEGMVersions ic)))"
    using assms(1) by (elim extract_accepted) auto
  note pos = estimateAllVelocities_positions [OF ic4(2), of bq] ic4(1,3)
    parse_Input_positions [OF acc, of "ic_current (detectRWAndEGMVersions ic)"]
  show "js_position_of (fb_robot_joints (ic_current ic'))
      = fst (snd (parse_Joints (efb_joints_of fb) (efb_externalJoints_of fb) ax))"
    "js_position_of (fb_external_joints (ic_current ic'))
      = snd (snd (parse_Joints (efb_joints_of fb) (efb_externalJoints_of fb) ax))"
    "js_position_of (pl_robot_joints (ic_current ic'))
      = fst (snd (parse_Joints (epl_joints_of pl) (epl_externalJoints_of pl) ax))"
    "js_position_of (pl_external_joints (ic_current ic'))
      = snd (snd (parse_Joints (epl_joints_of pl) (epl_externalJoints_of pl) ax))"
    using pos by (simp_all add: fb_def pl_def)
qed

definition fb_pose :: "Input \<Rightarrow> CartesianPose" where
  "fb_pose i = cs_pose_of (rob_cartesian_of (fb_robot_of (in_feedback_of i)))"

lemma extracted_pose:
  assumes "extractParsedInformation bq ax ic = (True, ic')" "ax \<noteq> NoAxes"
  shows "fb_pose (ic_current ic') = snd (parse_CartesianPose (efb_cartesian_of (erb_feedBack_of (ic_egm_robot ic))))"
proof -
  from assms(1) have f: "fst (extractParsedInformation bq ax ic)" by simp
  then have acc: "acceptable ax (ic_egm_robot ic)" by (simp add: fst_extract)
  from f obtain ic4 where ic4: "ic' = (snd (estimateAllVelocities bq ic4))\<lparr>ic_has_new_data := False\<rparr>"
    "Fin 0 < ic_estimated_sample_time ic4"
    "ic_current ic4 = snd (parse_Input (ic_egm_robot ic) ax (ic_current (detectRWAndEGMVersions ic)))"
    using assms(1) by (elim extract_accepted) auto
  have "fb_pose (ic_current ic') = fb_pose (ic_current ic4)"
    using ic4(2) by (simp add: ic4(1) fb_pose_def estimateAllVelocities_def Let_def and_then_def velocity_steps
        case_prod_beta estimateVelocities_Joints_eq)
  moreover have "cs_pose_of (rob_cartesian_of (fb_robot_of (snd (parse_Feedback t s ax))))
      = snd (parse_CartesianPose (efb_cartesian_of s))" if "fst (parse_Feedback t s ax)" for t s
    using that assms(2) by (auto simp: parse_Feedback_def Let_def case_prod_beta split: if_splits)
  ultimately show ?thesis
    using acc by (simp add: ic4(3) fb_pose_def parse_Input_def Let_def and_then_def case_prod_beta fst_parse
        acceptable_def)
qed

lemma extracted_statesOk:
  assumes "extractParsedInformation bq ax ic = (True, ic')"
  shows "statesOk ic' \<longleftrightarrow> motor_state_type_of (motorState_of (ic_egm_robot ic)) = EGM_MOTORS_ON \<and>
    rapid_state_type_of (rapidExecState_of (ic_egm_robot ic)) \<noteq> CTRL_RAPID_STOPPED \<and>
    mci_state_type_of (mciState_of (ic_egm_robot ic)) = MCI_RUNNING"
proof -
  from assms(1) have f: "fst (extractParsedInformation bq ax ic)" by simp
  then have acc: "acceptable ax (ic_egm_robot ic)" by (simp add: fst_extract)
  from f obtain ic4 where ic4: "ic' = (snd (estimateAllVelocities bq ic4))\<lparr>ic_has_new_data := False\<rparr>"
    "Fin 0 < ic_estimated_sample_time ic4"
    "ic_current ic4 = snd (parse_Input (ic_egm_robot ic) ax (ic_current (detectRWAndEGMVersions ic)))"
    using assms(1) by (elim extract_accepted) auto
  have "\<exists>t. in_status_of (ic_current ic') = snd (parse_Status t (ic_egm_robot ic))"
    using estimateAllVelocities_positions(6) [OF ic4(2), of bq] acc
    by (simp add: ic4(1,3) parse_Input_def Let_def and_then_def case_prod_beta fst_parse acceptable_def) blast
  then obtain t where "in_status_of (ic_current ic') = snd (parse_Status t (ic_egm_robot ic))" ..
  with acc show ?thesis
    by (auto simp: statesOk_def Let_def parse_Status_def acceptable_def status_ok_def
        split: MotorStateType.splits RapidCtrlExecStateType.splits MCIStateType.splits)
qed

theorem first_message_at_rest_witness:
  "\<exists>ic'. extractParsedInformation hamilton Six (init_InputContainer
       \<lparr>ic_has_new_data := True, ic_first_message := True, ic_egm_robot := sample_message 0\<rparr>) = (True, ic')
    \<and> jvalues (js_velocity_of (fb_robot_joints (ic_current ic'))) = replicate 6 (Fin 0)
    \<and> ic_estimated_sample_time ic' = LOWEST_SAMPLE_TIME"
proof -
  let ?ic = "init_InputContainer
    \<lparr>ic_has_new_data := True, ic_first_message := True, ic_egm_robot := sample_message 0\<rparr>"
  let ?r = "extractParsedInformation hamilton Six ?ic"
  have r: "?r = (True, snd ?r)" by (simp add: prod_eq_iff fst_extract)
  have pos: "jvalues (js_position_of (fb_robot_joints (ic_current (snd ?r)))) = replicate 6 (Fin 10)"
    unfolding extracted_positions [OF r] by (simp add: sample_message_def parse_Joints_def joint_counts)
  with first_message_at_rest [OF r] r show ?thesis by auto
qed

end
