(* ===== verification/EGM_Output.thy ===== *)
theory EGM_Output
  imports EGM_Input
begin

text \<open>
  \<open>EGMBaseInterface::OutputContainer\<close> of \<open>egm_base_interface.h\<close> and \<open>egm_base_interface.cpp\<close>: the
  outputs, their demo generator and the construction of the reply. The encoder
  \<open>EgmSensor::SerializeToString\<close> that \<open>protoc\<close> generates is an argument: it maps a message to its
  result and to the bytes it writes.
\<close>

section \<open>Data\<close>

type_synonym encoder = "EgmSensor \<Rightarrow> bool \<times> bytes"

record OutputContainer =
  oc_egm_sensor :: EgmSensor
  oc_previous :: Output
  oc_current :: Output
  oc_sequence_number :: u32
  oc_reply :: bytes

definition init_OutputContainer :: OutputContainer where
  "init_OutputContainer =
     \<lparr>oc_egm_sensor = default_EgmSensor, oc_previous = default_Output, oc_current = default_Output,
      oc_sequence_number = 0, oc_reply = []\<rparr>"

section \<open>Preparation\<close>

definition zero_velocities :: "nat \<Rightarrow> JointSpace \<Rightarrow> JointSpace" where
  "zero_velocities n j =
     for_range n (\<lambda>i. js_velocity_mut (jvalues_update (\<lambda>vs. vs @ [Fin 0]))) (j\<lparr>js_velocity := None\<rparr>)"

definition zero_Cartesian :: "Cartesian \<Rightarrow> Cartesian" where
  "zero_Cartesian c = c\<lparr>cx := Some (Fin 0), cy := Some (Fin 0), cz := Some (Fin 0)\<rparr>"

definition zero_Euler :: "Euler \<Rightarrow> Euler" where
  "zero_Euler e = e\<lparr>ex := Some (Fin 0), ey := Some (Fin 0), ez := Some (Fin 0)\<rparr>"

definition prepareOutputs :: "InputContainer \<Rightarrow> OutputContainer \<Rightarrow> OutputContainer" where
  "prepareOutputs ic oc =
     (let oc1 = oc\<lparr>oc_sequence_number := (if ic_first_message ic then 0 else oc_sequence_number oc + 1)\<rparr>
      in if ic_first_message ic
         then
           let fb = in_feedback_of (ic_current ic);
               rj = rob_joints_of (fb_robot_of fb); rc = rob_cartesian_of (fb_robot_of fb);
               ej = ext_joints_of (fb_external_of fb);
               robot = (\<lambda>r.
                 let r1 = rob_joints_mut (\<lambda>j. j\<lparr>js_position := Some (js_position_of rj)\<rparr>) r;
                     r2 = rob_cartesian_mut (\<lambda>c. c\<lparr>cs_pose := Some (cs_pose_of rc)\<rparr>) r1;
                     r3 = rob_joints_mut (zero_velocities (length (jvalues (js_velocity_of rj)))) r2
                 in rob_cartesian_mut (cs_velocity_mut
                      (\<lambda>v. angular_mut zero_Euler (linear_mut zero_Cartesian v))) r3);
               external = (\<lambda>e.
                 let e1 = ext_joints_mut (\<lambda>j. j\<lparr>js_position := Some (js_position_of ej)\<rparr>) e
                 in ext_joints_mut (zero_velocities (length (jvalues (js_velocity_of ej)))) e1);
               cur = out_external_mut external (out_robot_mut robot (oc_current oc1))
           in oc1\<lparr>oc_current := cur, oc_previous := cur\<rparr>
         else oc1)"

section \<open>Demo outputs\<close>

text \<open>The displacement and the speed of the joints; the arithmetic on sequence numbers is on 32 bits.\<close>

definition demo_joint_motion :: "u32 \<Rightarrow> double \<Rightarrow> double \<times> double" where
  "demo_joint_motion seq TS =
     (let RAMP_IN = Fin 3;
          seqno_ramp_in_end = to_u32 (RAMP_IN / TS);
          amplitude = Fin 2;
          a = amplitude / Fin 2;
          b = M_PI * TS / RAMP_IN;
          freq = Fin 0.5
      in if seqno_ramp_in_end + 1 < seq
         then (- Fin 2 * a * fcos (b * of_u32 (seq - seqno_ramp_in_end) * freq),
               Fin 2 * (a * b) * freq * fsin (b * of_u32 (seq - seqno_ramp_in_end) * freq) / TS)
         else (a * fcos (b * of_u32 seq) - a, - (a * b) * fsin (b * of_u32 seq) / TS))"

definition demo_positions :: "Joints \<Rightarrow> Joints \<Rightarrow> double \<Rightarrow> Joints \<Rightarrow> Joints option" where
  "demo_positions current_fdb initial_fdb displ target =
     for_rangeM (length (jvalues current_fdb))
       (\<lambda>i p. do { v \<leftarrow> get_at (jvalues initial_fdb) i; set_values i (v + displ) p }) target"

definition demo_velocities :: "Joints \<Rightarrow> double \<Rightarrow> Joints \<Rightarrow> Joints option" where
  "demo_velocities current_fdb speed vel =
     for_rangeM (length (jvalues current_fdb)) (\<lambda>i v. set_values i speed v) vel"

definition demo_JointSpace :: "JointSpace \<Rightarrow> JointSpace \<Rightarrow> double \<Rightarrow> double \<Rightarrow> JointSpace \<Rightarrow> JointSpace option" where
  "demo_JointSpace current_fdb initial_fdb displ speed j = do {
     p \<leftarrow> demo_positions (js_position_of current_fdb) (js_position_of initial_fdb) displ (js_position_of j);
     v \<leftarrow> demo_velocities (js_velocity_of current_fdb) speed (js_velocity_of j);
     Some (j\<lparr>js_position := Some p, js_velocity := Some v\<rparr>) }"

definition generateDemoQuaternions :: "InputContainer \<Rightarrow> double \<Rightarrow> CartesianPose \<Rightarrow> CartesianPose" where
  "generateDemoQuaternions ic t pose =
     (let q1 = pose_quaternion_of (cs_pose_of (rob_cartesian_of (fb_robot_of (in_feedback_of (ic_initial ic)))));
          e = default_Euler\<lparr>ex := Some (- Fin 90), ey := Some (Fin 0), ez := Some (Fin 180)\<rparr>;
          q = convert_Quaternion default_Quaternion e;
          q2 = (if dotProduct q q1 < Fin 0
                then q\<lparr>u0 := Some (- u0_of q), u1 := Some (- u1_of q), u2 := Some (- u2_of q),
                       u3 := Some (- u3_of q)\<rparr>
                else q);
          dot_prod = u0_of q1 * u0_of q2 + u1_of q1 * u1_of q2 + u2_of q1 * u2_of q2 + u3_of q1 * u3_of q2;
          omega = facos dot_prod;
          k = Fin 1 / fsin omega;
          a = fsin ((Fin 1 - t) * omega) * k;
          b = fsin (t * omega) * k;
          q3_u0 = a * u0_of q1 + b * u0_of q2;
          q3_u1 = a * u1_of q1 + b * u1_of q2;
          q3_u2 = a * u2_of q1 + b * u2_of q2;
          q3_u3 = a * u3_of q1 + b * u3_of q2;
          norm = fsqrt (q3_u0 * q3_u0 + q3_u1 * q3_u1 + q3_u2 * q3_u2 + q3_u3 * q3_u3);
          pose1 = pose_quaternion_mut (\<lambda>p.
            p\<lparr>u0 := Some (q3_u0 / norm), u1 := Some (q3_u1 / norm), u2 := Some (q3_u2 / norm),
              u3 := Some (q3_u3 / norm)\<rparr>) pose
      in pose_euler_mut (\<lambda>e. convert_Euler e (pose_quaternion_of pose1)) pose1)"

definition demo_pose :: "InputContainer \<Rightarrow> u32 \<Rightarrow> double \<Rightarrow> CartesianPose \<Rightarrow> CartesianPose" where
  "demo_pose ic seq TS pose =
     (let initial = pose_position_of (cs_pose_of (rob_cartesian_of (fb_robot_of (in_feedback_of (ic_initial ic)))));
          amplitude = Fin 200;
          a = amplitude / Fin 2;
          b = M_PI * TS;
          freq = Fin 0.2;
          x_dist = a * (fcos (Fin 0.25 * b * of_u32 seq * freq + M_PI) + Fin 1);
          y_dist = x_dist;
          z_dist = a / Fin 2 * fcos (Fin 0.5 * b * of_u32 seq * freq + Fin 1.5 * M_PI);
          pose1 = pose_position_mut (\<lambda>p.
            p\<lparr>cx := Some (cx_of initial + x_dist), cy := Some (cy_of initial + y_dist),
              cz := Some (cz_of initial + z_dist)\<rparr>) pose;
          t = Fin 0.5 * (fcos (Fin 0.25 * b * of_u32 seq * freq + M_PI) + Fin 1)
      in generateDemoQuaternions ic t pose1)"

definition generateDemoOutputs :: "InputContainer \<Rightarrow> OutputContainer \<Rightarrow> OutputContainer option" where
  "generateDemoOutputs ic oc =
     (let seq = oc_sequence_number oc;
          TS = ic_estimated_sample_time ic;
          initial = in_feedback_of (ic_initial ic); current = in_feedback_of (ic_current ic);
          out = oc_current oc;
          (displ, speed_displ) = demo_joint_motion seq TS
      in do {
        rj \<leftarrow> demo_JointSpace (rob_joints_of (fb_robot_of current)) (rob_joints_of (fb_robot_of initial))
                displ speed_displ (rob_joints_of (out_robot_of out));
        ej \<leftarrow> demo_JointSpace (ext_joints_of (fb_external_of current)) (ext_joints_of (fb_external_of initial))
                displ speed_displ (ext_joints_of (out_external_of out));
        let out1 = out_external_mut (ext_joints_mut (\<lambda>_. ej)) (out_robot_mut (rob_joints_mut (\<lambda>_. rj)) out);
        Some (oc\<lparr>oc_current :=
          out_robot_mut (rob_cartesian_mut (cs_pose_mut (demo_pose ic seq TS))) out1\<rparr>)
      })"

section \<open>The reply\<close>

definition constructHeader :: "OutputContainer \<Rightarrow> OutputContainer" where
  "constructHeader oc =
     oc\<lparr>oc_egm_sensor := sns_header_mut (\<lambda>h.
          h\<lparr>seqno := Some (oc_sequence_number oc), tm := Some 0, mtype := Some MSGTYPE_CORRECTION\<rparr>)
          (oc_egm_sensor oc)\<rparr>"

text \<open>\<open>mutable_joints()->add_joints(v)\<close>, and a loop of it over the first values of a list.\<close>

definition add_joint :: "double \<Rightarrow> EgmJoints option \<Rightarrow> EgmJoints option" where
  "add_joint v = mut default_EgmJoints (ej_joints_update (\<lambda>vs. vs @ [v]))"

definition add_joints :: "nat \<Rightarrow> double list \<Rightarrow> EgmJoints option \<Rightarrow> EgmJoints option" where
  "add_joints n vs f = for_range n (\<lambda>i. add_joint (vs ! i)) f"

text \<open>
  The switch on the axes, the same for positions and velocities: the result and the two cleared and
  refilled fields. The reads of \<open>values(i)\<close> are guarded by the checks on the sizes.
\<close>

definition map_axes :: "RobotAxes \<Rightarrow> double list \<Rightarrow> double list \<Rightarrow> bool \<times> EgmJoints option \<times> EgmJoints option" where
  "map_axes ax r e =
     (let rob_condition = DEFAULT_NUMBER_OF_ROBOT_JOINTS; ext_condition = DEFAULT_NUMBER_OF_EXTERNAL_JOINTS in
      case ax of
        NoAxes \<Rightarrow>
          if length r = 0 then (True, None, add_joints (min (length e) ext_condition) e None)
          else (False, None, None)
      | Six \<Rightarrow>
          if length r = rob_condition
          then (True, add_joints (length r) r None, add_joints (min (length e) ext_condition) e None)
          else (False, None, None)
      | Seven \<Rightarrow>
          if length r = rob_condition + 1
          then (True,
                add_joint (r ! 6) (add_joint (r ! 5) (add_joint (r ! 4) (add_joint (r ! 3)
                  (add_joint (r ! 1) (add_joint (r ! 0) None))))),
                add_joints (min (length e) (ext_condition - 1)) e (add_joint (r ! 2) None))
          else (False, None, None))"

definition constructJointBody :: "BaseConfiguration \<Rightarrow> OutputContainer \<Rightarrow> bool \<times> OutputContainer" where
  "constructJointBody configuration oc =
     (let rj = rob_joints_of (out_robot_of (oc_current oc));
          ej = ext_joints_of (out_external_of (oc_current oc));
          positions =
            (if has (js_position rj)
             then
               if \<not> verify_Joints (js_position_of rj) \<or> \<not> verify_Joints (js_position_of ej)
               then None
               else
                 let (ok, j, e) = map_axes (axes configuration) (jvalues (js_position_of rj)) (jvalues (js_position_of ej))
                 in Some (ok, sns_planned_mut (\<lambda>p. p\<lparr>epl_joints := j, epl_externalJoints := e\<rparr>) (oc_egm_sensor oc))
             else Some (False, oc_egm_sensor oc))
      in case positions of
           None \<Rightarrow> (False, oc)
         | Some (position_ok, s1) \<Rightarrow>
             if use_velocity_outputs configuration \<and> has (js_velocity rj)
             then
               if \<not> verify_Joints (js_velocity_of rj) \<or> \<not> verify_Joints (js_velocity_of ej)
               then (False, oc\<lparr>oc_egm_sensor := s1\<rparr>)
               else
                 let (ok, j, e) = map_axes (axes configuration) (jvalues (js_velocity_of rj)) (jvalues (js_velocity_of ej));
                     s2 = sns_speedRef_mut (\<lambda>p. p\<lparr>sref_joints := j, sref_externalJoints := e\<rparr>) s1;
                     speed_ok = (\<not> use_velocity_outputs configuration \<or> ok)
                 in (position_ok \<and> speed_ok, oc\<lparr>oc_egm_sensor := s2\<rparr>)
             else (position_ok \<and> \<not> use_velocity_outputs configuration, oc\<lparr>oc_egm_sensor := s1\<rparr>))"

definition planned_pose :: "CartesianPose \<Rightarrow> EgmPose option" where
  "planned_pose pose =
     (let f1 = (if has (pose_position pose)
                then mut default_EgmPose (pos_mut (\<lambda>c.
                  c\<lparr>ecx := Some (cx_of (pose_position_of pose)), ecy := Some (cy_of (pose_position_of pose)),
                    ecz := Some (cz_of (pose_position_of pose))\<rparr>)) None
                else None);
          f2 = (if has (pose_euler pose)
                then mut default_EgmPose (epose_euler_mut (\<lambda>e.
                  e\<lparr>eex := Some (ex_of (pose_euler_of pose)), eey := Some (ey_of (pose_euler_of pose)),
                    eez := Some (ez_of (pose_euler_of pose))\<rparr>)) f1
                else f1)
      in if has (pose_quaternion pose)
         then mut default_EgmPose (orient_mut (\<lambda>q.
                q\<lparr>equ0 := Some (u0_of (pose_quaternion_of pose)), equ1 := Some (u1_of (pose_quaternion_of pose)),
                  equ2 := Some (u2_of (pose_quaternion_of pose)), equ3 := Some (u3_of (pose_quaternion_of pose))\<rparr>)) f2
         else f2)"

definition cartesian_speed :: "CartesianVelocity \<Rightarrow> EgmCartesianSpeed option" where
  "cartesian_speed v =
     (let l = (if has (linear v) then [cx_of (linear_of v), cy_of (linear_of v), cz_of (linear_of v)]
               else [Fin 0, Fin 0, Fin 0]);
          a = (if has (angular v) then [ex_of (angular_of v), ey_of (angular_of v), ez_of (angular_of v)]
               else [Fin 0, Fin 0, Fin 0])
      in Some \<lparr>cspeed_value = l @ a\<rparr>)"

definition constructCartesianBody :: "BaseConfiguration \<Rightarrow> OutputContainer \<Rightarrow> bool \<times> OutputContainer" where
  "constructCartesianBody configuration oc =
     (let rc = rob_cartesian_of (out_robot_of (oc_current oc));
          positions =
            (if has (cs_pose rc)
             then
               if \<not> verify_CartesianPose (cs_pose_of rc) then None
               else Some (True, sns_planned_mut (\<lambda>p. p\<lparr>epl_cartesian := planned_pose (cs_pose_of rc)\<rparr>) (oc_egm_sensor oc))
             else Some (False, oc_egm_sensor oc))
      in case positions of
           None \<Rightarrow> (False, oc)
         | Some (position_ok, s1) \<Rightarrow>
             if use_velocity_outputs configuration \<and> has (cs_velocity rc)
             then
               if \<not> verify_CartesianVelocity (cs_velocity_of rc) then (False, oc\<lparr>oc_egm_sensor := s1\<rparr>)
               else (position_ok, oc\<lparr>oc_egm_sensor :=
                 sns_speedRef_mut (\<lambda>p. p\<lparr>sref_cartesians := cartesian_speed (cs_velocity_of rc)\<rparr>) s1\<rparr>)
             else (position_ok \<and> \<not> use_velocity_outputs configuration, oc\<lparr>oc_egm_sensor := s1\<rparr>))"

definition constructReply :: "encoder \<Rightarrow> BaseConfiguration \<Rightarrow> OutputContainer \<Rightarrow> OutputContainer" where
  "constructReply enc configuration oc =
     (let (s1, oc1) = constructJointBody configuration (constructHeader oc);
          (s2, oc2) = (if s1 \<and> axes configuration \<noteq> NoAxes then constructCartesianBody configuration oc1
                       else (s1, oc1));
          (s3, oc3) = (if s2 then let (ok, bs) = enc (oc_egm_sensor oc2) in (ok, oc2\<lparr>oc_reply := bs\<rparr>)
                       else (s2, oc2))
      in if \<not> s3 then oc3\<lparr>oc_reply := []\<rparr> else oc3)"

definition updatePrevious_outputs :: "OutputContainer \<Rightarrow> OutputContainer" where
  "updatePrevious_outputs oc = oc\<lparr>oc_previous := oc_current oc\<rparr>"

definition clearReply :: "OutputContainer \<Rightarrow> OutputContainer" where
  "clearReply oc = oc\<lparr>oc_reply := []\<rparr>"

section \<open>Joint values of the reply\<close>

abbreviation ej_of :: "EgmJoints option \<Rightarrow> double list" where
  "ej_of f \<equiv> ej_joints (getd default_EgmJoints f)"

lemma add_joint_values [simp]: "ej_of (add_joint v f) = ej_of f @ [v]"
  by (simp add: add_joint_def)

lemma add_joints_values [simp]: "n \<le> length vs \<Longrightarrow> ej_of (add_joints n vs f) = ej_of f @ take n vs"
  unfolding add_joints_def by (induction n) (auto simp: take_Suc_conv_app_nth)

definition axes_fit :: "RobotAxes \<Rightarrow> double list \<Rightarrow> bool" where
  "axes_fit ax r = (case ax of NoAxes \<Rightarrow> r = [] | Six \<Rightarrow> length r = 6 | Seven \<Rightarrow> length r = 7)"

definition ext_capacity :: "RobotAxes \<Rightarrow> nat" where
  "ext_capacity ax = (case ax of Seven \<Rightarrow> 5 | _ \<Rightarrow> 6)"

lemma map_axes_ok: "fst (map_axes ax r e) \<longleftrightarrow> axes_fit ax r"
  by (auto simp: map_axes_def Let_def axes_fit_def joint_counts split: RobotAxes.split)

lemma map_axes_subset:
  "set (ej_of (fst (snd (map_axes ax r e)))) \<union> set (ej_of (snd (snd (map_axes ax r e)))) \<subseteq> set r \<union> set e"
  by (auto simp: map_axes_def Let_def joint_counts dest: in_set_takeD split: RobotAxes.split)

lemma list6: "length r = 6 \<Longrightarrow> r = [r ! 0, r ! 1, r ! 2, r ! 3, r ! 4, r ! 5]"
  by (rule nth_equalityI) (auto simp: less_Suc_eq eval_nat_numeral)

lemma list7: "length r = 7 \<Longrightarrow> r = [r ! 0, r ! 1, r ! 2, r ! 3, r ! 4, r ! 5, r ! 6]"
  by (rule nth_equalityI) (auto simp: less_Suc_eq eval_nat_numeral)

lemma map_nth_tl: "map (\<lambda>i. xs ! i) [1..<length xs] = tl xs"
  by (rule nth_equalityI) (auto simp: nth_tl)

lemma parse_Joints_Seven:
  "length (ej_joints r) = 6 \<Longrightarrow> ej_joints e \<noteq> [] \<Longrightarrow> parse_Joints r e Seven =
     (True, \<lparr>jvalues = [ej_joints r ! 0, ej_joints r ! 1, ej_joints e ! 0, ej_joints r ! 2, ej_joints r ! 3,
        ej_joints r ! 4, ej_joints r ! 5]\<rparr>, \<lparr>jvalues = tl (ej_joints e)\<rparr>)"
  by (simp add: parse_Joints_def Let_def joint_counts map_nth_tl [symmetric] Suc_le_eq del: map_nth_tl)

lemma map_axes_parse:
  assumes "axes_fit ax r" "length e \<le> ext_capacity ax"
  shows "parse_Joints (getd default_EgmJoints (fst (snd (map_axes ax r e))))
    (getd default_EgmJoints (snd (snd (map_axes ax r e)))) ax = (True, \<lparr>jvalues = r\<rparr>, \<lparr>jvalues = e\<rparr>)"
proof (cases ax)
  case Seven
  with assms have "length r = 7" "length e \<le> 5" by (simp_all add: axes_fit_def ext_capacity_def)
  with Seven show ?thesis
    using list7 [of r] by (simp add: parse_Joints_Seven map_axes_def joint_counts)
qed (use assms in \<open>simp_all add: parse_Joints_def map_axes_def Let_def axes_fit_def ext_capacity_def joint_counts\<close>)

text \<open>
  What \<open>constructJointBody\<close> encodes for the robot, \<open>parse\<close> of the same message format decodes: when
  the output positions are finite and fit the configured axes (six external joints, five for a seven-axes
  robot, whose third joint travels as an external joint), the joint part succeeds and decoding its planned
  joints for the same axes gives back exactly the robot's and the external positions.
\<close>

theorem joint_body_roundtrip:
  assumes "rob_joints_of (out_robot_of (oc_current oc)) = \<lparr>js_position = Some \<lparr>jvalues = r\<rparr>, js_velocity = None\<rparr>"
    and "ext_joints_of (out_external_of (oc_current oc)) = \<lparr>js_position = Some \<lparr>jvalues = e\<rparr>, js_velocity = None\<rparr>"
    and "\<forall>v \<in> set r \<union> set e. is_fin v"
    and "axes_fit (axes configuration) r" "length e \<le> ext_capacity (axes configuration)"
    and "\<not> use_velocity_outputs configuration"
  shows "\<exists>oc'. constructJointBody configuration oc = (True, oc') \<and>
    parse_Joints (epl_joints_of (sns_planned_of (oc_egm_sensor oc')))
      (epl_externalJoints_of (sns_planned_of (oc_egm_sensor oc'))) (axes configuration)
    = (True, \<lparr>jvalues = r\<rparr>, \<lparr>jvalues = e\<rparr>)"
  using assms map_axes_parse [OF assms(4,5)]
  by (auto simp: constructJointBody_def Let_def case_prod_beta map_axes_ok)

definition sample_output :: "double list \<Rightarrow> double list \<Rightarrow> Output" where
  "sample_output r e = default_Output
     \<lparr>out_robot := Some (default_Robot\<lparr>rob_joints := Some \<lparr>js_position = Some \<lparr>jvalues = r\<rparr>, js_velocity = None\<rparr>\<rparr>),
      out_external := Some \<lparr>ext_joints = Some \<lparr>js_position = Some \<lparr>jvalues = e\<rparr>, js_velocity = None\<rparr>\<rparr>\<rparr>"

theorem joint_body_roundtrip_witness:
  "\<exists>oc'. constructJointBody (default_BaseConfiguration\<lparr>axes := Seven\<rparr>)
       (init_OutputContainer\<lparr>oc_current := sample_output (map (Fin \<circ> of_nat) [0..<7]) [Fin 8, Fin 9]\<rparr>) = (True, oc') \<and>
    parse_Joints (epl_joints_of (sns_planned_of (oc_egm_sensor oc')))
      (epl_externalJoints_of (sns_planned_of (oc_egm_sensor oc'))) Seven
    = (True, \<lparr>jvalues = map (Fin \<circ> of_nat) [0..<7]\<rparr>, \<lparr>jvalues = [Fin 8, Fin 9]\<rparr>)"
  using joint_body_roundtrip [of "init_OutputContainer\<lparr>oc_current := sample_output (map (Fin \<circ> of_nat) [0..<7]) [Fin 8, Fin 9]\<rparr>"
      "map (Fin \<circ> of_nat) [0..<7]" "[Fin 8, Fin 9]" "default_BaseConfiguration\<lparr>axes := Seven\<rparr>"]
  by (simp add: sample_output_def axes_fit_def ext_capacity_def default_BaseConfiguration_def)

section \<open>Only finite values are sent\<close>

definition fin_values :: "double list \<Rightarrow> bool" where
  "fin_values vs \<longleftrightarrow> (\<forall>v \<in> set vs. is_fin v)"

definition fin_EgmPose :: "EgmPose \<Rightarrow> bool" where
  "fin_EgmPose p \<longleftrightarrow>
     fin_values [ecx_of (pos_of p), ecy_of (pos_of p), ecz_of (pos_of p), equ0_of (orient_of p), equ1_of (orient_of p),
       equ2_of (orient_of p), equ3_of (orient_of p), eex_of (epose_euler_of p), eey_of (epose_euler_of p),
       eez_of (epose_euler_of p)]"

definition fin_planned :: "EgmPlanned \<Rightarrow> bool" where
  "fin_planned p \<longleftrightarrow> fin_values (ej_of (epl_joints p)) \<and> fin_values (ej_of (epl_externalJoints p)) \<and>
     fin_EgmPose (epl_cartesian_of p)"

definition fin_speedRef :: "EgmSpeedRef \<Rightarrow> bool" where
  "fin_speedRef p \<longleftrightarrow> fin_values (ej_of (sref_joints p)) \<and> fin_values (ej_of (sref_externalJoints p)) \<and>
     fin_values (cspeed_value (sref_cartesians_of p))"

definition sensor_finite :: "EgmSensor \<Rightarrow> bool" where
  "sensor_finite s \<longleftrightarrow> fin_planned (sns_planned_of s) \<and> fin_speedRef (sns_speedRef_of s)"

lemma sensor_finite_default [simp]: "sensor_finite default_EgmSensor"
  by (simp add: sensor_finite_def fin_planned_def fin_speedRef_def fin_values_def fin_EgmPose_def)

lemma sensor_finite_header [simp]: "sensor_finite (sns_header_mut f s) = sensor_finite s"
  by (simp add: sensor_finite_def)

lemma map_axes_finite:
  assumes "verify_Joints r" "verify_Joints e"
  shows "fin_values (ej_of (fst (snd (map_axes ax (jvalues r) (jvalues e)))))"
    "fin_values (ej_of (snd (snd (map_axes ax (jvalues r) (jvalues e)))))"
  using assms map_axes_subset [of ax "jvalues r" "jvalues e"] by (auto simp: fin_values_def)

lemma fin_planned_pose: "verify_CartesianPose p \<Longrightarrow> fin_EgmPose (getd default_EgmPose (planned_pose p))"
  by (simp add: planned_pose_def Let_def fin_EgmPose_def fin_values_def fin_Cartesian_def fin_Euler_def fin_Quaternion_def)

lemma fin_cartesian_speed:
  "verify_CartesianVelocity v \<Longrightarrow> fin_values (cspeed_value (getd default_EgmCartesianSpeed (cartesian_speed v)))"
  by (auto simp: cartesian_speed_def Let_def fin_values_def fin_Cartesian_def fin_Euler_def)

lemma constructJointBody_finite:
  "sensor_finite (oc_egm_sensor oc) \<Longrightarrow> sensor_finite (oc_egm_sensor (snd (constructJointBody c oc)))"
  by (auto simp: constructJointBody_def Let_def case_prod_beta sensor_finite_def fin_planned_def fin_speedRef_def
      map_axes_finite simp del: verify_Joints_iff)

lemma constructCartesianBody_finite:
  "sensor_finite (oc_egm_sensor oc) \<Longrightarrow> sensor_finite (oc_egm_sensor (snd (constructCartesianBody c oc)))"
  by (auto simp: constructCartesianBody_def Let_def sensor_finite_def fin_planned_def fin_speedRef_def
      fin_planned_pose fin_cartesian_speed simp del: verify_CartesianPose_iff verify_CartesianVelocity_iff)

lemma constructReply_finite:
  "sensor_finite (oc_egm_sensor oc) \<Longrightarrow> sensor_finite (oc_egm_sensor (constructReply enc c oc))"
  by (auto simp: constructReply_def Let_def case_prod_beta constructHeader_def
      intro!: constructJointBody_finite constructCartesianBody_finite)

lemma constructReply_encoded:
  "oc_reply (constructReply enc c oc) \<noteq> [] \<Longrightarrow>
     enc (oc_egm_sensor (constructReply enc c oc)) = (True, oc_reply (constructReply enc c oc))"
  by (auto simp: constructReply_def Let_def split: prod.splits if_splits)

lemma constructBody_current [simp]:
  "oc_current (snd (constructJointBody c oc)) = oc_current oc" "oc_current (snd (constructCartesianBody c oc)) = oc_current oc"
  by (simp_all add: constructJointBody_def constructCartesianBody_def Let_def case_prod_beta)

lemma constructReply_current [simp]: "oc_current (constructReply enc c oc) = oc_current oc"
  by (simp add: constructReply_def constructHeader_def Let_def case_prod_beta)

text \<open>
  A reply never carries a NaN or an infinity: if the sensor message the container holds is finite (the
  initial one is), then so is the one \<open>constructReply\<close> leaves, on every branch and for every
  configuration, and a non-empty reply is the encoding of that message.
\<close>

theorem reply_values_finite:
  assumes "sensor_finite (oc_egm_sensor oc)"
  shows "sensor_finite (oc_egm_sensor (constructReply enc c oc)) \<and>
    (oc_reply (constructReply enc c oc) \<noteq> [] \<longrightarrow>
       enc (oc_egm_sensor (constructReply enc c oc)) = (True, oc_reply (constructReply enc c oc)))"
  using assms constructReply_finite constructReply_encoded by blast

text \<open>An encoder for the concrete instances: one byte per robot joint, after a first one.\<close>

definition sample_encoder :: encoder where
  "sample_encoder s = (True, 1 # map (\<lambda>_. 2) (ej_of (epl_joints (sns_planned_of s))))"

theorem reply_values_finite_witness:
  "sensor_finite (oc_egm_sensor (constructReply sample_encoder default_BaseConfiguration
     (init_OutputContainer\<lparr>oc_current := sample_output (replicate 6 NaN) []\<rparr>)))"
  using reply_values_finite [of "init_OutputContainer\<lparr>oc_current := sample_output (replicate 6 NaN) []\<rparr>"
      sample_encoder default_BaseConfiguration]
  by (simp add: init_OutputContainer_def)

text \<open>
  The speed reference of the sensor message is never cleared: with velocity outputs switched off, a
  reply still carries the speed reference of the last reply that had them on.
\<close>

theorem stale_speed_reference:
  assumes "\<not> use_velocity_outputs c"
  shows "sns_speedRef (oc_egm_sensor (constructReply enc c oc)) = sns_speedRef (oc_egm_sensor oc)"
  using assms
  by (auto simp: constructReply_def constructJointBody_def constructCartesianBody_def constructHeader_def Let_def
      split: prod.splits if_splits)

theorem stale_speed_reference_witness:
  "sns_speedRef (oc_egm_sensor (constructReply sample_encoder default_BaseConfiguration
     (init_OutputContainer\<lparr>oc_current := sample_output (replicate 6 (Fin 1)) [],
        oc_egm_sensor := default_EgmSensor\<lparr>sns_speedRef := Some (default_EgmSpeedRef
          \<lparr>sref_joints := Some \<lparr>ej_joints = replicate 6 (Fin 9)\<rparr>\<rparr>)\<rparr>\<rparr>)))
   = Some (default_EgmSpeedRef\<lparr>sref_joints := Some \<lparr>ej_joints = replicate 6 (Fin 9)\<rparr>\<rparr>)"
  by (simp add: stale_speed_reference default_BaseConfiguration_def)

section \<open>Demo outputs\<close>

lemma demo_displacement:
  assumes "0 < T"
  shows "\<exists>d. fst (demo_joint_motion n (Fin T)) = Fin d \<and> \<bar>d\<bar> \<le> 2"
proof -
  have c: "\<bar>2 * cos x\<bar> \<le> 2" "\<bar>cos x - 1\<bar> \<le> 2" for x :: real
    using abs_cos_le_one [of x] by linarith+
  show ?thesis
    by (simp add: demo_joint_motion_def Let_def M_PI_def of_u32_def c)
qed

lemma demo_positions_Some:
  assumes "length (jvalues initial) = length (jvalues cur)" "length (jvalues target) = length (jvalues cur)"
  shows "demo_positions cur initial d target = Some \<lparr>jvalues = map (\<lambda>v. v + d) (jvalues initial)\<rparr>"
proof -
  have "for_rangeM n (\<lambda>i p. do { v \<leftarrow> get_at (jvalues initial) i; set_values i (v + d) p }) target
      = Some (target\<lparr>jvalues := map (\<lambda>v. v + d) (take n (jvalues initial)) @ drop n (jvalues target)\<rparr>)"
    if "n \<le> length (jvalues cur)" for n
    using that
  proof (induction n)
    case 0
    then show ?case by simp
  next
    case (Suc n)
    then show ?case
      using assms by (simp add: set_values_def list_update_append take_Suc_conv_app_nth min_def
          flip: Cons_nth_drop_Suc)
  qed
  from this [OF le_refl] assms show ?thesis by (simp add: demo_positions_def)
qed

lemma demo_velocities_Some:
  assumes "length (jvalues target) = length (jvalues cur)"
  shows "demo_velocities cur w target = Some \<lparr>jvalues = replicate (length (jvalues cur)) w\<rparr>"
proof -
  have "for_rangeM n (\<lambda>i v. set_values i w v) target
      = Some (target\<lparr>jvalues := replicate n w @ drop n (jvalues target)\<rparr>)" if "n \<le> length (jvalues cur)" for n
    using that
  proof (induction n)
    case 0
    then show ?case by simp
  next
    case (Suc n)
    then show ?case
      using assms by (simp add: set_values_def list_update_append replicate_append_same flip: Cons_nth_drop_Suc)
  qed
  from this [OF le_refl] assms show ?thesis by (simp add: demo_velocities_def)
qed

definition same_sizes :: "JointSpace \<Rightarrow> JointSpace \<Rightarrow> JointSpace \<Rightarrow> bool" where
  "same_sizes cur initial target \<longleftrightarrow>
     length (jvalues (js_position_of initial)) = length (jvalues (js_position_of cur)) \<and>
     length (jvalues (js_position_of target)) = length (jvalues (js_position_of cur)) \<and>
     length (jvalues (js_velocity_of target)) = length (jvalues (js_velocity_of cur))"

definition out_robot_joints :: "OutputContainer \<Rightarrow> JointSpace" where
  "out_robot_joints oc = rob_joints_of (out_robot_of (oc_current oc))"

definition out_external_joints :: "OutputContainer \<Rightarrow> JointSpace" where
  "out_external_joints oc = ext_joints_of (out_external_of (oc_current oc))"

lemma demo_JointSpace_Some:
  "same_sizes cur initial target \<Longrightarrow> demo_JointSpace cur initial d w target =
     Some (target\<lparr>js_position := Some \<lparr>jvalues = map (\<lambda>v. v + d) (jvalues (js_position_of initial))\<rparr>,
       js_velocity := Some \<lparr>jvalues = replicate (length (jvalues (js_velocity_of cur))) w\<rparr>\<rparr>)"
  by (simp add: demo_JointSpace_def same_sizes_def demo_positions_Some demo_velocities_Some)

text \<open>
  C31: The demo motion stays within two degrees: while the joint counts of the first message, of the current
  one and of the outputs agree, \<open>generateDemoOutputs\<close> makes no access out of range and sets every joint
  of the robot and of the external axes to its initial position plus one common displacement of at most 2,
  at every sequence number and sample time.
\<close>

theorem demo_outputs_bounded:
  assumes "same_sizes (fb_robot_joints (ic_current ic)) (fb_robot_joints (ic_initial ic)) (out_robot_joints oc)"
    and "same_sizes (fb_external_joints (ic_current ic)) (fb_external_joints (ic_initial ic)) (out_external_joints oc)"
    and "ic_estimated_sample_time ic = Fin T" "0 < T"
  shows "\<exists>oc' d. generateDemoOutputs ic oc = Some oc' \<and> \<bar>d\<bar> \<le> 2 \<and>
    jvalues (js_position_of (out_robot_joints oc')) =
      map (\<lambda>v. v + Fin d) (jvalues (js_position_of (fb_robot_joints (ic_initial ic)))) \<and>
    jvalues (js_position_of (out_external_joints oc')) =
      map (\<lambda>v. v + Fin d) (jvalues (js_position_of (fb_external_joints (ic_initial ic))))"
proof -
  obtain d where d: "fst (demo_joint_motion (oc_sequence_number oc) (Fin T)) = Fin d" "\<bar>d\<bar> \<le> 2"
    using demo_displacement [OF assms(4)] by blast
  with assms(1-3) show ?thesis
    by (simp add: generateDemoOutputs_def Let_def case_prod_beta out_robot_joints_def out_external_joints_def
        joint_views demo_JointSpace_Some) blast
qed

definition sample_input :: "double list \<Rightarrow> double list \<Rightarrow> Input" where
  "sample_input r e = default_Input\<lparr>in_feedback := Some (default_Feedback
     \<lparr>fb_robot := Some (default_Robot\<lparr>rob_joints := Some \<lparr>js_position = Some \<lparr>jvalues = r\<rparr>, js_velocity = None\<rparr>\<rparr>),
      fb_external := Some \<lparr>ext_joints = Some \<lparr>js_position = Some \<lparr>jvalues = e\<rparr>, js_velocity = None\<rparr>\<rparr>\<rparr>)\<rparr>"

theorem demo_outputs_bounded_witness:
  "\<exists>oc' d. generateDemoOutputs
       (init_InputContainer\<lparr>ic_initial := sample_input [Fin 1, Fin 2] [Fin 3], ic_current := sample_input [Fin 4, Fin 5] [Fin 6]\<rparr>)
       (init_OutputContainer\<lparr>oc_sequence_number := 900, oc_current := sample_output [Fin 0, Fin 0] [Fin 0]\<rparr>) = Some oc'
    \<and> \<bar>d\<bar> \<le> 2
    \<and> jvalues (js_position_of (out_robot_joints oc')) = [Fin (1 + d), Fin (2 + d)]
    \<and> jvalues (js_position_of (out_external_joints oc')) = [Fin (3 + d)]"
  using demo_outputs_bounded [of "init_InputContainer\<lparr>ic_initial := sample_input [Fin 1, Fin 2] [Fin 3],
        ic_current := sample_input [Fin 4, Fin 5] [Fin 6]\<rparr>"
      "init_OutputContainer\<lparr>oc_sequence_number := 900, oc_current := sample_output [Fin 0, Fin 0] [Fin 0]\<rparr>" "0.004"]
  by (simp add: joint_views out_robot_joints_def out_external_joints_def sample_input_def sample_output_def
      same_sizes_def init_InputContainer_def LOWEST_SAMPLE_TIME_def)

section \<open>Preparation holds the robot\<close>

lemma zero_velocities_values:
  "jvalues (js_velocity_of (zero_velocities n j)) = replicate n (Fin 0)"
  "js_position (zero_velocities n j) = js_position j"
  unfolding zero_velocities_def by (induction n) (auto simp: replicate_append_same)

text \<open>
  The first message of a session makes the outputs hold the robot where it is: the sequence number
  restarts at 0, the output positions are the feedback positions, the output velocities are zero, and the
  previous outputs are the same; a later message only counts the sequence number up, modulo 2 to the 32.
\<close>

theorem prepare_outputs_hold:
  "if ic_first_message ic
   then oc_sequence_number (prepareOutputs ic oc) = 0
     \<and> js_position_of (out_robot_joints (prepareOutputs ic oc)) = js_position_of (fb_robot_joints (ic_current ic))
     \<and> js_position_of (out_external_joints (prepareOutputs ic oc)) = js_position_of (fb_external_joints (ic_current ic))
     \<and> jvalues (js_velocity_of (out_robot_joints (prepareOutputs ic oc)))
         = replicate (length (jvalues (js_velocity_of (fb_robot_joints (ic_current ic))))) (Fin 0)
     \<and> jvalues (js_velocity_of (out_external_joints (prepareOutputs ic oc)))
         = replicate (length (jvalues (js_velocity_of (fb_external_joints (ic_current ic))))) (Fin 0)
     \<and> oc_previous (prepareOutputs ic oc) = oc_current (prepareOutputs ic oc)
   else prepareOutputs ic oc = oc\<lparr>oc_sequence_number := oc_sequence_number oc + 1\<rparr>"
proof (cases "ic_first_message ic")
  case True
  then show ?thesis
    by (simp add: prepareOutputs_def Let_def out_robot_joints_def out_external_joints_def joint_views
        zero_velocities_values)
next
  case False
  then show ?thesis
    by (simp add: prepareOutputs_def Let_def)
qed

end
