(* ===== verification/EGM_Logger.thy ===== *)
theory EGM_Logger
  imports EGM_Common
begin

text \<open>
  \<open>egm_logger.h\<close> and \<open>egm_logger.cpp\<close>: the CSV logger. The stream is the list of items inserted into it:
  literal text, unsigned integers and floating-point numbers; how the standard library prints a number is
  not modelled. The lemmas count the fields of a row.
\<close>

section \<open>Data\<close>

datatype log_item = Lit string | UInt u32 | Dbl double

record EGMLogger =
  lg_number_of_logged_messages :: u32
  lg_stream :: "log_item list"

definition put :: "log_item list \<Rightarrow> EGMLogger \<Rightarrow> EGMLogger" where
  "put items lg = lg\<lparr>lg_stream := lg_stream lg @ items\<rparr>"

section \<open>Operations\<close>

definition robot_feedback_headers :: string where
  "robot_feedback_headers =
     ''R_FB_POS_RJ1,R_FB_POS_RJ2,R_FB_POS_RJ3,R_FB_POS_RJ4,R_FB_POS_RJ5,R_FB_POS_RJ6,'' @
     ''R_FB_POS_EJ1,R_FB_POS_EJ2,R_FB_POS_EJ3,R_FB_POS_EJ4,R_FB_POS_EJ5,R_FB_POS_EJ6,'' @
     ''R_FB_VEL_RJ1,R_FB_VEL_RJ2,R_FB_VEL_RJ3,R_FB_VEL_RJ4,R_FB_VEL_RJ5,R_FB_VEL_RJ6,'' @
     ''R_FB_VEL_EJ1,R_FB_VEL_EJ2,R_FB_VEL_EJ3,R_FB_VEL_EJ4,R_FB_VEL_EJ5,R_FB_VEL_EJ6,'' @
     ''R_FB_POS_X,R_FB_POS_Y,R_FB_POS_Z,'' @
     ''R_FB_EULER_X,R_FB_EULER_Y,R_FB_EULER_Z,'' @
     ''R_FB_QUAT_U0,R_FB_QUAT_U1,R_FB_QUAT_U2,R_FB_QUAT_U3,'' @
     ''R_FB_VEL_LX,R_FB_VEL_LY,R_FB_VEL_LZ,'' @
     ''R_FB_VEL_AX,R_FB_VEL_AY,R_FB_VEL_AZ,''"

definition robot_planned_headers :: string where
  "robot_planned_headers =
     ''R_PL_POS_RJ1,R_PL_POS_RJ2,R_PL_POS_RJ3,R_PL_POS_RJ4,R_PL_POS_RJ5,R_PL_POS_RJ6,'' @
     ''R_PL_POS_EJ1,R_PL_POS_EJ2,R_PL_POS_EJ3,R_PL_POS_EJ4,R_PL_POS_EJ5,R_PL_POS_EJ6,'' @
     ''R_PL_VEL_RJ1,R_PL_VEL_RJ2,R_PL_VEL_RJ3,R_PL_VEL_RJ4,R_PL_VEL_RJ5,R_PL_VEL_RJ6,'' @
     ''R_PL_VEL_EJ1,R_PL_VEL_EJ2,R_PL_VEL_EJ3,R_PL_VEL_EJ4,R_PL_VEL_EJ5,R_PL_VEL_EJ6,'' @
     ''R_PL_POS_X,R_PL_POS_Y,R_PL_POS_Z,'' @
     ''R_PL_EULER_X,R_PL_EULER_Y,R_PL_EULER_Z,'' @
     ''R_PL_QUAT_U0,R_PL_QUAT_U1,R_PL_QUAT_U2,R_PL_QUAT_U3,'' @
     ''R_PL_VEL_LX,R_PL_VEL_LY,R_PL_VEL_LZ,'' @
     ''R_PL_VEL_AX,R_PL_VEL_AY,R_PL_VEL_AZ,''"

definition sensor_headers :: string where
  "sensor_headers =
     ''S_REF_POS_RJ1,S_REF_POS_RJ2,S_REF_POS_RJ3,S_REF_POS_RJ4,S_REF_POS_RJ5,S_REF_POS_RJ6,'' @
     ''S_REF_POS_EJ1,S_REF_POS_EJ2,S_REF_POS_EJ3,S_REF_POS_EJ4,S_REF_POS_EJ5,S_REF_POS_EJ6,'' @
     ''S_REF_VEL_RJ1,S_REF_VEL_RJ2,S_REF_VEL_RJ3,S_REF_VEL_RJ4,S_REF_VEL_RJ5,S_REF_VEL_RJ6,'' @
     ''S_REF_VEL_EJ1,S_REF_VEL_EJ2,S_REF_VEL_EJ3,S_REF_VEL_EJ4,S_REF_VEL_EJ5,S_REF_VEL_EJ6,'' @
     ''S_REF_POS_X,S_REF_POS_Y,S_REF_POS_Z,'' @
     ''S_REF_EULER_X,S_REF_EULER_Y,S_REF_EULER_Z,'' @
     ''S_REF_QUAT_U0,S_REF_QUAT_U1,S_REF_QUAT_U2,S_REF_QUAT_U3,'' @
     ''S_REF_VEL_LX,S_REF_VEL_LY,S_REF_VEL_LZ,'' @
     ''S_REF_VEL_AX,S_REF_VEL_AY,S_REF_VEL_AZ''"

definition init_EGMLogger :: "bool \<Rightarrow> EGMLogger" where
  "init_EGMLogger use_default_headers =
     \<lparr>lg_number_of_logged_messages = 0,
      lg_stream =
        (if use_default_headers
         then [Lit (''TIMESTAMP,'' @ robot_feedback_headers @ robot_planned_headers @ sensor_headers @ [CHR 0x0A])]
         else [])\<rparr>"

definition flush :: "EGMLogger \<Rightarrow> EGMLogger" where
  "flush lg = (put [Lit [CHR 0x0A]] lg)\<lparr>lg_number_of_logged_messages := lg_number_of_logged_messages lg + 1\<rparr>"

definition add_Header :: "Header \<Rightarrow> EGMLogger \<Rightarrow> EGMLogger" where
  "add_Header header = put [UInt (time_stamp_of header), Lit '','']"

fun add_values :: "double list \<Rightarrow> EGMLogger \<Rightarrow> EGMLogger" where
  "add_values [] lg = lg"
| "add_values (v # vs) lg = add_values vs (put [Dbl v, Lit '',''] lg)"

text \<open>The subtraction is on \<open>size_t\<close>, 64 bits wide, and wraps around.\<close>

definition addMockJoints :: "bool \<Rightarrow> nat \<Rightarrow> nat \<Rightarrow> EGMLogger \<Rightarrow> EGMLogger" where
  "addMockJoints robot robot_size external_size lg =
     (if robot
      then for_range (DEFAULT_NUMBER_OF_ROBOT_JOINTS - robot_size) (\<lambda>_. put [Dbl (Fin 0), Lit '','']) lg
      else
        let condition = (of_nat MAX_NUMBER_OF_JOINTS - of_nat robot_size :: u64)
        in for_range (unat condition - external_size) (\<lambda>_. put [Dbl (Fin 0), Lit '','']) lg)"

definition add_Joints :: "Joints \<Rightarrow> Joints \<Rightarrow> EGMLogger \<Rightarrow> EGMLogger" where
  "add_Joints robot external lg =
     (let r = jvalues robot; e = jvalues external;
          lg1 = add_values r lg;
          lg2 = addMockJoints True (length r) (length e) lg1;
          lg3 = add_values e lg2
      in addMockJoints False (length r) (length e) lg3)"

definition add_CartesianPose :: "CartesianPose \<Rightarrow> EGMLogger \<Rightarrow> EGMLogger" where
  "add_CartesianPose pose =
     (let p = pose_position_of pose; e = pose_euler_of pose; q = pose_quaternion_of pose
      in put [Dbl (u0_of q), Lit '','', Dbl (u1_of q), Lit '','', Dbl (u2_of q), Lit '','', Dbl (u3_of q), Lit '','']
         \<circ> put [Dbl (ex_of e), Lit '','', Dbl (ey_of e), Lit '','', Dbl (ez_of e), Lit '','']
         \<circ> put [Dbl (cx_of p), Lit '','', Dbl (cy_of p), Lit '','', Dbl (cz_of p), Lit '',''])"

definition add_CartesianVelocity :: "CartesianVelocity \<Rightarrow> bool \<Rightarrow> EGMLogger \<Rightarrow> EGMLogger" where
  "add_CartesianVelocity velocity is_last =
     (let l = linear_of velocity; a = angular_of velocity
      in put [Dbl (ex_of a), Lit '','', Dbl (ey_of a), Lit '','', Dbl (ez_of a), Lit (if is_last then '''' else '','')]
         \<circ> put [Dbl (cx_of l), Lit '','', Dbl (cy_of l), Lit '','', Dbl (cz_of l), Lit '',''])"

definition calculateTimeLogged :: "EGMLogger \<Rightarrow> double \<Rightarrow> double" where
  "calculateTimeLogged lg sample_time = of_u32 (lg_number_of_logged_messages lg) * sample_time"

section \<open>Counting fields\<close>

fun item_commas :: "log_item \<Rightarrow> nat" where
  "item_commas (Lit s) = length (filter (\<lambda>c. c = CHR '','') s)"
| "item_commas _ = 0"

definition commas :: "log_item list \<Rightarrow> nat" where
  "commas items = sum_list (map item_commas items)"

definition logged_commas :: "EGMLogger \<Rightarrow> nat" where
  "logged_commas lg = commas (lg_stream lg)"

lemma commas_put [simp]: "logged_commas (put items lg) = logged_commas lg + commas items"
  by (simp add: put_def logged_commas_def commas_def)

lemma commas_simps [simp]:
  "commas [] = 0" "commas (i # is) = item_commas i + commas is"
  by (simp_all add: commas_def)

lemma commas_flush [simp]: "logged_commas (flush lg) = logged_commas lg"
  using commas_put [of "[Lit [CHR 0x0A]]" lg] by (simp add: flush_def logged_commas_def)

lemma commas_add_Header [simp]: "logged_commas (add_Header h lg) = logged_commas lg + 1"
  by (simp add: add_Header_def)

lemma commas_add_values [simp]: "logged_commas (add_values vs lg) = logged_commas lg + length vs"
  by (induction vs lg rule: add_values.induct) auto

lemma commas_mock_loop [simp]:
  "logged_commas (for_range n (\<lambda>_. put [Dbl (Fin 0), Lit '','']) lg) = logged_commas lg + n"
  by (induction n) auto

lemma commas_add_CartesianPose [simp]: "logged_commas (add_CartesianPose p lg) = logged_commas lg + 10"
  by (simp add: add_CartesianPose_def Let_def)

lemma commas_add_CartesianVelocity [simp]:
  "logged_commas (add_CartesianVelocity v is_last lg) = logged_commas lg + (if is_last then 5 else 6)"
  by (simp add: add_CartesianVelocity_def Let_def)

lemma mock_condition: "r \<le> 12 \<Longrightarrow> unat (of_nat MAX_NUMBER_OF_JOINTS - of_nat r :: u64) = 12 - r"
proof -
  assume r: "r \<le> 12"
  then have "(of_nat MAX_NUMBER_OF_JOINTS - of_nat r :: u64) = of_nat (12 - r)"
    by (simp add: joint_counts of_nat_diff)
  then show ?thesis by (simp add: unat_of_nat take_bit_nat_eq_self)
qed

text \<open>The number of joint fields: twelve when the robot has at least six joints and all fit in twelve.\<close>

lemma commas_add_Joints:
  assumes "length (jvalues r) \<le> 12"
  shows "logged_commas (add_Joints r e lg) =
    logged_commas lg + max 6 (length (jvalues r)) + max (length (jvalues e)) (12 - length (jvalues r))"
  using assms by (simp add: add_Joints_def Let_def addMockJoints_def mock_condition)
    (simp add: joint_counts max_def)

lemma commas_default_headers: "logged_commas (init_EGMLogger True) = 120"
  by code_simp

end
