(* ===== verification/EGM_UDP_Server.thy ===== *)
theory EGM_UDP_Server
  imports EGM_Common
begin

text \<open>
  \<open>egm_udp_server.h\<close> and \<open>egm_udp_server.cpp\<close>: the server that passes each received datagram to the
  interface behind \<open>AbstractUDPServerInterface\<close> and sends the reply. The socket belongs to Boost: opening it
  is an argument, and what the server asks of it is a list of effects; a send holds the reply at the time it is posted.
  The virtual method \<open>callback\<close> is an argument of the handler; its contract is the locales \<open>reply_contract\<close> and
  \<open>total_callback\<close>, which the theories of the three interfaces interpret. An object that its user calls between the datagrams is
  \<open>shared_object\<close>.
\<close>

section \<open>Data\<close>

datatype io = AsyncReceive | AsyncSend bytes

record UDPServerData =
  sd_port_number :: u64
  sd_p_data :: "bytes option"
  sd_bytes_transferred :: int

text \<open>\<open>us_socket\<close> is whether \<open>p_socket_\<close> points to a socket.\<close>

record UDPServer =
  us_initialized :: bool
  us_socket :: bool
  us_server_data :: UDPServerData

definition BUFFER_SIZE :: nat where
  "BUFFER_SIZE = 1024"

text \<open>
  The virtual method \<open>callback\<close> on an interface of state type \<open>'s\<close>: the received bytes to the reply and
  the new state; \<open>None\<close> is an access out of range inside it.
\<close>

type_synonym 's callback = "bytes option \<Rightarrow> 's \<Rightarrow> (bytes \<times> 's) option"

section \<open>Operations\<close>

definition startAsynchronousReceive :: "UDPServer \<Rightarrow> io list" where
  "startAsynchronousReceive sv = (if us_socket sv then [AsyncReceive] else [])"

text \<open>The argument \<open>opened\<close> tells whether the constructor of the socket succeeds; else it throws.\<close>

definition init_UDPServer :: "bool \<Rightarrow> 16 word \<Rightarrow> io list \<times> UDPServer" where
  "init_UDPServer opened port_number =
     (let sv = \<lparr>us_initialized = False, us_socket = opened,
                us_server_data = \<lparr>sd_port_number = ucast port_number, sd_p_data = None, sd_bytes_transferred = 0\<rparr>\<rparr>
      in if opened
         then let sv1 = sv\<lparr>us_initialized := True\<rparr> in (startAsynchronousReceive sv1, sv1)
         else ([], sv))"

definition isInitialized :: "UDPServer \<Rightarrow> bool" where
  "isInitialized sv = us_initialized sv"

definition close_UDPServer :: "UDPServer \<Rightarrow> UDPServer" where
  "close_UDPServer sv = sv\<lparr>us_socket := False\<rparr>"

text \<open>
  The handler of a finished receive: \<open>buffer\<close> is the content of \<open>receive_buffer_\<close>, \<open>success\<close> whether the
  error code is \<open>errc::success\<close>, \<open>p_interface\<close> the interface or null.
\<close>

definition receiveCallback ::
  "'s callback option \<Rightarrow> bool \<Rightarrow> bytes \<Rightarrow> nat \<Rightarrow> UDPServer \<Rightarrow> 's \<Rightarrow> (io list \<times> UDPServer \<times> 's) option" where
  "receiveCallback p_interface success buffer bytes_transferred sv s = do {
     let sv1 = sv\<lparr>us_server_data := (us_server_data sv)
                   \<lparr>sd_p_data := Some buffer, sd_bytes_transferred := int bytes_transferred\<rparr>\<rparr>;
     (sent, s1) \<leftarrow>
       (case p_interface of
          Some callback \<Rightarrow>
            if success
            then do {
              (reply, s') \<leftarrow> callback (map_option (take bytes_transferred) (sd_p_data (us_server_data sv1))) s;
              Some (if reply \<noteq> [] \<and> us_socket sv1 then [AsyncSend reply] else [], s')
            }
            else Some ([], s)
        | None \<Rightarrow> Some ([], s));
     Some (sent @ startAsynchronousReceive sv1, sv1, s1)
   }"

section \<open>A server's life\<close>

text \<open>The handlers of a sequence of finished receives, with all effects in order.\<close>

type_synonym receive_event = "bool \<times> bytes \<times> nat"

fun serve :: "'s callback option \<Rightarrow> receive_event list \<Rightarrow> UDPServer \<Rightarrow> 's \<Rightarrow> (io list \<times> UDPServer \<times> 's) option" where
  "serve p_interface [] sv s = Some ([], sv, s)"
| "serve p_interface ((success, buffer, n) # evs) sv s = do {
     (ios, sv1, s1) \<leftarrow> receiveCallback p_interface success buffer n sv s;
     (ios', sv2, s2) \<leftarrow> serve p_interface evs sv1 s1;
     Some (ios @ ios', sv2, s2)
   }"

lemma receiveCallback_socket:
  "receiveCallback p success buffer n sv s = Some (ios, sv', s') \<Longrightarrow> us_socket sv' = us_socket sv"
  by (auto simp: receiveCallback_def Let_def Option.bind_eq_Some_conv)

lemma receiveCallback_effects:
  assumes "receiveCallback p success buffer n sv s = Some (ios, sv', s')" "us_socket sv"
  shows "\<exists>sent. ios = sent @ [AsyncReceive] \<and> (sent = [] \<or> (\<exists>r. r \<noteq> [] \<and> sent = [AsyncSend r]))"
  using assms
  by (auto simp: receiveCallback_def Let_def Option.bind_eq_Some_conv startAsynchronousReceive_def
      split: option.splits if_splits prod.splits)

lemma serve_receives:
  "serve p evs sv s = Some (ios, sv', s') \<Longrightarrow> us_socket sv \<Longrightarrow>
     length (filter (\<lambda>i. i = AsyncReceive) ios) = length evs"
proof (induction p evs sv s arbitrary: ios rule: serve.induct)
  case (1 p sv s)
  then show ?case by simp
next
  case (2 p success buffer n evs sv s)
  from "2.prems"(1) obtain ios1 sv1 s1 ios2 where
    r: "receiveCallback p success buffer n sv s = Some (ios1, sv1, s1)"
    and rest: "serve p evs sv1 s1 = Some (ios2, sv', s')" and ios: "ios = ios1 @ ios2"
    by (auto simp: Option.bind_eq_Some_conv)
  have "us_socket sv1" using receiveCallback_socket [OF r] "2.prems"(2) by simp
  with "2.IH" [OF r refl refl rest] receiveCallback_effects [OF r "2.prems"(2)] ios show ?case by auto
qed

text \<open>The same with calls of the user between the datagrams: \<open>use\<close> is what a call does to the object behind the interface.\<close>

datatype 'u server_event = Received bool bytes nat | Called 'u

fun serve_session ::
  "'s callback option \<Rightarrow> ('u \<Rightarrow> 's \<Rightarrow> 's) \<Rightarrow> 'u server_event list \<Rightarrow> UDPServer \<Rightarrow> 's \<Rightarrow> (io list \<times> UDPServer \<times> 's) option" where
  "serve_session p_interface use [] sv s = Some ([], sv, s)"
| "serve_session p_interface use (Received success buffer n # evs) sv s = do {
     (ios, sv1, s1) \<leftarrow> receiveCallback p_interface success buffer n sv s;
     (ios', sv2, s2) \<leftarrow> serve_session p_interface use evs sv1 s1;
     Some (ios @ ios', sv2, s2)
   }"
| "serve_session p_interface use (Called u # evs) sv s = serve_session p_interface use evs sv (use u s)"

text \<open>The events that are finished receives, those that are datagrams with a property, and those that are no forbidden call.\<close>

fun is_receive :: "'u server_event \<Rightarrow> bool" where
  "is_receive (Received success buffer n) \<longleftrightarrow> True"
| "is_receive (Called u) \<longleftrightarrow> False"

fun is_datagram :: "(bytes \<Rightarrow> bool) \<Rightarrow> 'u server_event \<Rightarrow> bool" where
  "is_datagram P (Received success buffer n) \<longleftrightarrow> success \<and> P (take n buffer)"
| "is_datagram P (Called u) \<longleftrightarrow> False"

fun may_call :: "('u \<Rightarrow> bool) \<Rightarrow> 'u server_event \<Rightarrow> bool" where
  "may_call allowed (Received success buffer n) \<longleftrightarrow> True"
| "may_call allowed (Called u) \<longleftrightarrow> allowed u"

abbreviation sends :: "io list \<Rightarrow> io list" where
  "sends ios \<equiv> filter (\<lambda>i. i \<noteq> AsyncReceive) ios"

text \<open>
  The server never stops listening: whatever the interface does, the constructor of a server with an open
  socket posts one receive operation, and after any sequence of \<open>k\<close> finished receives, failed ones
  included, it has posted \<open>k + 1\<close> of them, so that exactly one is always pending.
\<close>

theorem server_keeps_listening:
  assumes "init_UDPServer True port = (ios0, sv)" "serve p evs sv s = Some (ios, sv', s')"
  shows "length (filter (\<lambda>i. i = AsyncReceive) (ios0 @ ios)) = length evs + 1"
proof -
  from assms(1) have "us_socket sv" "ios0 = [AsyncReceive]"
    by (auto simp: init_UDPServer_def startAsynchronousReceive_def)
  with serve_receives [OF assms(2)] show ?thesis by simp
qed

theorem server_keeps_listening_witness:
  "\<exists>ios sv'. serve (Some (\<lambda>d s. Some ([1], s))) [(True, [5, 6], 2), (False, [], 0)] (snd (init_UDPServer True 6511)) () = Some (ios, sv', ())
    \<and> length (filter (\<lambda>i. i = AsyncReceive) (fst (init_UDPServer True 6511) @ ios)) = 3"
proof -
  let ?sv = "snd (init_UDPServer True 6511)"
  obtain ios sv' where s: "serve (Some (\<lambda>d s. Some ([1], s))) [(True, [5, 6], 2), (False, [], 0)] ?sv () = Some (ios, sv', ())"
    by (simp add: receiveCallback_def Let_def)
  moreover have "length (filter (\<lambda>i. i = AsyncReceive) (fst (init_UDPServer True 6511) @ ios)) =
      length [(True, [5, 6 :: byte], 2 :: nat), (False, [], 0)] + 1"
    by (rule server_keeps_listening [OF _ s]) simp
  ultimately show ?thesis by simp
qed

section \<open>The contract of the interface\<close>

text \<open>
  What a server relies on: the interface keeps its invariant, a non-empty reply is a good one, and a datagram
  that is not acceptable gets an empty reply.
\<close>

locale reply_contract =
  fixes callback :: "'s callback" and inv :: "'s \<Rightarrow> bool" and ok :: "bytes option \<Rightarrow> 's \<Rightarrow> bool"
    and good :: "bytes \<Rightarrow> bool"
  assumes callback_inv: "inv s \<Longrightarrow> callback d s = Some (r, s') \<Longrightarrow> inv s'"
    and callback_good: "inv s \<Longrightarrow> callback d s = Some (r, s') \<Longrightarrow> r \<noteq> [] \<Longrightarrow> good r"
    and callback_silent: "callback d s = Some (r, s') \<Longrightarrow> \<not> ok d s \<Longrightarrow> r = []"
begin

lemma receive_step:
  assumes "inv s" "receiveCallback (Some callback) success buffer n sv s = Some (ios, sv', s')"
  shows "inv s'" and "AsyncSend r \<in> set ios \<Longrightarrow> good r"
    and "AsyncSend r \<in> set ios \<Longrightarrow> success \<and> ok (Some (take n buffer)) s"
  using assms
  by (auto simp: receiveCallback_def Let_def Option.bind_eq_Some_conv startAsynchronousReceive_def
      intro: callback_inv callback_good dest: callback_silent split: if_splits)

lemma serve_good:
  "serve (Some callback) evs sv s = Some (ios, sv', s') \<Longrightarrow> inv s \<Longrightarrow> AsyncSend r \<in> set ios \<Longrightarrow> good r"
proof (induction evs arbitrary: sv s ios)
  case Nil
  then show ?case by simp
next
  case (Cons ev evs)
  obtain success buffer n where ev: "ev = (success, buffer, n)" by (cases ev) auto
  from Cons.prems(1) obtain ios1 sv1 s1 ios2 where
    r: "receiveCallback (Some callback) success buffer n sv s = Some (ios1, sv1, s1)"
    and rest: "serve (Some callback) evs sv1 s1 = Some (ios2, sv', s')" and ios: "ios = ios1 @ ios2"
    by (auto simp: Option.bind_eq_Some_conv ev)
  from Cons.prems(3) ios consider "AsyncSend r \<in> set ios1" | "AsyncSend r \<in> set ios2" by auto
  then show ?case
    using receive_step [OF Cons.prems(2) r] Cons.IH [OF rest] by cases auto
qed

end

text \<open>
  What a server needs to stay alive: a callback that returns and keeps the condition under which it does.
\<close>

locale total_callback =
  fixes callback :: "'s callback" and live :: "'s \<Rightarrow> bool"
  assumes callback_returns: "live s \<Longrightarrow> \<exists>r s'. callback d s = Some (r, s') \<and> live s'"
begin

lemma receive_returns:
  assumes "live s"
  shows "\<exists>ios sv' s'. receiveCallback (Some callback) success buffer n sv s = Some (ios, sv', s') \<and> live s'"
  using callback_returns [OF assms, of "Some (take n buffer)"] assms by (auto simp: receiveCallback_def Let_def)

lemma serve_returns: "live s \<Longrightarrow> \<exists>ios sv' s'. serve (Some callback) evs sv s = Some (ios, sv', s') \<and> live s'"
proof (induction evs arbitrary: sv s)
  case (Cons ev evs)
  obtain success buffer n where ev: "ev = (success, buffer, n)" by (cases ev) auto
  from receive_returns [OF Cons.prems] obtain ios sv1 s1 where
    "receiveCallback (Some callback) success buffer n sv s = Some (ios, sv1, s1)" "live s1" by blast
  with Cons.IH [of s1 sv1] show ?case by (auto simp: ev)
qed simp

end

text \<open>An object that serves datagrams and is called by its user in between, with calls that keep both conditions.\<close>

locale shared_object = reply_contract callback inv ok good + total_callback callback live
  for callback :: "'s callback" and inv ok good live +
  fixes use :: "'u \<Rightarrow> 's \<Rightarrow> 's" and allowed :: "'u \<Rightarrow> bool"
  assumes use_inv: "inv s \<Longrightarrow> inv (use u s)"
    and use_live: "live s \<Longrightarrow> allowed u \<Longrightarrow> live (use u s)"
begin

lemma session_runs:
  assumes "us_socket sv" "inv s" "live s" "list_all (may_call allowed) evs" "\<And>bs s. ok (Some bs) s \<Longrightarrow> P bs"
  shows "\<exists>ios sv' s'. serve_session (Some callback) use evs sv s = Some (ios, sv', s') \<and>
    length (filter (\<lambda>i. i = AsyncReceive) ios) = length (filter is_receive evs) \<and>
    length (sends ios) \<le> length (filter (is_datagram P) evs) \<and> (\<forall>r. AsyncSend r \<in> set ios \<longrightarrow> good r)"
  using assms(1-4)
proof (induction evs arbitrary: sv s)
  case (Cons ev evs)
  show ?case
  proof (cases ev)
    case (Called u)
    with Cons.prems Cons.IH [of sv "use u s"] use_inv use_live show ?thesis by simp
  next
    case (Received success buffer n)
    obtain ios sv1 s1 where r: "receiveCallback (Some callback) success buffer n sv s = Some (ios, sv1, s1)" "live s1"
      using receive_returns [OF Cons.prems(3)] by blast
    note step = receive_step [OF Cons.prems(2) r(1)]
    have "us_socket sv1" using receiveCallback_socket [OF r(1)] Cons.prems(1) by simp
    then obtain ios' sv2 s2 where ih: "serve_session (Some callback) use evs sv1 s1 = Some (ios', sv2, s2)"
      "length (filter (\<lambda>i. i = AsyncReceive) ios') = length (filter is_receive evs)"
      "length (sends ios') \<le> length (filter (is_datagram P) evs)" "\<forall>r. AsyncSend r \<in> set ios' \<longrightarrow> good r"
      using Cons.IH [of sv1 s1] step(1) r(2) Cons.prems(4) by auto
    obtain sent where sent: "ios = sent @ [AsyncReceive]" "sent = [] \<or> (\<exists>r. sent = [AsyncSend r])"
      using receiveCallback_effects [OF r(1) Cons.prems(1)] by blast
    have "is_datagram P ev" if "sent \<noteq> []"
      using that sent step(3) assms(5) Received by (auto simp: image_iff)
    with ih sent r(1) step(2) Received show ?thesis by auto
  qed
qed simp

end

end
