(* ===== verification/EGM_Base.thy ===== *)
theory EGM_Base
  imports EGM_Output EGM_Logger EGM_UDP_Server
begin

text \<open>
  \<open>EGMBaseInterface\<close> of \<open>egm_base_interface.h\<close> and \<open>egm_base_interface.cpp\<close>: one received datagram goes
  through \<open>initializeCallback\<close>, the optional demo outputs, the optional logging and \<open>constructReply\<close>. The
  mutexes protect the session data and the configuration container; each method that takes one is a single
  step here. The code generated by \<open>protoc\<close> and the Boost quaternions are gathered in one argument \<open>env\<close>.
\<close>

section \<open>Data\<close>

record env =
  env_decode :: decoder
  env_encode :: encoder
  env_bq :: boost_quaternion

record SessionData =
  ses_header :: Header
  ses_status :: Status

record BaseConfigurationContainer =
  bc_active :: BaseConfiguration
  bc_update :: BaseConfiguration
  bc_has_pending_update :: bool

definition make_BaseConfigurationContainer :: "BaseConfiguration \<Rightarrow> BaseConfigurationContainer" where
  "make_BaseConfigurationContainer initial =
     \<lparr>bc_active = initial, bc_update = initial, bc_has_pending_update = False\<rparr>"

record EGMBaseInterface =
  bi_inputs :: InputContainer
  bi_outputs :: OutputContainer
  bi_session_data :: SessionData
  bi_logger :: "EGMLogger option"
  bi_configuration :: BaseConfigurationContainer

definition WAIT_TIME_MS :: u32 where
  "WAIT_TIME_MS = 100"

section \<open>Operations\<close>

definition init_EGMBaseInterface :: "BaseConfiguration \<Rightarrow> EGMBaseInterface" where
  "init_EGMBaseInterface configuration =
     \<lparr>bi_inputs = init_InputContainer, bi_outputs = init_OutputContainer,
      bi_session_data = \<lparr>ses_header = default_Header, ses_status = default_Status\<rparr>,
      bi_logger = (if use_logging configuration then Some (init_EGMLogger True) else None),
      bi_configuration = make_BaseConfigurationContainer configuration\<rparr>"

text \<open>The thirteen insertions of one row, without the line end.\<close>

definition log_row :: "InputContainer \<Rightarrow> OutputContainer \<Rightarrow> EGMLogger \<Rightarrow> EGMLogger" where
  "log_row ic oc lg =
     (let feedback = in_feedback_of (ic_current ic); planned = in_planned_of (ic_current ic);
          output = oc_current oc;
          add_group = (\<lambda>rj ej rc is_last.
            add_CartesianVelocity (cs_velocity_of rc) is_last
            \<circ> add_CartesianPose (cs_pose_of rc)
            \<circ> add_Joints (js_velocity_of rj) (js_velocity_of ej)
            \<circ> add_Joints (js_position_of rj) (js_position_of ej))
      in (add_group (rob_joints_of (out_robot_of output)) (ext_joints_of (out_external_of output))
            (rob_cartesian_of (out_robot_of output)) True
          \<circ> add_group (rob_joints_of (pl_robot_of planned)) (ext_joints_of (pl_external_of planned))
            (rob_cartesian_of (pl_robot_of planned)) False
          \<circ> add_group (rob_joints_of (fb_robot_of feedback)) (ext_joints_of (fb_external_of feedback))
            (rob_cartesian_of (fb_robot_of feedback)) False
          \<circ> add_Header (in_header_of (ic_current ic))) lg)"

definition logData :: "double \<Rightarrow> EGMBaseInterface \<Rightarrow> EGMBaseInterface" where
  "logData max_time b =
     (case bi_logger b of
        None \<Rightarrow> b
      | Some lg \<Rightarrow>
          if calculateTimeLogged lg (ic_estimated_sample_time (bi_inputs b)) \<le> max_time
          then b\<lparr>bi_logger := Some (flush (log_row (bi_inputs b) (bi_outputs b) lg))\<rparr>
          else b)"

text \<open>
  The argument is the received datagram: the first \<open>bytes_transferred\<close> bytes of the buffer \<open>p_data\<close>
  points to, \<open>None\<close> for a null pointer.
\<close>

definition initializeCallback :: "env \<Rightarrow> bytes option \<Rightarrow> EGMBaseInterface \<Rightarrow> bool \<times> EGMBaseInterface" where
  "initializeCallback env data b =
     (let (s1, b1) =
            (if has data
             then let (s, ic) = parseFromArray (env_decode env) data (bi_inputs b) in (s, b\<lparr>bi_inputs := ic\<rparr>)
             else (False, b));
          b2 = (if s1 \<and> ic_first_message (bi_inputs b1) \<and> bc_has_pending_update (bi_configuration b1)
                then b1\<lparr>bi_configuration := (bi_configuration b1)
                       \<lparr>bc_active := bc_update (bi_configuration b1), bc_has_pending_update := False\<rparr>\<rparr>
                else b1);
          (s3, b3) =
            (if s1
             then
               let (s, ic) = extractParsedInformation (env_bq env) (axes (bc_active (bi_configuration b2))) (bi_inputs b2);
                   ses = (if s then \<lparr>ses_header = in_header_of (ic_current ic), ses_status = in_status_of (ic_current ic)\<rparr>
                          else \<lparr>ses_header = default_Header, ses_status = default_Status\<rparr>)
               in (s, b2\<lparr>bi_inputs := ic, bi_session_data := ses\<rparr>)
             else (s1, b2));
          b4 = b3\<lparr>bi_outputs := clearReply (bi_outputs b3)\<rparr>
      in (s3, if s3 then b4\<lparr>bi_outputs := prepareOutputs (bi_inputs b4) (bi_outputs b4)\<rparr> else b4))"

text \<open>The steps after the outputs are set, shared with the derived interfaces by having the same code.\<close>

definition finish_callback :: "env \<Rightarrow> EGMBaseInterface \<Rightarrow> EGMBaseInterface" where
  "finish_callback env b =
     (let active = bc_active (bi_configuration b);
          b1 = (if use_logging active \<and> bi_logger b \<noteq> None then logData (max_logging_duration active) b else b)
      in b1\<lparr>bi_outputs := updatePrevious_outputs (constructReply (env_encode env) active (bi_outputs b1)),
            bi_inputs := updatePrevious (bi_inputs b1)\<rparr>)"

definition base_callback :: "env \<Rightarrow> bytes option \<Rightarrow> EGMBaseInterface \<Rightarrow> (bytes \<times> EGMBaseInterface) option" where
  "base_callback env data b = do {
     let (success, b1) = initializeCallback env data b;
     b2 \<leftarrow> (if success
           then do {
             b' \<leftarrow> (if use_demo_outputs (bc_active (bi_configuration b1))
                   then do { oc \<leftarrow> generateDemoOutputs (bi_inputs b1) (bi_outputs b1); Some (b1\<lparr>bi_outputs := oc\<rparr>) }
                   else Some b1);
             Some (finish_callback env b')
           }
           else Some b1);
     Some (oc_reply (bi_outputs b2), b2)
   }"

text \<open>\<open>isConnected\<close> compares the session headers before and after it sleeps.\<close>

definition connected :: "Header \<Rightarrow> Header \<Rightarrow> bool" where
  "connected header_1 header_2 =
     ((has (sequence_number header_1) \<and> has (time_stamp header_1)) \<and>
      (has (sequence_number header_2) \<and> has (time_stamp header_2)) \<and>
      sequence_number_of header_1 < sequence_number_of header_2 \<and>
      time_stamp_of header_1 < time_stamp_of header_2 \<and>
      time_stamp_of header_2 - time_stamp_of header_1 \<le> 2 * WAIT_TIME_MS)"

definition isConnected :: "EGMBaseInterface \<Rightarrow> EGMBaseInterface \<Rightarrow> bool" where
  "isConnected before after = connected (ses_header (bi_session_data before)) (ses_header (bi_session_data after))"

definition getStatus :: "EGMBaseInterface \<Rightarrow> Status" where
  "getStatus b = ses_status (bi_session_data b)"

definition getConfiguration :: "EGMBaseInterface \<Rightarrow> BaseConfiguration" where
  "getConfiguration b = bc_update (bi_configuration b)"

definition setConfiguration :: "BaseConfiguration \<Rightarrow> EGMBaseInterface \<Rightarrow> EGMBaseInterface" where
  "setConfiguration configuration b =
     b\<lparr>bi_configuration := (bi_configuration b)\<lparr>bc_update := configuration, bc_has_pending_update := True\<rparr>\<rparr>"

section \<open>The parsed message\<close>

text \<open>The configuration in force for a message: a pending one is taken over at the first of a session.\<close>

definition is_first :: "EgmRobot \<Rightarrow> EGMBaseInterface \<Rightarrow> bool" where
  "is_first msg b \<longleftrightarrow> ic_first_call (bi_inputs b) \<or> seqno_of (erb_header_of msg) = 0"

definition config_for :: "EgmRobot \<Rightarrow> EGMBaseInterface \<Rightarrow> BaseConfiguration" where
  "config_for msg b =
     (if is_first msg b \<and> bc_has_pending_update (bi_configuration b) then bc_update (bi_configuration b)
      else bc_active (bi_configuration b))"

definition accepts :: "env \<Rightarrow> bytes option \<Rightarrow> EGMBaseInterface \<Rightarrow> bool" where
  "accepts env data b =
     (case data of None \<Rightarrow> False
      | Some bs \<Rightarrow> fst (env_decode env bs) \<and>
          acceptable (axes (config_for (snd (env_decode env bs)) b)) (snd (env_decode env bs)))"

lemma parseFromArray_Some:
  assumes "parseFromArray dec (Some bs) ic = (s, ic')"
  shows "s = fst (dec bs)" "ic_egm_robot ic' = snd (dec bs)" "ic_has_new_data ic' = fst (dec bs)"
    "fst (dec bs) \<Longrightarrow> ic_first_message ic' = (ic_first_call ic \<or> seqno_of (erb_header_of (snd (dec bs))) = 0)"
    "fst (dec bs) \<Longrightarrow> \<not> ic_first_call ic'"
    "ic_current ic' = ic_current ic" "ic_previous ic' = ic_previous ic"
    "ic_estimated_sample_time ic' = ic_estimated_sample_time ic"
  using assms by (auto simp: parseFromArray_def Let_def split: prod.splits if_splits)

lemma initializeCallback_accepts: "fst (initializeCallback env data b) \<longleftrightarrow> accepts env data b"
proof (cases data)
  case None
  then show ?thesis by (simp add: initializeCallback_def Let_def accepts_def)
next
  case (Some bs)
  obtain s ic where p: "parseFromArray (env_decode env) (Some bs) (bi_inputs b) = (s, ic)" by fastforce
  note ps = parseFromArray_Some [OF p]
  show ?thesis
  proof (cases s)
    case True
    with ps have "ic_first_message ic = is_first (snd (env_decode env bs)) b" by (simp add: is_first_def)
    with True ps Some p show ?thesis
      by (simp add: initializeCallback_def Let_def accepts_def case_prod_beta fst_extract config_for_def)
  next
    case False
    with ps Some p show ?thesis by (simp add: initializeCallback_def Let_def accepts_def)
  qed
qed

lemma initializeCallback_reply_cleared: "oc_reply (bi_outputs (snd (initializeCallback env data b))) = []"
  by (simp add: initializeCallback_def Let_def case_prod_beta clearReply_def prepareOutputs_def)

lemma initializeCallback_sensor:
  "oc_egm_sensor (bi_outputs (snd (initializeCallback env data b))) = oc_egm_sensor (bi_outputs b)"
  by (simp add: initializeCallback_def Let_def case_prod_beta clearReply_def prepareOutputs_def)

lemma initializeCallback_active:
  assumes "fst (initializeCallback env (Some bs) b)"
  shows "bc_active (bi_configuration (snd (initializeCallback env (Some bs) b))) = config_for (snd (env_decode env bs)) b"
    and "ic_first_message (bi_inputs (snd (initializeCallback env (Some bs) b))) = is_first (snd (env_decode env bs)) b"
proof -
  obtain s ic where p: "parseFromArray (env_decode env) (Some bs) (bi_inputs b) = (s, ic)" by fastforce
  note ps = parseFromArray_Some [OF p]
  have s: s using assms p by (auto simp: initializeCallback_def Let_def split: if_splits)
  then have f: "ic_first_message ic = is_first (snd (env_decode env bs)) b" using ps by (simp add: is_first_def)
  show "bc_active (bi_configuration (snd (initializeCallback env (Some bs) b))) = config_for (snd (env_decode env bs)) b"
    using s p f by (simp add: initializeCallback_def Let_def case_prod_beta config_for_def)
  have "ic_first_message (snd (extractParsedInformation bq ax i)) = ic_first_message i" for bq ax i
    by (simp add: extractParsedInformation_def Let_def case_prod_beta estimateAllVelocities_frame)
  then show "ic_first_message (bi_inputs (snd (initializeCallback env (Some bs) b))) = is_first (snd (env_decode env bs)) b"
    using s p f by (simp add: initializeCallback_def Let_def case_prod_beta)
qed

lemma initializeCallback_extract:
  assumes "fst (initializeCallback env (Some bs) b)"
  obtains ic where "extractParsedInformation (env_bq env) (axes (config_for (snd (env_decode env bs)) b)) ic
      = (True, bi_inputs (snd (initializeCallback env (Some bs) b)))" "ic_egm_robot ic = snd (env_decode env bs)"
proof -
  obtain s ic where p: "parseFromArray (env_decode env) (Some bs) (bi_inputs b) = (s, ic)" by fastforce
  note ps = parseFromArray_Some [OF p]
  have s: s using assms p by (auto simp: initializeCallback_def Let_def split: if_splits)
  with ps have f: "ic_first_message ic = is_first (snd (env_decode env bs)) b" by (simp add: is_first_def)
  obtain s' ic' where e: "extractParsedInformation (env_bq env) (axes (config_for (snd (env_decode env bs)) b)) ic = (s', ic')"
    by fastforce
  have act: "axes (bc_active (if ic_first_message ic \<and> bc_has_pending_update (bi_configuration b)
      then (bi_configuration b)\<lparr>bc_active := bc_update (bi_configuration b), bc_has_pending_update := False\<rparr>
      else bi_configuration b)) = axes (config_for (snd (env_decode env bs)) b)"
    using f by (simp add: config_for_def)
  have "s' \<and> bi_inputs (snd (initializeCallback env (Some bs) b)) = ic'"
    using assms s p e act by (auto simp: initializeCallback_def Let_def split: if_splits)
  with e ps(2) show thesis by (intro that [of ic]) simp_all
qed

lemma generateDemoOutputs_sensor:
  "generateDemoOutputs ic oc = Some oc' \<Longrightarrow> oc_egm_sensor oc' = oc_egm_sensor oc \<and> oc_reply oc' = oc_reply oc"
  by (auto simp: generateDemoOutputs_def Let_def case_prod_beta Option.bind_eq_Some_conv)

lemma logData_frame [simp]:
  "bi_outputs (logData t b) = bi_outputs b" "bi_inputs (logData t b) = bi_inputs b"
  "bi_configuration (logData t b) = bi_configuration b" "bi_session_data (logData t b) = bi_session_data b"
  by (simp_all add: logData_def split: option.split)

lemma finish_callback_outputs:
  "bi_outputs (finish_callback env b) =
     updatePrevious_outputs (constructReply (env_encode env) (bc_active (bi_configuration b)) (bi_outputs b))"
  by (simp add: finish_callback_def Let_def)

lemma updatePrevious_outputs_frame [simp]:
  "oc_egm_sensor (updatePrevious_outputs oc) = oc_egm_sensor oc" "oc_reply (updatePrevious_outputs oc) = oc_reply oc"
  "oc_current (updatePrevious_outputs oc) = oc_current oc"
  by (simp_all add: updatePrevious_outputs_def)

section \<open>What is sent\<close>

definition base_inv :: "EGMBaseInterface \<Rightarrow> bool" where
  "base_inv b \<longleftrightarrow> sensor_finite (oc_egm_sensor (bi_outputs b))"

lemma base_inv_init: "base_inv (init_EGMBaseInterface c)"
  by (simp add: base_inv_def init_EGMBaseInterface_def init_OutputContainer_def)

lemma finish_callback_inv: "base_inv b \<Longrightarrow> base_inv (finish_callback env b)"
  by (simp add: base_inv_def finish_callback_outputs constructReply_finite)

lemma finish_callback_reply:
  assumes "oc_reply (bi_outputs (finish_callback env b)) \<noteq> []"
  shows "env_encode env (oc_egm_sensor (bi_outputs (finish_callback env b))) =
    (True, oc_reply (bi_outputs (finish_callback env b)))"
  using assms constructReply_encoded by (auto simp: finish_callback_outputs)

lemma ex_refl: "Q x \<Longrightarrow> \<exists>y. f x = f y \<and> Q y"
  by blast

lemma base_callback_cases:
  assumes "base_callback env data b = Some (r, b')"
  shows "r = oc_reply (bi_outputs b') \<and>
    (if accepts env data b
     then \<exists>b1. b' = finish_callback env b1 \<and> oc_egm_sensor (bi_outputs b1) = oc_egm_sensor (bi_outputs b)
       \<and> bi_configuration b1 = bi_configuration (snd (initializeCallback env data b))
     else b' = snd (initializeCallback env data b) \<and> r = [])"
  using assms initializeCallback_reply_cleared [of env data b] initializeCallback_sensor [of env data b]
  unfolding initializeCallback_accepts [symmetric]
  by (cases "initializeCallback env data b")
    (auto simp: base_callback_def Option.bind_eq_Some_conv dest: generateDemoOutputs_sensor
      intro!: ex_refl split: if_splits)

lemma setConfiguration_inv: "base_inv (setConfiguration c b) = base_inv b"
  by (simp add: setConfiguration_def base_inv_def)

lemma base_callback_inv:
  assumes "base_callback env data b = Some (r, b')" "base_inv b"
  shows "base_inv b'"
  using base_callback_cases [OF assms(1)] assms(2) initializeCallback_sensor [of env data b]
  by (auto simp: base_inv_def finish_callback_outputs intro!: constructReply_finite split: if_splits)

definition finite_message :: "env \<Rightarrow> bytes \<Rightarrow> bool" where
  "finite_message env r \<longleftrightarrow> (\<exists>msg. env_encode env msg = (True, r) \<and> sensor_finite msg)"

lemma finish_callback_good:
  assumes "sensor_finite (oc_egm_sensor (bi_outputs b))" "oc_reply (bi_outputs (finish_callback env b)) \<noteq> []"
  shows "finite_message env (oc_reply (bi_outputs (finish_callback env b)))"
  using finish_callback_inv [of b env] finish_callback_reply [OF assms(2)] assms(1)
  by (auto simp: finite_message_def base_inv_def)

interpretation base_contract: reply_contract "base_callback env" base_inv "accepts env" "finite_message env" for env
proof
  show "finite_message env r" if "base_inv b" "base_callback env d b = Some (r, b')" "r \<noteq> []" for b d r b'
    using base_callback_cases [OF that(2)] that(1,3)
    by (auto simp: base_inv_def intro: finish_callback_good split: if_splits)
  show "r = []" if "base_callback env d b = Some (r, b')" "\<not> accepts env d b" for d b r b'
    using base_callback_cases [OF that(1)] that(2) by auto
qed (rule base_callback_inv)

text \<open>The steps of the object: a datagram arrives, or the user sets a configuration.\<close>

inductive base_step :: "env \<Rightarrow> EGMBaseInterface \<Rightarrow> EGMBaseInterface \<Rightarrow> bool" for env where
  step_callback: "base_callback env data b = Some (r, b') \<Longrightarrow> base_step env b b'"
| step_setConfiguration: "base_step env b (setConfiguration c b)"

inductive_cases base_stepE: "base_step env b b'"

interpretation base_sys: inv_system "\<lambda>b. \<exists>c. b = init_EGMBaseInterface c" "base_step env" base_inv for env
proof
  show "base_inv b'" if "base_inv b" "base_step env b b'" for b b'
    using that(2,1) by (cases rule: base_step.cases) (auto intro: base_callback_inv simp: setConfiguration_inv)
qed (auto simp: base_inv_init)

text \<open>
  In every state a base interface can reach, by any sequence of datagrams and configuration updates, a
  callback returns a non-empty reply only for a datagram that decodes and holds everything the configuration
  in force needs, and the reply is the encoding of a sensor message without NaN or infinite values.
\<close>

theorem base_replies_are_safe:
  assumes "reach (\<lambda>b. \<exists>c. b = init_EGMBaseInterface c) (base_step env) b"
    and "base_callback env data b = Some (r, b')" "r \<noteq> []"
  shows "accepts env data b \<and> finite_message env r"
  using base_sys.reach_inv [OF assms(1)] assms(2,3) base_contract.callback_good base_contract.callback_silent
  by blast

section \<open>Accepted messages are answered\<close>

definition fin_feedback :: "RobotAxes \<Rightarrow> EgmFeedBack \<Rightarrow> bool" where
  "fin_feedback ax fb \<longleftrightarrow>
     (\<forall>v \<in> set (ej_joints (efb_joints_of fb)) \<union> set (ej_joints (efb_externalJoints_of fb)). is_fin v) \<and>
     (ax \<noteq> NoAxes \<longrightarrow> verify_CartesianPose (snd (parse_CartesianPose (efb_cartesian_of fb))))"

lemma parse_Joints_subset:
  "set (jvalues (fst (snd (parse_Joints r e ax)))) \<union> set (jvalues (snd (snd (parse_Joints r e ax))))
     \<subseteq> set (ej_joints r) \<union> set (ej_joints e)"
  by (auto simp: parse_Joints_def Let_def joint_counts Suc_le_eq split: RobotAxes.split)

lemma parse_Joints_fit: "joints_ok ax r e \<Longrightarrow> axes_fit ax (jvalues (fst (snd (parse_Joints r e ax))))"
  by (auto simp: parse_Joints_def Let_def joint_counts axes_fit_def joints_ok_def Suc_le_eq split: RobotAxes.split)

lemma constructReply_success:
  assumes "has (js_position (rob_joints_of (out_robot_of (oc_current oc))))"
    and "verify_Joints (js_position_of (rob_joints_of (out_robot_of (oc_current oc))))"
    and "verify_Joints (js_position_of (ext_joints_of (out_external_of (oc_current oc))))"
    and "axes_fit (axes c) (jvalues (js_position_of (rob_joints_of (out_robot_of (oc_current oc)))))"
    and "axes c \<noteq> NoAxes \<Longrightarrow> has (cs_pose (rob_cartesian_of (out_robot_of (oc_current oc)))) \<and>
      verify_CartesianPose (cs_pose_of (rob_cartesian_of (out_robot_of (oc_current oc))))"
    and "\<not> use_velocity_outputs c" and "\<And>m. fst (enc m) \<and> snd (enc m) \<noteq> []"
  shows "oc_reply (constructReply enc c oc) \<noteq> []"
  using assms
  by (auto simp: constructReply_def constructHeader_def constructJointBody_def constructCartesianBody_def Let_def
      map_axes_ok case_prod_beta simp del: verify_CartesianPose_iff)

lemma prepareOutputs_first_outputs:
  assumes "ic_first_message ic"
  shows "has (js_position (rob_joints_of (out_robot_of (oc_current (prepareOutputs ic oc)))))"
    "has (cs_pose (rob_cartesian_of (out_robot_of (oc_current (prepareOutputs ic oc)))))"
    "js_position_of (rob_joints_of (out_robot_of (oc_current (prepareOutputs ic oc)))) = js_position_of (fb_robot_joints (ic_current ic))"
    "js_position_of (ext_joints_of (out_external_of (oc_current (prepareOutputs ic oc)))) = js_position_of (fb_external_joints (ic_current ic))"
    "cs_pose_of (rob_cartesian_of (out_robot_of (oc_current (prepareOutputs ic oc)))) = fb_pose (ic_current ic)"
  using assms by (simp_all add: prepareOutputs_def Let_def joint_views fb_pose_def zero_velocities_values)

lemma initializeCallback_first:
  assumes "accepts env (Some bs) b" "is_first (snd (env_decode env bs)) b"
  defines "c \<equiv> config_for (snd (env_decode env bs)) b" and "fb \<equiv> erb_feedBack_of (snd (env_decode env bs))"
  obtains b1 oc where "initializeCallback env (Some bs) b = (True, b1)" "bi_outputs b1 = prepareOutputs (bi_inputs b1) oc"
    "ic_first_message (bi_inputs b1)" "bc_active (bi_configuration b1) = c"
    "js_position_of (fb_robot_joints (ic_current (bi_inputs b1)))
      = fst (snd (parse_Joints (efb_joints_of fb) (efb_externalJoints_of fb) (axes c)))"
    "js_position_of (fb_external_joints (ic_current (bi_inputs b1)))
      = snd (snd (parse_Joints (efb_joints_of fb) (efb_externalJoints_of fb) (axes c)))"
    "axes c \<noteq> NoAxes \<Longrightarrow> fb_pose (ic_current (bi_inputs b1)) = snd (parse_CartesianPose (efb_cartesian_of fb))"
proof -
  let ?b1 = "snd (initializeCallback env (Some bs) b)"
  have ok: "fst (initializeCallback env (Some bs) b)" using assms(1) by (simp add: initializeCallback_accepts)
  then obtain ic where e: "extractParsedInformation (env_bq env) (axes c) ic = (True, bi_inputs ?b1)"
    and msg: "ic_egm_robot ic = snd (env_decode env bs)"
    unfolding c_def by (rule initializeCallback_extract)
  have out: "\<exists>oc. bi_outputs ?b1 = prepareOutputs (bi_inputs ?b1) oc"
    using ok by (auto simp: initializeCallback_def Let_def case_prod_beta)
  then obtain oc where "bi_outputs ?b1 = prepareOutputs (bi_inputs ?b1) oc" ..
  moreover have "initializeCallback env (Some bs) b = (True, ?b1)" using ok by (simp add: prod_eq_iff)
  moreover note initializeCallback_active [OF ok] extracted_positions [OF e] extracted_pose [OF e]
  ultimately show thesis using that [of ?b1 oc] assms(2) by (simp add: c_def fb_def msg)
qed

lemma answered_first:
  assumes "accepts env (Some bs) b" "is_first (snd (env_decode env bs)) b"
    and "\<not> use_demo_outputs (config_for (snd (env_decode env bs)) b)"
    and "\<not> use_velocity_outputs (config_for (snd (env_decode env bs)) b)"
    and "fin_feedback (axes (config_for (snd (env_decode env bs)) b)) (erb_feedBack_of (snd (env_decode env bs)))"
    and "\<And>m. fst (env_encode env m) \<and> snd (env_encode env m) \<noteq> []"
  shows "\<exists>r b'. base_callback env (Some bs) b = Some (r, b') \<and> r \<noteq> []"
proof -
  let ?msg = "snd (env_decode env bs)" and ?c = "config_for (snd (env_decode env bs)) b"
  let ?fb = "erb_feedBack_of ?msg"
  from initializeCallback_first [OF assms(1,2)] obtain b1 oc where
    b1: "initializeCallback env (Some bs) b = (True, b1)" "bi_outputs b1 = prepareOutputs (bi_inputs b1) oc"
      "ic_first_message (bi_inputs b1)" "bc_active (bi_configuration b1) = ?c"
    and ps: "js_position_of (fb_robot_joints (ic_current (bi_inputs b1)))
        = fst (snd (parse_Joints (efb_joints_of ?fb) (efb_externalJoints_of ?fb) (axes ?c)))"
      "js_position_of (fb_external_joints (ic_current (bi_inputs b1)))
        = snd (snd (parse_Joints (efb_joints_of ?fb) (efb_externalJoints_of ?fb) (axes ?c)))"
      "axes ?c \<noteq> NoAxes \<Longrightarrow> fb_pose (ic_current (bi_inputs b1)) = snd (parse_CartesianPose (efb_cartesian_of ?fb))"
    by metis
  note out = prepareOutputs_first_outputs [OF b1(3), of oc, folded b1(2)]
  have sub: "set (jvalues (fst (snd (parse_Joints (efb_joints_of ?fb) (efb_externalJoints_of ?fb) (axes ?c)))))
      \<union> set (jvalues (snd (snd (parse_Joints (efb_joints_of ?fb) (efb_externalJoints_of ?fb) (axes ?c)))))
      \<subseteq> {v. is_fin v}"
    using parse_Joints_subset assms(5) unfolding fin_feedback_def by blast
  have fit: "axes_fit (axes ?c) (jvalues (fst (snd (parse_Joints (efb_joints_of ?fb) (efb_externalJoints_of ?fb) (axes ?c)))))"
    using assms(1) by (intro parse_Joints_fit) (simp add: accepts_def acceptable_def Let_def)
  have "oc_reply (constructReply (env_encode env) ?c (bi_outputs b1)) \<noteq> []"
    using out ps sub fit assms(4,5,6)
    by (intro constructReply_success) (auto simp: fin_feedback_def)
  with b1(1,4) assms(3) show ?thesis by (simp add: base_callback_def finish_callback_outputs)
qed


text \<open>Code generated by \<open>protoc\<close> replaced by concrete functions: every datagram decodes to one message.\<close>

definition sample_env :: env where
  "sample_env = \<lparr>env_decode = (\<lambda>bs. (True, sample_message (of_nat (length bs)))), env_encode = sample_encoder,
     env_bq = hamilton\<rparr>"

lemma sample_first:
  "accepts sample_env (Some bs) (init_EGMBaseInterface default_BaseConfiguration)"
  "is_first (snd (env_decode sample_env bs)) (init_EGMBaseInterface default_BaseConfiguration)"
  "config_for msg (init_EGMBaseInterface default_BaseConfiguration) = default_BaseConfiguration"
  "fin_feedback ax (erb_feedBack_of (snd (env_decode sample_env bs)))"
  "fst (env_encode sample_env m) \<and> snd (env_encode sample_env m) \<noteq> []"
  by (simp_all add: accepts_def sample_env_def is_first_def init_EGMBaseInterface_def init_InputContainer_def
      config_for_def make_BaseConfigurationContainer_def default_BaseConfiguration_def sample_encoder_def)
    (simp add: fin_feedback_def sample_message_def sample_pose_def parse_CartesianPose_def fin_Cartesian_def
      fin_Euler_def fin_Quaternion_def)

text \<open>
  The first message of a session is answered: if it is accepted and its joint positions and pose are
  finite, then without demo and velocity outputs the base interface returns a reply, for every decoder and
  every encoder that succeeds.
\<close>

theorem first_message_answered:
  assumes "accepts env (Some bs) b" "is_first (snd (env_decode env bs)) b"
    and "\<not> use_demo_outputs (config_for (snd (env_decode env bs)) b)"
    and "\<not> use_velocity_outputs (config_for (snd (env_decode env bs)) b)"
    and "fin_feedback (axes (config_for (snd (env_decode env bs)) b)) (erb_feedBack_of (snd (env_decode env bs)))"
    and "\<And>m. fst (env_encode env m) \<and> snd (env_encode env m) \<noteq> []"
  shows "\<exists>r b'. base_callback env (Some bs) b = Some (r, b') \<and> r \<noteq> []"
  using assms by (rule answered_first)

theorem first_message_answered_witness:
  "\<exists>r b'. base_callback sample_env (Some [3]) (init_EGMBaseInterface default_BaseConfiguration) = Some (r, b') \<and> r \<noteq> []"
  by (rule first_message_answered)
    (simp_all add: sample_first, simp_all add: default_BaseConfiguration_def)

theorem base_replies_are_safe_witness:
  "\<exists>r b'. base_callback sample_env (Some [3]) (init_EGMBaseInterface default_BaseConfiguration) = Some (r, b') \<and> r \<noteq> []
    \<and> accepts sample_env (Some [3]) (init_EGMBaseInterface default_BaseConfiguration)
    \<and> finite_message sample_env r"
proof -
  let ?b = "init_EGMBaseInterface default_BaseConfiguration"
  have "\<exists>r b'. base_callback sample_env (Some [3]) ?b = Some (r, b') \<and> r \<noteq> []"
    by (rule answered_first) (simp_all add: sample_first, simp_all add: default_BaseConfiguration_def)
  moreover have "reach (\<lambda>b. \<exists>c. b = init_EGMBaseInterface c) (base_step sample_env) ?b"
    by (rule reach_init) blast
  ultimately show ?thesis using base_replies_are_safe by blast
qed

section \<open>Configuration updates\<close>

lemma initializeCallback_config:
  "bi_configuration (snd (initializeCallback env (Some bs) b)) =
     (if fst (env_decode env bs) \<and> is_first (snd (env_decode env bs)) b \<and> bc_has_pending_update (bi_configuration b)
      then (bi_configuration b)\<lparr>bc_active := bc_update (bi_configuration b), bc_has_pending_update := False\<rparr>
      else bi_configuration b)"
proof -
  obtain s ic where p: "parseFromArray (env_decode env) (Some bs) (bi_inputs b) = (s, ic)" by fastforce
  note ps = parseFromArray_Some [OF p]
  show ?thesis
  proof (cases s)
    case True
    with ps have "ic_first_message ic = is_first (snd (env_decode env bs)) b" by (simp add: is_first_def)
    with True ps p show ?thesis by (simp add: initializeCallback_def Let_def case_prod_beta)
  next
    case False
    with ps p show ?thesis by (simp add: initializeCallback_def Let_def case_prod_beta)
  qed
qed

lemma finish_callback_config [simp]: "bi_configuration (finish_callback env b) = bi_configuration b"
  by (simp add: finish_callback_def Let_def)

lemma base_callback_config:
  "base_callback env data b = Some (r, b') \<Longrightarrow>
     bi_configuration b' = bi_configuration (snd (initializeCallback env data b))"
  using base_callback_cases [of env data b r b'] by (auto split: if_splits)

text \<open>
  A configuration the user sets is what \<open>getConfiguration\<close> returns at once, but it becomes active only
  with the next decoded message that starts a session; messages inside a session keep the active one.
\<close>

theorem configuration_update:
  assumes "base_callback env (Some bs) (setConfiguration c b) = Some (r, b')" "fst (env_decode env bs)"
  shows "getConfiguration (setConfiguration c b) = c \<and> getConfiguration b' = c \<and>
    bc_active (bi_configuration b') =
      (if is_first (snd (env_decode env bs)) b then c else bc_active (bi_configuration b)) \<and>
    (bc_has_pending_update (bi_configuration b') \<longleftrightarrow> \<not> is_first (snd (env_decode env bs)) b)"
  using base_callback_config [OF assms(1)] assms(2)
  by (simp add: initializeCallback_config getConfiguration_def setConfiguration_def is_first_def)

lemma base_callback_total:
  "\<not> use_demo_outputs (bc_active (bi_configuration (snd (initializeCallback env data b)))) \<Longrightarrow>
     \<exists>r b'. base_callback env data b = Some (r, b')"
  by (cases "initializeCallback env data b") (simp add: base_callback_def)

text \<open>Without demo outputs the base interface always returns.\<close>

definition no_demo :: "EGMBaseInterface \<Rightarrow> bool" where
  "no_demo b \<longleftrightarrow> \<not> use_demo_outputs (bc_active (bi_configuration b)) \<and> \<not> use_demo_outputs (bc_update (bi_configuration b))"

lemma no_demo_init: "no_demo b \<Longrightarrow> no_demo (snd (initializeCallback env data b))"
  by (simp add: no_demo_def initializeCallback_def Let_def case_prod_beta)

interpretation base_total: total_callback "base_callback env" no_demo for env
proof
  show "\<exists>r b'. base_callback env d b = Some (r, b') \<and> no_demo b'" if "no_demo b" for b d
    using no_demo_init [OF that, of env d]
    by (cases "initializeCallback env d b") (simp add: base_callback_def no_demo_def finish_callback_def Let_def)
qed

theorem configuration_update_witness:
  "\<exists>r b'. base_callback sample_env (Some [3])
       (setConfiguration (default_BaseConfiguration\<lparr>axes := Seven\<rparr>) (init_EGMBaseInterface default_BaseConfiguration)) = Some (r, b')
    \<and> axes (bc_active (bi_configuration b')) = Seven"
proof -
  let ?c = "default_BaseConfiguration\<lparr>axes := Seven\<rparr>" and ?b = "init_EGMBaseInterface default_BaseConfiguration"
  have f: "fst (env_decode sample_env [3])" by (simp add: sample_env_def)
  have "\<not> use_demo_outputs (bc_active (bi_configuration (snd (initializeCallback sample_env (Some [3]) (setConfiguration ?c ?b)))))"
    by (simp add: initializeCallback_config setConfiguration_def init_EGMBaseInterface_def
        make_BaseConfigurationContainer_def default_BaseConfiguration_def)
  from base_callback_total [OF this] obtain r b' where
    "base_callback sample_env (Some [3]) (setConfiguration ?c ?b) = Some (r, b')" by blast
  with configuration_update [OF this f] show ?thesis by (auto simp: sample_first)
qed

section \<open>Rows of the log\<close>

lemma commas_add_twelve:
  "6 \<le> length (jvalues r) \<Longrightarrow> length (jvalues r) + length (jvalues e) \<le> 12 \<Longrightarrow>
     logged_commas (add_Joints r e lg) = logged_commas lg + 12"
  by (subst commas_add_Joints) auto

definition loggable :: "JointSpace \<Rightarrow> JointSpace \<Rightarrow> bool" where
  "loggable r e \<longleftrightarrow>
     6 \<le> length (jvalues (js_position_of r)) \<and> length (jvalues (js_position_of r)) + length (jvalues (js_position_of e)) \<le> 12 \<and>
     6 \<le> length (jvalues (js_velocity_of r)) \<and> length (jvalues (js_velocity_of r)) + length (jvalues (js_velocity_of e)) \<le> 12"

text \<open>
  C35: Every row the logger writes has as many fields as the header row (121, separated by 120 commas) when
  the feedback, planned and output joints are those of a robot with six or more joints and at most twelve
  joints in all.
\<close>

theorem log_row_matches_header:
  assumes "loggable (fb_robot_joints (ic_current ic)) (fb_external_joints (ic_current ic))"
    and "loggable (pl_robot_joints (ic_current ic)) (pl_external_joints (ic_current ic))"
    and "loggable (out_robot_joints oc) (out_external_joints oc)"
  shows "logged_commas (flush (log_row ic oc lg)) = logged_commas lg + logged_commas (init_EGMLogger True)"
  using assms
  by (simp add: log_row_def Let_def loggable_def joint_views out_robot_joints_def out_external_joints_def
      commas_add_twelve commas_default_headers)

definition full_joints :: "nat \<Rightarrow> JointSpace" where
  "full_joints n = \<lparr>js_position = Some \<lparr>jvalues = replicate n (Fin 1)\<rparr>, js_velocity = Some \<lparr>jvalues = replicate n (Fin 0)\<rparr>\<rparr>"

definition full_input :: Input where
  "full_input = default_Input
     \<lparr>in_feedback := Some (default_Feedback\<lparr>fb_robot := Some (default_Robot\<lparr>rob_joints := Some (full_joints 6)\<rparr>)\<rparr>),
      in_planned := Some (default_Planned\<lparr>pl_robot := Some (default_Robot\<lparr>rob_joints := Some (full_joints 6)\<rparr>)\<rparr>)\<rparr>"

theorem log_row_matches_header_witness:
  "logged_commas (flush (log_row (init_InputContainer\<lparr>ic_current := full_input\<rparr>)
     (init_OutputContainer\<lparr>oc_current := default_Output\<lparr>out_robot := Some (default_Robot\<lparr>rob_joints := Some (full_joints 6)\<rparr>)\<rparr>\<rparr>)
     (init_EGMLogger True))) = 240"
  using log_row_matches_header [of "init_InputContainer\<lparr>ic_current := full_input\<rparr>"
      "init_OutputContainer\<lparr>oc_current := default_Output\<lparr>out_robot := Some (default_Robot\<lparr>rob_joints := Some (full_joints 6)\<rparr>)\<rparr>\<rparr>"
      "init_EGMLogger True"]
  by (simp add: full_input_def full_joints_def loggable_def joint_views out_robot_joints_def out_external_joints_def
      commas_default_headers)

text \<open>
  Without robot axes the rows do not match the header: with no robot joints and at most twelve external
  joints, each pair of joint groups takes 18 fields instead of 12, so that a row of six such pairs has 36
  more fields than the header row.
\<close>

theorem log_row_without_robot_axes:
  assumes "length (jvalues e) \<le> 12"
  shows "logged_commas (add_Joints \<lparr>jvalues = []\<rparr> e lg) = logged_commas lg + 18"
  using assms by (simp add: commas_add_Joints max_def)

theorem log_row_without_robot_axes_witness:
  "logged_commas (add_Joints \<lparr>jvalues = []\<rparr> \<lparr>jvalues = [Fin 1, Fin 2]\<rparr> (init_EGMLogger False)) = 18"
  using log_row_without_robot_axes [of "\<lparr>jvalues = [Fin 1, Fin 2]\<rparr>" "init_EGMLogger False"]
  by (simp add: init_EGMLogger_def logged_commas_def)

section \<open>Messages of old RobotWare versions\<close>

text \<open>
  C32: Robots of RobotWare 6.0 to 6.06.03 are recognised and never served. A message that decodes and has no time
  field is recorded in the inputs as one of these versions with EGM version 1.0, as the comments of \<open>egm_wrapper.proto\<close> say, but
  in every state of the base interface the callback answers it with an empty reply, leaves no status to the user,
  and \<open>isConnected\<close> is false whenever it compares with the state after such a message.
\<close>

theorem old_robotware_unanswered:
  assumes "fst (env_decode env bs)" "efb_time (erb_feedBack_of (snd (env_decode env bs))) = None"
  shows "\<exists>b'. base_callback env (Some bs) b = Some ([], b') \<and>
    rw_version_of (in_header_of (ic_current (bi_inputs b'))) = RW_BETWEEN_6_AND_6_06_03 \<and>
    egm_version_of (in_header_of (ic_current (bi_inputs b'))) = EGM_1_0 \<and>
    getStatus b' = default_Status \<and> (\<forall>b''. \<not> isConnected b' b'' \<and> \<not> isConnected b'' b')"
proof -
  obtain s ic where p: "parseFromArray (env_decode env) (Some bs) (bi_inputs b) = (s, ic)" by fastforce
  note ps = parseFromArray_Some [OF p]
  have new: "s" "ic_has_new_data ic" "efb_time (erb_feedBack_of (ic_egm_robot ic)) = None" using ps assms by simp_all
  note rej = old_robotware_rejected [OF new(2,3)]
  obtain f b' where b': "initializeCallback env (Some bs) b = (f, b')" by fastforce
  have f: "\<not> f" and "\<exists>ax. bi_inputs b' = snd (extractParsedInformation (env_bq env) ax ic)"
    and ses: "bi_session_data b' = \<lparr>ses_header = default_Header, ses_status = default_Status\<rparr>"
    using b' p new(1) rej(1) by (auto simp: initializeCallback_def Let_def case_prod_beta split: if_splits)
  then obtain ax where "bi_inputs b' = snd (extractParsedInformation (env_bq env) ax ic)" by blast
  moreover have "oc_reply (bi_outputs b') = []" using initializeCallback_reply_cleared [of env "Some bs" b] b' by simp
  then have "base_callback env (Some bs) b = Some ([], b')" using f b' by (simp add: base_callback_def)
  ultimately show ?thesis using rej ses by (simp add: getStatus_def isConnected_def connected_def)
qed

theorem old_robotware_unanswered_witness:
  "\<exists>b'. base_callback (sample_env\<lparr>env_decode := (\<lambda>bs. (True, (sample_message 3)\<lparr>erb_feedBack := Some default_EgmFeedBack\<rparr>))\<rparr>) (Some [3])
      (init_EGMBaseInterface default_BaseConfiguration) = Some ([], b') \<and>
    rw_version_of (in_header_of (ic_current (bi_inputs b'))) = RW_BETWEEN_6_AND_6_06_03"
  using old_robotware_unanswered [of "sample_env\<lparr>env_decode := (\<lambda>bs. (True, (sample_message 3)\<lparr>erb_feedBack := Some default_EgmFeedBack\<rparr>))\<rparr>"
      "[3]" "init_EGMBaseInterface default_BaseConfiguration"]
  by auto

end
