(* ===== verification/EGM_Controller.thy ===== *)
theory EGM_Controller
  imports EGM_Base "HOL-Library.Sublist"
begin

text \<open>
  \<open>egm_controller_interface.h\<close> and \<open>egm_controller_interface.cpp\<close>: the interface for an external control
  loop. \<open>ControllerMotion\<close> exchanges inputs and outputs between the thread of the server and the thread of
  the user. Each method holds a mutex except while it waits on a condition variable; a wait is therefore
  given by its wake-ups: what the other thread does before each of them, and whether the wait was notified
  or timed out.
\<close>

section \<open>ControllerMotion\<close>

record ControllerMotion =
  cm_read_data_ready :: bool
  cm_write_data_ready :: bool
  cm_inputs :: Input
  cm_outputs :: Output

definition init_ControllerMotion :: ControllerMotion where
  "init_ControllerMotion =
     \<lparr>cm_read_data_ready = False, cm_write_data_ready = False, cm_inputs = default_Input, cm_outputs = default_Output\<rparr>"

definition WRITE_TIMEOUT_MS :: nat where
  "WRITE_TIMEOUT_MS = 24"

definition initialize :: "bool \<Rightarrow> ControllerMotion \<Rightarrow> ControllerMotion" where
  "initialize first_message cm =
     (if first_message then cm\<lparr>cm_read_data_ready := False, cm_write_data_ready := False\<rparr> else cm)"

definition writeInputs :: "Input \<Rightarrow> ControllerMotion \<Rightarrow> ControllerMotion" where
  "writeInputs inputs cm = cm\<lparr>cm_inputs := inputs, cm_read_data_ready := True\<rparr>"

definition readInputs :: "ControllerMotion \<Rightarrow> Input \<times> ControllerMotion" where
  "readInputs cm = (cm_inputs cm, cm\<lparr>cm_read_data_ready := False\<rparr>)"

definition writeOutputs :: "Output \<Rightarrow> ControllerMotion \<Rightarrow> ControllerMotion" where
  "writeOutputs outputs cm = cm\<lparr>cm_outputs := outputs, cm_write_data_ready := True\<rparr>"

text \<open>What the user's thread does while the server's thread waits.\<close>

datatype user_op = UserWrite Output | UserRead

fun apply_user :: "user_op list \<Rightarrow> ControllerMotion \<Rightarrow> ControllerMotion" where
  "apply_user [] cm = cm"
| "apply_user (UserWrite outputs # ops) cm = apply_user ops (writeOutputs outputs cm)"
| "apply_user (UserRead # ops) cm = apply_user ops (snd (readInputs cm))"

text \<open>
  The waiting loop of \<open>readOutputs\<close>. A wake-up pairs the operations before it with the result of
  \<open>timed_wait\<close>: \<open>True\<close> when notified (or woken spuriously), \<open>False\<close> on a timeout. After the listed
  wake-ups the wait times out: no call of \<open>timed_wait\<close> takes longer than its timeout.
\<close>

type_synonym wake_ups = "(user_op list \<times> bool) list"

fun wait_outputs :: "wake_ups \<Rightarrow> bool \<Rightarrow> ControllerMotion \<Rightarrow> bool \<times> ControllerMotion" where
  "wait_outputs ws timed_out cm =
     (if \<not> cm_write_data_ready cm \<and> \<not> timed_out
      then case ws of
             [] \<Rightarrow> (True, cm)
           | (ops, notified) # ws' \<Rightarrow> wait_outputs ws' (\<not> notified) (apply_user ops cm)
      else (timed_out, cm))"

declare wait_outputs.simps [simp del]

definition consume :: "ControllerMotion \<Rightarrow> Output \<times> ControllerMotion" where
  "consume cm = (cm_outputs cm, cm\<lparr>cm_write_data_ready := False\<rparr>)"

definition readOutputs :: "wake_ups \<Rightarrow> Output option \<Rightarrow> ControllerMotion \<Rightarrow> Output option \<times> ControllerMotion" where
  "readOutputs ws p_outputs cm =
     (let (timed_out, cm1) = wait_outputs ws False cm
      in if \<not> timed_out \<and> has p_outputs
         then
           let (written, cm2) = consume cm1
           in (map_option (\<lambda>out. copyPresent_Output out written) p_outputs, cm2)
         else (p_outputs, cm1))"

text \<open>
  The waiting loop of \<open>waitForMessage\<close>. A wake-up pairs the inputs the server's thread writes before it, if
  any, with the result of \<open>timed_wait\<close>. With a timeout of 0 the loop waits without one: it may never
  return, and \<open>None\<close> is that it still waits after the listed wake-ups.
\<close>

fun wait_message :: "nat \<Rightarrow> (Input option \<times> bool) list \<Rightarrow> bool \<Rightarrow> ControllerMotion \<Rightarrow> (bool \<times> ControllerMotion) option" where
  "wait_message timeout_ms ws timed_out cm =
     (if \<not> cm_read_data_ready cm \<and> \<not> timed_out
      then case ws of
             [] \<Rightarrow> (if timeout_ms \<le> 0 then None else Some (True, cm))
           | (written, notified) # ws' \<Rightarrow>
               let cm1 = (case written of None \<Rightarrow> cm | Some i \<Rightarrow> writeInputs i cm)
               in wait_message timeout_ms ws' (if timeout_ms \<le> 0 then timed_out else \<not> notified) cm1
      else Some (timed_out, cm))"

declare wait_message.simps [simp del]

definition waitForMessage :: "nat \<Rightarrow> (Input option \<times> bool) list \<Rightarrow> ControllerMotion \<Rightarrow> (bool \<times> ControllerMotion) option" where
  "waitForMessage timeout_ms ws cm = do {
     (timed_out, cm1) \<leftarrow> wait_message timeout_ms ws False cm;
     Some (\<not> timed_out, cm1)
   }"

section \<open>EGMControllerInterface\<close>

record EGMControllerInterface =
  ci_base :: EGMBaseInterface
  ci_motion :: ControllerMotion

text \<open>The constructor of the derived class replaces the logger by a new one on the same file.\<close>

definition init_EGMControllerInterface :: "BaseConfiguration \<Rightarrow> EGMControllerInterface" where
  "init_EGMControllerInterface configuration =
     (let b = init_EGMBaseInterface configuration
      in \<lparr>ci_base = (if use_logging (bc_active (bi_configuration b)) then b\<lparr>bi_logger := Some (init_EGMLogger True)\<rparr> else b),
          ci_motion = init_ControllerMotion\<rparr>)"

text \<open>
  A schedule gives the operations of the user's thread between \<open>writeInputs\<close> and \<open>readOutputs\<close>, and the
  wake-ups of the wait inside \<open>readOutputs\<close>.
\<close>

type_synonym schedule = "user_op list \<times> wake_ups"

definition controller_callback ::
  "env \<Rightarrow> schedule \<Rightarrow> bytes option \<Rightarrow> EGMControllerInterface \<Rightarrow> (bytes \<times> EGMControllerInterface) option" where
  "controller_callback env sched data c = do {
     let (success, b1) = initializeCallback env data (ci_base c);
     c2 \<leftarrow>
       (if success
        then do {
          let cm1 = initialize (ic_first_message (bi_inputs b1)) (ci_motion c);
          (b2, cm2) \<leftarrow>
            (if use_demo_outputs (bc_active (bi_configuration b1))
             then do {
               oc \<leftarrow> generateDemoOutputs (bi_inputs b1) (bi_outputs b1);
               Some (b1\<lparr>bi_outputs := oc\<rparr>, cm1)
             }
             else
               let cm2 = apply_user (fst sched) (writeInputs (ic_current (bi_inputs b1)) cm1)
               in if ic_first_message (bi_inputs b1) \<or> statesOk (bi_inputs b1)
                  then
                    let (out, cm3) = readOutputs (snd sched) (Some (oc_current (bi_outputs b1))) cm2
                    in Some (b1\<lparr>bi_outputs := (bi_outputs b1)\<lparr>oc_current := getd default_Output out\<rparr>\<rparr>, cm3)
                  else Some (b1, cm2));
          Some \<lparr>ci_base = finish_callback env b2, ci_motion = cm2\<rparr>
        }
        else Some (c\<lparr>ci_base := b1\<rparr>));
     Some (oc_reply (bi_outputs (ci_base c2)), c2)
   }"

definition controller_waitForMessage ::
  "nat \<Rightarrow> (Input option \<times> bool) list \<Rightarrow> EGMControllerInterface \<Rightarrow> (bool \<times> EGMControllerInterface) option" where
  "controller_waitForMessage timeout_ms ws c = do {
     (ok, cm) \<leftarrow> waitForMessage timeout_ms ws (ci_motion c);
     Some (ok, c\<lparr>ci_motion := cm\<rparr>)
   }"

definition controller_read :: "EGMControllerInterface \<Rightarrow> Input \<times> EGMControllerInterface" where
  "controller_read c = (let (i, cm) = readInputs (ci_motion c) in (i, c\<lparr>ci_motion := cm\<rparr>))"

definition controller_write :: "Output \<Rightarrow> EGMControllerInterface \<Rightarrow> EGMControllerInterface" where
  "controller_write outputs c = c\<lparr>ci_motion := writeOutputs outputs (ci_motion c)\<rparr>"

section \<open>The mailbox contract\<close>

text \<open>
  Both directions of \<open>ControllerMotion\<close> are a slot for one message with a flag: writing overwrites the
  message and raises the flag, taking returns the message and lowers the flag.
\<close>

locale mailbox =
  fixes put :: "'a \<Rightarrow> 's \<Rightarrow> 's" and take_out :: "'s \<Rightarrow> 'a \<times> 's" and ready :: "'s \<Rightarrow> bool"
  assumes put_ready: "ready (put x s)"
    and take_put: "fst (take_out (put x s)) = x"
    and take_empties: "\<not> ready (snd (take_out s))"
begin

lemma take_latest: "xs \<noteq> [] \<Longrightarrow> fst (take_out (fold put xs s)) = last xs \<and> ready (fold put xs s)"
  by (induction xs arbitrary: s rule: rev_induct) (auto simp: put_ready take_put)

end

interpretation inbox: mailbox writeInputs readInputs cm_read_data_ready
  by unfold_locales (simp_all add: writeInputs_def readInputs_def)

interpretation outbox: mailbox writeOutputs consume cm_write_data_ready
  by unfold_locales (simp_all add: writeOutputs_def consume_def)

section \<open>Waiting for outputs\<close>

fun writes_of :: "user_op list \<Rightarrow> Output list" where
  "writes_of [] = []"
| "writes_of (UserWrite out # ops) = out # writes_of ops"
| "writes_of (UserRead # ops) = writes_of ops"

definition all_writes :: "wake_ups \<Rightarrow> Output list" where
  "all_writes ws = concat (map (writes_of \<circ> fst) ws)"

definition same_outbox :: "ControllerMotion \<Rightarrow> ControllerMotion \<Rightarrow> bool" where
  "same_outbox cm cm' \<longleftrightarrow> cm_outputs cm = cm_outputs cm' \<and> cm_write_data_ready cm = cm_write_data_ready cm'"

lemma same_outbox_simps [simp]:
  "same_outbox cm cm' \<Longrightarrow> same_outbox (writeOutputs x cm) (writeOutputs x cm')"
  "same_outbox (snd (readInputs cm)) cm' = same_outbox cm cm'"
  by (simp_all add: same_outbox_def writeOutputs_def readInputs_def)

lemma apply_user_outbox: "same_outbox (apply_user ops cm) (fold writeOutputs (writes_of ops) cm)"
proof -
  have "same_outbox cm cm' \<Longrightarrow> same_outbox (apply_user ops cm) (fold writeOutputs (writes_of ops) cm')" for cm'
    by (induction ops cm arbitrary: cm' rule: apply_user.induct) auto
  then show ?thesis by (simp add: same_outbox_def)
qed

lemma apply_user_ready:
  "cm_write_data_ready (apply_user ops cm) \<longleftrightarrow> writes_of ops \<noteq> [] \<or> cm_write_data_ready cm"
  using apply_user_outbox [of ops cm] outbox.take_latest [of "writes_of ops" cm]
  by (cases "writes_of ops = []") (auto simp: same_outbox_def)

lemma apply_user_latest: "writes_of ops \<noteq> [] \<Longrightarrow> cm_outputs (apply_user ops cm) = last (writes_of ops)"
  using apply_user_outbox [of ops cm] outbox.take_latest [of "writes_of ops" cm]
  by (auto simp: same_outbox_def consume_def)


text \<open>The loop as it unfolds, one wake-up at a time.\<close>

lemma wait_outputs_simps [simp]:
  "wait_outputs [] b cm = (b \<or> \<not> cm_write_data_ready cm, cm)"
  "wait_outputs ((ops, notified) # ws) b cm =
     (if \<not> cm_write_data_ready cm \<and> \<not> b then wait_outputs ws (\<not> notified) (apply_user ops cm) else (b, cm))"
  by (auto simp: wait_outputs.simps [of "[]"] wait_outputs.simps [of "(ops, notified) # ws"])

lemma wait_outputs_not_timed_out: "wait_outputs ws b cm = (False, cm') \<Longrightarrow> cm_write_data_ready cm'"
proof (induction ws arbitrary: b cm)
  case (Cons w ws)
  then show ?case by (cases w) (auto split: if_splits)
qed auto

lemma wait_outputs_no_write:
  "all_writes ws = [] \<Longrightarrow> \<not> cm_write_data_ready cm \<Longrightarrow> fst (wait_outputs ws b cm)"
proof (induction ws arbitrary: b cm)
  case (Cons w ws)
  then show ?case by (cases w) (auto simp: all_writes_def apply_user_ready)
qed simp

section \<open>An output is used at most once\<close>

datatype motion_event = EvInitialize bool | EvWriteInputs Input | EvUser "user_op list" | EvReadOutputs wake_ups "Output option"

text \<open>
  The calls of both threads, one after the other: what the calls of \<open>readOutputs\<close> leave in the outputs they are
  given, and these outputs before the calls.
\<close>

fun run_motion :: "motion_event list \<Rightarrow> ControllerMotion \<Rightarrow> Output option list" where
  "run_motion [] cm = []"
| "run_motion (EvInitialize b # evs) cm = run_motion evs (initialize b cm)"
| "run_motion (EvWriteInputs i # evs) cm = run_motion evs (writeInputs i cm)"
| "run_motion (EvUser ops # evs) cm = run_motion evs (apply_user ops cm)"
| "run_motion (EvReadOutputs ws p_outputs # evs) cm =
     (let (left, cm1) = readOutputs ws p_outputs cm in left # run_motion evs cm1)"

fun outputs_given :: "motion_event list \<Rightarrow> Output option list" where
  "outputs_given [] = []"
| "outputs_given (EvReadOutputs ws p_outputs # evs) = p_outputs # outputs_given evs"
| "outputs_given (_ # evs) = outputs_given evs"

text \<open>The outputs with a written output merged into them, or as they were.\<close>

fun merged :: "Output option \<Rightarrow> Output option \<Rightarrow> Output option" where
  "merged p_outputs None = p_outputs"
| "merged p_outputs (Some written) = map_option (\<lambda>out. copyPresent_Output out written) p_outputs"

definition used :: "Output option list \<Rightarrow> Output list" where
  "used us = map the (filter has us)"

lemma used_simps [simp]: "used [] = []" "used (None # us) = used us" "used (Some w # us) = w # used us"
  by (simp_all add: used_def)

fun event_writes :: "motion_event \<Rightarrow> Output list" where
  "event_writes (EvUser ops) = writes_of ops"
| "event_writes (EvReadOutputs ws p_outputs) = all_writes ws"
| "event_writes _ = []"

definition pending :: "ControllerMotion \<Rightarrow> Output list" where
  "pending cm = (if cm_write_data_ready cm then [cm_outputs cm] else [])"

lemma pending_apply_user: "subseq (pending (apply_user ops cm)) (pending cm @ writes_of ops)"
proof (cases "writes_of ops = []")
  case True
  then show ?thesis using apply_user_outbox [of ops cm] by (simp add: same_outbox_def pending_def)
next
  case False
  then have "pending (apply_user ops cm) = [last (writes_of ops)]"
    by (simp add: pending_def apply_user_ready apply_user_latest)
  with False show ?thesis by (simp add: subseq_singleton_left)
qed

lemma pending_wait: "subseq (pending (snd (wait_outputs ws b cm))) (pending cm @ all_writes ws)"
proof (induction ws arbitrary: b cm)
  case Nil
  then show ?case by (simp add: all_writes_def)
next
  case (Cons w ws)
  obtain ops notified where w: "w = (ops, notified)" by (cases w)
  have "subseq (pending (apply_user ops cm) @ all_writes ws) ((pending cm @ writes_of ops) @ all_writes ws)"
    by (intro list_emb_append_mono pending_apply_user) simp
  with Cons.IH [of "\<not> notified" "apply_user ops cm"] show ?case
    by (auto simp: w all_writes_def intro: subseq_order.trans)
qed

text \<open>One call of \<open>readOutputs\<close> uses what is pending or written while it waits, and then it is no longer pending.\<close>

lemma readOutputs_used:
  assumes "readOutputs ws p_outputs cm = (left, cm')"
  obtains u where "left = merged p_outputs u" "subseq (used [u] @ pending cm') (pending cm @ all_writes ws)"
proof -
  obtain timed_out cm1 where w: "wait_outputs ws False cm = (timed_out, cm1)" by (cases "wait_outputs ws False cm")
  have sub: "subseq (pending cm1) (pending cm @ all_writes ws)" using pending_wait [of ws False cm] w by simp
  show thesis
  proof (cases "\<not> timed_out \<and> has p_outputs")
    case True
    then have "pending cm1 = [cm_outputs cm1]" using w wait_outputs_not_timed_out by (simp add: pending_def)
    moreover have "left = merged p_outputs (Some (cm_outputs cm1))" "pending cm' = []"
      using assms w True by (auto simp: readOutputs_def consume_def pending_def)
    ultimately show thesis using sub by (intro that [of "Some (cm_outputs cm1)"]) simp_all
  next
    case False
    then have "left = p_outputs" "cm' = cm1" using assms w by (auto simp: readOutputs_def)
    then show thesis using sub by (intro that [of None]) simp_all
  qed
qed

lemma subseq_used_step:
  assumes "subseq (xs @ pending cm') (pending cm @ ws)" "subseq ys (pending cm' @ zs)"
  shows "subseq (xs @ ys) (pending cm @ ws @ zs)"
proof -
  have "subseq (xs @ ys) (xs @ pending cm' @ zs)" using assms(2) by (intro list_emb_append_mono) simp_all
  also have "subseq \<dots> ((pending cm @ ws) @ zs)" using list_emb_append_mono [OF assms(1), of zs zs] by simp
  finally show ?thesis by simp
qed

lemma run_motion_used:
  "\<exists>us. run_motion evs cm = map2 merged (outputs_given evs) us \<and> length us = length (outputs_given evs) \<and>
     subseq (used us) (pending cm @ concat (map event_writes evs))"
proof (induction evs cm rule: run_motion.induct)
  case (2 b evs cm)
  have "subseq ([] @ pending (initialize b cm)) (pending cm @ [])" by (simp add: initialize_def pending_def)
  with 2 subseq_used_step [of "[]" "initialize b cm" cm "[]"] show ?case by fastforce
next
  case (3 i evs cm)
  have "pending (writeInputs i cm) = pending cm" by (simp add: writeInputs_def pending_def)
  with 3 show ?case by simp
next
  case (4 ops evs cm)
  with subseq_used_step [of "[]" "apply_user ops cm" cm "writes_of ops"] pending_apply_user [of ops cm] show ?case by fastforce
next
  case (5 ws p_outputs evs cm)
  obtain left cm1 where r: "readOutputs ws p_outputs cm = (left, cm1)" by (cases "readOutputs ws p_outputs cm")
  then obtain u where u: "left = merged p_outputs u" "subseq (used [u] @ pending cm1) (pending cm @ all_writes ws)"
    by (rule readOutputs_used)
  from 5 [OF r [symmetric] refl] obtain us where us: "run_motion evs cm1 = map2 merged (outputs_given evs) us"
    "length us = length (outputs_given evs)" "subseq (used us) (pending cm1 @ concat (map event_writes evs))" by blast
  have "used (u # us) = used [u] @ used us" by (cases u) simp_all
  with subseq_used_step [OF u(2) us(3)] have "subseq (used (u # us)) (pending cm @ concat (map event_writes (EvReadOutputs ws p_outputs # evs)))"
    by simp
  with us(1,2) r u(1) show ?case by (intro exI [of _ "u # us"]) simp
qed simp

text \<open>
  C26: The server's thread uses what the user wrote, each output at most once and in the order of writing. Along every
  interleaving of the calls of both threads, from a new object, each call of \<open>readOutputs\<close> leaves the outputs it is given as
  they are or merges one written output into them, and the outputs used like this are a subsequence of the
  written ones: no output is used again after a timeout or in a later cycle.
\<close>

theorem outputs_used_at_most_once:
  "\<exists>us. run_motion evs init_ControllerMotion = map2 merged (outputs_given evs) us \<and> length us = length (outputs_given evs) \<and>
     subseq (used us) (concat (map event_writes evs))"
  using run_motion_used [of evs init_ControllerMotion] by (simp add: pending_def init_ControllerMotion_def)

section \<open>The callback\<close>

lemma controller_callback_cases:
  assumes "controller_callback env sched data c = Some (r, c')"
  shows "r = oc_reply (bi_outputs (ci_base c')) \<and>
    (if accepts env data (ci_base c)
     then \<exists>b1. ci_base c' = finish_callback env b1
       \<and> oc_egm_sensor (bi_outputs b1) = oc_egm_sensor (bi_outputs (ci_base c))
     else ci_base c' = snd (initializeCallback env data (ci_base c)) \<and> r = [])"
  using assms initializeCallback_reply_cleared [of env data "ci_base c"] initializeCallback_sensor [of env data "ci_base c"]
  unfolding initializeCallback_accepts [symmetric]
  by (cases "initializeCallback env data (ci_base c)")
    (auto simp: controller_callback_def Let_def Option.bind_eq_Some_conv dest!: generateDemoOutputs_sensor
      intro!: ex_refl split: if_splits prod.splits)

definition controller_inv :: "EGMControllerInterface \<Rightarrow> bool" where
  "controller_inv c \<longleftrightarrow> base_inv (ci_base c)"

definition controller_accepts :: "env \<Rightarrow> bytes option \<Rightarrow> EGMControllerInterface \<Rightarrow> bool" where
  "controller_accepts env data c \<longleftrightarrow> accepts env data (ci_base c)"

interpretation controller_contract:
  reply_contract "controller_callback env sched" controller_inv "controller_accepts env" "finite_message env" for env sched
proof
  show "controller_inv c'" if "controller_inv c" "controller_callback env sched d c = Some (r, c')" for c d r c'
    using controller_callback_cases [OF that(2)] that(1) initializeCallback_sensor [of env d "ci_base c"]
    by (auto simp: controller_inv_def base_inv_def finish_callback_outputs intro!: constructReply_finite split: if_splits)
  show "finite_message env r" if "controller_inv c" "controller_callback env sched d c = Some (r, c')" "r \<noteq> []" for c d r c'
    using controller_callback_cases [OF that(2)] that(1,3)
    by (auto simp: controller_inv_def base_inv_def intro!: finish_callback_good split: if_splits)
  show "r = []" if "controller_callback env sched d c = Some (r, c')" "\<not> controller_accepts env d c" for d c r c'
    using controller_callback_cases [OF that(1)] that(2) by (auto simp: controller_accepts_def)
qed

text \<open>The steps of the object: a datagram under any schedule, and the calls of the user in between.\<close>

inductive controller_step :: "env \<Rightarrow> EGMControllerInterface \<Rightarrow> EGMControllerInterface \<Rightarrow> bool" for env where
  ctrl_callback: "controller_callback env sched data c = Some (r, c') \<Longrightarrow> controller_step env c c'"
| ctrl_read: "controller_read c = (i, c') \<Longrightarrow> controller_step env c c'"
| ctrl_write: "controller_step env c (controller_write out c)"
| ctrl_wait: "controller_waitForMessage timeout_ms ws c = Some (ok, c') \<Longrightarrow> controller_step env c c'"
| ctrl_setConfiguration: "controller_step env c (c\<lparr>ci_base := setConfiguration cfg (ci_base c)\<rparr>)"

lemma init_controller_inv: "controller_inv (init_EGMControllerInterface cfg)"
  using base_inv_init [of cfg] by (simp add: controller_inv_def init_EGMControllerInterface_def base_inv_def Let_def)

interpretation controller_sys:
  inv_system "\<lambda>c. \<exists>cfg. c = init_EGMControllerInterface cfg" "controller_step env" controller_inv for env
proof
  show "controller_inv c'" if "controller_inv c" "controller_step env c c'" for c c'
    using that(2,1)
  proof (cases rule: controller_step.cases)
    case (ctrl_callback sched data r)
    with that(1) show ?thesis by (auto intro: controller_contract.callback_inv)
  qed (auto simp: controller_inv_def setConfiguration_inv controller_read_def controller_write_def
      controller_waitForMessage_def Option.bind_eq_Some_conv split: prod.splits)
qed (auto simp: init_controller_inv)

text \<open>
  C25: Whatever the user's control loop writes, and however its calls interleave with the server's thread, in
  every reachable state the controller interface replies only to accepted messages, and only with the
  encoding of a sensor message without NaN or infinite values.
\<close>

theorem controller_replies_are_safe:
  assumes "reach (\<lambda>c. \<exists>cfg. c = init_EGMControllerInterface cfg) (controller_step env) c"
    and "controller_callback env sched data c = Some (r, c')" "r \<noteq> []"
  shows "accepts env data (ci_base c) \<and> finite_message env r"
  using controller_sys.reach_inv [OF assms(1)] assms(2,3) controller_contract.callback_good
    controller_contract.callback_silent unfolding controller_accepts_def by blast

section \<open>Which outputs are sent\<close>



lemma readOutputs_timeout:
  assumes "writes_of ops = []" "all_writes ws = []" "\<not> cm_write_data_ready cm"
  shows "fst (readOutputs ws (Some out) (apply_user ops cm)) = Some out"
proof -
  obtain cm1 where "wait_outputs ws False (apply_user ops cm) = (True, cm1)"
    using wait_outputs_no_write [of ws "apply_user ops cm" False] assms
    by (cases "wait_outputs ws False (apply_user ops cm)") (simp add: apply_user_ready)
  then show ?thesis by (simp add: readOutputs_def)
qed

lemma motion_frame [simp]:
  "cm_write_data_ready (writeInputs i cm) = cm_write_data_ready cm"
  "cm_write_data_ready (initialize b cm) = (cm_write_data_ready cm \<and> \<not> b)"
  by (simp_all add: writeInputs_def initialize_def)


section \<open>Without a control loop\<close>

lemma readOutputs_idle:
  assumes "writes_of ops = []" "all_writes ws = []" "\<not> cm_write_data_ready cm"
  obtains cm' where "readOutputs ws (Some out) (apply_user ops cm) = (Some out, cm')"
  using readOutputs_timeout [OF assms, of out] by (cases "readOutputs ws (Some out) (apply_user ops cm)") auto

lemma controller_idle:
  assumes "writes_of ops = []" "all_writes ws = []" "\<not> cm_write_data_ready (ci_motion c)"
  shows "map_option (\<lambda>(r, c'). (r, ci_base c')) (controller_callback env (ops, ws) data c) =
    base_callback env data (ci_base c)"
proof -
  obtain success b1 where b1: "initializeCallback env data (ci_base c) = (success, b1)"
    by (cases "initializeCallback env data (ci_base c)")
  let ?cm = "writeInputs (ic_current (bi_inputs b1)) (initialize (ic_first_message (bi_inputs b1)) (ci_motion c))"
  obtain cm' where idle: "readOutputs ws (Some (oc_current (bi_outputs b1))) (apply_user ops ?cm)
      = (Some (oc_current (bi_outputs b1)), cm')"
    using readOutputs_idle [OF assms(1,2), of ?cm "oc_current (bi_outputs b1)"] assms(3) by auto
  show ?thesis
    by (cases "generateDemoOutputs (bi_inputs b1) (bi_outputs b1)")
      (simp_all add: controller_callback_def base_callback_def b1 Let_def idle)
qed

text \<open>
  C28: A controller interface whose user never writes behaves exactly like the base interface: the same
  reply and the same base state, for every datagram, every configuration and every timing of the wait.
\<close>

theorem controller_refines_base:
  assumes "writes_of ops = []" "all_writes ws = []" "\<not> cm_write_data_ready (ci_motion c)"
  shows "map_option (\<lambda>(r, c'). (r, ci_base c')) (controller_callback env (ops, ws) data c) =
    base_callback env data (ci_base c)"
  using assms by (rule controller_idle)

lemma sample_controller_base:
  "ci_base (init_EGMControllerInterface default_BaseConfiguration) = init_EGMBaseInterface default_BaseConfiguration"
  "\<not> cm_write_data_ready (ci_motion (init_EGMControllerInterface default_BaseConfiguration))"
  by (simp_all add: init_EGMControllerInterface_def init_EGMBaseInterface_def Let_def default_BaseConfiguration_def
      make_BaseConfigurationContainer_def init_ControllerMotion_def)

lemma sample_base_answered:
  "\<exists>r b'. base_callback sample_env (Some [3]) (init_EGMBaseInterface default_BaseConfiguration) = Some (r, b') \<and> r \<noteq> []"
  by (rule answered_first) (simp_all add: sample_first, simp_all add: default_BaseConfiguration_def)

theorem controller_refines_base_witness:
  "\<exists>r c'. controller_callback sample_env ([UserRead], [([], True), ([], False)]) (Some [3])
     (init_EGMControllerInterface default_BaseConfiguration) = Some (r, c') \<and> r \<noteq> []"
  using controller_refines_base [of "[UserRead]" "[([], True), ([], False)]"
      "init_EGMControllerInterface default_BaseConfiguration" sample_env "Some [3]"]
    sample_base_answered
  by (auto simp: sample_controller_base all_writes_def)

theorem controller_replies_are_safe_witness:
  "\<exists>r c'. controller_callback sample_env ([], []) (Some [3]) (init_EGMControllerInterface default_BaseConfiguration)
       = Some (r, c') \<and> r \<noteq> [] \<and> finite_message sample_env r"
proof -
  let ?c = "init_EGMControllerInterface default_BaseConfiguration"
  have "reach (\<lambda>c. \<exists>cfg. c = init_EGMControllerInterface cfg) (controller_step sample_env) ?c"
    by (rule reach_init) blast
  moreover obtain r c' where "controller_callback sample_env ([], []) (Some [3]) ?c = Some (r, c')" "r \<noteq> []"
    using controller_idle [of "[]" "[]" ?c sample_env "Some [3]"] sample_base_answered
    by (auto simp: sample_controller_base all_writes_def)
  ultimately show ?thesis using controller_replies_are_safe by blast
qed



end
