(* ===== verification/EGM_Interpolator.thy ===== *)
theory EGM_Interpolator
  imports EGM_Rotation
begin

text \<open>
  \<open>egm_interpolator.h\<close> and \<open>egm_interpolator.cpp\<close>: the spline polynomials, the spherical
  interpolation of orientations, the soft ramps, and the interpolator that owns them. A method that
  updates its object takes the object and returns the new one. A method that indexes a repeated
  field or the array of spline polynomials returns an \<open>option\<close>: \<open>None\<close> is an access out of range
  (an assertion failure, or undefined behaviour where assertions are off).
\<close>

section \<open>Data\<close>

text \<open>The constructors of \<open>EGMInterpolator::Operation\<close> and \<open>Axis\<close>, prefixed.\<close>

datatype Operation = OpNormal | OpRampDown | OpRampInPosition | OpRampInVelocity

datatype Axis = AxisX | AxisY | AxisZ

record Conditions =
  cond_duration :: double
  cond_mode :: EGMModes
  cond_operation :: Operation
  cond_ramp_down_factor :: double
  cond_spline_method :: SplineMethod

definition default_Conditions :: Conditions where
  "default_Conditions =
     \<lparr>cond_duration = Fin 0, cond_mode = EGMJoint, cond_operation = OpNormal,
      cond_ramp_down_factor = Fin 0, cond_spline_method = Quintic\<rparr>"

record SplineConditions =
  sc_duration :: double
  sc_alfa :: double
  sc_d_alfa :: double
  sc_dd_alfa :: double
  sc_beta :: double
  sc_d_beta :: double
  sc_dd_beta :: double
  sc_spline_method :: SplineMethod
  sc_do_ramp_down :: bool
  sc_ramp_down_factor :: double

record SplinePolynomial =
  sp_a :: double
  sp_b :: double
  sp_c :: double
  sp_d :: double
  sp_e :: double
  sp_f :: double

record Slerp =
  slerp_duration :: double
  slerp_omega :: double
  slerp_q0 :: Quaternion
  slerp_q1 :: Quaternion
  slerp_use_linear :: bool

record SoftRamp =
  ramp_duration :: double
  ramp_operation :: Operation
  ramp_start :: PointGoal
  ramp_start_angular_velocity :: Euler
  ramp_goal :: PointGoal

record EGMInterpolator =
  ip_offset :: nat
  ip_spline_polynomials :: "SplinePolynomial list"
  ip_slerp :: Slerp
  ip_soft_ramp :: SoftRamp
  ip_conditions :: Conditions

section \<open>SplineConditions\<close>

definition make_SplineConditions :: "Conditions \<Rightarrow> SplineConditions" where
  "make_SplineConditions conditions =
     \<lparr>sc_duration = cond_duration conditions, sc_alfa = Fin 0, sc_d_alfa = Fin 0, sc_dd_alfa = Fin 0,
      sc_beta = Fin 0, sc_d_beta = Fin 0, sc_dd_beta = Fin 0,
      sc_spline_method = cond_spline_method conditions,
      sc_do_ramp_down = (cond_operation conditions = OpRampDown),
      sc_ramp_down_factor = cond_ramp_down_factor conditions\<rparr>"

definition setConditions_joint ::
  "nat \<Rightarrow> JointGoal \<Rightarrow> JointGoal \<Rightarrow> SplineConditions \<Rightarrow> SplineConditions option" where
  "setConditions_joint index start goal sc = do {
     alfa \<leftarrow> get_at (jvalues (jg_position_of start)) index;
     d_alfa \<leftarrow> get_at (jvalues (jg_velocity_of start)) index;
     dd_alfa \<leftarrow> get_at (jvalues (jg_acceleration_of start)) index;
     beta \<leftarrow> get_at (jvalues (jg_position_of goal)) index;
     d_beta \<leftarrow> get_at (jvalues (jg_velocity_of goal)) index;
     dd_beta \<leftarrow> get_at (jvalues (jg_acceleration_of goal)) index;
     Some (sc\<lparr>sc_alfa := alfa, sc_d_alfa := d_alfa, sc_dd_alfa := dd_alfa,
              sc_beta := beta, sc_d_beta := d_beta, sc_dd_beta := dd_beta\<rparr>)
   }"

definition setConditions_axis ::
  "Axis \<Rightarrow> CartesianGoal \<Rightarrow> CartesianGoal \<Rightarrow> SplineConditions \<Rightarrow> SplineConditions" where
  "setConditions_axis axis start goal sc =
     (case axis of
        AxisX \<Rightarrow> sc\<lparr>sc_alfa := cx_of (pose_position_of (cg_pose_of start)),
                    sc_d_alfa := cx_of (cg_velocity_of start),
                    sc_dd_alfa := cx_of (cg_acceleration_of start),
                    sc_beta := cx_of (pose_position_of (cg_pose_of goal)),
                    sc_d_beta := cx_of (cg_velocity_of goal),
                    sc_dd_beta := cx_of (cg_acceleration_of goal)\<rparr>
      | AxisY \<Rightarrow> sc\<lparr>sc_alfa := cy_of (pose_position_of (cg_pose_of start)),
                    sc_d_alfa := cy_of (cg_velocity_of start),
                    sc_dd_alfa := cy_of (cg_acceleration_of start),
                    sc_beta := cy_of (pose_position_of (cg_pose_of goal)),
                    sc_d_beta := cy_of (cg_velocity_of goal),
                    sc_dd_beta := cy_of (cg_acceleration_of goal)\<rparr>
      | AxisZ \<Rightarrow> sc\<lparr>sc_alfa := cz_of (pose_position_of (cg_pose_of start)),
                    sc_d_alfa := cz_of (cg_velocity_of start),
                    sc_dd_alfa := cz_of (cg_acceleration_of start),
                    sc_beta := cz_of (pose_position_of (cg_pose_of goal)),
                    sc_d_beta := cz_of (cg_velocity_of goal),
                    sc_dd_beta := cz_of (cg_acceleration_of goal)\<rparr>)"

section \<open>SplinePolynomial\<close>

definition default_SplinePolynomial :: SplinePolynomial where
  "default_SplinePolynomial =
     \<lparr>sp_a = Fin 0, sp_b = Fin 0, sp_c = Fin 0, sp_d = Fin 0, sp_e = Fin 0, sp_f = Fin 0\<rparr>"

text \<open>Every branch assigns all six coefficients, so the old ones are no argument.\<close>

definition SplinePolynomial_update :: "SplineConditions \<Rightarrow> SplinePolynomial" where
  "SplinePolynomial_update conditions =
     (let T = sc_duration conditions;
          K = saturate (sc_ramp_down_factor conditions) (Fin 0) (Fin 1);
          alfa = sc_alfa conditions; d_alfa = sc_d_alfa conditions; dd_alfa = sc_dd_alfa conditions;
          beta = sc_beta conditions; d_beta = sc_d_beta conditions; dd_beta = sc_dd_beta conditions
      in if sc_do_ramp_down conditions
         then
           let c = ((K - Fin 1) * d_alfa) / T
           in \<lparr>sp_a = alfa, sp_b = d_alfa, sp_c = c, sp_d = (- c) / (Fin 3 * T), sp_e = Fin 0, sp_f = Fin 0\<rparr>
         else
           case sc_spline_method conditions of
             Linear \<Rightarrow>
               \<lparr>sp_a = alfa, sp_b = (beta - alfa) / T, sp_c = Fin 0, sp_d = Fin 0, sp_e = Fin 0, sp_f = Fin 0\<rparr>
           | Square \<Rightarrow>
               \<lparr>sp_a = alfa, sp_b = d_alfa, sp_c = (beta - alfa - d_alfa * T) / fpow T 2,
                sp_d = Fin 0, sp_e = Fin 0, sp_f = Fin 0\<rparr>
           | Cubic \<Rightarrow>
               let c1 = beta - alfa - d_alfa * T;
                   c2 = d_beta - d_alfa;
                   c = Fin 3 * c1 / fpow T 2 - c2 / T
               in \<lparr>sp_a = alfa, sp_b = d_alfa, sp_c = c, sp_d = c1 / fpow T 3 - c / T,
                   sp_e = Fin 0, sp_f = Fin 0\<rparr>
           | Quintic \<Rightarrow>
               let c1 = beta - alfa - d_alfa * T - (dd_alfa / Fin 2) * fpow T 2;
                   c2 = d_beta - d_alfa - dd_alfa * T;
                   c3 = dd_beta - dd_alfa;
                   d = Fin 10 * c1 / fpow T 3 - Fin 4 * c2 / fpow T 2 + c3 / (Fin 2 * T);
                   e = Fin 5 * c1 / fpow T 4 - c2 / fpow T 3 - Fin 2 * d / T;
                   f = c1 / fpow T 5 - d / fpow T 2 - e / T
               in \<lparr>sp_a = alfa, sp_b = d_alfa, sp_c = dd_alfa / Fin 2, sp_d = d, sp_e = e, sp_f = f\<rparr>)"

definition calculatePosition :: "SplinePolynomial \<Rightarrow> double \<Rightarrow> double" where
  "calculatePosition p t =
     sp_a p + sp_b p * t + sp_c p * fpow t 2 + sp_d p * fpow t 3 + sp_e p * fpow t 4 + sp_f p * fpow t 5"

definition calculateVelocity :: "SplinePolynomial \<Rightarrow> double \<Rightarrow> double" where
  "calculateVelocity p t =
     sp_b p + Fin 2 * sp_c p * t + Fin 3 * sp_d p * fpow t 2 + Fin 4 * sp_e p * fpow t 3
       + Fin 5 * sp_f p * fpow t 4"

definition calculateAcceleration :: "SplinePolynomial \<Rightarrow> double \<Rightarrow> double" where
  "calculateAcceleration p t =
     Fin 2 * sp_c p + Fin 6 * sp_d p * t + Fin 12 * sp_e p * fpow t 2 + Fin 20 * sp_f p * fpow t 3"

definition evaluate_joint :: "SplinePolynomial \<Rightarrow> JointGoal \<Rightarrow> nat \<Rightarrow> double \<Rightarrow> JointGoal option" where
  "evaluate_joint p out index t = do {
     ps \<leftarrow> set_values index (calculatePosition p t) (jg_position_of out);
     vs \<leftarrow> set_values index (calculateVelocity p t) (jg_velocity_of out);
     as \<leftarrow> set_values index (calculateAcceleration p t) (jg_acceleration_of out);
     Some (out\<lparr>jg_position := Some ps, jg_velocity := Some vs, jg_acceleration := Some as\<rparr>)
   }"

definition evaluate_axis :: "SplinePolynomial \<Rightarrow> CartesianGoal \<Rightarrow> Axis \<Rightarrow> double \<Rightarrow> CartesianGoal" where
  "evaluate_axis p out axis t =
     (case axis of
        AxisX \<Rightarrow> cg_acceleration_mut (cx_update (\<lambda>_. Some (calculateAcceleration p t)))
                  (cg_velocity_mut (cx_update (\<lambda>_. Some (calculateVelocity p t)))
                    (cg_pose_mut (pose_position_mut (cx_update (\<lambda>_. Some (calculatePosition p t)))) out))
      | AxisY \<Rightarrow> cg_acceleration_mut (cy_update (\<lambda>_. Some (calculateAcceleration p t)))
                  (cg_velocity_mut (cy_update (\<lambda>_. Some (calculateVelocity p t)))
                    (cg_pose_mut (pose_position_mut (cy_update (\<lambda>_. Some (calculatePosition p t)))) out))
      | AxisZ \<Rightarrow> cg_acceleration_mut (cz_update (\<lambda>_. Some (calculateAcceleration p t)))
                  (cg_velocity_mut (cz_update (\<lambda>_. Some (calculateVelocity p t)))
                    (cg_pose_mut (pose_position_mut (cz_update (\<lambda>_. Some (calculatePosition p t)))) out)))"

section \<open>Slerp\<close>

definition DOT_PRODUCT_THRESHOLD :: double where
  "DOT_PRODUCT_THRESHOLD = Fin 0.9995"

definition default_Slerp :: Slerp where
  "default_Slerp =
     \<lparr>slerp_duration = Fin 0, slerp_omega = Fin 0,
      slerp_q0 = default_Quaternion\<lparr>u0 := Some (Fin 1)\<rparr>,
      slerp_q1 = default_Quaternion\<lparr>u0 := Some (Fin 1)\<rparr>, slerp_use_linear = False\<rparr>"

definition Slerp_update :: "Quaternion \<Rightarrow> Quaternion \<Rightarrow> Conditions \<Rightarrow> Slerp \<Rightarrow> Slerp" where
  "Slerp_update start goal conditions s =
     (let q0 = normalize start;
          q1 = normalize goal;
          dot_product = dotProduct q0 q1;
          use_linear = (DOT_PRODUCT_THRESHOLD < \<bar>dot_product\<bar>);
          s1 = s\<lparr>slerp_duration := cond_duration conditions, slerp_q0 := q0, slerp_q1 := q1,
                 slerp_use_linear := use_linear\<rparr>
      in if \<not> use_linear
         then
           let (q1', dot_product') =
                 (if dot_product < Fin 0 then (multiply_Quaternion q1 (- Fin 1), - dot_product)
                  else (q1, dot_product));
               dot_product'' = saturate dot_product' (- Fin 1) (Fin 1)
           in s1\<lparr>slerp_q1 := q1', slerp_omega := facos dot_product''\<rparr>
         else s1)"

definition Slerp_evaluate :: "Slerp \<Rightarrow> CartesianGoal \<Rightarrow> double \<Rightarrow> CartesianGoal" where
  "Slerp_evaluate s out t0 =
     (let omega = slerp_omega s; q0 = slerp_q0 s; q1 = slerp_q1 s; duration = slerp_duration s;
          k = Fin 1 / fsin omega;
          t = saturate (t0 / duration) (Fin 0) (Fin 1);
          (a, b, c, d) =
            (if slerp_use_linear s then (Fin 1 - t, t, - Fin 1, Fin 1)
             else (k * fsin ((Fin 1 - t) * omega), k * fsin (t * omega),
                   - omega * k * fcos ((Fin 1 - t) * omega) / duration,
                   omega * k * fcos (t * omega) / duration));
          q = normalize ((pose_quaternion_of (cg_pose_of out))
                \<lparr>u0 := Some (a * u0_of q0 + b * u0_of q1), u1 := Some (a * u1_of q0 + b * u1_of q1),
                 u2 := Some (a * u2_of q0 + b * u2_of q1), u3 := Some (a * u3_of q0 + b * u3_of q1)\<rparr>);
          conj_q = default_Quaternion
                \<lparr>u0 := Some (u0_of q), u1 := Some (- u1_of q), u2 := Some (- u2_of q), u3 := Some (- u3_of q)\<rparr>;
          d_q = default_Quaternion
                \<lparr>u0 := Some (c * u0_of q0 + d * u0_of q1), u1 := Some (c * u1_of q0 + d * u1_of q1),
                 u2 := Some (c * u2_of q0 + d * u2_of q1), u3 := Some (c * u3_of q0 + d * u3_of q1)\<rparr>;
          mult_q = multiply_Quaternions d_q conj_q
      in cg_pose_mut (pose_euler_mut (\<lambda>av.
             av\<lparr>ex := Some (Fin 2 * u1_of mult_q * RAD_TO_DEG), ey := Some (Fin 2 * u2_of mult_q * RAD_TO_DEG),
                ez := Some (Fin 2 * u3_of mult_q * RAD_TO_DEG)\<rparr>))
           (cg_pose_mut (pose_quaternion_mut (\<lambda>_. q)) out))"

section \<open>SoftRamp\<close>

definition default_SoftRamp :: SoftRamp where
  "default_SoftRamp =
     \<lparr>ramp_duration = Fin 0, ramp_operation = OpRampDown, ramp_start = default_PointGoal,
      ramp_start_angular_velocity = default_Euler, ramp_goal = default_PointGoal\<rparr>"

definition SoftRamp_update :: "PointGoal \<Rightarrow> PointGoal \<Rightarrow> Conditions \<Rightarrow> SoftRamp \<Rightarrow> SoftRamp" where
  "SoftRamp_update start goal conditions r =
     (let r1 = r\<lparr>ramp_duration := cond_duration conditions, ramp_operation := cond_operation conditions\<rparr>
      in case ramp_operation r1 of
           OpRampDown \<Rightarrow> r1\<lparr>ramp_start_angular_velocity :=
             pose_euler_of (cg_pose_of (rg_cartesian_of (pg_robot_of start)))\<rparr>
         | OpRampInPosition \<Rightarrow> r1\<lparr>ramp_start := start, ramp_goal := goal\<rparr>
         | OpRampInVelocity \<Rightarrow> r1\<lparr>ramp_start := start, ramp_goal := goal\<rparr>
         | OpNormal \<Rightarrow> r1)"

text \<open>The ramp factors: from 0 to 1, its derivative, and from 1 to 0.\<close>

definition ramp_in :: "double \<Rightarrow> double" where
  "ramp_in t = Fin 0.5 * fcos (M_PI * t + M_PI) + Fin 0.5"

definition d_ramp_in :: "double \<Rightarrow> double \<Rightarrow> double" where
  "d_ramp_in duration t = - Fin 0.5 * M_PI / duration * fsin (M_PI * t + M_PI)"

definition ramp_out :: "double \<Rightarrow> double" where
  "ramp_out t = Fin 0.5 * fcos (M_PI * t) + Fin 0.5"

definition ramp_joint_goal :: "bool \<Rightarrow> PointGoal \<Rightarrow> JointGoal" where
  "ramp_joint_goal robot g = (if robot then rg_joints_of (pg_robot_of g) else eg_joints_of (pg_external_of g))"

definition set_value :: "nat \<Rightarrow> double \<Rightarrow> Joints \<Rightarrow> Joints" where
  "set_value i v j = j\<lparr>jvalues := (jvalues j)[i := v]\<rparr>"

definition touch_JointGoal :: "JointGoal \<Rightarrow> JointGoal" where
  "touch_JointGoal g = jg_acceleration_mut id (jg_velocity_mut id (jg_position_mut id g))"

definition common_size :: "JointGoal \<Rightarrow> Joints \<Rightarrow> Joints \<Rightarrow> nat" where
  "common_size out start goal =
     min (length (jvalues (jg_position_of out)))
       (min (length (jvalues (jg_velocity_of out)))
         (min (length (jvalues (jg_acceleration_of out)))
           (min (length (jvalues start)) (length (jvalues goal)))))"

definition ramp_in_position_joint :: "SoftRamp \<Rightarrow> JointGoal \<Rightarrow> bool \<Rightarrow> double \<Rightarrow> JointGoal" where
  "ramp_in_position_joint r out robot t =
     (let ramp_factor = ramp_in t;
          d_ramp_factor = d_ramp_in (ramp_duration r) t;
          start_rj = jg_position_of (ramp_joint_goal robot (ramp_start r));
          goal_rj = jg_position_of (ramp_joint_goal robot (ramp_goal r));
          out1 = touch_JointGoal out
      in for_range (common_size out1 start_rj goal_rj)
           (\<lambda>i g.
              jg_acceleration_mut (set_value i (Fin 0))
                (jg_velocity_mut
                  (set_value i (d_ramp_factor * (jvalues goal_rj ! i - jvalues start_rj ! i)))
                  (jg_position_mut
                    (set_value i (jvalues start_rj ! i
                       + ramp_factor * (jvalues goal_rj ! i - jvalues start_rj ! i))) g)))
           out1)"

definition ramp_in_velocity_joint :: "SoftRamp \<Rightarrow> JointGoal \<Rightarrow> bool \<Rightarrow> double \<Rightarrow> double \<Rightarrow> JointGoal" where
  "ramp_in_velocity_joint r out robot sample_time t =
     (let ramp_factor = ramp_in t;
          start_rj = jg_velocity_of (ramp_joint_goal robot (ramp_start r));
          goal_rj = jg_velocity_of (ramp_joint_goal robot (ramp_goal r));
          out1 = touch_JointGoal out
      in for_range (common_size out1 start_rj goal_rj)
           (\<lambda>i g.
              let g1 = jg_acceleration_mut (set_value i (Fin 0)) g;
                  g2 = jg_velocity_mut
                         (set_value i (jvalues start_rj ! i
                            + ramp_factor * (jvalues goal_rj ! i - jvalues start_rj ! i))) g1
              in jg_position_mut
                   (\<lambda>p. set_value i (jvalues p ! i + sample_time * jvalues (jg_velocity_of g2) ! i) p) g2)
           out1)"

text \<open>
  The \<open>RampInPosition\<close> case has no \<open>break\<close>: control falls through into the \<open>RampInVelocity\<close> case.
\<close>

definition SoftRamp_evaluate_joint ::
  "SoftRamp \<Rightarrow> JointGoal \<Rightarrow> bool \<Rightarrow> double \<Rightarrow> double \<Rightarrow> JointGoal" where
  "SoftRamp_evaluate_joint r out robot sample_time t0 =
     (let t = saturate (t0 / ramp_duration r) (Fin 0) (Fin 1)
      in case ramp_operation r of
           OpRampInPosition \<Rightarrow>
             ramp_in_velocity_joint r (ramp_in_position_joint r out robot t) robot sample_time t
         | OpRampInVelocity \<Rightarrow> ramp_in_velocity_joint r out robot sample_time t
         | OpRampDown \<Rightarrow> out
         | OpNormal \<Rightarrow> out)"

definition integrate_Quaternion :: "Quaternion \<Rightarrow> double \<Rightarrow> Quaternion \<Rightarrow> Quaternion" where
  "integrate_Quaternion q sample_time d_q =
     normalize
       (q\<lparr>u0 := Some (u0_of q + sample_time * u0_of d_q), u1 := Some (u1_of q + sample_time * u1_of d_q),
          u2 := Some (u2_of q + sample_time * u2_of d_q), u3 := Some (u3_of q + sample_time * u3_of d_q)\<rparr>)"

definition ramp_down_cartesian :: "SoftRamp \<Rightarrow> CartesianGoal \<Rightarrow> double \<Rightarrow> double \<Rightarrow> CartesianGoal" where
  "ramp_down_cartesian r out sample_time t =
     (let ramp_factor = ramp_out t;
          sav = ramp_start_angular_velocity r;
          out1 = cg_pose_mut (pose_euler_mut (\<lambda>av.
                   av\<lparr>ex := Some (ramp_factor * ex_of sav), ey := Some (ramp_factor * ey_of sav),
                      ez := Some (ramp_factor * ez_of sav)\<rparr>))
                   (cg_pose_mut (pose_quaternion_mut id) out);
          d_q = convert_derivate (pose_quaternion_of (cg_pose_of out1)) (pose_euler_of (cg_pose_of out1))
      in cg_pose_mut (pose_quaternion_mut (\<lambda>q. integrate_Quaternion q sample_time d_q)) out1)"

definition lerp_Cartesian :: "Cartesian \<Rightarrow> Cartesian \<Rightarrow> double \<Rightarrow> Cartesian \<Rightarrow> Cartesian" where
  "lerp_Cartesian start goal k c =
     c\<lparr>cx := Some (cx_of start + k * (cx_of goal - cx_of start)),
       cy := Some (cy_of start + k * (cy_of goal - cy_of start)),
       cz := Some (cz_of start + k * (cz_of goal - cz_of start))\<rparr>"

definition ramp_in_position_cartesian ::
  "boost_quaternion \<Rightarrow> SoftRamp \<Rightarrow> CartesianGoal \<Rightarrow> Quaternion \<Rightarrow> double \<Rightarrow> double \<Rightarrow> CartesianGoal" where
  "ramp_in_position_cartesian bq r out previous_q sample_time t =
     (let ramp_factor = ramp_in t;
          d_ramp_factor = d_ramp_in (ramp_duration r) t;
          start_pose = cg_pose_of (rg_cartesian_of (pg_robot_of (ramp_start r)));
          goal_pose = cg_pose_of (rg_cartesian_of (pg_robot_of (ramp_goal r)));
          start_p = pose_position_of start_pose; goal_p = pose_position_of goal_pose;
          start_q = pose_quaternion_of start_pose; goal_q = pose_quaternion_of goal_pose;
          out1 = cg_pose_mut (pose_position_mut (lerp_Cartesian start_p goal_p ramp_factor)) out;
          out2 = cg_velocity_mut (\<lambda>v.
                   v\<lparr>cx := Some (d_ramp_factor * (cx_of goal_p - cx_of start_p)),
                     cy := Some (d_ramp_factor * (cy_of goal_p - cy_of start_p)),
                     cz := Some (d_ramp_factor * (cz_of goal_p - cz_of start_p))\<rparr>) out1;
          out3 = cg_acceleration_mut reset_Cartesian out2;
          out4 = cg_pose_mut (pose_quaternion_mut (\<lambda>q. normalize
                   (q\<lparr>u0 := Some (u0_of start_q + ramp_factor * (u0_of goal_q - u0_of start_q)),
                      u1 := Some (u1_of start_q + ramp_factor * (u1_of goal_q - u1_of start_q)),
                      u2 := Some (u2_of start_q + ramp_factor * (u2_of goal_q - u2_of start_q)),
                      u3 := Some (u3_of start_q + ramp_factor * (u3_of goal_q - u3_of start_q))\<rparr>))) out3
      in cg_pose_mut (\<lambda>p. pose_euler_mut (\<lambda>av.
             snd (estimateVelocities_Euler bq av (pose_quaternion_of p) previous_q sample_time)) p) out4)"

definition ramp_in_velocity_cartesian ::
  "SoftRamp \<Rightarrow> CartesianGoal \<Rightarrow> Quaternion \<Rightarrow> double \<Rightarrow> double \<Rightarrow> CartesianGoal" where
  "ramp_in_velocity_cartesian r out previous_q sample_time t =
     (let ramp_factor = ramp_in t;
          start_c = rg_cartesian_of (pg_robot_of (ramp_start r));
          goal_c = rg_cartesian_of (pg_robot_of (ramp_goal r));
          start_av = pose_euler_of (cg_pose_of start_c); goal_av = pose_euler_of (cg_pose_of goal_c);
          out1 = cg_acceleration_mut reset_Cartesian out;
          out2 = cg_velocity_mut
                   (lerp_Cartesian (cg_velocity_of start_c) (cg_velocity_of goal_c) ramp_factor) out1;
          v = cg_velocity_of out2;
          out3 = cg_pose_mut (pose_position_mut (\<lambda>p.
                   p\<lparr>cx := Some (cx_of p + sample_time * cx_of v),
                     cy := Some (cy_of p + sample_time * cy_of v),
                     cz := Some (cz_of p + sample_time * cz_of v)\<rparr>)) out2;
          out4 = cg_pose_mut (pose_euler_mut (\<lambda>av.
                   av\<lparr>ex := Some (ex_of start_av + ramp_factor * (ex_of goal_av - ex_of start_av)),
                      ey := Some (ey_of start_av + ramp_factor * (ey_of goal_av - ey_of start_av)),
                      ez := Some (ez_of start_av + ramp_factor * (ez_of goal_av - ez_of start_av))\<rparr>)) out3;
          d_q = convert_derivate previous_q (pose_euler_of (cg_pose_of out4))
      in cg_pose_mut (pose_quaternion_mut (\<lambda>q. integrate_Quaternion q sample_time d_q)) out4)"

definition SoftRamp_evaluate_cartesian ::
  "boost_quaternion \<Rightarrow> SoftRamp \<Rightarrow> CartesianGoal \<Rightarrow> double \<Rightarrow> double \<Rightarrow> CartesianGoal" where
  "SoftRamp_evaluate_cartesian bq r out0 sample_time t0 =
     (let out = cg_pose_mut id out0;
          previous_q = pose_quaternion_of (cg_pose_of out);
          t = saturate (t0 / ramp_duration r) (Fin 0) (Fin 1)
      in case ramp_operation r of
           OpRampDown \<Rightarrow> ramp_down_cartesian r out sample_time t
         | OpRampInPosition \<Rightarrow>
             ramp_in_velocity_cartesian r
               (ramp_in_position_cartesian bq r out previous_q sample_time t) previous_q sample_time t
         | OpRampInVelocity \<Rightarrow> ramp_in_velocity_cartesian r out previous_q sample_time t
         | OpNormal \<Rightarrow> out)"

section \<open>EGMInterpolator\<close>

definition MAX_NUMBER_OF_SPLINES :: nat where
  "MAX_NUMBER_OF_SPLINES = 12"

text \<open>The member \<open>offset_\<close> has no initial value in the code; the initial object takes any.\<close>

definition init_EGMInterpolator :: "nat \<Rightarrow> EGMInterpolator" where
  "init_EGMInterpolator off =
     \<lparr>ip_offset = off, ip_spline_polynomials = replicate MAX_NUMBER_OF_SPLINES default_SplinePolynomial,
      ip_slerp = default_Slerp, ip_soft_ramp = default_SoftRamp, ip_conditions = default_Conditions\<rparr>"

text \<open>
  One loop over joints: the guard of the code compares the joint's own index with the number of
  polynomials, the access adds the offset. \<open>setConditions_joint\<close> overwrites every field the previous
  iteration wrote, so each iteration starts from the same spline conditions.
\<close>

definition update_joint_splines ::
  "nat \<Rightarrow> SplineConditions \<Rightarrow> JointGoal \<Rightarrow> JointGoal \<Rightarrow> SplinePolynomial list \<Rightarrow> SplinePolynomial list option"
where
  "update_joint_splines off sc start goal polys =
     for_rangeM (min (length (jvalues (jg_position_of start))) (length polys))
       (\<lambda>i ps. do { sc' \<leftarrow> setConditions_joint i start goal sc; set_at (i + off) (SplinePolynomial_update sc') ps })
       polys"

definition update_axis_spline ::
  "Axis \<Rightarrow> nat \<Rightarrow> SplineConditions \<Rightarrow> CartesianGoal \<Rightarrow> CartesianGoal \<Rightarrow> SplinePolynomial list \<Rightarrow> SplinePolynomial list option"
where
  "update_axis_spline axis i sc start goal polys =
     set_at i (SplinePolynomial_update (setConditions_axis axis start goal sc)) polys"

definition EGMInterpolator_update ::
  "PointGoal \<Rightarrow> PointGoal \<Rightarrow> Conditions \<Rightarrow> EGMInterpolator \<Rightarrow> EGMInterpolator option" where
  "EGMInterpolator_update start goal conditions ip =
     (let conds = conditions\<lparr>cond_duration := fmax LOWEST_SAMPLE_TIME (cond_duration conditions)\<rparr>;
          ip1 = ip\<lparr>ip_conditions := conds\<rparr>;
          rj = rg_joints_of (pg_robot_of start); rj' = rg_joints_of (pg_robot_of goal);
          ej = eg_joints_of (pg_external_of start); ej' = eg_joints_of (pg_external_of goal);
          rc = rg_cartesian_of (pg_robot_of start); rc' = rg_cartesian_of (pg_robot_of goal);
          off = length (jvalues (jg_position_of rj));
          sc = make_SplineConditions conds
      in if cond_operation conds = OpNormal \<or> cond_operation conds = OpRampDown
         then
           case cond_mode conds of
             EGMJoint \<Rightarrow> do {
               ps1 \<leftarrow> update_joint_splines 0 sc rj rj' (ip_spline_polynomials ip1);
               ps2 \<leftarrow> update_joint_splines off sc ej ej' ps1;
               Some (ip1\<lparr>ip_offset := off, ip_spline_polynomials := ps2\<rparr>)
             }
           | EGMPose \<Rightarrow> do {
               ps1 \<leftarrow> update_axis_spline AxisX 0 sc rc rc' (ip_spline_polynomials ip1);
               ps2 \<leftarrow> update_axis_spline AxisY 1 sc rc rc' ps1;
               ps3 \<leftarrow> update_axis_spline AxisZ 2 sc rc rc' ps2;
               let ip2 =
                 (if cond_operation conds = OpNormal
                  then ip1\<lparr>ip_slerp := Slerp_update (pose_quaternion_of (cg_pose_of rc))
                             (pose_quaternion_of (cg_pose_of rc')) conditions (ip_slerp ip1)\<rparr>
                  else ip1\<lparr>ip_soft_ramp := SoftRamp_update start goal conditions (ip_soft_ramp ip1)\<rparr>);
               ps4 \<leftarrow> update_joint_splines off sc ej ej' ps3;
               Some (ip2\<lparr>ip_offset := off, ip_spline_polynomials := ps4\<rparr>)
             }
         else Some (ip1\<lparr>ip_soft_ramp := SoftRamp_update start goal conditions (ip_soft_ramp ip1)\<rparr>))"

definition evaluate_robot_joints :: "SplinePolynomial list \<Rightarrow> double \<Rightarrow> PointGoal \<Rightarrow> PointGoal option" where
  "evaluate_robot_joints polys t out =
     for_rangeM (min (length (jvalues (jg_position_of (rg_joints_of (pg_robot_of out))))) (length polys))
       (\<lambda>i g. do {
          p \<leftarrow> get_at polys i;
          jg \<leftarrow> evaluate_joint p (rg_joints_of (pg_robot_of g)) i t;
          Some (pg_robot_mut (rg_joints_mut (\<lambda>_. jg)) g) }) out"

definition evaluate_external_joints ::
  "nat \<Rightarrow> SplinePolynomial list \<Rightarrow> double \<Rightarrow> PointGoal \<Rightarrow> PointGoal option" where
  "evaluate_external_joints off polys t out =
     for_rangeM (min (length (jvalues (jg_position_of (eg_joints_of (pg_external_of out))))) (length polys))
       (\<lambda>i g. do {
          p \<leftarrow> get_at polys (i + off);
          jg \<leftarrow> evaluate_joint p (eg_joints_of (pg_external_of g)) i t;
          Some (pg_external_mut (eg_joints_mut (\<lambda>_. jg)) g) }) out"

definition evaluate_cartesian_axis ::
  "SplinePolynomial list \<Rightarrow> Axis \<Rightarrow> nat \<Rightarrow> double \<Rightarrow> PointGoal \<Rightarrow> PointGoal option" where
  "evaluate_cartesian_axis polys axis i t out = do {
     p \<leftarrow> get_at polys i;
     Some (pg_robot_mut (rg_cartesian_mut (\<lambda>c. evaluate_axis p c axis t)) out) }"

definition EGMInterpolator_evaluate ::
  "boost_quaternion \<Rightarrow> EGMInterpolator \<Rightarrow> PointGoal \<Rightarrow> double \<Rightarrow> double \<Rightarrow> PointGoal option" where
  "EGMInterpolator_evaluate bq ip out sample_time t0 =
     (let conds = ip_conditions ip; polys = ip_spline_polynomials ip; off = ip_offset ip;
          t = saturate t0 (Fin 0) (cond_duration conds)
      in if cond_operation conds = OpNormal \<or> cond_operation conds = OpRampDown
         then
           case cond_mode conds of
             EGMJoint \<Rightarrow> do {
               out1 \<leftarrow> evaluate_robot_joints polys t out;
               evaluate_external_joints off polys t out1
             }
           | EGMPose \<Rightarrow> do {
               out1 \<leftarrow> evaluate_cartesian_axis polys AxisX 0 t out;
               out2 \<leftarrow> evaluate_cartesian_axis polys AxisY 1 t out1;
               out3 \<leftarrow> evaluate_cartesian_axis polys AxisZ 2 t out2;
               let out4 = pg_robot_mut (rg_cartesian_mut
                 (if cond_operation conds = OpNormal
                  then (\<lambda>c. Slerp_evaluate (ip_slerp ip) c t)
                  else (\<lambda>c. SoftRamp_evaluate_cartesian bq (ip_soft_ramp ip) c sample_time t))) out3;
               evaluate_external_joints off polys t out4
             }
         else
           Some (case cond_mode conds of
             EGMJoint \<Rightarrow>
               pg_external_mut (eg_joints_mut
                 (\<lambda>j. SoftRamp_evaluate_joint (ip_soft_ramp ip) j False sample_time t))
                 (pg_robot_mut (rg_joints_mut
                   (\<lambda>j. SoftRamp_evaluate_joint (ip_soft_ramp ip) j True sample_time t)) out)
           | EGMPose \<Rightarrow>
               pg_external_mut (eg_joints_mut
                 (\<lambda>j. SoftRamp_evaluate_joint (ip_soft_ramp ip) j False sample_time t))
                 (pg_robot_mut (rg_cartesian_mut
                   (\<lambda>c. SoftRamp_evaluate_cartesian bq (ip_soft_ramp ip) c sample_time t)) out)))"

definition getDuration :: "EGMInterpolator \<Rightarrow> double" where
  "getDuration ip = cond_duration (ip_conditions ip)"

end
