(* ===== verification/EGM_Spline.thy ===== *)
theory EGM_Spline
  imports EGM_Interpolator
begin

text \<open>
  Correctness of \<open>EGMInterpolator::SplinePolynomial\<close>: the coefficients \<open>update\<close> computes satisfy the
  boundary conditions that \<open>TrajectoryConfiguration::SplineMethod\<close> documents for each method, the
  ramp-down polynomial ends with the requested fraction of the start velocity and without
  acceleration, and the evaluated velocity and acceleration are the derivatives of the evaluated
  position and velocity.
\<close>

section \<open>Finite spline conditions\<close>

definition fin_conditions ::
  "real \<Rightarrow> real \<Rightarrow> real \<Rightarrow> real \<Rightarrow> real \<Rightarrow> real \<Rightarrow> real \<Rightarrow> SplineConditions \<Rightarrow> bool" where
  "fin_conditions T a da dda b db ddb sc \<longleftrightarrow>
     sc_duration sc = Fin T \<and> sc_alfa sc = Fin a \<and> sc_d_alfa sc = Fin da \<and> sc_dd_alfa sc = Fin dda \<and>
     sc_beta sc = Fin b \<and> sc_d_beta sc = Fin db \<and> sc_dd_beta sc = Fin ddb"

definition fin_polynomial :: "SplinePolynomial \<Rightarrow> bool" where
  "fin_polynomial p \<longleftrightarrow> is_fin (sp_a p) \<and> is_fin (sp_b p) \<and> is_fin (sp_c p) \<and> is_fin (sp_d p) \<and>
     is_fin (sp_e p) \<and> is_fin (sp_f p)"

lemmas calculate_defs = calculatePosition_def calculateVelocity_def calculateAcceleration_def

section \<open>Algebra of the coefficients\<close>

lemma cubic_end:
  fixes T c1 c2 :: real
  assumes "T \<noteq> 0"
  defines "c \<equiv> 3 * c1 / T ^ 2 - c2 / T"
  defines "d \<equiv> c1 / T ^ 3 - c / T"
  shows "c * T ^ 2 + d * T ^ 3 = c1" and "2 * c * T + 3 * d * T ^ 2 = c2"
  using assms(1) unfolding c_def d_def by (simp_all add: field_simps power2_eq_square power3_eq_cube)

lemma quintic_end:
  fixes T c1 c2 c3 :: real
  assumes T: "T \<noteq> 0"
  defines "d \<equiv> 10 * c1 / T ^ 3 - 4 * c2 / T ^ 2 + c3 / (2 * T)"
  defines "e \<equiv> 5 * c1 / T ^ 4 - c2 / T ^ 3 - 2 * d / T"
  defines "f \<equiv> c1 / T ^ 5 - d / T ^ 2 - e / T"
  shows "d * T ^ 3 + e * T ^ 4 + f * T ^ 5 = c1"
    and "3 * d * T ^ 2 + 4 * e * T ^ 3 + 5 * f * T ^ 4 = c2"
    and "6 * d * T + 12 * e * T ^ 2 + 20 * f * T ^ 3 = c3"
proof -
  have d3: "d * T ^ 3 = 10 * c1 - 4 * c2 * T + c3 * T ^ 2 / 2"
    using T unfolding d_def by (simp add: field_simps eval_nat_numeral)
  have e4: "e * T ^ 4 = 5 * c1 - c2 * T - 2 * (d * T ^ 3)"
    using T unfolding e_def by (simp add: field_simps eval_nat_numeral)
  have f5: "f * T ^ 5 = c1 - d * T ^ 3 - e * T ^ 4"
    using T unfolding f_def by (simp add: field_simps eval_nat_numeral)
  from f5 show "d * T ^ 3 + e * T ^ 4 + f * T ^ 5 = c1" by simp
  have "T * (3 * d * T ^ 2 + 4 * e * T ^ 3 + 5 * f * T ^ 4) = 3 * (d * T ^ 3) + 4 * (e * T ^ 4) + 5 * (f * T ^ 5)"
    by (simp add: algebra_simps eval_nat_numeral)
  also have "\<dots> = T * c2" unfolding f5 e4 by (simp add: algebra_simps)
  finally show "3 * d * T ^ 2 + 4 * e * T ^ 3 + 5 * f * T ^ 4 = c2" using T by simp
  have "T ^ 2 * (6 * d * T + 12 * e * T ^ 2 + 20 * f * T ^ 3) = 6 * (d * T ^ 3) + 12 * (e * T ^ 4) + 20 * (f * T ^ 5)"
    by (simp add: algebra_simps eval_nat_numeral)
  also have "\<dots> = T ^ 2 * c3" unfolding f5 e4 d3 by (simp add: algebra_simps)
  finally show "6 * d * T + 12 * e * T ^ 2 + 20 * f * T ^ 3 = c3" using T by simp
qed

section \<open>Finite coefficients\<close>

lemma fin_polynomial_update:
  assumes "fin_conditions T a da dda b db ddb sc" and "0 < T"
    and "sc_do_ramp_down sc \<Longrightarrow> is_fin (sc_ramp_down_factor sc)"
  shows "fin_polynomial (SplinePolynomial_update sc)"
  using assms
  by (cases "sc_ramp_down_factor sc")
    (auto simp: fin_polynomial_def SplinePolynomial_update_def fin_conditions_def Let_def saturate_Fin
      split: SplineMethod.split)

lemma fin_calculate:
  assumes "fin_polynomial p"
  shows "is_fin (calculatePosition p (Fin t))" "is_fin (calculateVelocity p (Fin t))"
    "is_fin (calculateAcceleration p (Fin t))"
  using assms by (auto simp: fin_polynomial_def calculate_defs)

section \<open>The boundary conditions\<close>

lemma spline_start:
  assumes "fin_conditions T a da dda b db ddb sc" and "0 < T" and "\<not> sc_do_ramp_down sc"
  shows "calculatePosition (SplinePolynomial_update sc) (Fin 0) = Fin a"
    and "sc_spline_method sc \<noteq> Linear \<Longrightarrow> calculateVelocity (SplinePolynomial_update sc) (Fin 0) = Fin da"
    and "sc_spline_method sc = Quintic \<Longrightarrow> calculateAcceleration (SplinePolynomial_update sc) (Fin 0) = Fin dda"
  using assms
  by (cases "sc_spline_method sc"; simp add: fin_conditions_def SplinePolynomial_update_def Let_def
      calculate_defs)+

lemma spline_end:
  assumes "fin_conditions T a da dda b db ddb sc" and T: "0 < T" and "\<not> sc_do_ramp_down sc"
  shows "calculatePosition (SplinePolynomial_update sc) (Fin T) = Fin b"
    and "sc_spline_method sc \<in> {Cubic, Quintic} \<Longrightarrow> calculateVelocity (SplinePolynomial_update sc) (Fin T) = Fin db"
    and "sc_spline_method sc = Quintic \<Longrightarrow> calculateAcceleration (SplinePolynomial_update sc) (Fin T) = Fin ddb"
proof -
  from T have nz: "T \<noteq> 0" by simp
  note cub = cubic_end [OF nz, of "b - a - da * T" "db - da"]
  note qui = quintic_end [OF nz, of "b - a - da * T - dda / 2 * T ^ 2" "db - da - dda * T" "ddb - dda"]
  note defs = fin_conditions_def SplinePolynomial_update_def Let_def calculate_defs
  show "calculatePosition (SplinePolynomial_update sc) (Fin T) = Fin b"
    using assms cub(1) qui(1)
    by (cases "sc_spline_method sc") (simp_all add: defs)
  show "calculateVelocity (SplinePolynomial_update sc) (Fin T) = Fin db"
    if "sc_spline_method sc \<in> {Cubic, Quintic}"
    using that assms cub(2) qui(2)
    by (cases "sc_spline_method sc") (simp_all add: defs)
  show "calculateAcceleration (SplinePolynomial_update sc) (Fin T) = Fin ddb"
    if "sc_spline_method sc = Quintic"
    using that assms qui(3) by (simp add: defs)
qed

text \<open>
  C19: For finite boundary values and a positive duration \<open>T\<close>, the polynomial that
  \<open>SplinePolynomial::update\<close> computes satisfies exactly the boundary conditions documented for the
  selected spline method: start and goal position for every method, the start velocity for all but
  \<open>Linear\<close>, the goal velocity for \<open>Cubic\<close> and \<open>Quintic\<close>, both accelerations for \<open>Quintic\<close>.
\<close>

theorem spline_boundary_conditions:
  assumes "sc_duration sc = Fin T" "0 < T" "\<not> sc_do_ramp_down sc"
    and "sc_alfa sc = Fin a" "sc_d_alfa sc = Fin da" "sc_dd_alfa sc = Fin dda"
    and "sc_beta sc = Fin b" "sc_d_beta sc = Fin db" "sc_dd_beta sc = Fin ddb"
  shows "calculatePosition (SplinePolynomial_update sc) (Fin 0) = Fin a
    \<and> calculatePosition (SplinePolynomial_update sc) (Fin T) = Fin b
    \<and> (sc_spline_method sc \<noteq> Linear \<longrightarrow> calculateVelocity (SplinePolynomial_update sc) (Fin 0) = Fin da)
    \<and> (sc_spline_method sc \<in> {Cubic, Quintic} \<longrightarrow> calculateVelocity (SplinePolynomial_update sc) (Fin T) = Fin db)
    \<and> (sc_spline_method sc = Quintic \<longrightarrow> calculateAcceleration (SplinePolynomial_update sc) (Fin 0) = Fin dda
         \<and> calculateAcceleration (SplinePolynomial_update sc) (Fin T) = Fin ddb)"
proof -
  have "fin_conditions T a da dda b db ddb sc" using assms by (simp add: fin_conditions_def)
  with assms(2,3) show ?thesis by (simp add: spline_start spline_end)
qed

theorem spline_boundary_conditions_witness:
  "let sc = \<lparr>sc_duration = Fin 2, sc_alfa = Fin 1, sc_d_alfa = Fin 3, sc_dd_alfa = Fin 4, sc_beta = Fin 10,
        sc_d_beta = Fin 5, sc_dd_beta = Fin 6, sc_spline_method = Quintic, sc_do_ramp_down = False,
        sc_ramp_down_factor = Fin 0\<rparr>
   in calculatePosition (SplinePolynomial_update sc) (Fin 2) = Fin 10
    \<and> calculateVelocity (SplinePolynomial_update sc) (Fin 2) = Fin 5
    \<and> calculateAcceleration (SplinePolynomial_update sc) (Fin 2) = Fin 6"
  using spline_boundary_conditions [of "\<lparr>sc_duration = Fin 2, sc_alfa = Fin 1, sc_d_alfa = Fin 3,
      sc_dd_alfa = Fin 4, sc_beta = Fin 10, sc_d_beta = Fin 5, sc_dd_beta = Fin 6, sc_spline_method = Quintic,
      sc_do_ramp_down = False, sc_ramp_down_factor = Fin 0\<rparr>" 2 1 3 4 10 5 6]
  by (simp add: Let_def)

text \<open>
  C20: The ramp-down polynomial starts at the start position with the start velocity and ends, after the
  duration \<open>T\<close>, with the fraction \<open>K\<close> of the start velocity and zero acceleration, where \<open>K\<close> is
  the ramp-down factor saturated to the interval from 0 to 1; in particular factor 0 ends at rest.
\<close>

theorem ramp_down_boundary_conditions:
  assumes "sc_duration sc = Fin T" "0 < T" "sc_do_ramp_down sc"
    and "sc_alfa sc = Fin a" "sc_d_alfa sc = Fin da" "sc_ramp_down_factor sc = Fin k"
  shows "calculatePosition (SplinePolynomial_update sc) (Fin 0) = Fin a
    \<and> calculateVelocity (SplinePolynomial_update sc) (Fin 0) = Fin da
    \<and> calculateVelocity (SplinePolynomial_update sc) (Fin T) = Fin (max 0 (min k 1) * da)
    \<and> calculateAcceleration (SplinePolynomial_update sc) (Fin T) = Fin 0"
  using assms
  by (simp add: SplinePolynomial_update_def Let_def saturate_Fin calculate_defs)
    (simp add: field_simps power2_eq_square)

theorem ramp_down_boundary_conditions_witness:
  "let sc = \<lparr>sc_duration = Fin 1, sc_alfa = Fin 7, sc_d_alfa = Fin 4, sc_dd_alfa = Fin 0, sc_beta = Fin 0,
        sc_d_beta = Fin 0, sc_dd_beta = Fin 0, sc_spline_method = Linear, sc_do_ramp_down = True,
        sc_ramp_down_factor = Fin 0\<rparr>
   in calculateVelocity (SplinePolynomial_update sc) (Fin 1) = Fin 0"
  using ramp_down_boundary_conditions [of "\<lparr>sc_duration = Fin 1, sc_alfa = Fin 7, sc_d_alfa = Fin 4,
      sc_dd_alfa = Fin 0, sc_beta = Fin 0, sc_d_beta = Fin 0, sc_dd_beta = Fin 0, sc_spline_method = Linear,
      sc_do_ramp_down = True, sc_ramp_down_factor = Fin 0\<rparr>" 1 7 4 0]
  by (simp add: Let_def)

section \<open>Derivatives\<close>

text \<open>
  For every polynomial with finite coefficients and every time, the evaluated velocity is the
  derivative of the evaluated position, and the evaluated acceleration that of the velocity.
\<close>

theorem spline_derivatives:
  assumes "is_fin (sp_a p)" "is_fin (sp_b p)" "is_fin (sp_c p)" "is_fin (sp_d p)" "is_fin (sp_e p)"
    "is_fin (sp_f p)"
  shows "((\<lambda>t. the_fin (calculatePosition p (Fin t))) has_real_derivative
           the_fin (calculateVelocity p (Fin t))) (at t)
    \<and> ((\<lambda>t. the_fin (calculateVelocity p (Fin t))) has_real_derivative
           the_fin (calculateAcceleration p (Fin t))) (at t)"
proof -
  from assms obtain a b c d e f where p: "sp_a p = Fin a" "sp_b p = Fin b" "sp_c p = Fin c"
    "sp_d p = Fin d" "sp_e p = Fin e" "sp_f p = Fin f"
    by (auto simp: is_fin_iff)
  have "((\<lambda>t. a + b * t + c * t ^ 2 + d * t ^ 3 + e * t ^ 4 + f * t ^ 5) has_real_derivative
      b + 2 * c * t + 3 * d * t ^ 2 + 4 * e * t ^ 3 + 5 * f * t ^ 4) (at t)"
    by (auto intro!: derivative_eq_intros simp: algebra_simps)
  moreover have "((\<lambda>t. b + 2 * c * t + 3 * d * t ^ 2 + 4 * e * t ^ 3 + 5 * f * t ^ 4) has_real_derivative
      2 * c + 6 * d * t + 12 * e * t ^ 2 + 20 * f * t ^ 3) (at t)"
    by (auto intro!: derivative_eq_intros simp: algebra_simps)
  ultimately show ?thesis by (simp add: calculate_defs p)
qed

theorem spline_derivatives_witness:
  "((\<lambda>t. the_fin (calculatePosition
       \<lparr>sp_a = Fin 1, sp_b = Fin 2, sp_c = Fin 3, sp_d = Fin 4, sp_e = Fin 5, sp_f = Fin 6\<rparr> (Fin t)))
     has_real_derivative 70) (at 1)"
  using spline_derivatives [of "\<lparr>sp_a = Fin 1, sp_b = Fin 2, sp_c = Fin 3, sp_d = Fin 4, sp_e = Fin 5,
      sp_f = Fin 6\<rparr>" 1]
  by (simp add: calculate_defs)

end
