(* ===== verification/EGM_Interpolation.thy ===== *)
theory EGM_Interpolation
  imports EGM_Spline
begin

text \<open>
  Correctness of \<open>EGMInterpolator::update\<close> and \<open>EGMInterpolator::evaluate\<close>. A goal has the shape
  \<open>(nr, ne)\<close> when its position, velocity and acceleration fields hold \<open>nr\<close> robot joint values and
  \<open>ne\<close> external ones. The lemmas give closed forms of the loops over the joints; the theorems state
  that no access is out of range while the joints fit the array of polynomials, that one is as soon
  as they do not, and that in joint mode an interpolation ends exactly in its goal position.
\<close>

section \<open>Shapes and closed forms\<close>

definition joint_shape :: "nat \<Rightarrow> JointGoal \<Rightarrow> bool" where
  "joint_shape n g \<longleftrightarrow> length (jvalues (jg_position_of g)) = n \<and> length (jvalues (jg_velocity_of g)) = n
     \<and> length (jvalues (jg_acceleration_of g)) = n"

definition goal_shape :: "nat \<Rightarrow> nat \<Rightarrow> PointGoal \<Rightarrow> bool" where
  "goal_shape nr ne g \<longleftrightarrow>
     joint_shape nr (rg_joints_of (pg_robot_of g)) \<and> joint_shape ne (eg_joints_of (pg_external_of g))"

definition fin_joint_goal :: "JointGoal \<Rightarrow> bool" where
  "fin_joint_goal g \<longleftrightarrow>
     (\<forall>v \<in> set (jvalues (jg_position_of g)) \<union> set (jvalues (jg_velocity_of g))
        \<union> set (jvalues (jg_acceleration_of g)). is_fin v)"

definition joint_conditions :: "SplineConditions \<Rightarrow> JointGoal \<Rightarrow> JointGoal \<Rightarrow> nat \<Rightarrow> SplineConditions" where
  "joint_conditions sc start goal i =
     sc\<lparr>sc_alfa := jvalues (jg_position_of start) ! i, sc_d_alfa := jvalues (jg_velocity_of start) ! i,
        sc_dd_alfa := jvalues (jg_acceleration_of start) ! i,
        sc_beta := jvalues (jg_position_of goal) ! i, sc_d_beta := jvalues (jg_velocity_of goal) ! i,
        sc_dd_beta := jvalues (jg_acceleration_of goal) ! i\<rparr>"

definition evaluated :: "nat \<Rightarrow> SplinePolynomial list \<Rightarrow> double \<Rightarrow> nat \<Rightarrow> JointGoal \<Rightarrow> JointGoal \<Rightarrow> bool" where
  "evaluated off polys t k old g \<longleftrightarrow>
     jvalues (jg_position_of g) =
       map (\<lambda>i. calculatePosition (polys ! (i + off)) t) [0..<k] @ drop k (jvalues (jg_position_of old)) \<and>
     jvalues (jg_velocity_of g) =
       map (\<lambda>i. calculateVelocity (polys ! (i + off)) t) [0..<k] @ drop k (jvalues (jg_velocity_of old)) \<and>
     jvalues (jg_acceleration_of g) =
       map (\<lambda>i. calculateAcceleration (polys ! (i + off)) t) [0..<k] @ drop k (jvalues (jg_acceleration_of old))"

section \<open>Loops over the joints: update\<close>

lemma setConditions_joint_Some:
  "joint_shape n start \<Longrightarrow> joint_shape n goal \<Longrightarrow> i < n \<Longrightarrow>
     setConditions_joint i start goal sc = Some (joint_conditions sc start goal i)"
  by (simp add: setConditions_joint_def joint_conditions_def joint_shape_def)

lemma for_rangeM_set_at:
  assumes "n + off \<le> length xs"
  shows "for_rangeM n (\<lambda>i ys. set_at (i + off) (g i) ys) xs
    = Some (take off xs @ map g [0..<n] @ drop (off + n) xs)"
  using assms
proof (induction n)
  case 0
  then show ?case by simp
next
  case (Suc n)
  let ?ys = "take off xs @ map g [0..<n] @ drop (off + n) xs"
  from Suc.prems have "drop (off + n) xs = xs ! (off + n) # drop (off + Suc n) xs"
    by (simp add: Cons_nth_drop_Suc)
  with Suc.prems have "?ys[n + off := g n] = take off xs @ map g [0..<Suc n] @ drop (off + Suc n) xs"
    by (simp add: list_update_append)
  with Suc show ?case by simp
qed

lemma update_joint_splines_Some:
  assumes "joint_shape n start" and "joint_shape n goal" and "n + off \<le> length polys"
  shows "update_joint_splines off sc start goal polys =
     Some (take off polys @ map (\<lambda>i. SplinePolynomial_update (joint_conditions sc start goal i)) [0..<n]
       @ drop (off + n) polys)"
proof -
  have n: "min (length (jvalues (jg_position_of start))) (length polys) = n"
    using assms by (simp add: joint_shape_def)
  have "for_rangeM n (\<lambda>i ps. do { sc' \<leftarrow> setConditions_joint i start goal sc;
            set_at (i + off) (SplinePolynomial_update sc') ps }) polys
      = for_rangeM n (\<lambda>i ps. set_at (i + off)
            (SplinePolynomial_update (joint_conditions sc start goal i)) ps) polys"
  proof -
    have "for_rangeM k (\<lambda>i ps. do { sc' \<leftarrow> setConditions_joint i start goal sc;
            set_at (i + off) (SplinePolynomial_update sc') ps }) polys
      = for_rangeM k (\<lambda>i ps. set_at (i + off)
            (SplinePolynomial_update (joint_conditions sc start goal i)) ps) polys" if "k \<le> n" for k
      using that assms(1,2) by (induction k) (auto simp: setConditions_joint_Some)
    then show ?thesis by simp
  qed
  with assms(3) show ?thesis
    unfolding update_joint_splines_def n by (simp add: for_rangeM_set_at)
qed

text \<open>The loop fails as soon as a joint's polynomial lies past the end of the array.\<close>

lemma for_rangeM_None:
  assumes "i < n" and "\<And>s. length s = l \<Longrightarrow> f i s = None" and "length s = l"
    and "\<And>j s s'. j < n \<Longrightarrow> length s = l \<Longrightarrow> f j s = Some s' \<Longrightarrow> length s' = l"
  shows "for_rangeM n f (s :: 'a list) = None"
  using assms(1,4)
proof (induction n)
  case 0
  then show ?case by simp
next
  case (Suc n)
  show ?case
  proof (cases "i = n")
    case True
    show ?thesis
    proof (cases "for_rangeM n f s")
      case (Some t)
      then have "length t = l"
      proof (rule for_rangeM_invariant [where P = "\<lambda>s. length s = l"])
        show "length s' = l" if "j < n" "length u = l" "f j u = Some s'" for j u s'
          using Suc.prems(2) [OF less_SucI] that by blast
      qed (rule assms(3))
      with Some True assms(2) show ?thesis by simp
    qed simp
  next
    case False
    with Suc.prems(1) have "i < n" by simp
    then have "for_rangeM n f s = None" by (rule Suc.IH) (rule Suc.prems(2) [OF less_SucI])
    then show ?thesis by simp
  qed
qed

lemma update_joint_splines_length:
  "update_joint_splines off sc start goal polys = Some ps \<Longrightarrow> length ps = length polys"
  unfolding update_joint_splines_def
  by (erule for_rangeM_invariant [where P = "\<lambda>ps. length ps = length polys"])
    (auto simp: Option.bind_eq_Some_conv dest: set_at_length)

lemma update_joint_splines_None:
  assumes "joint_shape n start" and "joint_shape n goal"
    and "off < length polys" "0 < off" "length polys < n + off"
  shows "update_joint_splines off sc start goal polys = None"
  unfolding update_joint_splines_def
proof (rule for_rangeM_None [where i = "length polys - off" and l = "length polys"])
  show "length polys - off < min (length (jvalues (jg_position_of start))) (length polys)"
    using assms by (simp add: joint_shape_def) linarith
  show "setConditions_joint (length polys - off) start goal sc \<bind>
      (\<lambda>sc'. set_at (length polys - off + off) (SplinePolynomial_update sc') s) = None"
    if "length s = length polys" for s
    using that assms by (cases "setConditions_joint (length polys - off) start goal sc") auto
qed (auto simp: Option.bind_eq_Some_conv dest: set_at_length)

section \<open>Loops over the joints: evaluate\<close>

lemma evaluate_joint_step:
  assumes "evaluated off polys t k old g" and "joint_shape n old" and "k < n"
  shows "\<exists>g'. evaluate_joint (polys ! (k + off)) g k t = Some g' \<and> evaluated off polys t (Suc k) old g'"
proof -
  have upd: "(map h [0..<k] @ drop k xs)[k := v] = map h [0..<k] @ v # drop (Suc k) xs"
    if "k < length xs" for h :: "nat \<Rightarrow> double" and xs v
    using that by (simp add: list_update_append flip: Cons_nth_drop_Suc)
  from assms show ?thesis
    by (auto simp: evaluate_joint_def set_values_def evaluated_def joint_shape_def upd)
qed

lemma evaluate_loop:
  assumes get_put: "\<And>x g. get (put x g) = x" and shape: "joint_shape n (get out)"
    and polys: "n + off \<le> length polys" and "k \<le> n"
  shows "\<exists>g. for_rangeM k (\<lambda>i g. do { p \<leftarrow> get_at polys (i + off); jg \<leftarrow> evaluate_joint p (get g) i t;
        Some (put jg g) }) out = Some g \<and> evaluated off polys t k (get out) (get g)"
  using \<open>k \<le> n\<close>
proof (induction k)
  case 0
  then show ?case by (simp add: evaluated_def)
next
  case (Suc k)
  then obtain g where g: "for_rangeM k (\<lambda>i g. do { p \<leftarrow> get_at polys (i + off);
      jg \<leftarrow> evaluate_joint p (get g) i t; Some (put jg g) }) out = Some g"
    and ev: "evaluated off polys t k (get out) (get g)" by auto
  from evaluate_joint_step [OF ev shape] Suc.prems obtain g' where
    "evaluate_joint (polys ! (k + off)) (get g) k t = Some g'"
    and "evaluated off polys t (Suc k) (get out) g'" by auto
  with g Suc.prems polys get_put show ?case by auto
qed

lemma evaluate_robot_joints_Some:
  assumes "joint_shape n (rg_joints_of (pg_robot_of out))" and "n \<le> length polys"
  shows "\<exists>g. evaluate_robot_joints polys t out = Some g
    \<and> evaluated 0 polys t n (rg_joints_of (pg_robot_of out)) (rg_joints_of (pg_robot_of g))
    \<and> pg_external g = pg_external out"
proof -
  have n: "min (length (jvalues (jg_position_of (rg_joints_of (pg_robot_of out))))) (length polys) = n"
    using assms by (simp add: joint_shape_def)
  obtain g where g: "evaluate_robot_joints polys t out = Some g"
    and ev: "evaluated 0 polys t n (rg_joints_of (pg_robot_of out)) (rg_joints_of (pg_robot_of g))"
    using evaluate_loop [where get = "\<lambda>g. rg_joints_of (pg_robot_of g)" and off = 0
        and put = "\<lambda>x g. pg_robot_mut (rg_joints_mut (\<lambda>_. x)) g" and k = n and t = t, OF _ assms(1)] assms(2)
    unfolding evaluate_robot_joints_def n by auto
  moreover have "pg_external g = pg_external out"
    using g unfolding evaluate_robot_joints_def
    by (rule for_rangeM_invariant [where P = "\<lambda>g. pg_external g = pg_external out"])
      (auto simp: Option.bind_eq_Some_conv)
  ultimately show ?thesis by blast
qed

lemma evaluate_external_joints_Some:
  assumes "joint_shape n (eg_joints_of (pg_external_of out))" and "n + off \<le> length polys"
  shows "\<exists>g. evaluate_external_joints off polys t out = Some g
    \<and> evaluated off polys t n (eg_joints_of (pg_external_of out)) (eg_joints_of (pg_external_of g))
    \<and> pg_robot g = pg_robot out"
proof -
  have n: "min (length (jvalues (jg_position_of (eg_joints_of (pg_external_of out))))) (length polys) = n"
    using assms by (simp add: joint_shape_def)
  obtain g where g: "evaluate_external_joints off polys t out = Some g"
    and ev: "evaluated off polys t n (eg_joints_of (pg_external_of out)) (eg_joints_of (pg_external_of g))"
    using evaluate_loop [where get = "\<lambda>g. eg_joints_of (pg_external_of g)"
        and put = "\<lambda>x g. pg_external_mut (eg_joints_mut (\<lambda>_. x)) g" and k = n and t = t, OF _ assms]
    unfolding evaluate_external_joints_def n by auto
  moreover have "pg_robot g = pg_robot out"
    using g unfolding evaluate_external_joints_def
    by (rule for_rangeM_invariant [where P = "\<lambda>g. pg_robot g = pg_robot out"])
      (auto simp: Option.bind_eq_Some_conv)
  ultimately show ?thesis by blast
qed

lemma evaluated_shape: "evaluated off polys t n old g \<Longrightarrow> joint_shape n old \<Longrightarrow> joint_shape n g"
  by (simp add: evaluated_def joint_shape_def)

section \<open>The soft ramp keeps the shape\<close>

lemma for_range_inv: "P s \<Longrightarrow> (\<And>i s. i < n \<Longrightarrow> P s \<Longrightarrow> P (f i s)) \<Longrightarrow> P (for_range n f s)"
  by (induction n) auto

lemma length_set_value [simp]: "length (jvalues (set_value i v j)) = length (jvalues j)"
  by (simp add: set_value_def)

lemma joint_shape_touch [simp]: "joint_shape n (touch_JointGoal g) = joint_shape n g"
  by (simp add: touch_JointGoal_def joint_shape_def)

lemma joint_shape_ramp_in_position:
  "joint_shape n out \<Longrightarrow> joint_shape n (ramp_in_position_joint r out robot t)"
  unfolding ramp_in_position_joint_def Let_def
  by (rule for_range_inv) (simp, auto simp: joint_shape_def)

lemma joint_shape_ramp_in_velocity:
  "joint_shape n out \<Longrightarrow> joint_shape n (ramp_in_velocity_joint r out robot sample_time t)"
  unfolding ramp_in_velocity_joint_def Let_def
  by (rule for_range_inv) (simp, auto simp: joint_shape_def)

lemma joint_shape_SoftRamp_evaluate:
  "joint_shape n out \<Longrightarrow> joint_shape n (SoftRamp_evaluate_joint r out robot sample_time t)"
  by (auto simp: SoftRamp_evaluate_joint_def Let_def joint_shape_ramp_in_position
      joint_shape_ramp_in_velocity split: Operation.split)

section \<open>Accesses in range\<close>

lemma goal_shape_robot:
  "(\<And>r. rg_joints (getd default_RobotGoal (h r)) = rg_joints (getd default_RobotGoal r)) \<Longrightarrow>
     goal_shape nr ne (pg_robot_update h g) = goal_shape nr ne g"
  by (simp add: goal_shape_def)

lemma EGMInterpolator_update_Some:
  assumes "goal_shape nr ne start" and "goal_shape nr ne goal"
    and "length (ip_spline_polynomials ip) = MAX_NUMBER_OF_SPLINES" and "nr + ne \<le> MAX_NUMBER_OF_SPLINES"
  shows "\<exists>ip'. EGMInterpolator_update start goal conditions ip = Some ip'
    \<and> length (ip_spline_polynomials ip') = MAX_NUMBER_OF_SPLINES
    \<and> (cond_operation conditions \<in> {OpNormal, OpRampDown} \<longrightarrow> ip_offset ip' = nr)
    \<and> ip_conditions ip' = conditions\<lparr>cond_duration := fmax LOWEST_SAMPLE_TIME (cond_duration conditions)\<rparr>"
proof -
  have off: "length (jvalues (jg_position_of (rg_joints_of (pg_robot_of start)))) = nr"
    using assms(1) by (simp add: goal_shape_def joint_shape_def)
  have rj: "joint_shape nr (rg_joints_of (pg_robot_of start))" "joint_shape nr (rg_joints_of (pg_robot_of goal))"
    and ej: "joint_shape ne (eg_joints_of (pg_external_of start))"
      "joint_shape ne (eg_joints_of (pg_external_of goal))"
    using assms(1,2) by (simp_all add: goal_shape_def)
  show ?thesis
    using assms(3,4)
    by (cases "cond_mode conditions")
      (auto simp: EGMInterpolator_update_def Let_def off update_axis_spline_def MAX_NUMBER_OF_SPLINES_def
        update_joint_splines_Some [OF rj] update_joint_splines_Some [OF ej])
qed

lemma EGMInterpolator_evaluate_Some:
  assumes "goal_shape nr ne out"
    and "length (ip_spline_polynomials ip) = MAX_NUMBER_OF_SPLINES" and "nr + ne \<le> MAX_NUMBER_OF_SPLINES"
    and "cond_operation (ip_conditions ip) \<in> {OpNormal, OpRampDown} \<Longrightarrow> ip_offset ip = nr"
  shows "\<exists>out'. EGMInterpolator_evaluate bq ip out sample_time t = Some out' \<and> goal_shape nr ne out'"
proof (cases "cond_operation (ip_conditions ip) \<in> {OpNormal, OpRampDown}")
  case False
  then show ?thesis
    using assms(1)
    by (cases "cond_mode (ip_conditions ip)")
      (auto simp: EGMInterpolator_evaluate_def Let_def goal_shape_def joint_shape_SoftRamp_evaluate)
next
  case True
  let ?polys = "ip_spline_polynomials ip" and ?t = "saturate t (Fin 0) (cond_duration (ip_conditions ip))"
  have off: "ip_offset ip = nr" using True assms(4) by blast
  have ev: "\<exists>g'. evaluate_external_joints nr ?polys ?t g = Some g' \<and> goal_shape nr ne g'"
    if "goal_shape nr ne g" for g
    using evaluate_external_joints_Some [of ne g nr ?polys ?t] that assms(2,3)
    by (auto simp: goal_shape_def add.commute dest: evaluated_shape)
  show ?thesis
  proof (cases "cond_mode (ip_conditions ip)")
    case EGMJoint
    from evaluate_robot_joints_Some [of nr out ?polys ?t] assms obtain g where
      "evaluate_robot_joints ?polys ?t out = Some g" and "goal_shape nr ne g"
      by (auto simp: goal_shape_def dest: evaluated_shape)
    with ev [of g] EGMJoint True off show ?thesis
      by (auto simp: EGMInterpolator_evaluate_def Let_def)
  next
    case EGMPose
    from True assms(1,2) EGMPose off show ?thesis
      by (auto simp: EGMInterpolator_evaluate_def Let_def evaluate_cartesian_axis_def
          MAX_NUMBER_OF_SPLINES_def goal_shape_robot intro!: ev [unfolded off [symmetric]])
  qed
qed

text \<open>
  While start, goal and output goals have the same joint counts and these fit the twelve spline
  polynomials, \<open>EGMInterpolator::update\<close> followed by \<open>evaluate\<close> makes no access out of range, in any
  mode and operation, at any time, from any previous state; the output keeps its joint counts.
\<close>

theorem interpolator_accesses_in_range:
  assumes "goal_shape nr ne start" and "goal_shape nr ne goal" and "goal_shape nr ne out"
    and "length (ip_spline_polynomials ip) = MAX_NUMBER_OF_SPLINES" and "nr + ne \<le> MAX_NUMBER_OF_SPLINES"
  shows "\<exists>ip' out'. EGMInterpolator_update start goal conditions ip = Some ip'
    \<and> EGMInterpolator_evaluate bq ip' out sample_time t = Some out' \<and> goal_shape nr ne out'"
proof -
  from EGMInterpolator_update_Some [OF assms(1,2,4,5), of conditions] obtain ip' where
    ip': "EGMInterpolator_update start goal conditions ip = Some ip'"
      "length (ip_spline_polynomials ip') = MAX_NUMBER_OF_SPLINES"
      "cond_operation conditions \<in> {OpNormal, OpRampDown} \<longrightarrow> ip_offset ip' = nr"
      "ip_conditions ip' = conditions\<lparr>cond_duration := fmax LOWEST_SAMPLE_TIME (cond_duration conditions)\<rparr>"
    by blast
  with EGMInterpolator_evaluate_Some [OF assms(3) ip'(2) assms(5), of bq sample_time t] show ?thesis
    by auto
qed

definition flat_goal :: "nat \<Rightarrow> nat \<Rightarrow> double \<Rightarrow> PointGoal" where
  "flat_goal nr ne v =
     (let j = (\<lambda>n. \<lparr>jg_position = Some \<lparr>jvalues = replicate n v\<rparr>, jg_velocity = Some \<lparr>jvalues = replicate n (Fin 0)\<rparr>,
                    jg_acceleration = Some \<lparr>jvalues = replicate n (Fin 0)\<rparr>\<rparr>)
      in \<lparr>pg_duration = None, pg_robot = Some \<lparr>rg_joints = Some (j nr), rg_cartesian = None\<rparr>,
          pg_external = Some \<lparr>eg_joints = Some (j ne)\<rparr>, pg_reach = None\<rparr>)"

lemma flat_goal_shape [simp]: "goal_shape nr ne (flat_goal nr ne v)"
  by (simp add: goal_shape_def joint_shape_def flat_goal_def Let_def)

theorem interpolator_accesses_in_range_witness:
  "\<exists>ip' out'. EGMInterpolator_update (flat_goal 6 6 (Fin 0)) (flat_goal 6 6 (Fin 1)) default_Conditions
        (init_EGMInterpolator 0) = Some ip'
    \<and> EGMInterpolator_evaluate hamilton ip' (flat_goal 6 6 (Fin 0)) (Fin 0.004) (Fin 1) = Some out'
    \<and> goal_shape 6 6 out'"
  by (rule interpolator_accesses_in_range)
    (simp_all add: init_EGMInterpolator_def MAX_NUMBER_OF_SPLINES_def)

text \<open>
  C40: The guard of the loops compares the joint index, not the index of the polynomial, with the size of
  the array: with between 1 and 11 robot joints and more than twelve joints in all, updating the
  interpolator in joint mode accesses a spline polynomial out of range.
\<close>

theorem interpolator_out_of_range:
  assumes "goal_shape nr ne start" and "goal_shape nr ne goal"
    and "length (ip_spline_polynomials ip) = MAX_NUMBER_OF_SPLINES"
    and "1 \<le> nr" and "nr < MAX_NUMBER_OF_SPLINES" and "MAX_NUMBER_OF_SPLINES < nr + ne"
    and "cond_mode conditions = EGMJoint" and "cond_operation conditions \<in> {OpNormal, OpRampDown}"
  shows "EGMInterpolator_update start goal conditions ip = None"
proof -
  have off: "length (jvalues (jg_position_of (rg_joints_of (pg_robot_of start)))) = nr"
    using assms(1) by (simp add: goal_shape_def joint_shape_def)
  have rj: "joint_shape nr (rg_joints_of (pg_robot_of start))" "joint_shape nr (rg_joints_of (pg_robot_of goal))"
    and ej: "joint_shape ne (eg_joints_of (pg_external_of start))"
      "joint_shape ne (eg_joints_of (pg_external_of goal))"
    using assms(1,2) by (simp_all add: goal_shape_def)
  have "update_joint_splines nr sc (eg_joints_of (pg_external_of start)) (eg_joints_of (pg_external_of goal)) ps = None"
    if "length ps = MAX_NUMBER_OF_SPLINES" for sc ps
    using update_joint_splines_None [OF ej, of nr ps] that assms(4-6) by simp
  moreover have "length ps = MAX_NUMBER_OF_SPLINES"
    if "update_joint_splines 0 sc (rg_joints_of (pg_robot_of start)) (rg_joints_of (pg_robot_of goal))
          (ip_spline_polynomials ip) = Some ps" for sc ps
    using update_joint_splines_length [OF that] assms(3) by simp
  ultimately have "EGMInterpolator_update start goal conditions ip \<noteq> Some ip'" for ip'
    using assms(7,8) by (auto simp: EGMInterpolator_update_def Let_def off Option.bind_eq_Some_conv)
  then show ?thesis by (cases "EGMInterpolator_update start goal conditions ip") auto
qed

theorem interpolator_out_of_range_witness:
  "EGMInterpolator_update (flat_goal 6 7 (Fin 0)) (flat_goal 6 7 (Fin 1)) default_Conditions
     (init_EGMInterpolator 0) = None"
  by (rule interpolator_out_of_range [where nr = 6 and ne = 7])
    (simp_all add: init_EGMInterpolator_def MAX_NUMBER_OF_SPLINES_def default_Conditions_def)

section \<open>Endpoints in joint mode\<close>

definition robot_positions :: "PointGoal \<Rightarrow> double list" where
  "robot_positions g = jvalues (jg_position_of (rg_joints_of (pg_robot_of g)))"

definition external_positions :: "PointGoal \<Rightarrow> double list" where
  "external_positions g = jvalues (jg_position_of (eg_joints_of (pg_external_of g)))"

definition fin_goal :: "PointGoal \<Rightarrow> bool" where
  "fin_goal g \<longleftrightarrow> fin_joint_goal (rg_joints_of (pg_robot_of g)) \<and> fin_joint_goal (eg_joints_of (pg_external_of g))"

lemma joint_mode_update:
  assumes "goal_shape nr ne start" and "goal_shape nr ne goal"
    and "length (ip_spline_polynomials ip) = MAX_NUMBER_OF_SPLINES" and "nr + ne \<le> MAX_NUMBER_OF_SPLINES"
    and "cond_mode conditions = EGMJoint" and "cond_operation conditions \<in> {OpNormal, OpRampDown}"
  defines "conds \<equiv> conditions\<lparr>cond_duration := fmax LOWEST_SAMPLE_TIME (cond_duration conditions)\<rparr>"
  shows "EGMInterpolator_update start goal conditions ip = Some (ip\<lparr>ip_conditions := conds, ip_offset := nr,
    ip_spline_polynomials :=
      map (\<lambda>i. SplinePolynomial_update (joint_conditions (make_SplineConditions conds)
            (rg_joints_of (pg_robot_of start)) (rg_joints_of (pg_robot_of goal)) i)) [0..<nr]
      @ map (\<lambda>i. SplinePolynomial_update (joint_conditions (make_SplineConditions conds)
            (eg_joints_of (pg_external_of start)) (eg_joints_of (pg_external_of goal)) i)) [0..<ne]
      @ drop (nr + ne) (ip_spline_polynomials ip)\<rparr>)"
proof -
  have off: "length (jvalues (jg_position_of (rg_joints_of (pg_robot_of start)))) = nr"
    using assms(1) by (simp add: goal_shape_def joint_shape_def)
  have rj: "joint_shape nr (rg_joints_of (pg_robot_of start))" "joint_shape nr (rg_joints_of (pg_robot_of goal))"
    and ej: "joint_shape ne (eg_joints_of (pg_external_of start))"
      "joint_shape ne (eg_joints_of (pg_external_of goal))"
    using assms(1,2) by (simp_all add: goal_shape_def)
  show ?thesis
    using assms(3-6)
    by (auto simp: EGMInterpolator_update_def Let_def off conds_def add.commute
        update_joint_splines_Some [OF rj] update_joint_splines_Some [OF ej])
qed

lemma joint_conditions_fin:
  assumes "joint_shape n start" "joint_shape n goal" "fin_joint_goal start" "fin_joint_goal goal" "i < n"
    and "sc_duration sc = Fin T"
  shows "\<exists>da dda db ddb. fin_conditions T (the_fin (jvalues (jg_position_of start) ! i)) da dda
    (the_fin (jvalues (jg_position_of goal) ! i)) db ddb (joint_conditions sc start goal i)"
  using assms
  by (auto simp: joint_shape_def fin_joint_goal_def fin_conditions_def joint_conditions_def
      intro!: exI is_fin_the)

lemma joint_spline_endpoints:
  assumes "joint_shape n start" "joint_shape n goal" "fin_joint_goal start" "fin_joint_goal goal" "i < n"
    and "sc_duration sc = Fin T" "0 < T" "\<not> sc_do_ramp_down sc"
  shows "calculatePosition (SplinePolynomial_update (joint_conditions sc start goal i)) (Fin 0)
      = jvalues (jg_position_of start) ! i"
    and "calculatePosition (SplinePolynomial_update (joint_conditions sc start goal i)) (Fin T)
      = jvalues (jg_position_of goal) ! i"
proof -
  let ?sc = "joint_conditions sc start goal i"
  from joint_conditions_fin [OF assms(1-6)] obtain da dda db ddb where
    "fin_conditions T (the_fin (jvalues (jg_position_of start) ! i)) da dda
       (the_fin (jvalues (jg_position_of goal) ! i)) db ddb ?sc" by blast
  moreover have "\<not> sc_do_ramp_down ?sc" using assms(8) by (simp add: joint_conditions_def)
  moreover have "is_fin (jvalues (jg_position_of start) ! i)" "is_fin (jvalues (jg_position_of goal) ! i)"
    using assms(1-5) by (auto simp: joint_shape_def fin_joint_goal_def)
  ultimately show "calculatePosition (SplinePolynomial_update ?sc) (Fin 0) = jvalues (jg_position_of start) ! i"
    and "calculatePosition (SplinePolynomial_update ?sc) (Fin T) = jvalues (jg_position_of goal) ! i"
    using spline_start(1) spline_end(1) assms(7) is_fin_the by metis+
qed

lemma joint_spline_fin:
  assumes "joint_shape n start" "joint_shape n goal" "fin_joint_goal start" "fin_joint_goal goal" "i < n"
    and "sc_duration sc = Fin T" "0 < T" "\<not> sc_do_ramp_down sc"
  shows "fin_polynomial (SplinePolynomial_update (joint_conditions sc start goal i))"
  using joint_conditions_fin [OF assms(1-6)] fin_polynomial_update assms(7,8) by (fastforce simp: joint_conditions_def)

lemma evaluated_fin:
  assumes "evaluated off polys t n old g" "joint_shape n old" "t = Fin x" "\<forall>i < n. fin_polynomial (polys ! (i + off))"
  shows "fin_joint_goal g"
  using assms fin_calculate by (auto simp: evaluated_def joint_shape_def fin_joint_goal_def)

lemma evaluate_joint_splines:
  fixes t :: double
  assumes "goal_shape nr ne out" "nr + ne \<le> length (ip_spline_polynomials ip)" "ip_offset ip = nr"
    and "cond_mode (ip_conditions ip) = EGMJoint" "cond_operation (ip_conditions ip) \<in> {OpNormal, OpRampDown}"
  defines "t' \<equiv> saturate t (Fin 0) (cond_duration (ip_conditions ip))"
  obtains out' where "EGMInterpolator_evaluate bq ip out sample_time t = Some out'"
    "evaluated 0 (ip_spline_polynomials ip) t' nr (rg_joints_of (pg_robot_of out)) (rg_joints_of (pg_robot_of out'))"
    "evaluated nr (ip_spline_polynomials ip) t' ne (eg_joints_of (pg_external_of out)) (eg_joints_of (pg_external_of out'))"
proof -
  let ?polys = "ip_spline_polynomials ip"
  have r: "joint_shape nr (rg_joints_of (pg_robot_of out))" and e: "joint_shape ne (eg_joints_of (pg_external_of out))"
    using assms(1) by (simp_all add: goal_shape_def)
  from evaluate_robot_joints_Some [OF r, of ?polys t'] assms(2) obtain g where
    g: "evaluate_robot_joints ?polys t' out = Some g" "pg_external g = pg_external out"
      "evaluated 0 ?polys t' nr (rg_joints_of (pg_robot_of out)) (rg_joints_of (pg_robot_of g))" by auto
  with e have "joint_shape ne (eg_joints_of (pg_external_of g))" by simp
  from evaluate_external_joints_Some [OF this, of nr ?polys t'] assms(2) obtain g' where
    g': "evaluate_external_joints nr ?polys t' g = Some g'" "pg_robot g' = pg_robot g"
      "evaluated nr ?polys t' ne (eg_joints_of (pg_external_of g)) (eg_joints_of (pg_external_of g'))"
    by (auto simp: add.commute)
  show thesis
  proof (rule that [of g'])
    show "EGMInterpolator_evaluate bq ip out sample_time t = Some g'"
      using g(1) g'(1) assms(3-5) by (auto simp: EGMInterpolator_evaluate_def Let_def t'_def [symmetric])
  qed (use g(2,3) g'(2,3) in simp_all)
qed

lemma evaluate_joint_mode:
  fixes t :: double
  assumes "goal_shape nr ne out" "nr + ne \<le> length (ip_spline_polynomials ip)" "ip_offset ip = nr"
    and "cond_mode (ip_conditions ip) = EGMJoint" "cond_operation (ip_conditions ip) = OpNormal"
  defines "t' \<equiv> saturate t (Fin 0) (cond_duration (ip_conditions ip))"
  shows "\<exists>out'. EGMInterpolator_evaluate bq ip out sample_time t = Some out'
    \<and> robot_positions out' = map (\<lambda>i. calculatePosition (ip_spline_polynomials ip ! i) t') [0..<nr]
    \<and> external_positions out' = map (\<lambda>i. calculatePosition (ip_spline_polynomials ip ! (i + nr)) t') [0..<ne]
    \<and> ((\<forall>i < nr + ne. fin_polynomial (ip_spline_polynomials ip ! i)) \<longrightarrow> is_fin t' \<longrightarrow> fin_goal out')"
proof -
  let ?polys = "ip_spline_polynomials ip"
  have r: "joint_shape nr (rg_joints_of (pg_robot_of out))" and e: "joint_shape ne (eg_joints_of (pg_external_of out))"
    using assms(1) by (simp_all add: goal_shape_def)
  have op: "cond_operation (ip_conditions ip) \<in> {OpNormal, OpRampDown}" using assms(5) by simp
  obtain g where g: "EGMInterpolator_evaluate bq ip out sample_time t = Some g"
    "evaluated 0 ?polys t' nr (rg_joints_of (pg_robot_of out)) (rg_joints_of (pg_robot_of g))"
    "evaluated nr ?polys t' ne (eg_joints_of (pg_external_of out)) (eg_joints_of (pg_external_of g))"
    unfolding t'_def by (rule evaluate_joint_splines [OF assms(1-4) op])
  have "fin_goal g" if "\<forall>i < nr + ne. fin_polynomial (?polys ! i)" "t' = Fin x" for x
    using evaluated_fin [OF g(2) r that(2)] evaluated_fin [OF g(3) e that(2)] that(1) by (simp add: fin_goal_def)
  with r e g show ?thesis
    by (auto simp: robot_positions_def external_positions_def evaluated_def joint_shape_def is_fin_iff)
qed

text \<open>The polynomials of a normal interpolation in joint mode: finite, from the start positions to the goal positions.\<close>

lemma joint_interpolation:
  assumes "goal_shape nr ne start" "goal_shape nr ne goal" "fin_goal start" "fin_goal goal"
    and "length (ip_spline_polynomials ip) = MAX_NUMBER_OF_SPLINES" "nr + ne \<le> MAX_NUMBER_OF_SPLINES"
    and "cond_mode conditions = EGMJoint" "cond_operation conditions = OpNormal" "cond_duration conditions = Fin d"
  obtains ip' where "EGMInterpolator_update start goal conditions ip = Some ip'" "ip_offset ip' = nr"
    "ip_conditions ip' = conditions\<lparr>cond_duration := Fin (max 0.004 d)\<rparr>" "nr + ne \<le> length (ip_spline_polynomials ip')"
    "\<forall>i < nr + ne. fin_polynomial (ip_spline_polynomials ip' ! i)"
    "map (\<lambda>i. calculatePosition (ip_spline_polynomials ip' ! i) (Fin 0)) [0..<nr] = robot_positions start"
    "map (\<lambda>i. calculatePosition (ip_spline_polynomials ip' ! (i + nr)) (Fin 0)) [0..<ne] = external_positions start"
    "map (\<lambda>i. calculatePosition (ip_spline_polynomials ip' ! i) (Fin (max 0.004 d))) [0..<nr] = robot_positions goal"
    "map (\<lambda>i. calculatePosition (ip_spline_polynomials ip' ! (i + nr)) (Fin (max 0.004 d))) [0..<ne] = external_positions goal"
proof -
  define T where "T = max 0.004 d"
  define conds where "conds = conditions\<lparr>cond_duration := Fin T\<rparr>"
  let ?sc = "make_SplineConditions conds"
  have T: "0 < T" and sc: "sc_duration ?sc = Fin T" "\<not> sc_do_ramp_down ?sc"
    and dur: "conditions\<lparr>cond_duration := fmax LOWEST_SAMPLE_TIME (cond_duration conditions)\<rparr> = conds"
    using assms(8,9) by (simp_all add: T_def make_SplineConditions_def conds_def LOWEST_SAMPLE_TIME_def)
  define ps where "ps = map (\<lambda>i. SplinePolynomial_update (joint_conditions ?sc
      (rg_joints_of (pg_robot_of start)) (rg_joints_of (pg_robot_of goal)) i)) [0..<nr] @
    map (\<lambda>i. SplinePolynomial_update (joint_conditions ?sc
      (eg_joints_of (pg_external_of start)) (eg_joints_of (pg_external_of goal)) i)) [0..<ne] @
    drop (nr + ne) (ip_spline_polynomials ip)"
  have up: "EGMInterpolator_update start goal conditions ip =
      Some (ip\<lparr>ip_conditions := conds, ip_offset := nr, ip_spline_polynomials := ps\<rparr>)"
    using joint_mode_update [OF assms(1,2,5-7)] assms(8) by (simp add: dur ps_def)
  have len: "nr + ne \<le> length ps" by (simp add: ps_def)
  have polys: "ps ! i = SplinePolynomial_update (joint_conditions ?sc
      (rg_joints_of (pg_robot_of start)) (rg_joints_of (pg_robot_of goal)) i)" if "i < nr" for i
    using that by (simp add: ps_def nth_append)
  have polys': "ps ! (i + nr) = SplinePolynomial_update (joint_conditions ?sc
      (eg_joints_of (pg_external_of start)) (eg_joints_of (pg_external_of goal)) i)" if "i < ne" for i
    using that by (simp add: ps_def nth_append)
  have shapes: "joint_shape nr (rg_joints_of (pg_robot_of start))" "joint_shape nr (rg_joints_of (pg_robot_of goal))"
    "joint_shape ne (eg_joints_of (pg_external_of start))" "joint_shape ne (eg_joints_of (pg_external_of goal))"
    using assms(1,2) by (simp_all add: goal_shape_def)
  have fins: "fin_joint_goal (rg_joints_of (pg_robot_of start))" "fin_joint_goal (rg_joints_of (pg_robot_of goal))"
    "fin_joint_goal (eg_joints_of (pg_external_of start))" "fin_joint_goal (eg_joints_of (pg_external_of goal))"
    using assms(3,4) by (simp_all add: fin_goal_def)
  note ends = joint_spline_endpoints [OF shapes(1,2) fins(1,2) _ sc(1) T sc(2)]
    joint_spline_endpoints [OF shapes(3,4) fins(3,4) _ sc(1) T sc(2)]
  have fin: "fin_polynomial (ps ! i)" if "i < nr + ne" for i
  proof (cases "i < nr")
    case True
    then show ?thesis using joint_spline_fin [OF shapes(1,2) fins(1,2) _ sc(1) T sc(2)] by (simp add: polys)
  next
    case False
    then show ?thesis
      using joint_spline_fin [OF shapes(3,4) fins(3,4) _ sc(1) T sc(2), of "i - nr"] polys' [of "i - nr"] that by simp
  qed
  have lens: "length (robot_positions start) = nr" "length (robot_positions goal) = nr"
    "length (external_positions start) = ne" "length (external_positions goal) = ne"
    using shapes by (simp_all add: joint_shape_def robot_positions_def external_positions_def)
  have "map (\<lambda>i. calculatePosition (ps ! i) (Fin 0)) [0..<nr] = robot_positions start"
    "map (\<lambda>i. calculatePosition (ps ! i) (Fin T)) [0..<nr] = robot_positions goal"
    "map (\<lambda>i. calculatePosition (ps ! (i + nr)) (Fin 0)) [0..<ne] = external_positions start"
    "map (\<lambda>i. calculatePosition (ps ! (i + nr)) (Fin T)) [0..<ne] = external_positions goal"
    using lens by (intro nth_equalityI; simp add: polys polys' ends robot_positions_def external_positions_def)+
  with up len fin show thesis by (intro that [OF up]) (simp_all add: conds_def T_def)
qed

text \<open>
  C16: In joint mode a normal interpolation between finite goals starts exactly in the start position and
  ends exactly in the goal position, for every spline method: with the duration \<open>d\<close> the first sample
  is the start position and every sample at or after \<open>max 0.004 d\<close> seconds is the goal position, for
  the robot's joints and for the external joints. This is for exact arithmetic on the reals.
\<close>

theorem interpolation_endpoints:
  assumes "goal_shape nr ne start" "goal_shape nr ne goal" "goal_shape nr ne out"
    and "fin_goal start" "fin_goal goal"
    and "length (ip_spline_polynomials ip) = MAX_NUMBER_OF_SPLINES" "nr + ne \<le> MAX_NUMBER_OF_SPLINES"
    and "cond_mode conditions = EGMJoint" "cond_operation conditions = OpNormal"
    and "cond_duration conditions = Fin d" "max 0.004 d \<le> t"
  shows "\<exists>ip' out0 outT. EGMInterpolator_update start goal conditions ip = Some ip'
    \<and> EGMInterpolator_evaluate bq ip' out sample_time (Fin 0) = Some out0
    \<and> robot_positions out0 = robot_positions start \<and> external_positions out0 = external_positions start
    \<and> EGMInterpolator_evaluate bq ip' out sample_time (Fin t) = Some outT
    \<and> robot_positions outT = robot_positions goal \<and> external_positions outT = external_positions goal"
proof -
  define T where "T = max 0.004 d"
  from joint_interpolation [OF assms(1,2,4-10)] obtain ip' where
    up: "EGMInterpolator_update start goal conditions ip = Some ip'" and off: "ip_offset ip' = nr"
    and conds: "ip_conditions ip' = conditions\<lparr>cond_duration := Fin T\<rparr>" and len: "nr + ne \<le> length (ip_spline_polynomials ip')"
    and eqs: "map (\<lambda>i. calculatePosition (ip_spline_polynomials ip' ! i) (Fin 0)) [0..<nr] = robot_positions start"
      "map (\<lambda>i. calculatePosition (ip_spline_polynomials ip' ! (i + nr)) (Fin 0)) [0..<ne] = external_positions start"
      "map (\<lambda>i. calculatePosition (ip_spline_polynomials ip' ! i) (Fin T)) [0..<nr] = robot_positions goal"
      "map (\<lambda>i. calculatePosition (ip_spline_polynomials ip' ! (i + nr)) (Fin T)) [0..<ne] = external_positions goal"
    unfolding T_def by blast
  have mode: "cond_mode (ip_conditions ip') = EGMJoint" "cond_operation (ip_conditions ip') = OpNormal" "cond_duration (ip_conditions ip') = Fin T"
    using assms(8,9) by (simp_all add: conds)
  note ev = evaluate_joint_mode [OF assms(3) len off mode(1,2), of bq sample_time, unfolded mode(3)]
  have sat: "saturate (Fin 0) (Fin 0) (Fin T) = Fin 0" "saturate (Fin t) (Fin 0) (Fin T) = Fin T"
    using assms(11) by (simp_all add: saturate_Fin T_def)
  from up ev [of "Fin 0"] ev [of "Fin t"] show ?thesis unfolding sat eqs by blast
qed

lemma flat_goal_fin [simp]: "is_fin v \<Longrightarrow> fin_goal (flat_goal nr ne v)"
  by (auto simp: fin_goal_def fin_joint_goal_def flat_goal_def Let_def)

theorem interpolation_endpoints_witness:
  "\<exists>ip' out0 outT. EGMInterpolator_update (flat_goal 6 1 (Fin 3)) (flat_goal 6 1 (Fin 5))
        (default_Conditions\<lparr>cond_duration := Fin 2\<rparr>) (init_EGMInterpolator 0) = Some ip'
    \<and> EGMInterpolator_evaluate hamilton ip' (flat_goal 6 1 (Fin 0)) (Fin 0.004) (Fin 0) = Some out0
    \<and> robot_positions out0 = robot_positions (flat_goal 6 1 (Fin 3))
    \<and> external_positions out0 = external_positions (flat_goal 6 1 (Fin 3))
    \<and> EGMInterpolator_evaluate hamilton ip' (flat_goal 6 1 (Fin 0)) (Fin 0.004) (Fin 2) = Some outT
    \<and> robot_positions outT = robot_positions (flat_goal 6 1 (Fin 5))
    \<and> external_positions outT = external_positions (flat_goal 6 1 (Fin 5))"
  by (rule interpolation_endpoints [where nr = 6 and ne = 1 and d = 2])
    (simp_all add: init_EGMInterpolator_def MAX_NUMBER_OF_SPLINES_def default_Conditions_def)

end
