(* ===== verification/EGM_Slerp.thy ===== *)
theory EGM_Slerp
  imports EGM_Interpolation
begin

text \<open>
  The orientations of \<open>EGMInterpolator::Slerp\<close>: between quaternions that are not too close to each other the
  interpolation follows the great circle with constant angular speed, on the shorter way. If they are closer, the
  code interpolates linearly without choosing the shorter way, which fails for opposite quaternions.
\<close>

section \<open>The weights\<close>

lemma slerp_weights:
  fixes w x :: real
  assumes "sin w \<noteq> 0"
  defines "A \<equiv> sin ((1 - x) * w) / sin w" and "B \<equiv> sin (x * w) / sin w"
  shows "A + B * cos w = cos (x * w)" "A * A + B * B + 2 * (A * B * cos w) = 1"
proof -
  have "sin ((1 - x) * w) = sin w * cos (x * w) - cos w * sin (x * w)"
    by (simp add: left_diff_distrib sin_diff)
  then show 1: "A + B * cos w = cos (x * w)" using assms(1) by (simp add: A_def B_def field_simps)
  have "A * A + B * B + 2 * (A * B * cos w) = (A + B * cos w)\<^sup>2 + B\<^sup>2 * (1 - (cos w)\<^sup>2)"
    by (simp add: power2_eq_square algebra_simps)
  also have "\<dots> = (cos (x * w))\<^sup>2 + (B * sin w)\<^sup>2" by (simp add: 1 sin_squared_eq power_mult_distrib)
  also have "\<dots> = 1" using assms(1) by (simp add: B_def)
  finally show "A * A + B * B + 2 * (A * B * cos w) = 1" .
qed

lemma slerp_combination:
  fixes A B c :: real
  assumes "a0 * a0 + a1 * a1 + a2 * a2 + a3 * a3 = 1" "b0 * b0 + b1 * b1 + b2 * b2 + b3 * b3 = 1"
    and "a0 * b0 + a1 * b1 + a2 * b2 + a3 * b3 = c" "A * A + B * B + 2 * (A * B * c) = 1"
  shows "(A * a0 + B * b0) * (A * a0 + B * b0) + (A * a1 + B * b1) * (A * a1 + B * b1) +
      (A * a2 + B * b2) * (A * a2 + B * b2) + (A * a3 + B * b3) * (A * a3 + B * b3) = 1"
    "a0 * (A * a0 + B * b0) + a1 * (A * a1 + B * b1) + a2 * (A * a2 + B * b2) + a3 * (A * a3 + B * b3) = A + B * c"
  using assms by algebra+

section \<open>Update and evaluation\<close>

lemma saturate_unit_Fin: "saturate (Fin x) (Fin 0) (Fin 1) = Fin (max 0 (min x 1))"
  by (simp add: saturate_def)

abbreviation orientation :: "CartesianGoal \<Rightarrow> Quaternion" where
  "orientation c \<equiv> pose_quaternion_of (cg_pose_of c)"

lemma Slerp_evaluate_slerp:
  assumes "\<not> slerp_use_linear s" "slerp_omega s = Fin w" "sin w \<noteq> 0" "slerp_duration s = Fin d" "0 < d"
    and q0: "u0_of (slerp_q0 s) = Fin a0" "u1_of (slerp_q0 s) = Fin a1" "u2_of (slerp_q0 s) = Fin a2" "u3_of (slerp_q0 s) = Fin a3"
    and q1: "u0_of (slerp_q1 s) = Fin b0" "u1_of (slerp_q1 s) = Fin b1" "u2_of (slerp_q1 s) = Fin b2" "u3_of (slerp_q1 s) = Fin b3"
    and "a0 * a0 + a1 * a1 + a2 * a2 + a3 * a3 = 1" "b0 * b0 + b1 * b1 + b2 * b2 + b3 * b3 = 1"
    and "a0 * b0 + a1 * b1 + a2 * b2 + a3 * b3 = cos w"
    and x: "x = max 0 (min (t / d) 1)"
  defines "A \<equiv> sin ((1 - x) * w) / sin w" and "B \<equiv> sin (x * w) / sin w"
  shows "u0_of (orientation (Slerp_evaluate s g (Fin t))) = Fin (A * a0 + B * b0)"
    "u1_of (orientation (Slerp_evaluate s g (Fin t))) = Fin (A * a1 + B * b1)"
    "u2_of (orientation (Slerp_evaluate s g (Fin t))) = Fin (A * a2 + B * b2)"
    "u3_of (orientation (Slerp_evaluate s g (Fin t))) = Fin (A * a3 + B * b3)"
proof -
  define r where "r = (orientation g)\<lparr>u0 := Some (Fin (A * a0 + B * b0)), u1 := Some (Fin (A * a1 + B * b1)),
    u2 := Some (Fin (A * a2 + B * b2)), u3 := Some (Fin (A * a3 + B * b3))\<rparr>"
  have r: "u0_of r = Fin (A * a0 + B * b0)" "u1_of r = Fin (A * a1 + B * b1)"
    "u2_of r = Fin (A * a2 + B * b2)" "u3_of r = Fin (A * a3 + B * b3)" by (simp_all add: r_def)
  have "orientation (Slerp_evaluate s g (Fin t)) = normalize r"
    using assms(1-5) q0 q1 by (simp add: Slerp_evaluate_def Let_def saturate_unit_Fin r_def A_def B_def x)
  moreover have "unit_Quaternion r"
    using slerp_combination(1) [OF assms(14-16) slerp_weights(2) [OF assms(3), of x]] r
    by (simp add: unit_Quaternion_def fin_Quaternion_def dotProduct_Fin [OF r r] A_def B_def)
  ultimately show "u0_of (orientation (Slerp_evaluate s g (Fin t))) = Fin (A * a0 + B * b0)"
    "u1_of (orientation (Slerp_evaluate s g (Fin t))) = Fin (A * a1 + B * b1)"
    "u2_of (orientation (Slerp_evaluate s g (Fin t))) = Fin (A * a2 + B * b2)"
    "u3_of (orientation (Slerp_evaluate s g (Fin t))) = Fin (A * a3 + B * b3)"
    using r normalize_of_unit [of r] by simp_all
qed

lemma Slerp_update_slerp:
  fixes s :: Slerp and conditions :: Conditions
  assumes start: "u0_of start = Fin a0" "u1_of start = Fin a1" "u2_of start = Fin a2" "u3_of start = Fin a3"
    and goal: "u0_of goal = Fin g0" "u1_of goal = Fin g1" "u2_of goal = Fin g2" "u3_of goal = Fin g3"
    and "unit_Quaternion start" "unit_Quaternion goal"
    and c: "a0 * g0 + a1 * g1 + a2 * g2 + a3 * g3 = c" and "\<bar>c\<bar> \<le> 0.9995"
  defines "s' \<equiv> Slerp_update start goal conditions s" and "\<sigma> \<equiv> if c < 0 then -1 else 1 :: real"
  shows "\<not> slerp_use_linear s'" "slerp_omega s' = Fin (arccos \<bar>c\<bar>)" "slerp_duration s' = cond_duration conditions"
    "u0_of (slerp_q0 s') = Fin a0" "u1_of (slerp_q0 s') = Fin a1" "u2_of (slerp_q0 s') = Fin a2" "u3_of (slerp_q0 s') = Fin a3"
    "u0_of (slerp_q1 s') = Fin (\<sigma> * g0)" "u1_of (slerp_q1 s') = Fin (\<sigma> * g1)"
    "u2_of (slerp_q1 s') = Fin (\<sigma> * g2)" "u3_of (slerp_q1 s') = Fin (\<sigma> * g3)"
proof -
  have n: "u0_of (normalize start) = Fin a0" "u1_of (normalize start) = Fin a1" "u2_of (normalize start) = Fin a2"
    "u3_of (normalize start) = Fin a3" "u0_of (normalize goal) = Fin g0" "u1_of (normalize goal) = Fin g1"
    "u2_of (normalize goal) = Fin g2" "u3_of (normalize goal) = Fin g3"
    using start goal normalize_of_unit [OF assms(9)] normalize_of_unit [OF assms(10)] by simp_all
  have dot: "dotProduct (normalize start) (normalize goal) = Fin c" using c by (simp add: dotProduct_Fin [OF n])
  have "slerp_use_linear s' \<longleftrightarrow> 0.9995 < \<bar>c\<bar>"
    by (simp add: s'_def Slerp_update_def dot DOT_PRODUCT_THRESHOLD_def Let_def)
  with assms(12) show lin: "\<not> slerp_use_linear s'" by simp
  have sat: "saturate (Fin \<bar>c\<bar>) (Fin (- 1)) (Fin 1) = Fin \<bar>c\<bar>" using assms(12) by (auto simp: saturate_def)
  show "slerp_omega s' = Fin (arccos \<bar>c\<bar>)" "slerp_duration s' = cond_duration conditions"
    "u0_of (slerp_q0 s') = Fin a0" "u1_of (slerp_q0 s') = Fin a1" "u2_of (slerp_q0 s') = Fin a2" "u3_of (slerp_q0 s') = Fin a3"
    "u0_of (slerp_q1 s') = Fin (\<sigma> * g0)" "u1_of (slerp_q1 s') = Fin (\<sigma> * g1)"
    "u2_of (slerp_q1 s') = Fin (\<sigma> * g2)" "u3_of (slerp_q1 s') = Fin (\<sigma> * g3)"
    using n assms(12) sat
    by (auto simp: s'_def \<sigma>_def Slerp_update_def dot DOT_PRODUCT_THRESHOLD_def Let_def multiply_Quaternion_def abs_if)
qed

lemma slerp_path:
  fixes t d c :: real and s :: Slerp and g :: CartesianGoal
  assumes "unit_Quaternion start" "unit_Quaternion goal" "dotProduct start goal = Fin c" "\<bar>c\<bar> \<le> 0.9995"
    and "cond_duration conditions = Fin d" "0 < d"
  defines "out \<equiv> pose_quaternion_of (cg_pose_of (Slerp_evaluate (Slerp_update start goal conditions s) g (Fin t)))"
  shows "unit_Quaternion out \<and> dotProduct start out = Fin (cos (max 0 (min (t / d) 1) * arccos \<bar>c\<bar>)) \<and>
    (t \<le> 0 \<longrightarrow> to_bquat out = to_bquat start) \<and>
    (d \<le> t \<longrightarrow> to_bquat out = to_bquat (if c < 0 then multiply_Quaternion goal (Fin (-1)) else goal))"
proof -
  obtain a0 a1 a2 a3 where a: "u0_of start = Fin a0" "u1_of start = Fin a1" "u2_of start = Fin a2" "u3_of start = Fin a3"
    using assms(1) unfolding unit_Quaternion_def by (auto elim: fin_QuaternionE)
  obtain g0 g1 g2 g3 where b: "u0_of goal = Fin g0" "u1_of goal = Fin g1" "u2_of goal = Fin g2" "u3_of goal = Fin g3"
    using assms(2) unfolding unit_Quaternion_def by (auto elim: fin_QuaternionE)
  have c: "a0 * g0 + a1 * g1 + a2 * g2 + a3 * g3 = c" using assms(3) by (simp add: dotProduct_Fin [OF a b])
  have na: "a0 * a0 + a1 * a1 + a2 * a2 + a3 * a3 = 1" and ng: "g0 * g0 + g1 * g1 + g2 * g2 + g3 * g3 = 1"
    using assms(1,2) by (simp_all add: unit_Quaternion_def dotProduct_Fin [OF a a] dotProduct_Fin [OF b b])
  define \<sigma> where "\<sigma> = (if c < 0 then -1 else 1 :: real)"
  define w where "w = arccos \<bar>c\<bar>"
  define x where "x = max 0 (min (t / d) 1)"
  note up = Slerp_update_slerp [OF a b assms(1,2) c assms(4), of conditions s, folded \<sigma>_def w_def]
  have cw: "cos w = \<bar>c\<bar>" using assms(4) by (simp add: w_def cos_arccos_abs)
  have "c * c < 1 * 1"
    using assms(4) abs_mult_less [of c 1 c 1] by (simp add: abs_mult [symmetric] del: abs_mult_self_eq)
  then have sw: "sin w \<noteq> 0" using assms(4) by (simp add: w_def sin_arccos_abs power2_eq_square)
  have nb: "\<sigma> * g0 * (\<sigma> * g0) + \<sigma> * g1 * (\<sigma> * g1) + \<sigma> * g2 * (\<sigma> * g2) + \<sigma> * g3 * (\<sigma> * g3) = 1"
    using ng by (simp add: \<sigma>_def)
  have cb: "a0 * (\<sigma> * g0) + a1 * (\<sigma> * g1) + a2 * (\<sigma> * g2) + a3 * (\<sigma> * g3) = cos w"
    using c by (simp add: \<sigma>_def cw abs_if)
  note o = Slerp_evaluate_slerp [OF up(1,2) sw _ assms(6) up(4-11) na nb cb x_def, of g, folded out_def]
  let ?A = "sin ((1 - x) * w) / sin w" and ?B = "sin (x * w) / sin w"
  have o: "u0_of out = Fin (?A * a0 + ?B * (\<sigma> * g0))" "u1_of out = Fin (?A * a1 + ?B * (\<sigma> * g1))"
    "u2_of out = Fin (?A * a2 + ?B * (\<sigma> * g2))" "u3_of out = Fin (?A * a3 + ?B * (\<sigma> * g3))"
    using o up(3) assms(5) by simp_all
  note comb = slerp_combination [OF na nb cb slerp_weights(2) [OF sw, of x]]
  have "unit_Quaternion out"
    using comb(1) o by (simp add: unit_Quaternion_def fin_Quaternion_def dotProduct_Fin [OF o o])
  moreover have "dotProduct start out = Fin (cos (x * w))"
    using comb(2) slerp_weights(1) [OF sw, of x] by (simp add: dotProduct_Fin [OF a o])
  moreover have "to_bquat out = to_bquat start" if "t \<le> 0"
  proof -
    have "t / d \<le> 0" using that assms(6) by (simp add: divide_le_0_iff)
    then have "x = 0" by (simp add: x_def)
    then show ?thesis using sw by (simp add: to_bquat_def o a)
  qed
  moreover have "to_bquat out = to_bquat (if c < 0 then multiply_Quaternion goal (Fin (-1)) else goal)" if "d \<le> t"
  proof -
    have "x = 1" using that assms(6) by (simp add: x_def)
    then show ?thesis using sw by (simp add: to_bquat_def o b \<sigma>_def multiply_Quaternion_def)
  qed
  ultimately show ?thesis by (simp add: x_def w_def)
qed

text \<open>Quaternions that are closer are interpolated linearly: start and goal are the same.\<close>

lemma slerp_linear_ends:
  fixes t d c :: real and s :: Slerp and g :: CartesianGoal
  assumes "unit_Quaternion start" "unit_Quaternion goal" "dotProduct start goal = Fin c" "0.9995 < \<bar>c\<bar>"
    and "cond_duration conditions = Fin d" "0 < d"
  defines "out \<equiv> orientation (Slerp_evaluate (Slerp_update start goal conditions s) g (Fin t))"
  shows "t \<le> 0 \<Longrightarrow> to_bquat out = to_bquat start" "d \<le> t \<Longrightarrow> to_bquat out = to_bquat goal"
proof -
  obtain a0 a1 a2 a3 where a: "u0_of start = Fin a0" "u1_of start = Fin a1" "u2_of start = Fin a2" "u3_of start = Fin a3"
    using assms(1) unfolding unit_Quaternion_def by (auto elim: fin_QuaternionE)
  obtain b0 b1 b2 b3 where b: "u0_of goal = Fin b0" "u1_of goal = Fin b1" "u2_of goal = Fin b2" "u3_of goal = Fin b3"
    using assms(2) unfolding unit_Quaternion_def by (auto elim: fin_QuaternionE)
  have n: "u0_of (normalize start) = Fin a0" "u1_of (normalize start) = Fin a1" "u2_of (normalize start) = Fin a2"
    "u3_of (normalize start) = Fin a3" "u0_of (normalize goal) = Fin b0" "u1_of (normalize goal) = Fin b1"
    "u2_of (normalize goal) = Fin b2" "u3_of (normalize goal) = Fin b3"
    using a b normalize_of_unit [OF assms(1)] normalize_of_unit [OF assms(2)] by simp_all
  have dot: "dotProduct (normalize start) (normalize goal) = Fin c" using assms(3) by (simp add: dotProduct_Fin [OF n] dotProduct_Fin [OF a b])
  define s' where "s' = Slerp_update start goal conditions s"
  have s': "slerp_use_linear s'" "slerp_q0 s' = normalize start" "slerp_q1 s' = normalize goal" "slerp_duration s' = Fin d"
    using assms(4) by (simp_all add: s'_def Slerp_update_def dot DOT_PRODUCT_THRESHOLD_def Let_def assms(5))
  define x where "x = max 0 (min (t / d) 1)"
  define r where "r = (orientation g)\<lparr>u0 := Some (Fin ((1 - x) * a0 + x * b0)), u1 := Some (Fin ((1 - x) * a1 + x * b1)),
    u2 := Some (Fin ((1 - x) * a2 + x * b2)), u3 := Some (Fin ((1 - x) * a3 + x * b3))\<rparr>"
  have out: "out = normalize r"
    using assms(6) s'(1,4) by (simp add: out_def s'_def [symmetric] Slerp_evaluate_def Let_def saturate_unit_Fin s'(2,3) n r_def x_def)
  have unit: "to_bquat (normalize q) = to_bquat p" if "unit_Quaternion p" "to_bquat q = to_bquat p" for p q
  proof -
    have "unit_Quaternion q" using that by (simp add: to_bquat_def unit_Quaternion_def fin_Quaternion_def dotProduct_def)
    then show ?thesis using normalize_of_unit [of q] that(2) by (simp add: to_bquat_def)
  qed
  show "to_bquat out = to_bquat start" if "t \<le> 0"
  proof -
    have "t / d \<le> 0" using that assms(6) by (simp add: divide_le_0_iff)
    then show ?thesis unfolding out by (intro unit [OF assms(1)]) (simp add: to_bquat_def r_def x_def a)
  qed
  show "to_bquat out = to_bquat goal" if "d \<le> t"
    using that assms(6) unfolding out by (intro unit [OF assms(2)]) (simp add: to_bquat_def r_def x_def b)
qed

text \<open>
  C18: Orientations are interpolated on the shorter great circle and with constant angular speed. Between unit
  quaternions whose dot product \<open>c\<close> is at most 0.9995 in absolute value, the output is a unit quaternion at every
  time; it is the start quaternion at the beginning, the goal quaternion, or its negative, which is the same
  orientation, from the end of the duration on, and in between its angle to the start quaternion grows linearly from
  0 to the angle between start and goal.
\<close>

theorem slerp_constant_speed:
  fixes t d c :: real and s :: Slerp and g :: CartesianGoal
  assumes "unit_Quaternion start" "unit_Quaternion goal" "dotProduct start goal = Fin c" "\<bar>c\<bar> \<le> 0.9995"
    and "cond_duration conditions = Fin d" "0 < d"
  defines "out \<equiv> pose_quaternion_of (cg_pose_of (Slerp_evaluate (Slerp_update start goal conditions s) g (Fin t)))"
  shows "unit_Quaternion out \<and> dotProduct start out = Fin (cos (max 0 (min (t / d) 1) * arccos \<bar>c\<bar>)) \<and>
    (t \<le> 0 \<longrightarrow> to_bquat out = to_bquat start) \<and>
    (d \<le> t \<longrightarrow> to_bquat out = to_bquat (if c < 0 then multiply_Quaternion goal (Fin (-1)) else goal))"
  using assms(1-6) unfolding out_def by (rule slerp_path)

abbreviation quaternion :: "real \<Rightarrow> real \<Rightarrow> real \<Rightarrow> real \<Rightarrow> Quaternion" where
  "quaternion a b c d \<equiv> \<lparr>u0 = Some (Fin a), u1 = Some (Fin b), u2 = Some (Fin c), u3 = Some (Fin d)\<rparr>"

text \<open>From the identity to a rotation by 180 degrees about the first axis: after half of the time, 90 degrees.\<close>

theorem slerp_constant_speed_witness:
  "dotProduct (quaternion 1 0 0 0) (pose_quaternion_of (cg_pose_of (Slerp_evaluate (Slerp_update (quaternion 1 0 0 0)
     (quaternion 0 1 0 0) (default_Conditions\<lparr>cond_duration := Fin 2\<rparr>) default_Slerp) default_CartesianGoal (Fin 1)))) =
   Fin (cos (pi / 4))"
  using slerp_constant_speed [of "quaternion 1 0 0 0" "quaternion 0 1 0 0" 0 "default_Conditions\<lparr>cond_duration := Fin 2\<rparr>" 2
      default_Slerp default_CartesianGoal 1]
  by (simp add: unit_Quaternion_def fin_Quaternion_def dotProduct_def)

section \<open>Opposite quaternions\<close>

text \<open>
  C39: Opposite quaternions, which are the same orientation, are not recognised as such: the linear interpolation
  goes straight through zero, and after half of the duration the output is the zero quaternion, which is no
  orientation.
\<close>

theorem slerp_opposite_quaternions:
  assumes "unit_Quaternion start" "cond_duration conditions = Fin d" "0 < d"
  shows "to_bquat (pose_quaternion_of (cg_pose_of (Slerp_evaluate
      (Slerp_update start (multiply_Quaternion start (Fin (-1))) conditions s) g (Fin (d / 2))))) =
    (Fin 0, Fin 0, Fin 0, Fin 0)"
proof -
  obtain a0 a1 a2 a3 where a: "u0_of start = Fin a0" "u1_of start = Fin a1" "u2_of start = Fin a2" "u3_of start = Fin a3"
    using assms(1) unfolding unit_Quaternion_def by (auto elim: fin_QuaternionE)
  let ?goal = "multiply_Quaternion start (Fin (-1))"
  have b: "u0_of ?goal = Fin (- a0)" "u1_of ?goal = Fin (- a1)" "u2_of ?goal = Fin (- a2)" "u3_of ?goal = Fin (- a3)"
    using a by (simp_all add: multiply_Quaternion_def)
  have na: "a0 * a0 + a1 * a1 + a2 * a2 + a3 * a3 = 1"
    using assms(1) by (simp add: unit_Quaternion_def dotProduct_Fin [OF a a])
  then have ub: "unit_Quaternion ?goal"
    using b by (simp add: unit_Quaternion_def fin_Quaternion_def dotProduct_Fin [OF b b])
  have n: "u0_of (normalize start) = Fin a0" "u1_of (normalize start) = Fin a1" "u2_of (normalize start) = Fin a2"
    "u3_of (normalize start) = Fin a3" "u0_of (normalize ?goal) = Fin (- a0)" "u1_of (normalize ?goal) = Fin (- a1)"
    "u2_of (normalize ?goal) = Fin (- a2)" "u3_of (normalize ?goal) = Fin (- a3)"
    using a b normalize_of_unit [OF assms(1)] normalize_of_unit [OF ub] by simp_all
  have dot: "dotProduct (normalize start) (normalize ?goal) = Fin (-1)"
    unfolding dotProduct_Fin [OF n] using na by simp
  define s' where "s' = Slerp_update start ?goal conditions s"
  have s': "slerp_use_linear s'" "slerp_q0 s' = normalize start" "slerp_q1 s' = normalize ?goal" "slerp_duration s' = Fin d"
    by (simp_all add: s'_def Slerp_update_def dot DOT_PRODUCT_THRESHOLD_def Let_def assms(2))
  define r where "r = (orientation g)\<lparr>u0 := Some (Fin 0), u1 := Some (Fin 0), u2 := Some (Fin 0), u3 := Some (Fin 0)\<rparr>"
  have "orientation (Slerp_evaluate s' g (Fin (d / 2))) = normalize r"
    using assms(3) s'(1,4) by (simp add: Slerp_evaluate_def Let_def saturate_unit_Fin s'(2,3) n r_def)
  moreover have "normalize r = r" by (rule normalize_zero) (simp add: euclideanNorm_def dotProduct_def r_def)
  ultimately show ?thesis by (simp add: s'_def [symmetric] to_bquat_def) (simp add: r_def)
qed

theorem slerp_opposite_quaternions_witness:
  "to_bquat (pose_quaternion_of (cg_pose_of (Slerp_evaluate
      (Slerp_update (quaternion 1 0 0 0) (multiply_Quaternion (quaternion 1 0 0 0) (Fin (-1)))
        (default_Conditions\<lparr>cond_duration := Fin 2\<rparr>) default_Slerp) default_CartesianGoal (Fin (2 / 2))))) =
    (Fin 0, Fin 0, Fin 0, Fin 0)"
  by (rule slerp_opposite_quaternions) (simp_all add: unit_Quaternion_def fin_Quaternion_def dotProduct_def)

end
