(* ===== verification/EGM_Pose.thy ===== *)
theory EGM_Pose
  imports EGM_Slerp
begin

text \<open>
  The interpolation in pose mode: three spline polynomials for the position, a slerp for the orientation and the
  polynomials of the external joints, which follow those of the robot's joints. It starts in the start pose and ends
  in the goal pose.
\<close>

section \<open>Cartesian goals\<close>

abbreviation pose_goal :: "PointGoal \<Rightarrow> CartesianGoal" where
  "pose_goal g \<equiv> rg_cartesian_of (pg_robot_of g)"

definition axis_of :: "Axis \<Rightarrow> Cartesian \<Rightarrow> double" where
  "axis_of axis c = (case axis of AxisX \<Rightarrow> cx_of c | AxisY \<Rightarrow> cy_of c | AxisZ \<Rightarrow> cz_of c)"

definition axis_index :: "Axis \<Rightarrow> nat" where
  "axis_index axis = (case axis of AxisX \<Rightarrow> 0 | AxisY \<Rightarrow> 1 | AxisZ \<Rightarrow> 2)"

definition xyz :: "PointGoal \<Rightarrow> double \<times> double \<times> double" where
  "xyz g = (let p = pose_position_of (cg_pose_of (pose_goal g)) in (cx_of p, cy_of p, cz_of p))"

text \<open>A goal with finite values for the Cartesian motion and the external joints, and a unit quaternion.\<close>

definition fin_pose_goal :: "PointGoal \<Rightarrow> bool" where
  "fin_pose_goal g \<longleftrightarrow>
     fin_Cartesian (pose_position_of (cg_pose_of (pose_goal g))) \<and> fin_Cartesian (cg_velocity_of (pose_goal g)) \<and>
     fin_Cartesian (cg_acceleration_of (pose_goal g)) \<and> unit_Quaternion (orientation (pose_goal g)) \<and>
     fin_joint_goal (eg_joints_of (pg_external_of g))"

lemma axis_spline_endpoints:
  fixes axis :: Axis
  assumes "fin_pose_goal start" "fin_pose_goal goal" "sc_duration sc = Fin T" "0 < T" "\<not> sc_do_ramp_down sc"
  defines "p \<equiv> SplinePolynomial_update (setConditions_axis axis (pose_goal start) (pose_goal goal) sc)"
  shows "calculatePosition p (Fin 0) = axis_of axis (pose_position_of (cg_pose_of (pose_goal start)))"
    "calculatePosition p (Fin T) = axis_of axis (pose_position_of (cg_pose_of (pose_goal goal)))"
proof -
  let ?sc = "setConditions_axis axis (pose_goal start) (pose_goal goal) sc"
  let ?a = "axis_of axis (pose_position_of (cg_pose_of (pose_goal start)))" and ?b = "axis_of axis (pose_position_of (cg_pose_of (pose_goal goal)))"
  have fin: "is_fin ?a" "is_fin ?b"
    using assms(1,2) by (auto simp: fin_pose_goal_def fin_Cartesian_def axis_of_def split: Axis.split)
  have "\<exists>da dda db ddb. fin_conditions T (the_fin ?a) da dda (the_fin ?b) db ddb ?sc"
    using assms(1-3)
    by (auto simp: fin_pose_goal_def fin_Cartesian_def fin_conditions_def setConditions_axis_def axis_of_def
        intro!: exI is_fin_the split: Axis.split)
  then obtain da dda db ddb where "fin_conditions T (the_fin ?a) da dda (the_fin ?b) db ddb ?sc" by blast
  moreover have "\<not> sc_do_ramp_down ?sc" using assms(5) by (simp add: setConditions_axis_def split: Axis.split)
  ultimately show "calculatePosition p (Fin 0) = ?a" "calculatePosition p (Fin T) = ?b"
    unfolding p_def using spline_start(1) spline_end(1) assms(4) fin is_fin_the by metis+
qed

section \<open>Update and evaluation\<close>

lemma pose_mode_update:
  assumes "goal_shape nr ne start" "goal_shape nr ne goal" "3 \<le> nr" "nr + ne \<le> length (ip_spline_polynomials ip)"
    and "cond_mode conditions = EGMPose" "cond_operation conditions = OpNormal"
  defines "conds \<equiv> conditions\<lparr>cond_duration := fmax LOWEST_SAMPLE_TIME (cond_duration conditions)\<rparr>"
  obtains ps where "EGMInterpolator_update start goal conditions ip = Some (ip\<lparr>ip_conditions := conds, ip_offset := nr,
      ip_slerp := Slerp_update (orientation (pose_goal start)) (orientation (pose_goal goal)) conditions (ip_slerp ip),
      ip_spline_polynomials := ps\<rparr>)"
    "length ps = length (ip_spline_polynomials ip)"
    "\<And>axis. ps ! axis_index axis = SplinePolynomial_update (setConditions_axis axis (pose_goal start) (pose_goal goal) (make_SplineConditions conds))"
    "\<forall>i < ne. ps ! (i + nr) = SplinePolynomial_update (joint_conditions (make_SplineConditions conds)
        (eg_joints_of (pg_external_of start)) (eg_joints_of (pg_external_of goal)) i)"
proof -
  let ?sc = "make_SplineConditions conds"
  let ?f = "\<lambda>axis. SplinePolynomial_update (setConditions_axis axis (pose_goal start) (pose_goal goal) ?sc)"
  define qs where "qs = (ip_spline_polynomials ip)[0 := ?f AxisX, 1 := ?f AxisY, 2 := ?f AxisZ]"
  define ps where "ps = take nr qs @ map (\<lambda>i. SplinePolynomial_update (joint_conditions ?sc
      (eg_joints_of (pg_external_of start)) (eg_joints_of (pg_external_of goal)) i)) [0..<ne] @ drop (nr + ne) qs"
  have off: "length (jvalues (jg_position_of (rg_joints_of (pg_robot_of start)))) = nr"
    using assms(1) by (simp add: goal_shape_def joint_shape_def)
  have ej: "joint_shape ne (eg_joints_of (pg_external_of start))" "joint_shape ne (eg_joints_of (pg_external_of goal))"
    using assms(1,2) by (simp_all add: goal_shape_def)
  have len: "length qs = length (ip_spline_polynomials ip)" "ip_spline_polynomials ip \<noteq> []" using assms(3,4) by (auto simp: qs_def)
  have up: "update_joint_splines nr ?sc (eg_joints_of (pg_external_of start)) (eg_joints_of (pg_external_of goal)) qs = Some ps"
    using update_joint_splines_Some [OF ej, of nr qs ?sc] assms(4) len by (simp add: ps_def add.commute)
  have "EGMInterpolator_update start goal conditions ip = Some (ip\<lparr>ip_conditions := conds, ip_offset := nr,
      ip_slerp := Slerp_update (orientation (pose_goal start)) (orientation (pose_goal goal)) conditions (ip_slerp ip),
      ip_spline_polynomials := ps\<rparr>)"
    using assms(3-6) up len(2) by (simp add: EGMInterpolator_update_def Let_def off conds_def update_axis_spline_def set_at_def qs_def)
  moreover have "length ps = length (ip_spline_polynomials ip)" using assms(4) len by (simp add: ps_def)
  moreover have "ps ! axis_index axis = ?f axis" for axis
  proof -
    have "axis_index axis < nr" "axis_index axis < length qs" using assms(3,4) len by (auto simp: axis_index_def split: Axis.split)
    then have "ps ! axis_index axis = qs ! axis_index axis" by (simp add: ps_def nth_append)
    then show ?thesis using assms(3,4) len(2) by (cases axis) (simp_all add: axis_index_def qs_def)
  qed
  moreover have "\<forall>i < ne. ps ! (i + nr) = SplinePolynomial_update (joint_conditions ?sc
      (eg_joints_of (pg_external_of start)) (eg_joints_of (pg_external_of goal)) i)"
    using assms(4) len by (simp add: ps_def nth_append)
  ultimately show thesis by (rule that)
qed

lemma Slerp_evaluate_frame [simp]:
  "pose_position (cg_pose_of (Slerp_evaluate s c t)) = pose_position (cg_pose_of c)"
  by (simp add: Slerp_evaluate_def Let_def case_prod_beta)

lemma evaluate_pose_mode:
  fixes t :: double
  assumes "goal_shape nr ne out" "3 \<le> nr" "nr + ne \<le> length (ip_spline_polynomials ip)" "ip_offset ip = nr"
    and "cond_mode (ip_conditions ip) = EGMPose" "cond_operation (ip_conditions ip) = OpNormal"
  defines "t' \<equiv> saturate t (Fin 0) (cond_duration (ip_conditions ip))" and "ps \<equiv> ip_spline_polynomials ip"
  shows "\<exists>out' c. EGMInterpolator_evaluate bq ip out sample_time t = Some out'
    \<and> xyz out' = (calculatePosition (ps ! 0) t', calculatePosition (ps ! 1) t', calculatePosition (ps ! 2) t')
    \<and> orientation (pose_goal out') = orientation (Slerp_evaluate (ip_slerp ip) c t')
    \<and> external_positions out' = map (\<lambda>i. calculatePosition (ps ! (i + nr)) t') [0..<ne]"
proof -
  have len: "ps \<noteq> []" "1 < length ps" "2 < length ps" using assms(2,3) by (auto simp: ps_def)
  define c where "c = evaluate_axis (ps ! 2) (evaluate_axis (ps ! 1) (evaluate_axis (ps ! 0) (pose_goal out) AxisX t') AxisY t') AxisZ t'"
  obtain out4 where out4: "evaluate_cartesian_axis ps AxisX 0 t' out \<bind> (\<lambda>o1. evaluate_cartesian_axis ps AxisY 1 t' o1 \<bind>
      (\<lambda>o2. evaluate_cartesian_axis ps AxisZ 2 t' o2 \<bind> (\<lambda>o3. Some (pg_robot_mut (rg_cartesian_mut (\<lambda>c. Slerp_evaluate (ip_slerp ip) c t')) o3)))) = Some out4"
    "pose_goal out4 = Slerp_evaluate (ip_slerp ip) c t'" "pg_external out4 = pg_external out"
    using len by (simp add: evaluate_cartesian_axis_def get_at_def c_def)
  have "joint_shape ne (eg_joints_of (pg_external_of out4))" using assms(1) out4(3) by (simp add: goal_shape_def)
  from evaluate_external_joints_Some [OF this, of nr ps t'] assms(3) obtain g where
    g: "evaluate_external_joints nr ps t' out4 = Some g" "pg_robot g = pg_robot out4"
      "evaluated nr ps t' ne (eg_joints_of (pg_external_of out4)) (eg_joints_of (pg_external_of g))"
    by (auto simp: add.commute ps_def)
  have "EGMInterpolator_evaluate bq ip out sample_time t = Some g"
    using out4(1) g(1) assms(4-6)
    by (auto simp: EGMInterpolator_evaluate_def Let_def ps_def [symmetric] t'_def [symmetric] Option.bind_eq_Some_conv)
  moreover have "xyz g = (calculatePosition (ps ! 0) t', calculatePosition (ps ! 1) t', calculatePosition (ps ! 2) t')"
    by (simp add: xyz_def g(2) out4(2) Let_def c_def evaluate_axis_def)
  moreover have "orientation (pose_goal g) = orientation (Slerp_evaluate (ip_slerp ip) c t')" by (simp add: g(2) out4(2))
  moreover have "external_positions g = map (\<lambda>i. calculatePosition (ps ! (i + nr)) t') [0..<ne]"
    using g(3) assms(1) out4(3) by (simp add: external_positions_def evaluated_def goal_shape_def joint_shape_def)
  ultimately show ?thesis by blast
qed

lemma pose_polynomials_ends:
  assumes "goal_shape nr ne start" "goal_shape nr ne goal" "fin_pose_goal start" "fin_pose_goal goal"
    and "sc_duration sc = Fin T" "0 < T" "\<not> sc_do_ramp_down sc"
    and "\<And>axis. ps ! axis_index axis = SplinePolynomial_update (setConditions_axis axis (pose_goal start) (pose_goal goal) sc)"
    and "\<forall>i < ne. ps ! (i + nr) = SplinePolynomial_update (joint_conditions sc
        (eg_joints_of (pg_external_of start)) (eg_joints_of (pg_external_of goal)) i)"
  shows "(calculatePosition (ps ! 0) (Fin 0), calculatePosition (ps ! 1) (Fin 0), calculatePosition (ps ! 2) (Fin 0)) = xyz start"
    "(calculatePosition (ps ! 0) (Fin T), calculatePosition (ps ! 1) (Fin T), calculatePosition (ps ! 2) (Fin T)) = xyz goal"
    "map (\<lambda>i. calculatePosition (ps ! (i + nr)) (Fin 0)) [0..<ne] = external_positions start"
    "map (\<lambda>i. calculatePosition (ps ! (i + nr)) (Fin T)) [0..<ne] = external_positions goal"
proof -
  note ax = axis_spline_endpoints [OF assms(3-7)]
  have pos: "ps ! 0 = SplinePolynomial_update (setConditions_axis AxisX (pose_goal start) (pose_goal goal) sc)"
    "ps ! 1 = SplinePolynomial_update (setConditions_axis AxisY (pose_goal start) (pose_goal goal) sc)"
    "ps ! 2 = SplinePolynomial_update (setConditions_axis AxisZ (pose_goal start) (pose_goal goal) sc)"
    using assms(8) [of AxisX] assms(8) [of AxisY] assms(8) [of AxisZ] by (simp_all add: axis_index_def)
  show "(calculatePosition (ps ! 0) (Fin 0), calculatePosition (ps ! 1) (Fin 0), calculatePosition (ps ! 2) (Fin 0)) = xyz start"
    "(calculatePosition (ps ! 0) (Fin T), calculatePosition (ps ! 1) (Fin T), calculatePosition (ps ! 2) (Fin T)) = xyz goal"
    unfolding pos ax by (simp_all add: xyz_def axis_of_def Let_def)
  have ej: "joint_shape ne (eg_joints_of (pg_external_of start))" "joint_shape ne (eg_joints_of (pg_external_of goal))"
    "fin_joint_goal (eg_joints_of (pg_external_of start))" "fin_joint_goal (eg_joints_of (pg_external_of goal))"
    using assms(1-4) by (simp_all add: goal_shape_def fin_pose_goal_def)
  note je = joint_spline_endpoints [OF ej _ assms(5-7)]
  show "map (\<lambda>i. calculatePosition (ps ! (i + nr)) (Fin 0)) [0..<ne] = external_positions start"
    "map (\<lambda>i. calculatePosition (ps ! (i + nr)) (Fin T)) [0..<ne] = external_positions goal"
    using ej(1,2) by (intro nth_equalityI; simp add: assms(9) je external_positions_def joint_shape_def)+
qed

text \<open>Start and end of the orientation, in both branches of the slerp.\<close>

lemma slerp_ends:
  fixes t d :: real and s :: Slerp and g :: CartesianGoal
  assumes "unit_Quaternion start" "unit_Quaternion goal" "cond_duration conditions = Fin d" "0 < d"
  defines "out \<equiv> orientation (Slerp_evaluate (Slerp_update start goal conditions s) g (Fin t))"
  shows "t \<le> 0 \<Longrightarrow> to_bquat out = to_bquat start"
    "d \<le> t \<Longrightarrow> to_bquat out \<in> {to_bquat goal, to_bquat (multiply_Quaternion goal (Fin (-1)))}"
proof -
  have "is_fin (dotProduct start goal)"
    using assms(1,2) by (auto simp: unit_Quaternion_def dotProduct_def elim!: fin_QuaternionE)
  then obtain c where c: "dotProduct start goal = Fin c" by (auto simp: is_fin_iff)
  show "to_bquat out = to_bquat start" if "t \<le> 0"
    using slerp_path [OF assms(1,2) c _ assms(3,4), of s g t] slerp_linear_ends(1) [OF assms(1,2) c _ assms(3,4) that, of s g] that
    by (cases "\<bar>c\<bar> \<le> 0.9995") (auto simp: out_def)
  show "to_bquat out \<in> {to_bquat goal, to_bquat (multiply_Quaternion goal (Fin (-1)))}" if "d \<le> t"
    using slerp_path [OF assms(1,2) c _ assms(3,4), of s g t] slerp_linear_ends(2) [OF assms(1,2) c _ assms(3,4) that, of s g] that
    by (cases "\<bar>c\<bar> \<le> 0.9995") (auto simp: out_def)
qed

section \<open>From the start pose to the goal pose\<close>

text \<open>
  C17: In pose mode a normal interpolation between finite goals with unit quaternions starts exactly in the start pose
  and ends exactly in the goal pose, for every spline method: with a positive duration \<open>d\<close> the first sample has the
  start position, the start orientation and the start positions of the external joints, and every sample at or after
  \<open>max 0.004 d\<close> seconds those of the goal, the orientation as the goal's quaternion or its negative. The robot has at
  least the three joints whose polynomials the position uses. This is for exact arithmetic on the reals.
\<close>

theorem pose_interpolation_endpoints:
  fixes d t :: real
  assumes "goal_shape nr ne start" "goal_shape nr ne goal" "goal_shape nr ne out" "fin_pose_goal start" "fin_pose_goal goal"
    and "3 \<le> nr" "nr + ne \<le> length (ip_spline_polynomials ip)"
    and "cond_mode conditions = EGMPose" "cond_operation conditions = OpNormal"
    and "cond_duration conditions = Fin d" "0 < d" "max 0.004 d \<le> t"
  shows "\<exists>ip' out0 outT. EGMInterpolator_update start goal conditions ip = Some ip'
    \<and> EGMInterpolator_evaluate bq ip' out sample_time (Fin 0) = Some out0 \<and> xyz out0 = xyz start
    \<and> to_bquat (orientation (pose_goal out0)) = to_bquat (orientation (pose_goal start))
    \<and> external_positions out0 = external_positions start
    \<and> EGMInterpolator_evaluate bq ip' out sample_time (Fin t) = Some outT \<and> xyz outT = xyz goal
    \<and> to_bquat (orientation (pose_goal outT)) \<in>
        {to_bquat (orientation (pose_goal goal)), to_bquat (multiply_Quaternion (orientation (pose_goal goal)) (Fin (-1)))}
    \<and> external_positions outT = external_positions goal"
proof -
  define T where "T = max 0.004 d"
  define conds where "conds = conditions\<lparr>cond_duration := fmax LOWEST_SAMPLE_TIME (cond_duration conditions)\<rparr>"
  have T: "0 < T" "d \<le> T" and sc: "sc_duration (make_SplineConditions conds) = Fin T" "\<not> sc_do_ramp_down (make_SplineConditions conds)"
    and dur: "cond_duration conds = Fin T"
    using assms(9,10) by (simp_all add: T_def make_SplineConditions_def conds_def LOWEST_SAMPLE_TIME_def)
  obtain ps where ps: "EGMInterpolator_update start goal conditions ip = Some (ip\<lparr>ip_conditions := conds, ip_offset := nr,
      ip_slerp := Slerp_update (orientation (pose_goal start)) (orientation (pose_goal goal)) conditions (ip_slerp ip),
      ip_spline_polynomials := ps\<rparr>)"
    "length ps = length (ip_spline_polynomials ip)"
    "\<And>axis. ps ! axis_index axis = SplinePolynomial_update (setConditions_axis axis (pose_goal start) (pose_goal goal) (make_SplineConditions conds))"
    "\<forall>i < ne. ps ! (i + nr) = SplinePolynomial_update (joint_conditions (make_SplineConditions conds)
        (eg_joints_of (pg_external_of start)) (eg_joints_of (pg_external_of goal)) i)"
    by (rule pose_mode_update [OF assms(1,2,6-9), folded conds_def]) (rule that)
  define ip' where "ip' = ip\<lparr>ip_conditions := conds, ip_offset := nr,
      ip_slerp := Slerp_update (orientation (pose_goal start)) (orientation (pose_goal goal)) conditions (ip_slerp ip),
      ip_spline_polynomials := ps\<rparr>"
  have ip': "nr + ne \<le> length (ip_spline_polynomials ip')" "ip_offset ip' = nr" "cond_mode (ip_conditions ip') = EGMPose"
    "cond_operation (ip_conditions ip') = OpNormal" "cond_duration (ip_conditions ip') = Fin T" "ip_spline_polynomials ip' = ps"
    "ip_slerp ip' = Slerp_update (orientation (pose_goal start)) (orientation (pose_goal goal)) conditions (ip_slerp ip)"
    using assms(7-9) ps(2) dur by (simp_all add: ip'_def) (simp_all add: conds_def)
  note ev = evaluate_pose_mode [OF assms(3,6) ip'(1-4), of bq sample_time, unfolded ip'(5-7)]
  have sat: "saturate (Fin 0) (Fin 0) (Fin T) = Fin 0" "saturate (Fin t) (Fin 0) (Fin T) = Fin T"
    using assms(12) T(1) by (simp_all add: saturate_Fin T_def)
  note pe = pose_polynomials_ends [OF assms(1,2,4,5) sc(1) T(1) sc(2) ps(3,4)]
  have unit: "unit_Quaternion (orientation (pose_goal start))" "unit_Quaternion (orientation (pose_goal goal))"
    using assms(4,5) by (simp_all add: fin_pose_goal_def)
  obtain out0 c0 outT cT where o: "EGMInterpolator_evaluate bq ip' out sample_time (Fin 0) = Some out0" "xyz out0 = xyz start"
    "orientation (pose_goal out0) = orientation (Slerp_evaluate (ip_slerp ip') c0 (Fin 0))" "external_positions out0 = external_positions start"
    "EGMInterpolator_evaluate bq ip' out sample_time (Fin t) = Some outT" "xyz outT = xyz goal"
    "orientation (pose_goal outT) = orientation (Slerp_evaluate (ip_slerp ip') cT (Fin T))" "external_positions outT = external_positions goal"
    using ev [of "Fin 0"] ev [of "Fin t"] unfolding sat pe ip'(7) by blast
  with ps(1) slerp_ends(1) [OF unit assms(10,11) order_refl, of "ip_slerp ip" c0] slerp_ends(2) [OF unit assms(10,11) T(2), of "ip_slerp ip" cT]
  show ?thesis unfolding ip'(7) ip'_def [symmetric] by auto
qed

definition pose_of :: "real \<Rightarrow> Quaternion \<Rightarrow> PointGoal" where
  "pose_of x q = pg_robot_mut (rg_cartesian_mut (\<lambda>c. c\<lparr>cg_pose := Some \<lparr>pose_position = Some
     \<lparr>cx = Some (Fin x), cy = Some (Fin 0), cz = Some (Fin 600)\<rparr>, pose_euler = None, pose_quaternion = Some q\<rparr>\<rparr>)) (flat_goal 6 1 (Fin x))"

text \<open>A turn by 180 degrees about the first axis while the position moves by 200 mm.\<close>

theorem pose_interpolation_endpoints_witness:
  "\<exists>ip' outT. EGMInterpolator_update (pose_of 100 (quaternion 1 0 0 0)) (pose_of 300 (quaternion 0 1 0 0))
        (default_Conditions\<lparr>cond_duration := Fin 2, cond_mode := EGMPose\<rparr>) (init_EGMInterpolator 0) = Some ip'
    \<and> EGMInterpolator_evaluate hamilton ip' (pose_of 0 (quaternion 1 0 0 0)) (Fin 0.004) (Fin 2) = Some outT
    \<and> xyz outT = (Fin 300, Fin 0, Fin 600)"
proof -
  have shape: "goal_shape 6 1 (pose_of x q)" for x q by (simp add: pose_of_def goal_shape_def joint_shape_def flat_goal_def Let_def)
  have fin: "fin_pose_goal (pose_of x q)" if "unit_Quaternion q" for x q
    using that by (simp add: fin_pose_goal_def pose_of_def fin_Cartesian_def flat_goal_def Let_def fin_joint_goal_def)
  have unit: "unit_Quaternion (quaternion 1 0 0 0)" "unit_Quaternion (quaternion 0 1 0 0)"
    by (simp_all add: unit_Quaternion_def fin_Quaternion_def dotProduct_def)
  have "xyz (pose_of 300 (quaternion 0 1 0 0)) = (Fin 300, Fin 0, Fin 600)" by (simp add: xyz_def pose_of_def Let_def)
  with pose_interpolation_endpoints [where start = "pose_of 100 (quaternion 1 0 0 0)" and goal = "pose_of 300 (quaternion 0 1 0 0)"
      and out = "pose_of 0 (quaternion 1 0 0 0)" and d = 2 and t = 2 and bq = hamilton and sample_time = "Fin 0.004"
      and ip = "init_EGMInterpolator 0" and conditions = "default_Conditions\<lparr>cond_duration := Fin 2, cond_mode := EGMPose\<rparr>",
      OF shape shape shape fin [OF unit(1)] fin [OF unit(2)]]
  show ?thesis by (auto simp: init_EGMInterpolator_def MAX_NUMBER_OF_SPLINES_def default_Conditions_def)
qed

end
