(* ===== verification/EGM_Motion_Step.thy ===== *)
theory EGM_Motion_Step
  imports EGM_Interpolation
begin

text \<open>
  \<open>TrajectoryMotion::MotionStep\<close> of \<open>egm_trajectory_interface.h\<close> and \<open>egm_trajectory_interface.cpp\<close>: the goal
  of the current motion, its preparation, the check of its reach condition and the use of the interpolator.
\<close>

section \<open>Data\<close>

record ProcessData =
  pd_mode :: EGMModes
  pd_time_passed :: double
  pd_estimated_sample_time :: double
  pd_duration_factor :: double
  pd_feedback :: Feedback

record MotionStep =
  ms_data :: ProcessData
  ms_internal_goal :: PointGoal
  ms_external_goal :: PointGoal
  ms_interpolation :: PointGoal
  ms_interpolator :: EGMInterpolator
  ms_interpolator_conditions :: Conditions
  ms_condition_met :: bool
  ms_configurations :: TrajectoryConfiguration

definition CONDITION :: double where
  "CONDITION = Fin 0.005"

definition RAMP_DOWN_STOP_DURATION :: double where
  "RAMP_DOWN_STOP_DURATION = Fin 1"

definition STATIC_GOAL_DURATION :: double where
  "STATIC_GOAL_DURATION = Fin 5"

definition STATIC_GOAL_DURATION_SHORT :: double where
  "STATIC_GOAL_DURATION_SHORT = Fin 0.1"

definition init_ProcessData :: ProcessData where
  "init_ProcessData =
     \<lparr>pd_mode = EGMJoint, pd_time_passed = Fin 0, pd_estimated_sample_time = LOWEST_SAMPLE_TIME,
      pd_duration_factor = Fin 1, pd_feedback = default_Feedback\<rparr>"

definition init_MotionStep :: "nat \<Rightarrow> TrajectoryConfiguration \<Rightarrow> MotionStep" where
  "init_MotionStep off configurations =
     \<lparr>ms_data = init_ProcessData, ms_internal_goal = default_PointGoal, ms_external_goal = default_PointGoal,
      ms_interpolation = default_PointGoal, ms_interpolator = init_EGMInterpolator off,
      ms_interpolator_conditions = default_Conditions, ms_condition_met = True,
      ms_configurations = configurations\<rparr>"

section \<open>Abbreviations of the code's access paths\<close>

abbreviation fdb :: "MotionStep \<Rightarrow> Feedback" where
  "fdb ms \<equiv> pd_feedback (ms_data ms)"

abbreviation fdb_robot_position :: "MotionStep \<Rightarrow> Joints" where
  "fdb_robot_position ms \<equiv> js_position_of (rob_joints_of (fb_robot_of (fdb ms)))"

abbreviation fdb_external_position :: "MotionStep \<Rightarrow> Joints" where
  "fdb_external_position ms \<equiv> js_position_of (ext_joints_of (fb_external_of (fdb ms)))"

abbreviation fdb_pose :: "MotionStep \<Rightarrow> CartesianPose" where
  "fdb_pose ms \<equiv> cs_pose_of (rob_cartesian_of (fb_robot_of (fdb ms)))"

abbreviation goal_robot_joints :: "PointGoal \<Rightarrow> JointGoal" where
  "goal_robot_joints g \<equiv> rg_joints_of (pg_robot_of g)"

abbreviation goal_cartesian :: "PointGoal \<Rightarrow> CartesianGoal" where
  "goal_cartesian g \<equiv> rg_cartesian_of (pg_robot_of g)"

abbreviation goal_external_joints :: "PointGoal \<Rightarrow> JointGoal" where
  "goal_external_joints g \<equiv> eg_joints_of (pg_external_of g)"

section \<open>Reset\<close>

text \<open>
  The sequence of seven \<open>reset\<close> calls on the velocity and acceleration values of the internal goal. Note of
  the code: the internal goal's Euler field contains angular velocities.
\<close>

definition reset_derivatives :: "nat \<Rightarrow> nat \<Rightarrow> PointGoal \<Rightarrow> PointGoal" where
  "reset_derivatives robot_joints external_joints g =
     (let r = (\<lambda>j. j\<lparr>jg_velocity := Some (reset_Joints robot_joints), jg_acceleration := Some (reset_Joints robot_joints)\<rparr>);
          e = (\<lambda>j. j\<lparr>jg_velocity := Some (reset_Joints external_joints), jg_acceleration := Some (reset_Joints external_joints)\<rparr>);
          c = (\<lambda>c. cg_pose_mut (pose_euler_mut reset_Euler)
                 (cg_acceleration_mut reset_Cartesian (cg_velocity_mut reset_Cartesian c)))
      in pg_external_mut (eg_joints_mut e) (pg_robot_mut (\<lambda>rg. rg_cartesian_mut c (rg_joints_mut r rg)) g))"

definition resetMotionStep :: "MotionStep \<Rightarrow> MotionStep" where
  "resetMotionStep ms =
     (let robot_joints = length (jvalues (fdb_robot_position ms));
          external_joints = length (jvalues (fdb_external_position ms));
          g1 = pg_external_mut (eg_joints_mut (\<lambda>j. j\<lparr>jg_position := Some (fdb_external_position ms)\<rparr>))
                 (pg_robot_mut (rg_joints_mut (\<lambda>j. j\<lparr>jg_position := Some (fdb_robot_position ms)\<rparr>)) default_PointGoal);
          g2 = pg_robot_mut (rg_cartesian_mut (cg_pose_mut (\<lambda>p.
                 p\<lparr>pose_position := Some (pose_position_of (fdb_pose ms)),
                   pose_quaternion := Some (pose_quaternion_of (fdb_pose ms))\<rparr>))) g1;
          g3 = reset_derivatives robot_joints external_joints g2
      in ms\<lparr>ms_internal_goal := g3, ms_external_goal := default_PointGoal,
            ms_data := (ms_data ms)\<lparr>pd_time_passed := Fin 0, pd_mode := EGMJoint\<rparr>,
            ms_interpolation := g3\<rparr>)"

section \<open>Transfer of goals\<close>

definition transfer_joints :: "JointGoal \<Rightarrow> JointGoal \<Rightarrow> JointGoal" where
  "transfer_joints source j =
     jg_acceleration_mut (\<lambda>t. copyPresent_Joints t (jg_acceleration_of source))
       (jg_velocity_mut (\<lambda>t. copyPresent_Joints t (jg_velocity_of source))
         (jg_position_mut (\<lambda>t. copyPresent_Joints t (jg_position_of source)) j))"

text \<open>The orientation: an Euler goal is converted, else a quaternion goal is copied.\<close>

definition transfer_orientation :: "CartesianPose \<Rightarrow> CartesianPose \<Rightarrow> CartesianPose" where
  "transfer_orientation source p =
     (if has (pose_euler source)
      then
        let temp = copyPresent_Euler (convert_Euler default_Euler (pose_quaternion_of p)) (pose_euler_of source)
        in pose_quaternion_mut (\<lambda>q. normalize (convert_Quaternion q temp)) p
      else if has (pose_quaternion source)
      then pose_quaternion_mut (\<lambda>q. copyPresent_Quaternion q (pose_quaternion_of source)) p
      else p)"

definition transfer_cartesian :: "CartesianGoal \<Rightarrow> CartesianGoal \<Rightarrow> CartesianGoal" where
  "transfer_cartesian source c =
     (let c1 = cg_pose_mut (pose_position_mut (\<lambda>t. copyPresent_Cartesian t (pose_position_of (cg_pose_of source)))) c;
          c2 = cg_velocity_mut (\<lambda>t. copyPresent_Cartesian t (cg_velocity_of source)) c1;
          c3 = cg_acceleration_mut (\<lambda>t. copyPresent_Cartesian t (cg_acceleration_of source)) c2
      in cg_pose_mut (transfer_orientation (cg_pose_of source)) c3)"

definition transfer_RobotGoal :: "RobotGoal \<Rightarrow> PointGoal \<Rightarrow> PointGoal" where
  "transfer_RobotGoal source g =
     pg_robot_mut (\<lambda>r. rg_cartesian_mut (transfer_cartesian (rg_cartesian_of source))
       (rg_joints_mut (transfer_joints (rg_joints_of source)) r)) g"

definition transfer_ExternalGoal :: "ExternalGoal \<Rightarrow> PointGoal \<Rightarrow> PointGoal" where
  "transfer_ExternalGoal source g = pg_external_mut (eg_joints_mut (transfer_joints (eg_joints_of source))) g"

definition transfer_StaticPositionGoal :: "StaticPositionGoal \<Rightarrow> PointGoal \<Rightarrow> PointGoal" where
  "transfer_StaticPositionGoal source g =
     (let src = spg_robot_of source;
          robot = (\<lambda>r.
            let r1 = rg_joints_mut (jg_position_mut (\<lambda>t. copyPresent_Joints t (rpg_joints_of src))) r;
                r2 = rg_cartesian_mut (cg_pose_mut (pose_position_mut
                       (\<lambda>t. copyPresent_Cartesian t (pose_position_of (rpg_cartesian_of src))))) r1
            in rg_cartesian_mut (cg_pose_mut (transfer_orientation (rpg_cartesian_of src))) r2)
      in pg_external_mut (eg_joints_mut (jg_position_mut (\<lambda>t. copyPresent_Joints t (spg_external_of source))))
           (pg_robot_mut robot g))"

definition transfer_StaticVelocityGoal :: "StaticVelocityGoal \<Rightarrow> PointGoal \<Rightarrow> PointGoal" where
  "transfer_StaticVelocityGoal source g =
     (let src = svg_robot_of source;
          robot = (\<lambda>r.
            let r1 = rg_joints_mut (jg_velocity_mut (\<lambda>t. copyPresent_Joints t (rvg_joints_of src))) r;
                r2 = rg_cartesian_mut (cg_velocity_mut
                       (\<lambda>t. copyPresent_Cartesian t (linear_of (rvg_cartesian_of src)))) r1
            in rg_cartesian_mut (cg_pose_mut (pose_euler_mut
                 (\<lambda>t. copyPresent_Euler t (angular_of (rvg_cartesian_of src))))) r2)
      in pg_external_mut (eg_joints_mut (jg_velocity_mut (\<lambda>t. copyPresent_Joints t (svg_external_of source))))
           (pg_robot_mut robot g))"

section \<open>Preparation of goals\<close>

definition estimateDuration :: "MotionStep \<Rightarrow> double \<times> MotionStep" where
  "estimateDuration ms =
     (let g = reset_derivatives (length (jvalues (fdb_robot_position ms))) (length (jvalues (fdb_external_position ms)))
                (ms_internal_goal ms);
          estimate =
            (case pd_mode (ms_data ms) of
               EGMJoint \<Rightarrow>
                 let e1 = fmax (Fin 0) (findMaxDifference_Joints (jg_position_of (goal_robot_joints g)) (fdb_robot_position ms))
                 in fmax e1 (findMaxDifference_Joints (jg_position_of (goal_external_joints g)) (fdb_external_position ms))
             | EGMPose \<Rightarrow>
                 let e1 = findMaxDifference_Cartesian (pose_position_of (cg_pose_of (goal_cartesian g))) (pose_position_of (fdb_pose ms));
                     temp = convert_Euler default_Euler (pose_quaternion_of (cg_pose_of (goal_cartesian g)));
                     e2 = fmax e1 (findMaxDifference_Euler temp (pose_euler_of (fdb_pose ms)))
                 in fmax e2 (findMaxDifference_Joints (jg_position_of (goal_external_joints g)) (fdb_external_position ms)))
      in (estimate, ms\<lparr>ms_internal_goal := g\<rparr>))"

definition prepareNormalGoal :: "bool \<Rightarrow> MotionStep \<Rightarrow> MotionStep" where
  "prepareNormalGoal last_point ms =
     (let robot_joints = length (jvalues (fdb_robot_position ms));
          external_joints = length (jvalues (fdb_external_position ms));
          ext = ms_external_goal ms;
          mode = (if has (rg_cartesian (pg_robot_of ext)) then EGMPose else EGMJoint);
          ms1 = ms\<lparr>ms_data := (ms_data ms)\<lparr>pd_mode := mode\<rparr>\<rparr>;
          g1 = reset_derivatives robot_joints external_joints (ms_internal_goal ms1);
          g2 = g1\<lparr>pg_reach := Some (if has (pg_reach ext) then pg_reach_of ext else False)\<rparr>;
          g3 = transfer_ExternalGoal (pg_external_of ext) (transfer_RobotGoal (pg_robot_of ext) g2);
          g4 = (if last_point then reset_derivatives robot_joints external_joints (g3\<lparr>pg_reach := Some True\<rparr>) else g3);
          ms2 = ms1\<lparr>ms_internal_goal := g4\<rparr>;
          (duration, ms3) = (if has (pg_duration ext) then (pg_duration_of ext, ms2) else estimateDuration ms2);
          g5 = (ms_internal_goal ms3)\<lparr>pg_duration := Some (pd_duration_factor (ms_data ms3) * duration)\<rparr>
      in ms3\<lparr>ms_internal_goal := g5,
             ms_interpolator_conditions := (ms_interpolator_conditions ms3)
               \<lparr>cond_mode := mode, cond_duration := pg_duration_of g5, cond_operation := OpNormal,
                cond_spline_method := tc_spline_method (ms_configurations ms3)\<rparr>\<rparr>)"

definition prepareRampDownGoal :: "bool \<Rightarrow> MotionStep \<Rightarrow> MotionStep" where
  "prepareRampDownGoal do_stop ms =
     (let c = (ms_interpolator_conditions ms)\<lparr>cond_mode := pd_mode (ms_data ms), cond_operation := OpRampDown\<rparr>
      in ms\<lparr>ms_interpolator_conditions :=
             (if do_stop
              then c\<lparr>cond_duration := RAMP_DOWN_STOP_DURATION, cond_ramp_down_factor := Fin 0\<rparr>
              else c\<lparr>cond_duration := RAMP_DOWN_STOP_DURATION / Fin 2, cond_ramp_down_factor := Fin 0.5\<rparr>)\<rparr>)"

definition static_duration :: "bool \<Rightarrow> double" where
  "static_duration fast_transition = (if fast_transition then STATIC_GOAL_DURATION_SHORT else STATIC_GOAL_DURATION)"

definition prepareStaticGoal_position :: "StaticPositionGoal \<Rightarrow> bool \<Rightarrow> MotionStep \<Rightarrow> MotionStep" where
  "prepareStaticGoal_position position_goal fast_transition ms =
     (let mode = (if has (rpg_cartesian (spg_robot_of position_goal)) then EGMPose else EGMJoint)
      in ms\<lparr>ms_data := (ms_data ms)\<lparr>pd_mode := mode\<rparr>,
            ms_internal_goal := transfer_StaticPositionGoal position_goal (ms_interpolation ms),
            ms_interpolator_conditions := (ms_interpolator_conditions ms)
              \<lparr>cond_mode := mode, cond_duration := static_duration fast_transition, cond_operation := OpRampInPosition\<rparr>\<rparr>)"

definition prepareStaticGoal_velocity :: "StaticVelocityGoal \<Rightarrow> bool \<Rightarrow> MotionStep \<Rightarrow> MotionStep" where
  "prepareStaticGoal_velocity velocity_goal fast_transition ms =
     (let mode = (if has (rvg_cartesian (svg_robot_of velocity_goal)) then EGMPose else EGMJoint)
      in ms\<lparr>ms_data := (ms_data ms)\<lparr>pd_mode := mode\<rparr>,
            ms_internal_goal := transfer_StaticVelocityGoal velocity_goal (ms_interpolation ms),
            ms_interpolator_conditions := (ms_interpolator_conditions ms)
              \<lparr>cond_mode := mode, cond_duration := static_duration fast_transition, cond_operation := OpRampInVelocity\<rparr>\<rparr>)"

section \<open>The reach condition\<close>

definition checkConditions_Joints :: "Joints \<Rightarrow> Joints \<Rightarrow> bool \<Rightarrow> bool" where
  "checkConditions_Joints a b met =
     for_range (min (length (jvalues a)) (length (jvalues b)))
       (\<lambda>i m. if m then \<bar>jvalues a ! i - jvalues b ! i\<bar> < CONDITION else m) met"

definition checkConditions_Cartesian :: "Cartesian \<Rightarrow> Cartesian \<Rightarrow> bool" where
  "checkConditions_Cartesian a b =
     (\<bar>cx_of a - cx_of b\<bar> < CONDITION \<and> \<bar>cy_of a - cy_of b\<bar> < CONDITION \<and> \<bar>cz_of a - cz_of b\<bar> < CONDITION)"

definition checkConditions_Quaternion :: "Quaternion \<Rightarrow> Quaternion \<Rightarrow> bool \<Rightarrow> bool" where
  "checkConditions_Quaternion a b met = (met \<and> Fin 1 \<le> \<bar>dotProduct a b\<bar>)"

definition conditionMet :: "MotionStep \<Rightarrow> bool \<times> MotionStep" where
  "conditionMet ms =
     (let g = ms_internal_goal ms;
          met =
            (case pd_mode (ms_data ms) of
               EGMJoint \<Rightarrow>
                 checkConditions_Joints (jg_position_of (goal_external_joints g)) (fdb_external_position ms)
                   (checkConditions_Joints (jg_position_of (goal_robot_joints g)) (fdb_robot_position ms) True)
             | EGMPose \<Rightarrow>
                 let m1 = checkConditions_Cartesian (pose_position_of (cg_pose_of (goal_cartesian g))) (pose_position_of (fdb_pose ms));
                     m2 = checkConditions_Quaternion (pose_quaternion_of (cg_pose_of (goal_cartesian g))) (pose_quaternion_of (fdb_pose ms)) m1
                 in checkConditions_Joints (jg_position_of (goal_external_joints g)) (fdb_external_position ms) m2)
      in (met, ms\<lparr>ms_condition_met := met\<rparr>))"

section \<open>The interpolator\<close>

definition interpolationDurationReached :: "MotionStep \<Rightarrow> bool" where
  "interpolationDurationReached ms =
     (getDuration (ms_interpolator ms) - pd_time_passed (ms_data ms) < Fin 0.5 * LOWEST_SAMPLE_TIME)"

definition updateInterpolator :: "MotionStep \<Rightarrow> MotionStep option" where
  "updateInterpolator ms = do {
     let ms1 = ms\<lparr>ms_data := (ms_data ms)\<lparr>pd_time_passed := Fin 0\<rparr>,
                  ms_interpolation := (ms_interpolation ms)
                    \<lparr>pg_reach := Some (pg_reach_of (ms_internal_goal ms)),
                     pg_duration := Some (cond_duration (ms_interpolator_conditions ms))\<rparr>\<rparr>;
     ip \<leftarrow> EGMInterpolator_update (ms_interpolation ms1) (ms_internal_goal ms1) (ms_interpolator_conditions ms1) (ms_interpolator ms1);
     Some (ms1\<lparr>ms_interpolator := ip\<rparr>)
   }"

definition evaluateInterpolator :: "boost_quaternion \<Rightarrow> MotionStep \<Rightarrow> MotionStep option" where
  "evaluateInterpolator bq ms = do {
     let d = ms_data ms;
     let t = pd_time_passed d + pd_estimated_sample_time d;
     out \<leftarrow> EGMInterpolator_evaluate bq (ms_interpolator ms) (ms_interpolation ms) (pd_estimated_sample_time d) t;
     Some (ms\<lparr>ms_data := d\<lparr>pd_time_passed := t\<rparr>, ms_interpolation := out\<rparr>)
   }"

definition updateConfigurations_step :: "TrajectoryConfiguration \<Rightarrow> MotionStep \<Rightarrow> MotionStep" where
  "updateConfigurations_step configurations ms = ms\<lparr>ms_configurations := configurations\<rparr>"

end
