(* ===== verification/EGM_State_Manager.thy ===== *)
theory EGM_State_Manager
  imports EGM_Common
begin

text \<open>
  \<open>TrajectoryMotion::StateManager\<close> of \<open>egm_trajectory_interface.h\<close> and \<open>egm_trajectory_interface.cpp\<close>: the
  states of the trajectory execution. A transition is first made pending, if it is allowed, and taken by the
  next update. The lemmas show that every operation keeps the combinations the code marks as never occurring out, and a
  pending transition one of the accepted ones.
\<close>

section \<open>Data\<close>

datatype States = StNormal | StRampDown | StStaticGoal

datatype SubStates = SubNone | SubRunning | SubFinished

record StateManager =
  sm_has_pending_state :: bool
  sm_current_state :: States
  sm_current_sub_state :: SubStates
  sm_pending_state :: States
  sm_pending_sub_state :: SubStates

definition init_StateManager :: StateManager where
  "init_StateManager =
     \<lparr>sm_has_pending_state = False, sm_current_state = StNormal, sm_current_sub_state = SubNone,
      sm_pending_state = StNormal, sm_pending_sub_state = SubNone\<rparr>"

section \<open>Operations\<close>

definition activateStateManager :: "StateManager \<Rightarrow> StateManager" where
  "activateStateManager sm = sm\<lparr>sm_current_state := StNormal, sm_current_sub_state := SubRunning\<rparr>"

definition resetStateManager :: "StateManager \<Rightarrow> StateManager" where
  "resetStateManager sm =
     sm\<lparr>sm_current_state := StNormal, sm_current_sub_state := SubNone, sm_pending_state := StNormal,
        sm_pending_sub_state := SubNone, sm_has_pending_state := False\<rparr>"

text \<open>The switch of \<open>setPendingState\<close>: is the desired state accepted in the current one?\<close>

definition accepted :: "States \<Rightarrow> SubStates \<Rightarrow> States \<Rightarrow> SubStates \<Rightarrow> bool" where
  "accepted current_state current_sub_state desired_state desired_sub_state =
     (case current_state of
        StNormal \<Rightarrow>
          (case current_sub_state of
             SubNone \<Rightarrow> False
           | SubRunning \<Rightarrow> desired_state = StRampDown \<and> desired_sub_state = SubNone
           | SubFinished \<Rightarrow> False)
      | StRampDown \<Rightarrow>
          (case current_sub_state of
             SubNone \<Rightarrow> desired_state = StRampDown \<and> desired_sub_state = SubRunning
           | SubRunning \<Rightarrow> desired_state = StRampDown \<and> desired_sub_state = SubFinished
           | SubFinished \<Rightarrow> (desired_state = StNormal \<and> desired_sub_state = SubRunning) \<or>
                            (desired_state = StStaticGoal \<and> desired_sub_state = SubNone))
      | StStaticGoal \<Rightarrow>
          (case current_sub_state of
             SubNone \<Rightarrow> desired_state = StStaticGoal \<and> desired_sub_state = SubRunning
           | SubRunning \<Rightarrow> (desired_state = StStaticGoal \<and> desired_sub_state = SubFinished) \<or>
                           (desired_state = StRampDown \<and> desired_sub_state = SubNone)
           | SubFinished \<Rightarrow> desired_state = StRampDown \<and> desired_sub_state = SubNone))"

definition setPendingState :: "States \<Rightarrow> SubStates \<Rightarrow> StateManager \<Rightarrow> StateManager" where
  "setPendingState desired_state desired_sub_state sm =
     (if accepted (sm_current_state sm) (sm_current_sub_state sm) desired_state desired_sub_state
      then sm\<lparr>sm_pending_state := desired_state, sm_pending_sub_state := desired_sub_state,
              sm_has_pending_state := True\<rparr>
      else sm)"

definition updateState :: "StateManager \<Rightarrow> StateManager" where
  "updateState sm =
     (if sm_has_pending_state sm
      then sm\<lparr>sm_current_state := sm_pending_state sm, sm_current_sub_state := sm_pending_sub_state sm,
              sm_has_pending_state := False\<rparr>
      else sm)"

definition verifyState :: "States \<Rightarrow> SubStates \<Rightarrow> StateManager \<Rightarrow> bool" where
  "verifyState state sub_state sm = (sm_current_state sm = state \<and> sm_current_sub_state sm = sub_state)"

definition mapState :: "StateManager \<Rightarrow> ExecState" where
  "mapState sm =
     (case sm_current_state sm of StNormal \<Rightarrow> ES_NORMAL | StRampDown \<Rightarrow> ES_RAMP_DOWN | StStaticGoal \<Rightarrow> ES_STATIC_GOAL)"

definition mapSubState :: "StateManager \<Rightarrow> ExecSubState" where
  "mapSubState sm =
     (case sm_current_sub_state sm of SubNone \<Rightarrow> ESS_NONE | SubRunning \<Rightarrow> ESS_RUNNING | SubFinished \<Rightarrow> ESS_FINISHED)"

section \<open>The graph of the states\<close>

text \<open>The transitions that the switch of \<open>setPendingState\<close> accepts, as a relation.\<close>

inductive edge :: "States \<times> SubStates \<Rightarrow> States \<times> SubStates \<Rightarrow> bool" where
  edge_interrupt: "edge (StNormal, SubRunning) (StRampDown, SubNone)"
| edge_ramp_start: "edge (StRampDown, SubNone) (StRampDown, SubRunning)"
| edge_ramp_end: "edge (StRampDown, SubRunning) (StRampDown, SubFinished)"
| edge_resume: "edge (StRampDown, SubFinished) (StNormal, SubRunning)"
| edge_static: "edge (StRampDown, SubFinished) (StStaticGoal, SubNone)"
| edge_static_start: "edge (StStaticGoal, SubNone) (StStaticGoal, SubRunning)"
| edge_static_end: "edge (StStaticGoal, SubRunning) (StStaticGoal, SubFinished)"
| edge_static_interrupt: "edge (StStaticGoal, SubRunning) (StRampDown, SubNone)"
| edge_static_leave: "edge (StStaticGoal, SubFinished) (StRampDown, SubNone)"

inductive_simps edge_simps: "edge (s, ss) (s', ss')"

lemma accepted_iff_edge: "accepted s ss s' ss' \<longleftrightarrow> edge (s, ss) (s', ss')"
  by (cases s; cases ss) (auto simp: accepted_def edge_simps)

definition sm_state :: "StateManager \<Rightarrow> States \<times> SubStates" where
  "sm_state sm = (sm_current_state sm, sm_current_sub_state sm)"

definition sm_inv :: "StateManager \<Rightarrow> bool" where
  "sm_inv sm \<longleftrightarrow> sm_state sm \<noteq> (StNormal, SubFinished) \<and>
     (sm_has_pending_state sm \<longrightarrow> edge (sm_state sm) (sm_pending_state sm, sm_pending_sub_state sm))"

lemma sm_inv_init [simp]: "sm_inv init_StateManager"
  by (simp add: sm_inv_def init_StateManager_def sm_state_def)

lemma sm_inv_ops:
  "sm_inv sm \<Longrightarrow> verifyState StNormal SubNone sm \<Longrightarrow> sm_inv (activateStateManager sm)"
  "sm_inv (resetStateManager sm)"
  "sm_inv sm \<Longrightarrow> sm_inv (setPendingState s ss sm)"
  "sm_inv sm \<Longrightarrow> sm_inv (updateState sm)"
  by (auto simp: sm_inv_def sm_state_def activateStateManager_def resetStateManager_def setPendingState_def
      updateState_def verifyState_def accepted_iff_edge edge_simps)

end
