(* ===== verification/EGM_Motion_Controller.thy ===== *)
theory EGM_Motion_Controller
  imports EGM_Motion_Step EGM_State_Manager
begin

text \<open>
  \<open>TrajectoryMotion::Controller\<close> of \<open>egm_trajectory_interface.h\<close> and \<open>egm_trajectory_interface.cpp\<close>: it
  turns the interpolated references and the feedback into outputs. The methods named \<open>calculate\<close> also write
  their reference argument, which is a part of the motion step's interpolation.
\<close>

section \<open>Data\<close>

record MotionController =
  mc_egm_mode :: EGMModes
  mc_initial_references :: PointGoal
  mc_is_normal_state :: bool
  mc_is_linear :: bool
  mc_do_velocity_transition :: bool
  mc_a :: double
  mc_b :: double
  mc_k :: double

definition init_MotionController :: MotionController where
  "init_MotionController =
     \<lparr>mc_egm_mode = EGMJoint, mc_initial_references = default_PointGoal, mc_is_normal_state = False,
      mc_is_linear = False, mc_do_velocity_transition = False, mc_a = Fin 1, mc_b = Fin 1, mc_k = Fin 1\<rparr>"

section \<open>Operations\<close>

definition controller_update :: "States \<Rightarrow> MotionStep \<Rightarrow> TrajectoryConfiguration \<Rightarrow> MotionController \<Rightarrow> MotionController" where
  "controller_update state ms configurations mc =
     mc\<lparr>mc_is_normal_state := (state = StNormal), mc_is_linear := (tc_spline_method configurations = Linear),
        mc_egm_mode := pd_mode (ms_data ms), mc_initial_references := ms_interpolation ms\<rparr>"

definition checkForVelocityTransition :: "PointGoal \<Rightarrow> MotionController \<Rightarrow> PointGoal \<times> MotionController" where
  "checkForVelocityTransition refs mc =
     (let mc1 = (if mc_is_normal_state mc
                 then mc\<lparr>mc_do_velocity_transition := (if pg_reach_of refs then True else mc_is_linear mc)\<rparr> else mc);
          a = mc_a mc1
      in if mc_do_velocity_transition mc1
         then (pg_external_mut (eg_joints_mut (jg_acceleration_mut (\<lambda>j. multiply_Joints j a)))
                (pg_robot_mut (rg_cartesian_mut (cg_acceleration_mut (\<lambda>c. multiply_Cartesian c a)))
                  (pg_robot_mut (rg_joints_mut (jg_acceleration_mut (\<lambda>j. multiply_Joints j a))) refs)), mc1)
         else (refs, mc1))"

text \<open>Each \<open>calculate\<close> takes and returns the pair of the output and the reference.\<close>

definition calculate_Joints :: "MotionController \<Rightarrow> Joints \<Rightarrow> Joints \<Rightarrow> Joints \<times> Joints \<Rightarrow> Joints \<times> Joints" where
  "calculate_Joints mc feedback start out_ref =
     for_range (min (min (length (jvalues (fst out_ref))) (length (jvalues (snd out_ref))))
                    (min (length (jvalues feedback)) (length (jvalues start))))
       (\<lambda>i (p_out, p_ref).
          let s = jvalues start ! i; r = jvalues p_ref ! i; f = jvalues feedback ! i;
              p_ref1 =
                (if mc_do_velocity_transition mc
                 then
                   if mc_is_linear mc then set_value i (mc_a mc * (s + mc_b mc * (r - s))) p_ref
                   else set_value i (mc_a mc * r) p_ref
                 else p_ref)
          in (set_value i (f + mc_k mc * (jvalues p_ref1 ! i - f)) p_out, p_ref1))
       out_ref"

definition calculate_Cartesian :: "MotionController \<Rightarrow> Cartesian \<Rightarrow> Cartesian \<Rightarrow> Cartesian \<times> Cartesian \<Rightarrow> Cartesian \<times> Cartesian" where
  "calculate_Cartesian mc feedback start out_ref =
     (let (p_out, p_ref) = out_ref; a = mc_a mc; b = mc_b mc; k = mc_k mc;
          ref = (if mc_do_velocity_transition mc
                 then
                   if mc_is_linear mc
                   then p_ref\<lparr>cx := Some (a * (cx_of start + b * (cx_of p_ref - cx_of start))),
                              cy := Some (a * (cy_of start + b * (cy_of p_ref - cy_of start))),
                              cz := Some (a * (cz_of start + b * (cz_of p_ref - cz_of start)))\<rparr>
                   else multiply_Cartesian p_ref a
                 else p_ref)
      in (p_out\<lparr>cx := Some (cx_of feedback + k * (cx_of ref - cx_of feedback)),
                cy := Some (cy_of feedback + k * (cy_of ref - cy_of feedback)),
                cz := Some (cz_of feedback + k * (cz_of ref - cz_of feedback))\<rparr>, ref))"

definition calculate_Euler :: "MotionController \<Rightarrow> Euler \<Rightarrow> Euler \<Rightarrow> Euler \<times> Euler \<Rightarrow> Euler \<times> Euler" where
  "calculate_Euler mc feedback start out_ref =
     (let (p_out, p_ref) = out_ref; a = mc_a mc; b = mc_b mc; k = mc_k mc;
          ref = (if mc_is_normal_state mc
                 then p_ref\<lparr>ex := Some (a * (ex_of start + b * (ex_of p_ref - ex_of start))),
                            ey := Some (a * (ey_of start + b * (ey_of p_ref - ey_of start))),
                            ez := Some (a * (ez_of start + b * (ez_of p_ref - ez_of start)))\<rparr>
                 else p_ref)
      in (p_out\<lparr>ex := Some (ex_of feedback + k * (ex_of ref - ex_of feedback)),
                ey := Some (ey_of feedback + k * (ey_of ref - ey_of feedback)),
                ez := Some (ez_of feedback + k * (ez_of ref - ez_of feedback))\<rparr>, ref))"

definition calculate_Quaternion :: "MotionController \<Rightarrow> Quaternion \<Rightarrow> Quaternion \<Rightarrow> Quaternion \<Rightarrow> Quaternion" where
  "calculate_Quaternion mc ref feedback p_out =
     (let k = mc_k mc
      in normalize
           (p_out\<lparr>u0 := Some (u0_of feedback + k * (u0_of ref - u0_of feedback)),
                  u1 := Some (u1_of feedback + k * (u1_of ref - u1_of feedback)),
                  u2 := Some (u2_of feedback + k * (u2_of ref - u2_of feedback)),
                  u3 := Some (u3_of feedback + k * (u3_of ref - u3_of feedback))\<rparr>))"

text \<open>
  One call of \<open>calculate\<close> on fields of the outputs and of the interpolation: the fields are read, made
  present, and written back.
\<close>

definition calc_robot_position :: "MotionController \<Rightarrow> Feedback \<Rightarrow> Output \<times> PointGoal \<Rightarrow> Output \<times> PointGoal" where
  "calc_robot_position mc fb st =
     (let (out, refs) = st;
          (o', r') = calculate_Joints mc (js_position_of (rob_joints_of (fb_robot_of fb)))
            (jg_position_of (goal_robot_joints (mc_initial_references mc)))
            (js_position_of (rob_joints_of (out_robot_of out)), jg_position_of (goal_robot_joints refs))
      in (out_robot_mut (rob_joints_mut (\<lambda>j. j\<lparr>js_position := Some o'\<rparr>)) out,
          pg_robot_mut (rg_joints_mut (\<lambda>j. j\<lparr>jg_position := Some r'\<rparr>)) refs))"

definition calc_external_position :: "MotionController \<Rightarrow> Feedback \<Rightarrow> Output \<times> PointGoal \<Rightarrow> Output \<times> PointGoal" where
  "calc_external_position mc fb st =
     (let (out, refs) = st;
          (o', r') = calculate_Joints mc (js_position_of (ext_joints_of (fb_external_of fb)))
            (jg_position_of (goal_external_joints (mc_initial_references mc)))
            (js_position_of (ext_joints_of (out_external_of out)), jg_position_of (goal_external_joints refs))
      in (out_external_mut (ext_joints_mut (\<lambda>j. j\<lparr>js_position := Some o'\<rparr>)) out,
          pg_external_mut (eg_joints_mut (\<lambda>j. j\<lparr>jg_position := Some r'\<rparr>)) refs))"

definition calc_robot_velocity :: "MotionController \<Rightarrow> Feedback \<Rightarrow> Output \<times> PointGoal \<Rightarrow> Output \<times> PointGoal" where
  "calc_robot_velocity mc fb st =
     (let (out, refs) = st;
          (o', r') = calculate_Joints mc (js_velocity_of (rob_joints_of (fb_robot_of fb)))
            (jg_velocity_of (goal_robot_joints (mc_initial_references mc)))
            (js_velocity_of (rob_joints_of (out_robot_of out)), jg_velocity_of (goal_robot_joints refs))
      in (out_robot_mut (rob_joints_mut (\<lambda>j. j\<lparr>js_velocity := Some o'\<rparr>)) out,
          pg_robot_mut (rg_joints_mut (\<lambda>j. j\<lparr>jg_velocity := Some r'\<rparr>)) refs))"

definition calc_external_velocity :: "MotionController \<Rightarrow> Feedback \<Rightarrow> Output \<times> PointGoal \<Rightarrow> Output \<times> PointGoal" where
  "calc_external_velocity mc fb st =
     (let (out, refs) = st;
          (o', r') = calculate_Joints mc (js_velocity_of (ext_joints_of (fb_external_of fb)))
            (jg_velocity_of (goal_external_joints (mc_initial_references mc)))
            (js_velocity_of (ext_joints_of (out_external_of out)), jg_velocity_of (goal_external_joints refs))
      in (out_external_mut (ext_joints_mut (\<lambda>j. j\<lparr>js_velocity := Some o'\<rparr>)) out,
          pg_external_mut (eg_joints_mut (\<lambda>j. j\<lparr>jg_velocity := Some r'\<rparr>)) refs))"

definition calc_pose_position :: "MotionController \<Rightarrow> Feedback \<Rightarrow> Output \<times> PointGoal \<Rightarrow> Output \<times> PointGoal" where
  "calc_pose_position mc fb st =
     (let (out, refs) = st;
          (o', r') = calculate_Cartesian mc (pose_position_of (cs_pose_of (rob_cartesian_of (fb_robot_of fb))))
            (pose_position_of (cg_pose_of (goal_cartesian (mc_initial_references mc))))
            (pose_position_of (cs_pose_of (rob_cartesian_of (out_robot_of out))), pose_position_of (cg_pose_of (goal_cartesian refs)))
      in (out_robot_mut (rob_cartesian_mut (cs_pose_mut (\<lambda>p. p\<lparr>pose_position := Some o'\<rparr>))) out,
          pg_robot_mut (rg_cartesian_mut (cg_pose_mut (\<lambda>p. p\<lparr>pose_position := Some r'\<rparr>))) refs))"

definition calc_pose_orientation :: "MotionController \<Rightarrow> Feedback \<Rightarrow> Output \<times> PointGoal \<Rightarrow> Output \<times> PointGoal" where
  "calc_pose_orientation mc fb st =
     (let (out, refs) = st
      in (out_robot_mut (rob_cartesian_mut (cs_pose_mut (pose_quaternion_mut
            (calculate_Quaternion mc (pose_quaternion_of (cg_pose_of (goal_cartesian refs)))
              (pose_quaternion_of (cs_pose_of (rob_cartesian_of (fb_robot_of fb)))))))) out, refs))"

definition calc_linear_velocity :: "MotionController \<Rightarrow> Feedback \<Rightarrow> Output \<times> PointGoal \<Rightarrow> Output \<times> PointGoal" where
  "calc_linear_velocity mc fb st =
     (let (out, refs) = st;
          (o', r') = calculate_Cartesian mc (linear_of (cs_velocity_of (rob_cartesian_of (fb_robot_of fb))))
            (cg_velocity_of (goal_cartesian (mc_initial_references mc)))
            (linear_of (cs_velocity_of (rob_cartesian_of (out_robot_of out))), cg_velocity_of (goal_cartesian refs))
      in (out_robot_mut (rob_cartesian_mut (cs_velocity_mut (\<lambda>v. v\<lparr>linear := Some o'\<rparr>))) out,
          pg_robot_mut (rg_cartesian_mut (\<lambda>c. c\<lparr>cg_velocity := Some r'\<rparr>)) refs))"

definition calc_angular_velocity :: "MotionController \<Rightarrow> Feedback \<Rightarrow> Output \<times> PointGoal \<Rightarrow> Output \<times> PointGoal" where
  "calc_angular_velocity mc fb st =
     (let (out, refs) = st;
          (o', r') = calculate_Euler mc (angular_of (cs_velocity_of (rob_cartesian_of (fb_robot_of fb))))
            (pose_euler_of (cg_pose_of (goal_cartesian (mc_initial_references mc))))
            (angular_of (cs_velocity_of (rob_cartesian_of (out_robot_of out))), pose_euler_of (cg_pose_of (goal_cartesian refs)))
      in (out_robot_mut (rob_cartesian_mut (cs_velocity_mut (\<lambda>v. v\<lparr>angular := Some o'\<rparr>))) out,
          pg_robot_mut (rg_cartesian_mut (cg_pose_mut (\<lambda>p. p\<lparr>pose_euler := Some r'\<rparr>))) refs))"

definition scale_factors :: "double \<Rightarrow> bool \<Rightarrow> MotionController \<Rightarrow> MotionController" where
  "scale_factors t reach_goal mc =
     mc\<lparr>mc_a := (if reach_goal then Fin 0.5 * fcos (M_PI * t) + Fin 0.5 else Fin 1),
        mc_b := Fin 0.5 * fcos (M_PI * t + M_PI) + Fin 0.5\<rparr>"

definition calculate :: "Output \<Rightarrow> MotionStep \<Rightarrow> MotionController \<Rightarrow> Output \<times> MotionStep \<times> MotionController" where
  "calculate outputs ms mc =
     (let mc0 = mc\<lparr>mc_do_velocity_transition := False\<rparr>;
          out0 = out_robot_mut (rob_cartesian_mut (cs_pose_mut (\<lambda>p. p\<lparr>pose_euler := None\<rparr>))) outputs;
          refs0 = ms_interpolation ms;
          fb = fdb ms;
          t = saturate (pd_time_passed (ms_data ms) / pg_duration_of refs0) (Fin 0) (Fin 1);
          mc1 = scale_factors t (pg_reach_of refs0) mc0
      in case mc_egm_mode mc1 of
           EGMJoint \<Rightarrow>
             let st1 = calc_external_position mc1 fb (calc_robot_position mc1 fb (out0, refs0));
                 (refs2, mc2) = checkForVelocityTransition (snd st1) mc1;
                 (out3, refs3) = calc_external_velocity mc2 fb (calc_robot_velocity mc2 fb (fst st1, refs2))
             in (out3, ms\<lparr>ms_interpolation := refs3\<rparr>, mc2)
         | EGMPose \<Rightarrow>
             let st1 = calc_external_position mc1 fb (calc_pose_orientation mc1 fb (calc_pose_position mc1 fb (out0, refs0)));
                 (refs2, mc2) = checkForVelocityTransition (snd st1) mc1;
                 (out3, refs3) = calc_angular_velocity mc2 fb (calc_external_velocity mc2 fb
                                   (calc_linear_velocity mc2 fb (fst st1, refs2)))
             in (out3, ms\<lparr>ms_interpolation := refs3\<rparr>, mc2))"

end
