(* ===== verification/EGM_Trajectory_Motion.thy ===== *)
theory EGM_Trajectory_Motion
  imports EGM_Motion_Controller EGM_Input
begin

text \<open>
  \<open>Trajectory\<close> and \<open>TrajectoryMotion\<close> of \<open>egm_trajectory_interface.h\<close> and \<open>egm_trajectory_interface.cpp\<close>:
  the queues of trajectories, the pending events the user raises, and the generation of the outputs of one
  message. A shared pointer to a trajectory is held by one queue or by \<open>p_current\<close> at a time, so a
  trajectory is a value here. All methods run under the mutex of the decision data and are single steps.
\<close>

section \<open>Trajectory\<close>

record Trajectory =
  tr_points :: "PointGoal list"

definition addTrajectoryPointFront :: "PointGoal \<Rightarrow> Trajectory \<Rightarrow> Trajectory" where
  "addTrajectoryPointFront point tr = tr\<lparr>tr_points := point # tr_points tr\<rparr>"

definition addTrajectoryPointBack :: "PointGoal \<Rightarrow> Trajectory \<Rightarrow> Trajectory" where
  "addTrajectoryPointBack point tr = tr\<lparr>tr_points := tr_points tr @ [point]\<rparr>"

definition make_Trajectory :: "TrajectoryGoal \<Rightarrow> Trajectory" where
  "make_Trajectory trajectory =
     for_range (length (tg_points trajectory)) (\<lambda>i. addTrajectoryPointBack (tg_points trajectory ! i)) \<lparr>tr_points = []\<rparr>"

text \<open>Every call passes the address of a goal, so the null check of \<open>p_point\<close> always succeeds.\<close>

definition retriveNextTrajectoryPoint :: "PointGoal \<Rightarrow> Trajectory \<Rightarrow> bool \<times> PointGoal \<times> Trajectory" where
  "retriveNextTrajectoryPoint p_point tr =
     (case tr_points tr of
        [] \<Rightarrow> (False, p_point, tr)
      | p # ps \<Rightarrow> (True, p, tr\<lparr>tr_points := ps\<rparr>))"

definition copyTo :: "Trajectory \<Rightarrow> TrajectoryGoal \<Rightarrow> TrajectoryGoal" where
  "copyTo tr p_trajectory = p_trajectory\<lparr>tg_points := tg_points p_trajectory @ tr_points tr\<rparr>"

section \<open>TrajectoryMotion: data\<close>

record PendingEvents =
  pe_do_stop :: bool
  pe_do_resume :: bool
  pe_do_discard :: bool
  pe_do_ramp_down :: bool
  pe_do_static_goal_start :: bool
  pe_do_static_goal_fast_update :: bool
  pe_do_static_position_goal_update :: bool
  pe_do_static_velocity_goal_update :: bool
  pe_do_static_goal_finish :: bool
  pe_static_position_goal :: StaticPositionGoal
  pe_static_velocity_goal :: StaticVelocityGoal
  pe_do_duration_factor_update :: bool
  pe_duration_factor :: double

definition init_PendingEvents :: PendingEvents where
  "init_PendingEvents =
     \<lparr>pe_do_stop = False, pe_do_resume = False, pe_do_discard = False, pe_do_ramp_down = False,
      pe_do_static_goal_start = False, pe_do_static_goal_fast_update = False,
      pe_do_static_position_goal_update = False, pe_do_static_velocity_goal_update = False,
      pe_do_static_goal_finish = False, pe_static_position_goal = default_StaticPositionGoal,
      pe_static_velocity_goal = default_StaticVelocityGoal, pe_do_duration_factor_update = False,
      pe_duration_factor = Fin 1\<rparr>"

record DecisionData =
  dd_has_new_goal :: bool
  dd_has_active_goal :: bool
  dd_pending_events :: PendingEvents
  dd_has_updated_execution_progress :: bool
  dd_execution_progress :: ExecutionProgress

definition init_DecisionData :: DecisionData where
  "init_DecisionData =
     \<lparr>dd_has_new_goal = False, dd_has_active_goal = False, dd_pending_events = init_PendingEvents,
      dd_has_updated_execution_progress = False, dd_execution_progress = default_ExecutionProgress\<rparr>"

record TrajectoryContainer =
  tq_primary_queue :: "Trajectory list"
  tq_temporary_queue :: "Trajectory list"
  tq_p_current :: "Trajectory option"

record TrajectoryMotion =
  tmo_data :: DecisionData
  tmo_state_manager :: StateManager
  tmo_motion_step :: MotionStep
  tmo_controller :: MotionController
  tmo_trajectories :: TrajectoryContainer
  tmo_configurations :: TrajectoryConfiguration

definition DURATION_FACTOR_MIN :: double where
  "DURATION_FACTOR_MIN = Fin 1"

definition DURATION_FACTOR_MAX :: double where
  "DURATION_FACTOR_MAX = Fin 5"

definition init_TrajectoryMotion :: "nat \<Rightarrow> TrajectoryConfiguration \<Rightarrow> TrajectoryMotion" where
  "init_TrajectoryMotion off configurations =
     \<lparr>tmo_data = init_DecisionData, tmo_state_manager = init_StateManager,
      tmo_motion_step = init_MotionStep off configurations, tmo_controller = init_MotionController,
      tmo_trajectories = \<lparr>tq_primary_queue = [], tq_temporary_queue = [], tq_p_current = None\<rparr>,
      tmo_configurations = configurations\<rparr>"

abbreviation events :: "TrajectoryMotion \<Rightarrow> PendingEvents" where
  "events m \<equiv> dd_pending_events (tmo_data m)"

abbreviation ev_mut :: "(PendingEvents \<Rightarrow> PendingEvents) \<Rightarrow> TrajectoryMotion \<Rightarrow> TrajectoryMotion" where
  "ev_mut f \<equiv> tmo_data_update (dd_pending_events_update f)"

abbreviation p_current :: "TrajectoryMotion \<Rightarrow> Trajectory option" where
  "p_current m \<equiv> tq_p_current (tmo_trajectories m)"

abbreviation set_pending :: "States \<Rightarrow> SubStates \<Rightarrow> TrajectoryMotion \<Rightarrow> TrajectoryMotion" where
  "set_pending s ss \<equiv> tmo_state_manager_update (setPendingState s ss)"

definition updateConfigurations :: "TrajectoryConfiguration \<Rightarrow> TrajectoryMotion \<Rightarrow> TrajectoryMotion" where
  "updateConfigurations configurations m =
     m\<lparr>tmo_configurations := configurations,
       tmo_motion_step := updateConfigurations_step configurations (tmo_motion_step m)\<rparr>"

section \<open>TrajectoryMotion: auxiliary methods\<close>

definition storeNormalGoal :: "TrajectoryMotion \<Rightarrow> TrajectoryMotion" where
  "storeNormalGoal m =
     (case p_current m of
        None \<Rightarrow> m
      | Some tr \<Rightarrow>
          let ms = tmo_motion_step m;
              ext = (ms_external_goal ms)\<lparr>pg_duration := Some (fmax LOWEST_SAMPLE_TIME
                      (pg_duration_of (ms_internal_goal ms) - pd_time_passed (ms_data ms)))\<rparr>
          in m\<lparr>tmo_motion_step := ms\<lparr>ms_external_goal := ext\<rparr>,
               tmo_trajectories := (tmo_trajectories m)\<lparr>tq_p_current := Some (addTrajectoryPointFront ext tr)\<rparr>\<rparr>)"

text \<open>
  The \<open>do ... while\<close> loop of \<open>updateNormalGoal\<close>, on the points that are left: the result, those points, and
  the motion step.
\<close>

fun normal_goal_loop :: "bool \<Rightarrow> PointGoal list \<Rightarrow> MotionStep \<Rightarrow> bool \<times> PointGoal list \<times> MotionStep" where
  "normal_goal_loop last_point points ms =
     (let (met, ms1) = conditionMet (prepareNormalGoal last_point ms)
      in if \<not> met then (True, points, ms1)
         else case points of
                [] \<Rightarrow> (False, [], ms1)
              | p # ps \<Rightarrow> normal_goal_loop last_point ps (ms1\<lparr>ms_external_goal := p\<rparr>))"

declare normal_goal_loop.simps [simp del]

definition updateNormalGoal :: "TrajectoryMotion \<Rightarrow> TrajectoryMotion" where
  "updateNormalGoal m =
     (let (success, m1) =
        (case p_current m of
           None \<Rightarrow> (False, m)
         | Some tr \<Rightarrow>
             let (retrieved, ext, tr1) = retriveNextTrajectoryPoint (ms_external_goal (tmo_motion_step m)) tr;
                 ms1 = (tmo_motion_step m)\<lparr>ms_external_goal := ext\<rparr>;
                 (success, tr2, ms2) =
                   (if retrieved
                    then
                      let last_point = (length (tr_points tr1) = 0)
                      in if pg_reach_of ext
                         then
                           let (s, ps, ms') = normal_goal_loop last_point (tr_points tr1) ms1
                           in (s, tr1\<lparr>tr_points := ps\<rparr>, ms')
                         else (True, tr1, prepareNormalGoal last_point ms1)
                    else (False, tr1, ms1));
                 cur = (if \<not> success \<and> length (tr_points tr2) = 0 then None else Some tr2)
             in (success, m\<lparr>tmo_motion_step := ms2,
                            tmo_trajectories := (tmo_trajectories m)\<lparr>tq_p_current := cur\<rparr>\<rparr>))
      in m1\<lparr>tmo_data := (tmo_data m1)\<lparr>dd_has_new_goal := success, dd_has_active_goal := success\<rparr>\<rparr>)"

definition resetTrajectoryMotion :: "TrajectoryMotion \<Rightarrow> TrajectoryMotion" where
  "resetTrajectoryMotion m =
     (let m1 = (case p_current m of
                  None \<Rightarrow> m
                | Some _ \<Rightarrow>
                    let m' = storeNormalGoal m; tq = tmo_trajectories m'
                    in m'\<lparr>tmo_trajectories := tq\<lparr>tq_primary_queue := the (tq_p_current tq) # tq_primary_queue tq,
                                                 tq_p_current := None\<rparr>\<rparr>)
      in m1\<lparr>tmo_data := (tmo_data m1)\<lparr>dd_has_active_goal := False, dd_has_new_goal := False,
             dd_execution_progress := default_ExecutionProgress, dd_has_updated_execution_progress := False\<rparr>\<rparr>)"

definition reset_components :: "TrajectoryMotion \<Rightarrow> TrajectoryMotion" where
  "reset_components m =
     (let m1 = resetTrajectoryMotion m
      in m1\<lparr>tmo_motion_step := resetMotionStep (tmo_motion_step m1),
            tmo_state_manager := resetStateManager (tmo_state_manager m1)\<rparr>)"

definition prepare :: "InputContainer \<Rightarrow> TrajectoryMotion \<Rightarrow> TrajectoryMotion" where
  "prepare inputs m =
     (let m1 = m\<lparr>tmo_motion_step := (tmo_motion_step m)\<lparr>ms_data := (ms_data (tmo_motion_step m))
                   \<lparr>pd_estimated_sample_time := ic_estimated_sample_time inputs,
                    pd_feedback := in_feedback_of (ic_current inputs)\<rparr>\<rparr>\<rparr>;
          m2 = (if ic_first_message inputs then reset_components m1 else m1);
          m3 = (if statesOk inputs
                then
                  if verifyState StNormal SubNone (tmo_state_manager m2)
                  then m2\<lparr>tmo_state_manager := activateStateManager (tmo_state_manager m2)\<rparr> else m2
                else
                  if \<not> verifyState StNormal SubNone (tmo_state_manager m2)
                  then (reset_components m2)\<lparr>tmo_trajectories := (tmo_trajectories (reset_components m2))
                         \<lparr>tq_primary_queue := [], tq_temporary_queue := []\<rparr>\<rparr>
                  else m2)
      in m3\<lparr>tmo_data := (tmo_data m3)\<lparr>dd_has_new_goal := False\<rparr>\<rparr>)"

section \<open>TrajectoryMotion: the states\<close>

definition processNormalState :: "TrajectoryMotion \<Rightarrow> TrajectoryMotion" where
  "processNormalState m =
     (case sm_current_sub_state (tmo_state_manager m) of
        SubNone \<Rightarrow> m
      | SubRunning \<Rightarrow>
          if pe_do_ramp_down (events m) then set_pending StRampDown SubNone m
          else
            (case p_current m of
               Some _ \<Rightarrow>
                 if interpolationDurationReached (tmo_motion_step m)
                 then
                   if pg_reach_of (ms_internal_goal (tmo_motion_step m))
                   then
                     let (met, ms) = conditionMet (tmo_motion_step m); m1 = m\<lparr>tmo_motion_step := ms\<rparr>
                     in if met then updateNormalGoal m1 else m1
                   else updateNormalGoal m
                 else m
             | None \<Rightarrow>
                 (case tq_primary_queue (tmo_trajectories m) of
                    [] \<Rightarrow> m
                  | tr # trs \<Rightarrow>
                      updateNormalGoal (m\<lparr>tmo_trajectories := (tmo_trajectories m)
                        \<lparr>tq_p_current := Some tr, tq_primary_queue := trs\<rparr>\<rparr>)))
      | SubFinished \<Rightarrow> m)"

text \<open>The end of a ramp down: the events on the duration factor and the queues, then the decision to go on or to wait.\<close>

definition ramped_events :: "TrajectoryMotion \<Rightarrow> TrajectoryMotion" where
  "ramped_events m =
     (let m1 = (if pe_do_duration_factor_update (events m)
                then ev_mut (pe_do_duration_factor_update_update (\<lambda>_. False))
                       (m\<lparr>tmo_motion_step := (tmo_motion_step m)\<lparr>ms_data := (ms_data (tmo_motion_step m))
                           \<lparr>pd_duration_factor := pe_duration_factor (events m)\<rparr>\<rparr>\<rparr>)
                else m)
      in if pe_do_discard (events m1)
         then ev_mut (pe_do_discard_update (\<lambda>_. False))
                (m1\<lparr>tmo_trajectories :=
                     \<lparr>tq_primary_queue = tq_temporary_queue (tmo_trajectories m1), tq_temporary_queue = [],
                      tq_p_current = None\<rparr>\<rparr>)
         else m1)"

definition ramped_decision :: "TrajectoryMotion \<Rightarrow> TrajectoryMotion" where
  "ramped_decision m =
     (if pe_do_stop (events m)
      then
        if pe_do_resume (events m)
        then
          let m1 = ev_mut (\<lambda>e. e\<lparr>pe_do_ramp_down := False, pe_do_stop := False, pe_do_resume := False\<rparr>) m
          in if pe_do_static_goal_start (events m1) then set_pending StStaticGoal SubNone m1
             else set_pending StNormal SubRunning (updateNormalGoal m1)
        else m
      else set_pending StNormal SubRunning (updateNormalGoal (ev_mut (pe_do_ramp_down_update (\<lambda>_. False)) m)))"

definition processRampDownState :: "TrajectoryMotion \<Rightarrow> TrajectoryMotion" where
  "processRampDownState m =
     (case sm_current_sub_state (tmo_state_manager m) of
        SubNone \<Rightarrow>
          let m1 = m\<lparr>tmo_motion_step := prepareRampDownGoal (pe_do_stop (events m)) (tmo_motion_step m)\<rparr>;
              m2 = (if dd_has_active_goal (tmo_data m1) then storeNormalGoal m1 else m1);
              m3 = m2\<lparr>tmo_data := (tmo_data m2)\<lparr>dd_has_new_goal := True, dd_has_active_goal := True\<rparr>\<rparr>
          in set_pending StRampDown SubRunning m3
      | SubRunning \<Rightarrow>
          if interpolationDurationReached (tmo_motion_step m) then set_pending StRampDown SubFinished m else m
      | SubFinished \<Rightarrow> ramped_decision (ramped_events m))"

text \<open>A new static goal, if the user set one and no ramp down is ordered.\<close>

definition static_update :: "TrajectoryMotion \<Rightarrow> TrajectoryMotion" where
  "static_update m =
     (let e = events m in
      if pe_do_static_position_goal_update e \<and> \<not> pe_do_ramp_down e
      then
        let m1 = m\<lparr>tmo_motion_step := prepareStaticGoal_position (pe_static_position_goal e)
                     (pe_do_static_goal_fast_update e) (tmo_motion_step m)\<rparr>;
            m2 = ev_mut (\<lambda>e. e\<lparr>pe_static_position_goal := default_StaticPositionGoal,
                               pe_do_static_position_goal_update := False\<rparr>) m1
        in m2\<lparr>tmo_data := (tmo_data m2)\<lparr>dd_has_new_goal := True, dd_has_active_goal := True\<rparr>\<rparr>
      else if pe_do_static_velocity_goal_update e \<and> \<not> pe_do_ramp_down e
      then
        let m1 = m\<lparr>tmo_motion_step := prepareStaticGoal_velocity (pe_static_velocity_goal e)
                     (pe_do_static_goal_fast_update e) (tmo_motion_step m)\<rparr>;
            m2 = ev_mut (\<lambda>e. e\<lparr>pe_static_velocity_goal := default_StaticVelocityGoal,
                               pe_do_static_velocity_goal_update := False\<rparr>) m1
        in m2\<lparr>tmo_data := (tmo_data m2)\<lparr>dd_has_new_goal := True, dd_has_active_goal := True\<rparr>\<rparr>
      else m)"

definition processStaticGoalState :: "TrajectoryMotion \<Rightarrow> TrajectoryMotion" where
  "processStaticGoalState m =
     (case sm_current_sub_state (tmo_state_manager m) of
        SubNone \<Rightarrow>
          let m1 = (case p_current m of
                      None \<Rightarrow> m
                    | Some tr \<Rightarrow> m\<lparr>tmo_trajectories := (tmo_trajectories m)
                        \<lparr>tq_primary_queue := tr # tq_primary_queue (tmo_trajectories m), tq_p_current := None\<rparr>\<rparr>)
          in set_pending StStaticGoal SubRunning (m1\<lparr>tmo_data := (tmo_data m1)\<lparr>dd_has_active_goal := False\<rparr>\<rparr>)
      | SubRunning \<Rightarrow>
          let m1 = static_update m
          in if pe_do_static_goal_finish (events m1) then set_pending StStaticGoal SubFinished m1
             else if pe_do_ramp_down (events m1) then set_pending StRampDown SubNone m1
             else m1
      | SubFinished \<Rightarrow>
          set_pending StRampDown SubNone
            (ev_mut (\<lambda>e. e\<lparr>pe_do_static_goal_start := False, pe_do_static_goal_finish := False,
                          pe_do_static_position_goal_update := False, pe_do_static_velocity_goal_update := False,
                          pe_do_ramp_down := True, pe_do_stop := True\<rparr>) m))"

definition process_state :: "TrajectoryMotion \<Rightarrow> TrajectoryMotion" where
  "process_state m =
     (case sm_current_state (tmo_state_manager m) of
        StNormal \<Rightarrow> processNormalState m
      | StRampDown \<Rightarrow> processRampDownState m
      | StStaticGoal \<Rightarrow> processStaticGoalState m)"

section \<open>TrajectoryMotion: the outputs of one message\<close>

definition update_progress :: "Output \<Rightarrow> InputContainer \<Rightarrow> TrajectoryMotion \<Rightarrow> TrajectoryMotion" where
  "update_progress outputs inputs m =
     (let tq = tmo_trajectories m; ms = tmo_motion_step m;
          active = \<lparr>tg_points = [ms_external_goal ms]\<rparr>;
          active' = (case tq_p_current tq of None \<Rightarrow> active | Some tr \<Rightarrow> copyTo tr active);
          n = (if 0 < length (tq_temporary_queue tq) then length (tq_temporary_queue tq) else length (tq_primary_queue tq));
          ep = (dd_execution_progress (tmo_data m))
                 \<lparr>ep_state := Some (mapState (tmo_state_manager m)), ep_sub_state := Some (mapSubState (tmo_state_manager m)),
                  ep_inputs := Some (ic_current inputs), ep_outputs := Some outputs,
                  ep_goal_active := Some (dd_has_active_goal (tmo_data m)), ep_goal := Some (ms_internal_goal ms),
                  ep_time_passed := Some (pd_time_passed (ms_data ms)), ep_active_trajectory := Some active',
                  ep_pending_trajectories := Some (of_nat n)\<rparr>
      in m\<lparr>tmo_data := (tmo_data m)\<lparr>dd_execution_progress := ep, dd_has_updated_execution_progress := True\<rparr>\<rparr>)"

text \<open>The two steps of \<open>generateOutputs\<close> that use the interpolator: for a new goal and for an active one.\<close>

definition install_goal :: "TrajectoryMotion \<Rightarrow> TrajectoryMotion option" where
  "install_goal m =
     (if dd_has_new_goal (tmo_data m)
      then do {
        ms \<leftarrow> updateInterpolator (tmo_motion_step m);
        Some (m\<lparr>tmo_motion_step := ms,
                tmo_controller := controller_update (sm_current_state (tmo_state_manager m)) ms
                  (tmo_configurations m) (tmo_controller m)\<rparr>)
      }
      else Some m)"

definition produce_outputs :: "boost_quaternion \<Rightarrow> Output \<Rightarrow> TrajectoryMotion \<Rightarrow> (Output \<times> TrajectoryMotion) option" where
  "produce_outputs bq outputs m =
     (if dd_has_active_goal (tmo_data m)
      then do {
        ms \<leftarrow> evaluateInterpolator bq (tmo_motion_step m);
        let (out, ms', mc) = calculate outputs ms (tmo_controller m);
        Some (out, m\<lparr>tmo_motion_step := ms', tmo_controller := mc\<rparr>)
      }
      else Some (outputs, m))"

text \<open>Every call passes the address of the outputs, so the null checks of \<open>p_outputs\<close> always succeed.\<close>

definition generateOutputs ::
  "boost_quaternion \<Rightarrow> InputContainer \<Rightarrow> Output \<Rightarrow> TrajectoryMotion \<Rightarrow> (Output \<times> TrajectoryMotion) option" where
  "generateOutputs bq inputs outputs m = do {
     let m1 = prepare inputs m;
     (out, m2) \<leftarrow>
       (if statesOk inputs
        then do {
          let m2 = process_state (m1\<lparr>tmo_state_manager := updateState (tmo_state_manager m1)\<rparr>);
          m3 \<leftarrow> install_goal m2;
          produce_outputs bq outputs m3
        }
        else Some (outputs, m1));
     Some (out, update_progress out inputs m2)
   }"

section \<open>TrajectoryMotion: user methods\<close>

definition addTrajectory :: "TrajectoryGoal \<Rightarrow> bool \<Rightarrow> TrajectoryMotion \<Rightarrow> bool \<times> TrajectoryMotion" where
  "addTrajectory trajectory override_trajectories m =
     (let p_traj = make_Trajectory trajectory; tq = tmo_trajectories m;
          acc = verifyState StNormal SubRunning (tmo_state_manager m)
      in (acc,
          if acc
          then
            if override_trajectories
            then ev_mut (\<lambda>e. e\<lparr>pe_do_ramp_down := True, pe_do_stop := True, pe_do_discard := True, pe_do_resume := True\<rparr>)
                   (m\<lparr>tmo_trajectories := tq\<lparr>tq_temporary_queue := [p_traj]\<rparr>\<rparr>)
            else
              if pe_do_discard (events m)
              then m\<lparr>tmo_trajectories := tq\<lparr>tq_temporary_queue := tq_temporary_queue tq @ [p_traj]\<rparr>\<rparr>
              else m\<lparr>tmo_trajectories := tq\<lparr>tq_primary_queue := tq_primary_queue tq @ [p_traj]\<rparr>\<rparr>
          else m))"

definition stopTrajectory :: "bool \<Rightarrow> TrajectoryMotion \<Rightarrow> bool \<times> TrajectoryMotion" where
  "stopTrajectory discard_trajectories m =
     (let acc = verifyState StNormal SubRunning (tmo_state_manager m)
      in (acc, if acc then ev_mut (\<lambda>e. e\<lparr>pe_do_ramp_down := True, pe_do_stop := True, pe_do_discard := discard_trajectories\<rparr>) m
               else m))"

definition resumeTrajectory :: "TrajectoryMotion \<Rightarrow> bool \<times> TrajectoryMotion" where
  "resumeTrajectory m =
     (let acc = verifyState StRampDown SubFinished (tmo_state_manager m)
      in (acc, if acc then ev_mut (pe_do_resume_update (\<lambda>_. True)) m else m))"

definition updateDurationFactor :: "double \<Rightarrow> TrajectoryMotion \<Rightarrow> bool \<times> TrajectoryMotion" where
  "updateDurationFactor factor m =
     (let acc = verifyState StNormal SubRunning (tmo_state_manager m)
      in (acc, if acc
               then ev_mut (\<lambda>e. e\<lparr>pe_do_ramp_down := True, pe_do_duration_factor_update := True,
                        pe_duration_factor := saturate factor DURATION_FACTOR_MIN DURATION_FACTOR_MAX\<rparr>) m
               else m))"

definition startStaticGoal :: "bool \<Rightarrow> TrajectoryMotion \<Rightarrow> bool \<times> TrajectoryMotion" where
  "startStaticGoal discard_trajectories m =
     (let acc = verifyState StNormal SubRunning (tmo_state_manager m)
      in (acc, if acc
               then ev_mut (\<lambda>e. e\<lparr>pe_do_ramp_down := True, pe_do_stop := True, pe_do_discard := discard_trajectories,
                        pe_do_resume := True, pe_do_static_goal_start := True\<rparr>) m
               else m))"

definition setStaticGoal_position :: "StaticPositionGoal \<Rightarrow> bool \<Rightarrow> TrajectoryMotion \<Rightarrow> bool \<times> TrajectoryMotion" where
  "setStaticGoal_position position_goal fast_transition m =
     (let acc = verifyState StStaticGoal SubRunning (tmo_state_manager m)
      in (acc, if acc
               then ev_mut (\<lambda>e. e\<lparr>pe_do_ramp_down := \<not> fast_transition, pe_do_stop := \<not> fast_transition, pe_do_resume := True,
                        pe_do_static_goal_fast_update := fast_transition, pe_do_static_position_goal_update := True,
                        pe_do_static_velocity_goal_update := False, pe_static_position_goal := position_goal\<rparr>) m
               else m))"

definition setStaticGoal_velocity :: "StaticVelocityGoal \<Rightarrow> bool \<Rightarrow> TrajectoryMotion \<Rightarrow> bool \<times> TrajectoryMotion" where
  "setStaticGoal_velocity velocity_goal fast_transition m =
     (let acc = verifyState StStaticGoal SubRunning (tmo_state_manager m)
      in (acc, if acc
               then ev_mut (\<lambda>e. e\<lparr>pe_do_ramp_down := \<not> fast_transition, pe_do_stop := \<not> fast_transition, pe_do_resume := True,
                        pe_do_static_goal_fast_update := fast_transition, pe_do_static_velocity_goal_update := True,
                        pe_do_static_position_goal_update := False, pe_static_velocity_goal := velocity_goal\<rparr>) m
               else m))"

definition finishStaticGoal :: "bool \<Rightarrow> TrajectoryMotion \<Rightarrow> bool \<times> TrajectoryMotion" where
  "finishStaticGoal resume m =
     (let acc = verifyState StStaticGoal SubRunning (tmo_state_manager m)
      in (acc, if acc then ev_mut (\<lambda>e. e\<lparr>pe_do_static_goal_finish := True, pe_do_resume := resume\<rparr>) m else m))"

definition retrieveExecutionProgress ::
  "ExecutionProgress \<Rightarrow> TrajectoryMotion \<Rightarrow> bool \<times> ExecutionProgress \<times> TrajectoryMotion" where
  "retrieveExecutionProgress p_progress m =
     (if has (ep_inputs (dd_execution_progress (tmo_data m)))
      then (dd_has_updated_execution_progress (tmo_data m), dd_execution_progress (tmo_data m),
            m\<lparr>tmo_data := (tmo_data m)\<lparr>dd_has_updated_execution_progress := False\<rparr>\<rparr>)
      else (False, p_progress, m))"

end
