(* ===== verification/EGM_Goal_Queue.thy ===== *)
theory EGM_Goal_Queue
  imports EGM_Trajectory_Motion
begin

text \<open>
  Which trajectory points are executed, and in which order. The lemmas describe \<open>updateNormalGoal\<close> on the
  list of points that are left: it skips points whose reach condition already holds, takes the next one, and
  loses and repeats none. The interruption of a goal and its resumption are inverse to each other.
\<close>

section \<open>Trajectories\<close>

lemma make_Trajectory_points [simp]: "tr_points (make_Trajectory t) = tg_points t"
proof -
  have "n \<le> length ps \<Longrightarrow>
      tr_points (for_range n (\<lambda>i. addTrajectoryPointBack (ps ! i)) \<lparr>tr_points = []\<rparr>) = take n ps" for n ps
    by (induction n) (auto simp: addTrajectoryPointBack_def take_Suc_conv_app_nth)
  then show ?thesis by (simp add: make_Trajectory_def)
qed

lemma Trajectory_eq [simp]: "\<lparr>tr_points = tr_points tr\<rparr> = tr" "tr\<lparr>tr_points := ps\<rparr> = \<lparr>tr_points = ps\<rparr>"
  by (cases tr, simp)+

section \<open>The loop over goals that are already reached\<close>

lemma prepareNormalGoal_external [simp]: "ms_external_goal (prepareNormalGoal last_point ms) = ms_external_goal ms"
  by (simp add: prepareNormalGoal_def Let_def estimateDuration_def)

lemma conditionMet_frame [simp]:
  "ms_external_goal (snd (conditionMet ms)) = ms_external_goal ms"
  "ms_internal_goal (snd (conditionMet ms)) = ms_internal_goal ms"
  "ms_data (snd (conditionMet ms)) = ms_data ms"
  "ms_interpolation (snd (conditionMet ms)) = ms_interpolation ms"
  "ms_interpolator (snd (conditionMet ms)) = ms_interpolator ms"
  "ms_interpolator_conditions (snd (conditionMet ms)) = ms_interpolator_conditions ms"
  "ms_configurations (snd (conditionMet ms)) = ms_configurations ms"
  by (simp_all add: conditionMet_def Let_def)

lemma normal_goal_loop_simps:
  "normal_goal_loop l [] ms =
     (\<not> fst (conditionMet (prepareNormalGoal l ms)), [], snd (conditionMet (prepareNormalGoal l ms)))"
  "normal_goal_loop l (p # ps) ms =
     (if fst (conditionMet (prepareNormalGoal l ms))
      then normal_goal_loop l ps ((snd (conditionMet (prepareNormalGoal l ms)))\<lparr>ms_external_goal := p\<rparr>)
      else (True, p # ps, snd (conditionMet (prepareNormalGoal l ms))))"
  by (auto simp: normal_goal_loop.simps [of l "[]"] normal_goal_loop.simps [of l "p # ps"] case_prod_beta Let_def)

text \<open>The points the loop skips: those whose reach condition holds when they are prepared.\<close>

fun loop_skips :: "bool \<Rightarrow> PointGoal list \<Rightarrow> MotionStep \<Rightarrow> PointGoal list" where
  "loop_skips l points ms =
     (let (met, ms1) = conditionMet (prepareNormalGoal l ms)
      in if met
         then ms_external_goal ms # (case points of [] \<Rightarrow> [] | p # ps \<Rightarrow> loop_skips l ps (ms1\<lparr>ms_external_goal := p\<rparr>))
         else [])"

declare loop_skips.simps [simp del]

lemma loop_skips_simps:
  "loop_skips l [] ms = (if fst (conditionMet (prepareNormalGoal l ms)) then [ms_external_goal ms] else [])"
  "loop_skips l (p # ps) ms =
     (if fst (conditionMet (prepareNormalGoal l ms))
      then ms_external_goal ms # loop_skips l ps ((snd (conditionMet (prepareNormalGoal l ms)))\<lparr>ms_external_goal := p\<rparr>)
      else [])"
  by (simp_all add: loop_skips.simps [of l "[]"] loop_skips.simps [of l "p # ps"] case_prod_beta Let_def)

lemma loop_skips_flag [simp]: "loop_skips l ps (ms\<lparr>ms_condition_met := b\<rparr>) = loop_skips l ps ms"
proof -
  have "conditionMet (prepareNormalGoal l (ms\<lparr>ms_condition_met := b\<rparr>)) = conditionMet (prepareNormalGoal l ms)"
    by (simp add: conditionMet_def prepareNormalGoal_def estimateDuration_def Let_def)
  then show ?thesis by (cases ps) (simp_all add: loop_skips_simps)
qed

lemma normal_goal_loop_success:
  "normal_goal_loop l ps ms = (True, rest, ms') \<Longrightarrow> ms_external_goal ms # ps = loop_skips l ps ms @ ms_external_goal ms' # rest"
  by (induction ps arbitrary: ms) (fastforce simp: normal_goal_loop_simps loop_skips_simps split: if_splits)+

lemma normal_goal_loop_failure:
  "normal_goal_loop l ps ms = (False, rest, ms') \<Longrightarrow> rest = [] \<and> ms_external_goal ms # ps = loop_skips l ps ms"
  by (induction ps arbitrary: ms) (fastforce simp: normal_goal_loop_simps loop_skips_simps split: if_splits)+

section \<open>updateNormalGoal\<close>

definition active_points :: "TrajectoryMotion \<Rightarrow> PointGoal list" where
  "active_points m = (case p_current m of None \<Rightarrow> [] | Some tr \<Rightarrow> tr_points tr)"

definition external_goal :: "TrajectoryMotion \<Rightarrow> PointGoal" where
  "external_goal m = ms_external_goal (tmo_motion_step m)"

lemma updateNormalGoal_frame [simp]:
  "tmo_state_manager (updateNormalGoal m) = tmo_state_manager m"
  "tmo_controller (updateNormalGoal m) = tmo_controller m"
  "tmo_configurations (updateNormalGoal m) = tmo_configurations m"
  "events (updateNormalGoal m) = events m"
  "tq_primary_queue (tmo_trajectories (updateNormalGoal m)) = tq_primary_queue (tmo_trajectories m)"
  "tq_temporary_queue (tmo_trajectories (updateNormalGoal m)) = tq_temporary_queue (tmo_trajectories m)"
  by (simp_all add: updateNormalGoal_def Let_def case_prod_beta split: option.split)

lemma updateNormalGoal_flags:
  "dd_has_new_goal (tmo_data (updateNormalGoal m)) = dd_has_active_goal (tmo_data (updateNormalGoal m))"
  by (simp add: updateNormalGoal_def Let_def case_prod_beta)

text \<open>The points \<open>updateNormalGoal\<close> skips: none, if the first one need not be reached.\<close>

definition skipped_points :: "TrajectoryMotion \<Rightarrow> PointGoal list" where
  "skipped_points m =
     (case active_points m of
        [] \<Rightarrow> []
      | p # ps \<Rightarrow> if pg_reach_of p then loop_skips (ps = []) ps ((tmo_motion_step m)\<lparr>ms_external_goal := p\<rparr>) else [])"

lemma updateNormalGoal_cases:
  obtains (idle) "\<not> dd_has_active_goal (tmo_data (updateNormalGoal m))" "p_current (updateNormalGoal m) = None"
    "active_points m = skipped_points m"
  | (active) rest where "dd_has_active_goal (tmo_data (updateNormalGoal m))"
    "p_current (updateNormalGoal m) = Some \<lparr>tr_points = rest\<rparr>"
    "active_points m = skipped_points m @ external_goal (updateNormalGoal m) # rest"
proof (cases "p_current m")
  case None
  then show thesis by (intro idle) (simp_all add: updateNormalGoal_def active_points_def skipped_points_def)
next
  case (Some tr)
  show thesis
  proof (cases "tr_points tr")
    case Nil
    with Some show thesis
      by (intro idle) (simp_all add: updateNormalGoal_def retriveNextTrajectoryPoint_def active_points_def skipped_points_def)
  next
    case (Cons p ps)
    let ?ms = "(tmo_motion_step m)\<lparr>ms_external_goal := p\<rparr>"
    obtain s rest ms' where loop: "normal_goal_loop (ps = []) ps ?ms = (s, rest, ms')"
      by (cases "normal_goal_loop (ps = []) ps ?ms")
    note defs = updateNormalGoal_def retriveNextTrajectoryPoint_def Some Cons active_points_def external_goal_def
      skipped_points_def
    consider "\<not> pg_reach_of p" | "pg_reach_of p" s | "pg_reach_of p" "\<not> s" by blast
    then show thesis
    proof cases
      case 1
      with Some Cons show thesis by (intro active [of ps]) (simp_all add: defs)
    next
      case 2
      with loop have "dd_has_active_goal (tmo_data (updateNormalGoal m))" "p_current (updateNormalGoal m) = Some \<lparr>tr_points = rest\<rparr>"
        "external_goal (updateNormalGoal m) = ms_external_goal ms'" "active_points m = p # ps"
        "skipped_points m = loop_skips (ps = []) ps ?ms" by (simp_all add: defs)
      with 2 loop normal_goal_loop_success [of "ps = []" ps ?ms rest ms'] show thesis by (intro active [of rest]) auto
    next
      case 3
      with loop normal_goal_loop_failure [of "ps = []" ps ?ms rest ms'] have "rest = []" by auto
      with 3 loop have "\<not> dd_has_active_goal (tmo_data (updateNormalGoal m))" "p_current (updateNormalGoal m) = None"
        "active_points m = p # ps" "skipped_points m = loop_skips (ps = []) ps ?ms" by (simp_all add: defs)
      with 3 loop normal_goal_loop_failure [of "ps = []" ps ?ms rest ms'] show thesis by (intro idle) auto
    qed
  qed
qed

text \<open>
  \<open>updateNormalGoal\<close> loses, repeats and reorders no trajectory point: the points of the active trajectory
  are those it skips because they are already reached, then the goal it takes if it takes one, then those that are
  left. There is an active goal afterwards exactly if the trajectory is still active.
\<close>

theorem update_goal_takes_points_in_order:
  "(dd_has_active_goal (tmo_data (updateNormalGoal m)) \<longleftrightarrow> p_current (updateNormalGoal m) \<noteq> None) \<and>
   active_points m = skipped_points m @
      (if dd_has_active_goal (tmo_data (updateNormalGoal m))
       then external_goal (updateNormalGoal m) # active_points (updateNormalGoal m) else [])"
  by (cases rule: updateNormalGoal_cases [of m]) (auto simp: active_points_def)

section \<open>Interruption and resumption\<close>

text \<open>
  An interrupted goal is resumed: if a goal of an active trajectory that need not be reached is stored back
  by \<open>storeNormalGoal\<close> and the next goal is taken, it is the same goal, its duration replaced by the time
  that was left, at least one sample time; the rest of the trajectory is unchanged.
\<close>

theorem interrupted_goal_is_resumed:
  assumes "p_current m = Some tr" "\<not> pg_reach_of (external_goal m)"
  defines "m' \<equiv> updateNormalGoal (storeNormalGoal m)"
  shows "dd_has_active_goal (tmo_data m') \<and> p_current m' = Some tr \<and>
    external_goal m' = (external_goal m)\<lparr>pg_duration := Some (fmax LOWEST_SAMPLE_TIME
      (pg_duration_of (ms_internal_goal (tmo_motion_step m)) - pd_time_passed (ms_data (tmo_motion_step m))))\<rparr>"
  using assms(1,2)
  by (simp add: m'_def updateNormalGoal_def storeNormalGoal_def retriveNextTrajectoryPoint_def
      addTrajectoryPointFront_def external_goal_def Let_def)

definition busy_motion :: TrajectoryMotion where
  "busy_motion =
     (let m = init_TrajectoryMotion 0 (make_TrajectoryConfiguration default_BaseConfiguration)
      in m\<lparr>tmo_trajectories := (tmo_trajectories m)\<lparr>tq_p_current := Some \<lparr>tr_points = [flat_goal 6 0 (Fin 2)]\<rparr>\<rparr>,
           tmo_motion_step := (tmo_motion_step m)\<lparr>ms_external_goal := flat_goal 6 0 (Fin 1)\<rparr>\<rparr>)"

theorem interrupted_goal_is_resumed_witness:
  "p_current (updateNormalGoal (storeNormalGoal busy_motion)) = Some \<lparr>tr_points = [flat_goal 6 0 (Fin 2)]\<rparr>"
  using interrupted_goal_is_resumed [of busy_motion "\<lparr>tr_points = [flat_goal 6 0 (Fin 2)]\<rparr>"]
  by (simp add: busy_motion_def Let_def external_goal_def flat_goal_def)

section \<open>Adding trajectories\<close>

text \<open>The trajectories that wait, in the order in which they will be executed.\<close>

definition waiting :: "TrajectoryMotion \<Rightarrow> Trajectory list" where
  "waiting m = (if pe_do_discard (events m) then tq_temporary_queue (tmo_trajectories m)
                else tq_primary_queue (tmo_trajectories m))"

text \<open>
  Trajectories are executed in the order in which they are added: in the running normal state an added
  trajectory goes to the end of those that wait, also when the present ones are about to be discarded, and an
  overriding one replaces all that wait; in any other state nothing is added.
\<close>

theorem add_trajectory_appends:
  "(if verifyState StNormal SubRunning (tmo_state_manager m)
    then fst (addTrajectory t ovr m) \<and>
      waiting (snd (addTrajectory t ovr m)) = (if ovr then [] else waiting m) @ [make_Trajectory t] \<and>
      p_current (snd (addTrajectory t ovr m)) = p_current m
    else addTrajectory t ovr m = (False, m)) \<and>
   tr_points (make_Trajectory t) = tg_points t"
  by (simp add: addTrajectory_def Let_def waiting_def)

text \<open>
  Stopping does not take back an order to resume: if a trajectory is added with override and the user then
  stops the motion before it has ramped down, the resume order of the former is still pending, so that the
  motion resumes by itself after the ramp down.
\<close>

theorem stop_keeps_resume_order:
  assumes "verifyState StNormal SubRunning (tmo_state_manager m)"
  shows "pe_do_resume (events (snd (stopTrajectory discard (snd (addTrajectory t True m)))))"
  using assms by (simp add: addTrajectory_def stopTrajectory_def Let_def)

theorem stop_keeps_resume_order_witness:
  "pe_do_resume (events (snd (stopTrajectory False (snd (addTrajectory \<lparr>tg_points = [flat_goal 6 0 (Fin 1)]\<rparr> True
     (busy_motion\<lparr>tmo_state_manager := activateStateManager init_StateManager\<rparr>))))))"
  by (rule stop_keeps_resume_order) (simp add: verifyState_def activateStateManager_def)

end
