(* ===== verification/EGM_Agenda.thy ===== *)
theory EGM_Agenda
  imports EGM_Goal_Queue
begin

text \<open>
  The life of a \<open>TrajectoryMotion\<close> object: any sequence of received messages and user orders. The invariant
  ties the state of the state manager to the active trajectory and the active goal. The agenda is the list of
  the trajectory points that are still to be executed; the main result is that a run without discard orders
  and without a reset only removes points from its front and adds accepted ones at its end.
\<close>

section \<open>Orders and runs\<close>

datatype order =
  AddTrajectory TrajectoryGoal bool
| StopTrajectory bool
| ResumeTrajectory
| UpdateDurationFactor double
| StartStaticGoal bool
| SetStaticPosition StaticPositionGoal bool
| SetStaticVelocity StaticVelocityGoal bool
| FinishStaticGoal bool
| RetrieveExecutionProgress ExecutionProgress

text \<open>The call of the method an order stands for: whether it is accepted, and the new state.\<close>

fun give :: "order \<Rightarrow> TrajectoryMotion \<Rightarrow> bool \<times> TrajectoryMotion" where
  "give (AddTrajectory t ovr) m = addTrajectory t ovr m"
| "give (StopTrajectory d) m = stopTrajectory d m"
| "give ResumeTrajectory m = resumeTrajectory m"
| "give (UpdateDurationFactor f) m = updateDurationFactor f m"
| "give (StartStaticGoal d) m = startStaticGoal d m"
| "give (SetStaticPosition g f) m = setStaticGoal_position g f m"
| "give (SetStaticVelocity g f) m = setStaticGoal_velocity g f m"
| "give (FinishStaticGoal r) m = finishStaticGoal r m"
| "give (RetrieveExecutionProgress p) m = (let (r, _, m') = retrieveExecutionProgress p m in (r, m'))"

datatype motion_call = Order order | Message InputContainer Output | Reconfigure TrajectoryConfiguration

fun call :: "boost_quaternion \<Rightarrow> motion_call \<Rightarrow> TrajectoryMotion \<Rightarrow> TrajectoryMotion option" where
  "call bq (Order o') m = Some (snd (give o' m))"
| "call bq (Message ic out) m = map_option snd (generateOutputs bq ic out m)"
| "call bq (Reconfigure c) m = Some (updateConfigurations c m)"

fun run :: "boost_quaternion \<Rightarrow> motion_call list \<Rightarrow> TrajectoryMotion \<Rightarrow> TrajectoryMotion option" where
  "run bq [] m = Some m"
| "run bq (c # cs) m = do { m1 \<leftarrow> call bq c m; run bq cs m1 }"

inductive motion_step :: "boost_quaternion \<Rightarrow> TrajectoryMotion \<Rightarrow> TrajectoryMotion \<Rightarrow> bool" for bq where
  motion_call: "call bq c m = Some m' \<Longrightarrow> motion_step bq m m'"

section \<open>The invariant\<close>

abbreviation state_of :: "TrajectoryMotion \<Rightarrow> States \<times> SubStates" where
  "state_of m \<equiv> sm_state (tmo_state_manager m)"

abbreviation has_pending :: "TrajectoryMotion \<Rightarrow> bool" where
  "has_pending m \<equiv> sm_has_pending_state (tmo_state_manager m)"

abbreviation pending_of :: "TrajectoryMotion \<Rightarrow> States \<times> SubStates" where
  "pending_of m \<equiv> (sm_pending_state (tmo_state_manager m), sm_pending_sub_state (tmo_state_manager m))"

abbreviation active :: "TrajectoryMotion \<Rightarrow> bool" where
  "active m \<equiv> dd_has_active_goal (tmo_data m)"

text \<open>The active goal is a point of the active trajectory: in the normal state, or about to return to it.\<close>

definition in_normal :: "TrajectoryMotion \<Rightarrow> bool" where
  "in_normal m \<longleftrightarrow> state_of m = (StNormal, SubRunning) \<or> has_pending m \<and> pending_of m = (StNormal, SubRunning)"

definition motion_inv :: "TrajectoryMotion \<Rightarrow> bool" where
  "motion_inv m \<longleftrightarrow> sm_inv (tmo_state_manager m) \<and>
     (state_of m = (StNormal, SubNone) \<longrightarrow> p_current m = None \<and> \<not> active m) \<and>
     (in_normal m \<longrightarrow> (active m \<longleftrightarrow> p_current m \<noteq> None)) \<and>
     (state_of m \<in> {(StRampDown, SubNone), (StStaticGoal, SubNone), (StStaticGoal, SubFinished)} \<longrightarrow> has_pending m) \<and>
     (fst (state_of m) = StStaticGoal \<longrightarrow> p_current m = None)"

lemma motion_inv_init: "motion_inv (init_TrajectoryMotion off c)"
  by (simp add: motion_inv_def init_TrajectoryMotion_def init_StateManager_def sm_state_def in_normal_def sm_inv_def
      init_DecisionData_def)

text \<open>The invariant reads only these parts of the state.\<close>

definition same_core :: "TrajectoryMotion \<Rightarrow> TrajectoryMotion \<Rightarrow> bool" where
  "same_core m m' \<longleftrightarrow> tmo_state_manager m' = tmo_state_manager m \<and> p_current m' = p_current m \<and> active m' = active m"

lemma motion_inv_core: "same_core m m' \<Longrightarrow> motion_inv m' = motion_inv m"
  by (simp add: same_core_def motion_inv_def in_normal_def)

section \<open>The agenda\<close>

definition queued :: "TrajectoryMotion \<Rightarrow> PointGoal list" where
  "queued m = concat (map tr_points (tq_primary_queue (tmo_trajectories m)))"

definition agenda :: "TrajectoryMotion \<Rightarrow> PointGoal list" where
  "agenda m = (if in_normal m \<and> p_current m \<noteq> None then [external_goal m] else []) @ active_points m @ queued m"

text \<open>A goal without its duration: the duration of an interrupted goal changes.\<close>

definition erase :: "PointGoal \<Rightarrow> PointGoal" where
  "erase g = g\<lparr>pg_duration := None\<rparr>"

lemma erase_duration [simp]: "erase (g\<lparr>pg_duration := d\<rparr>) = erase g"
  by (simp add: erase_def)

text \<open>The points \<open>d\<close> leave the front of an agenda.\<close>

definition done_from :: "PointGoal list \<Rightarrow> PointGoal list \<Rightarrow> PointGoal list \<Rightarrow> bool" where
  "done_from d before after \<longleftrightarrow> map erase before = map erase (d @ after)"

lemma done_from_refl [simp]: "done_from [] xs xs"
  by (simp add: done_from_def)

lemma done_from_drop: "xs = d @ ys \<Longrightarrow> done_from d xs ys"
  by (simp add: done_from_def)

lemma done_from_Cons: "done_from d xs ys \<Longrightarrow> done_from (x # d) (x # xs) ys"
  by (simp add: done_from_def)

lemma done_from_trans: "done_from d xs ys \<Longrightarrow> done_from e ys zs \<Longrightarrow> done_from (d @ e) xs zs"
  by (simp add: done_from_def)

lemma done_from_append: "done_from d xs ys \<Longrightarrow> done_from d (xs @ zs) (ys @ zs)"
  by (simp add: done_from_def)

section \<open>Taking the next goal\<close>

lemma updateNormalGoal_queued [simp]: "queued (updateNormalGoal m) = queued m"
  by (simp add: queued_def)

lemma updateNormalGoal_active: "active (updateNormalGoal m) \<longleftrightarrow> p_current (updateNormalGoal m) \<noteq> None"
  by (cases rule: updateNormalGoal_cases [of m]) auto

lemma updateNormalGoal_takes:
  "done_from (skipped_points m) (active_points m)
     ((if p_current (updateNormalGoal m) \<noteq> None then [external_goal (updateNormalGoal m)] else [])
        @ active_points (updateNormalGoal m))"
  by (cases rule: updateNormalGoal_cases [of m]) (auto simp: active_points_def intro: done_from_drop)

lemma agenda_takes:
  assumes "in_normal m'" "p_current m' = p_current (updateNormalGoal m)" "queued m' = queued m"
    "external_goal m' = external_goal (updateNormalGoal m)"
  shows "done_from (skipped_points m) (active_points m @ queued m) (agenda m')"
  using done_from_append [OF updateNormalGoal_takes [of m], of "queued m"] assms
  by (auto simp: agenda_def active_points_def split: if_splits)

section \<open>Finished points\<close>

text \<open>The active goal is completed: its duration has passed, and its reach condition holds if it has to be reached.\<close>

definition completed :: "TrajectoryMotion \<Rightarrow> bool" where
  "completed m \<longleftrightarrow> interpolationDurationReached (tmo_motion_step m) \<and>
     (pg_reach_of (ms_internal_goal (tmo_motion_step m)) \<longrightarrow> fst (conditionMet (tmo_motion_step m)))"

text \<open>
  The points that are finished when a message is processed in the normal state, and at the end of a ramp down:
  the active goal if it is completed, and the next points as far as they are already reached.
\<close>

definition finished_normal :: "TrajectoryMotion \<Rightarrow> PointGoal list" where
  "finished_normal m =
     (if pe_do_ramp_down (events m) then []
      else case p_current m of
             Some _ \<Rightarrow> if completed m then external_goal m # skipped_points m else []
           | None \<Rightarrow>
               (case tq_primary_queue (tmo_trajectories m) of
                  [] \<Rightarrow> []
                | tr # _ \<Rightarrow> skipped_points (m\<lparr>tmo_trajectories := (tmo_trajectories m)\<lparr>tq_p_current := Some tr\<rparr>\<rparr>)))"

definition finished_ramp :: "TrajectoryMotion \<Rightarrow> PointGoal list" where
  "finished_ramp m =
     (if pe_do_stop (events m) \<and> (\<not> pe_do_resume (events m) \<or> pe_do_static_goal_start (events m)) then []
      else skipped_points (ramped_events m))"

definition finished_points :: "TrajectoryMotion \<Rightarrow> PointGoal list" where
  "finished_points m =
     (if state_of m = (StNormal, SubRunning) then finished_normal m
      else if state_of m = (StRampDown, SubFinished) then finished_ramp m
      else [])"

lemma skipped_points_cong:
  "active_points m' = active_points m \<Longrightarrow> tmo_motion_step m' = tmo_motion_step m \<Longrightarrow> skipped_points m' = skipped_points m"
  by (simp add: skipped_points_def split: list.split)

lemma skipped_points_conditionMet:
  "skipped_points (m\<lparr>tmo_motion_step := snd (conditionMet (tmo_motion_step m))\<rparr>) = skipped_points m"
proof -
  have "(snd (conditionMet ms))\<lparr>ms_external_goal := p\<rparr> =
      (ms\<lparr>ms_external_goal := p\<rparr>)\<lparr>ms_condition_met := fst (conditionMet ms)\<rparr>" for ms p
    by (simp add: conditionMet_def Let_def)
  then show ?thesis by (simp add: skipped_points_def active_points_def split: list.split)
qed

section \<open>The states\<close>

text \<open>Before a message is processed: the invariant with the pending state taken.\<close>

lemma set_pending_simps:
  "accepted (sm_current_state sm) (sm_current_sub_state sm) s ss \<Longrightarrow>
     setPendingState s ss sm = sm\<lparr>sm_pending_state := s, sm_pending_sub_state := ss, sm_has_pending_state := True\<rparr>"
  by (simp add: setPendingState_def)

lemma sm_state_set [simp]: "sm_state (setPendingState s ss sm) = sm_state sm"
  by (simp add: sm_state_def setPendingState_def)

lemma sm_inv_cases:
  assumes "sm_inv sm"
  obtains "\<not> sm_has_pending_state sm" "sm_state (updateState sm) = sm_state sm" "updateState sm = sm"
  | "sm_has_pending_state sm" "edge (sm_state sm) (sm_state (updateState sm))"
    "sm_state (updateState sm) = (sm_pending_state sm, sm_pending_sub_state sm)"
  using assms by (auto simp: sm_inv_def updateState_def sm_state_def)

lemma updateState_pending [simp]: "\<not> sm_has_pending_state (updateState sm)"
  by (simp add: updateState_def)

text \<open>The state a message is processed in, and what the invariant says of it.\<close>

abbreviation entered :: "TrajectoryMotion \<Rightarrow> TrajectoryMotion" where
  "entered m \<equiv> m\<lparr>tmo_state_manager := updateState (tmo_state_manager m)\<rparr>"

lemma entered_cases:
  assumes "motion_inv m" "state_of m \<noteq> (StNormal, SubNone)"
  obtains (normal) "state_of (entered m) = (StNormal, SubRunning)" "in_normal m" "active m \<longleftrightarrow> p_current m \<noteq> None"
  | (ramp_from_normal) "state_of (entered m) = (StRampDown, SubNone)" "in_normal m" "active m \<longleftrightarrow> p_current m \<noteq> None"
  | (ramp_from_static) "state_of (entered m) = (StRampDown, SubNone)" "\<not> in_normal m" "p_current m = None"
  | (ramping) "state_of (entered m) = (StRampDown, SubRunning)" "\<not> in_normal m"
  | (ramped) "state_of (entered m) = (StRampDown, SubFinished)" "\<not> in_normal m"
  | (static_start) "state_of (entered m) = (StStaticGoal, SubNone)" "\<not> in_normal m"
  | (static) ss where "state_of (entered m) = (StStaticGoal, ss)" "ss \<noteq> SubNone" "\<not> in_normal m" "p_current m = None"
proof -
  let ?sm = "tmo_state_manager m"
  obtain s ss where st: "state_of m = (s, ss)" by (cases "state_of m")
  obtain s' ss' where st': "state_of (entered m) = (s', ss')" by (cases "state_of (entered m)")
  have inv: "sm_inv ?sm" using assms(1) by (simp add: motion_inv_def)
  then show thesis
  proof (cases rule: sm_inv_cases)
    case 1
    with assms inv st st' that show thesis
      by (cases s; cases ss) (auto simp: motion_inv_def in_normal_def sm_inv_def)
  next
    case 2
    with assms inv st st' that show thesis
      by (auto simp: motion_inv_def in_normal_def edge_simps)
  qed
qed

lemma state_of_set_pending [simp]: "state_of (set_pending s ss m) = state_of m"
  by simp

lemma in_normal_entered:
  "in_normal (entered m) \<longleftrightarrow> state_of (entered m) = (StNormal, SubRunning)"
  by (simp add: in_normal_def)

lemma sm_inv_entered: "motion_inv m \<Longrightarrow> sm_inv (tmo_state_manager (entered m))"
  by (simp add: motion_inv_def sm_inv_ops(4))

text \<open>A state in which a message has been processed: the manager's new state, and its consequences.\<close>

lemma motion_invI:
  assumes "sm_inv (tmo_state_manager m)" "state_of m \<noteq> (StNormal, SubNone)"
    and "in_normal m \<Longrightarrow> active m \<longleftrightarrow> p_current m \<noteq> None"
    and "state_of m \<in> {(StRampDown, SubNone), (StStaticGoal, SubNone), (StStaticGoal, SubFinished)} \<Longrightarrow> has_pending m"
    and "fst (state_of m) = StStaticGoal \<Longrightarrow> p_current m = None"
  shows "motion_inv m"
  using assms by (simp add: motion_inv_def)


lemma pending_simps [simp]:
  "p_current (set_pending s ss m) = p_current m" "active (set_pending s ss m) = active m"
  "queued (set_pending s ss m) = queued m" "external_goal (set_pending s ss m) = external_goal m"
  "active_points (set_pending s ss m) = active_points m" "events (set_pending s ss m) = events m"
  by (simp_all add: queued_def external_goal_def active_points_def)

lemma has_pending_set:
  "state_of m = (c, cs) \<Longrightarrow> has_pending (set_pending s ss m) \<longleftrightarrow> accepted c cs s ss \<or> has_pending m"
  by (simp add: setPendingState_def sm_state_def)

lemma in_normal_set:
  assumes "state_of m = (c, cs)" "\<not> has_pending m"
  shows "in_normal (set_pending s ss m) \<longleftrightarrow>
    (c, cs) = (StNormal, SubRunning) \<or> accepted c cs s ss \<and> (s, ss) = (StNormal, SubRunning)"
  using assms by (auto simp: in_normal_def setPendingState_def sm_state_def)

lemma in_normal_idle: "\<not> has_pending m \<Longrightarrow> in_normal m \<longleftrightarrow> state_of m = (StNormal, SubRunning)"
  by (simp add: in_normal_def)

lemma in_normal_update [simp]: "in_normal (updateNormalGoal m) = in_normal m"
  by (simp add: in_normal_def)

subsection \<open>Normal\<close>

lemma process_normal_update:
  assumes "state_of m = (StNormal, SubRunning)" "\<not> has_pending m" "sm_inv (tmo_state_manager m)"
  shows "motion_inv (updateNormalGoal m) \<and> done_from (skipped_points m) (active_points m @ queued m) (agenda (updateNormalGoal m))"
proof
  show "motion_inv (updateNormalGoal m)"
    using assms by (intro motion_invI) (simp_all add: updateNormalGoal_active)
  show "done_from (skipped_points m) (active_points m @ queued m) (agenda (updateNormalGoal m))"
    using assms by (intro agenda_takes) (simp_all add: in_normal_idle)
qed

lemma step_simps [simp]:
  "p_current (m\<lparr>tmo_motion_step := ms\<rparr>) = p_current m" "queued (m\<lparr>tmo_motion_step := ms\<rparr>) = queued m"
  "active_points (m\<lparr>tmo_motion_step := ms\<rparr>) = active_points m"
  "external_goal (m\<lparr>tmo_motion_step := ms\<rparr>) = ms_external_goal ms"
  "in_normal (m\<lparr>tmo_motion_step := ms\<rparr>) = in_normal m"
  by (simp_all add: queued_def active_points_def external_goal_def in_normal_def)

lemma process_normal:
  assumes "state_of m = (StNormal, SubRunning)" "\<not> has_pending m" "sm_inv (tmo_state_manager m)"
    and "active m \<longleftrightarrow> p_current m \<noteq> None"
  shows "motion_inv (processNormalState m) \<and> done_from (finished_normal m) (agenda m) (agenda (processNormalState m))"
proof -
  have sub: "sm_current_sub_state (tmo_state_manager m) = SubRunning" using assms(1) by (simp add: sm_state_def)
  have inv: "motion_inv m'" if "same_core m m'" for m'
    using assms that by (simp add: motion_inv_core) (intro motion_invI, simp_all)
  consider (interrupt) "pe_do_ramp_down (events m)" | (goal) tr where "\<not> pe_do_ramp_down (events m)" "p_current m = Some tr"
    | (idle) "\<not> pe_do_ramp_down (events m)" "p_current m = None" by fastforce
  then show ?thesis
  proof cases
    case interrupt
    then have p: "processNormalState m = set_pending StRampDown SubNone m" by (simp add: processNormalState_def sub)
    have "motion_inv (set_pending StRampDown SubNone m)"
      using assms by (intro motion_invI) (simp_all add: sm_inv_ops in_normal_set)
    moreover have "agenda (set_pending StRampDown SubNone m) = agenda m"
      using assms by (simp add: agenda_def in_normal_set in_normal_idle)
    ultimately show ?thesis using interrupt by (simp add: p finished_normal_def)
  next
    case goal
    let ?m1 = "m\<lparr>tmo_motion_step := snd (conditionMet (tmo_motion_step m))\<rparr>"
    have ag: "agenda m = external_goal m # active_points m @ queued m"
      using goal assms by (simp add: agenda_def in_normal_idle)
    have up: "motion_inv (updateNormalGoal m') \<and>
        done_from (external_goal m # skipped_points m) (agenda m) (agenda (updateNormalGoal m'))"
      if "m' = m \<or> m' = ?m1" for m'
      using process_normal_update [of m'] assms that skipped_points_conditionMet [of m] unfolding ag
      by (auto intro!: done_from_Cons)
    have m1: "motion_inv ?m1 \<and> agenda ?m1 = agenda m"
      by (simp add: inv same_core_def agenda_def) (simp add: external_goal_def)
    show ?thesis
      using goal up [of m] up [of ?m1] m1 inv [of m]
      by (auto simp: processNormalState_def finished_normal_def completed_def sub case_prod_beta Let_def same_core_def)
  next
    case idle
    show ?thesis
    proof (cases "tq_primary_queue (tmo_trajectories m)")
      case Nil
      with idle inv [of m] show ?thesis by (simp add: processNormalState_def finished_normal_def sub same_core_def)
    next
      case (Cons tr trs)
      let ?m1 = "m\<lparr>tmo_trajectories := (tmo_trajectories m)\<lparr>tq_p_current := Some tr, tq_primary_queue := trs\<rparr>\<rparr>"
      have "active_points ?m1 @ queued ?m1 = agenda m"
        using idle Cons by (simp add: active_points_def queued_def agenda_def)
      moreover have "finished_normal m = skipped_points ?m1"
        using idle Cons by (simp add: finished_normal_def) (intro skipped_points_cong, simp_all add: active_points_def)
      ultimately show ?thesis using process_normal_update [of ?m1] assms idle Cons by (simp add: processNormalState_def sub)
    qed
  qed
qed

subsection \<open>Ramp down\<close>

text \<open>The goal that is interrupted goes back to the front of the active trajectory.\<close>

lemma storeNormalGoal_frame [simp]:
  "tmo_state_manager (storeNormalGoal m) = tmo_state_manager m" "events (storeNormalGoal m) = events m"
  "p_current (storeNormalGoal m) = None \<longleftrightarrow> p_current m = None"
  "queued (storeNormalGoal m) = queued m" "active (storeNormalGoal m) = active m"
  by (auto simp: storeNormalGoal_def Let_def queued_def split: option.split)

lemma storeNormalGoal_points:
  "p_current m \<noteq> None \<Longrightarrow> map erase (active_points (storeNormalGoal m)) = erase (external_goal m) # map erase (active_points m)"
  by (auto simp: storeNormalGoal_def Let_def active_points_def addTrajectoryPointFront_def external_goal_def)

lemma storeNormalGoal_idle: "p_current m = None \<Longrightarrow> storeNormalGoal m = m"
  by (simp add: storeNormalGoal_def)

lemma prepareRampDownGoal_external [simp]: "ms_external_goal (prepareRampDownGoal b ms) = ms_external_goal ms"
  by (simp add: prepareRampDownGoal_def Let_def)

lemma process_ramp_start:
  assumes "state_of m = (StRampDown, SubNone)" "\<not> has_pending m" "sm_inv (tmo_state_manager m)"
  shows "motion_inv (processRampDownState m)"
    and "active m \<longleftrightarrow> p_current m \<noteq> None \<Longrightarrow> map erase (agenda (processRampDownState m)) =
      map erase ((if p_current m \<noteq> None then [external_goal m] else []) @ active_points m @ queued m)"
    and "p_current m = None \<Longrightarrow> agenda (processRampDownState m) = queued m"
proof -
  let ?m1 = "m\<lparr>tmo_motion_step := prepareRampDownGoal (pe_do_stop (events m)) (tmo_motion_step m)\<rparr>"
  define m2 where "m2 = (if active m then storeNormalGoal ?m1 else ?m1)"
  let ?m3 = "m2\<lparr>tmo_data := (tmo_data m2)\<lparr>dd_has_new_goal := True, dd_has_active_goal := True\<rparr>\<rparr>"
  have sub: "sm_current_sub_state (tmo_state_manager m) = SubNone" using assms(1) by (simp add: sm_state_def)
  have p: "processRampDownState m = set_pending StRampDown SubRunning ?m3"
    by (simp add: processRampDownState_def sub Let_def m2_def)
  have m2: "tmo_state_manager m2 = tmo_state_manager m" "queued m2 = queued m" by (simp_all add: m2_def)
  have st: "state_of ?m3 = (StRampDown, SubNone)" "\<not> has_pending ?m3" using assms by (simp_all add: m2)
  have n: "\<not> in_normal (set_pending StRampDown SubRunning ?m3)" using in_normal_set [OF st] by simp
  show "motion_inv (processRampDownState m)"
    unfolding p using assms n has_pending_set [OF st(1)] by (intro motion_invI) (simp_all add: sm_inv_ops accepted_def m2)
  have ag: "agenda (processRampDownState m) = active_points m2 @ queued m"
    unfolding p agenda_def using n m2 by (simp add: active_points_def queued_def)
  show "map erase (agenda (processRampDownState m)) =
      map erase ((if p_current m \<noteq> None then [external_goal m] else []) @ active_points m @ queued m)"
    if "active m \<longleftrightarrow> p_current m \<noteq> None"
    using that storeNormalGoal_points [of ?m1] unfolding ag by (auto simp: external_goal_def m2_def)
  show "agenda (processRampDownState m) = queued m" if "p_current m = None"
    using that unfolding ag by (simp add: storeNormalGoal_idle active_points_def m2_def)
qed

lemma process_ramping:
  assumes "state_of m = (StRampDown, SubRunning)" "\<not> has_pending m" "sm_inv (tmo_state_manager m)"
  shows "motion_inv (processRampDownState m) \<and> agenda (processRampDownState m) = active_points m @ queued m"
proof -
  have sub: "sm_current_sub_state (tmo_state_manager m) = SubRunning" using assms(1) by (simp add: sm_state_def)
  have "motion_inv m" "motion_inv (set_pending StRampDown SubFinished m)"
    using assms by (auto intro!: motion_invI simp: in_normal_idle in_normal_set sm_inv_ops)
  then show ?thesis
    using assms by (simp add: processRampDownState_def sub agenda_def in_normal_idle in_normal_set)
qed

lemma processRampDownState_ramped:
  "state_of m = (StRampDown, SubFinished) \<Longrightarrow> processRampDownState m = ramped_decision (ramped_events m)"
  by (simp add: sm_state_def processRampDownState_def)

lemma ramped_events_flags:
  "pe_do_stop (events (ramped_events m)) = pe_do_stop (events m)"
  "pe_do_resume (events (ramped_events m)) = pe_do_resume (events m)"
  "pe_do_static_goal_start (events (ramped_events m)) = pe_do_static_goal_start (events m)"
  by (simp_all add: ramped_events_def Let_def)

lemma ramped_events_frame:
  "tmo_state_manager (ramped_events m) = tmo_state_manager m"
  "\<not> pe_do_discard (events m) \<Longrightarrow> active_points (ramped_events m) = active_points m \<and> queued (ramped_events m) = queued m"
  by (simp_all add: ramped_events_def Let_def active_points_def queued_def)

lemma ev_mut_simps [simp]:
  "queued (ev_mut f m) = queued m" "active_points (ev_mut f m) = active_points m" "in_normal (ev_mut f m) = in_normal m"
  "external_goal (ev_mut f m) = external_goal m"
  by (simp_all add: queued_def active_points_def in_normal_def external_goal_def)

lemma ramped_decision_ok:
  assumes "state_of m = (StRampDown, SubFinished)" "\<not> has_pending m" "sm_inv (tmo_state_manager m)"
  shows "motion_inv (ramped_decision m) \<and>
    done_from (if pe_do_stop (events m) \<and> (\<not> pe_do_resume (events m) \<or> pe_do_static_goal_start (events m)) then []
               else skipped_points m) (active_points m @ queued m) (agenda (ramped_decision m))"
proof -
  have take: "motion_inv (set_pending StNormal SubRunning (updateNormalGoal m')) \<and>
      done_from (skipped_points m) (active_points m @ queued m) (agenda (set_pending StNormal SubRunning (updateNormalGoal m')))"
    if "m' = ev_mut f m" for m' f
  proof -
    have st: "state_of (updateNormalGoal m') = (StRampDown, SubFinished)" "\<not> has_pending (updateNormalGoal m')"
      using assms that by simp_all
    have n: "in_normal (set_pending StNormal SubRunning (updateNormalGoal m'))"
      using in_normal_set [OF st] by (simp add: accepted_def)
    have "motion_inv (set_pending StNormal SubRunning (updateNormalGoal m'))"
      using assms that by (intro motion_invI) (simp_all add: sm_inv_ops updateNormalGoal_active)
    moreover have "done_from (skipped_points m') (active_points m' @ queued m') (agenda (set_pending StNormal SubRunning (updateNormalGoal m')))"
      using n by (intro agenda_takes) simp_all
    moreover have "skipped_points m' = skipped_points m" using that by (intro skipped_points_cong) simp_all
    ultimately show ?thesis using that by simp
  qed
  have static: "motion_inv (set_pending StStaticGoal SubNone (ev_mut f m)) \<and>
      agenda (set_pending StStaticGoal SubNone (ev_mut f m)) = active_points m @ queued m" for f
  proof -
    have "state_of (ev_mut f m) = (StRampDown, SubFinished)" "\<not> has_pending (ev_mut f m)" using assms by simp_all
    from in_normal_set [OF this] have n: "\<not> in_normal (set_pending StStaticGoal SubNone (ev_mut f m))" by simp
    then show ?thesis
      using assms by (auto intro!: motion_invI simp: sm_inv_ops agenda_def)
  qed
  have wait: "motion_inv m" "agenda m = active_points m @ queued m"
    using assms by (auto intro!: motion_invI simp: in_normal_idle agenda_def)
  show ?thesis
    unfolding ramped_decision_def Let_def using take static wait by auto
qed

lemma process_ramped:
  assumes "state_of m = (StRampDown, SubFinished)" "\<not> has_pending m" "sm_inv (tmo_state_manager m)"
  shows "motion_inv (processRampDownState m)"
    and "\<not> pe_do_discard (events m) \<Longrightarrow>
      done_from (finished_ramp m) (active_points m @ queued m) (agenda (processRampDownState m))"
  using ramped_decision_ok [of "ramped_events m"] ramped_events_frame [of m] assms
  by (simp_all add: processRampDownState_ramped finished_ramp_def ramped_events_flags)

subsection \<open>Static goals\<close>

lemma process_static_start:
  assumes "state_of m = (StStaticGoal, SubNone)" "\<not> has_pending m" "sm_inv (tmo_state_manager m)"
  shows "motion_inv (processStaticGoalState m) \<and> agenda (processStaticGoalState m) = active_points m @ queued m"
proof -
  define m1 where "m1 = (case p_current m of None \<Rightarrow> m
    | Some tr \<Rightarrow> m\<lparr>tmo_trajectories := (tmo_trajectories m)
        \<lparr>tq_primary_queue := tr # tq_primary_queue (tmo_trajectories m), tq_p_current := None\<rparr>\<rparr>)"
  let ?m2 = "m1\<lparr>tmo_data := (tmo_data m1)\<lparr>dd_has_active_goal := False\<rparr>\<rparr>"
  have sub: "sm_current_sub_state (tmo_state_manager m) = SubNone" using assms(1) by (simp add: sm_state_def)
  have p: "processStaticGoalState m = set_pending StStaticGoal SubRunning ?m2"
    by (simp add: processStaticGoalState_def sub Let_def m1_def)
  have m1: "tmo_state_manager m1 = tmo_state_manager m" "p_current m1 = None" "queued m1 = active_points m @ queued m"
    by (auto simp: m1_def queued_def active_points_def split: option.split)
  have st: "state_of ?m2 = (StStaticGoal, SubNone)" "\<not> has_pending ?m2" using assms by (simp_all add: m1)
  have n: "\<not> in_normal (set_pending StStaticGoal SubRunning ?m2)" using in_normal_set [OF st] by simp
  have "motion_inv (set_pending StStaticGoal SubRunning ?m2)"
    using assms n has_pending_set [OF st(1)] by (intro motion_invI) (simp_all add: m1 sm_inv_ops accepted_def)
  moreover have "agenda (set_pending StStaticGoal SubRunning ?m2) = queued m1"
    using n m1 by (simp add: agenda_def active_points_def queued_def)
  ultimately show ?thesis by (simp add: p m1)
qed

lemma static_update_frame [simp]:
  "tmo_state_manager (static_update m) = tmo_state_manager m" "p_current (static_update m) = p_current m"
  "queued (static_update m) = queued m" "active_points (static_update m) = active_points m"
  by (simp_all add: static_update_def Let_def queued_def active_points_def)

lemma process_static:
  assumes "state_of m = (StStaticGoal, ss)" "ss \<noteq> SubNone" "\<not> has_pending m" "sm_inv (tmo_state_manager m)" "p_current m = None"
  shows "motion_inv (processStaticGoalState m) \<and> agenda (processStaticGoalState m) = active_points m @ queued m"
proof -
  have ok: "motion_inv (set_pending s' ss' m') \<and> agenda (set_pending s' ss' m') = active_points m @ queued m"
    if "tmo_state_manager m' = tmo_state_manager m" "p_current m' = None" "queued m' = queued m"
      "accepted StStaticGoal ss s' ss'" "s' \<noteq> StNormal" for m' s' ss'
  proof -
    have st: "state_of m' = (StStaticGoal, ss)" "\<not> has_pending m'" using assms that by simp_all
    have n: "\<not> in_normal (set_pending s' ss' m')" using in_normal_set [OF st] that(5) by simp
    then show ?thesis
      using assms that has_pending_set [OF st(1)] by (auto intro!: motion_invI simp: sm_inv_ops agenda_def active_points_def)
  qed
  have stay: "motion_inv m' \<and> agenda m' = active_points m @ queued m"
    if "tmo_state_manager m' = tmo_state_manager m" "p_current m' = None" "queued m' = queued m" "ss = SubRunning" for m'
    using assms that by (auto intro!: motion_invI simp: in_normal_def agenda_def active_points_def)
  show ?thesis
  proof (cases ss)
    case SubRunning
    then have "sm_current_sub_state (tmo_state_manager m) = SubRunning" using assms(1) by (simp add: sm_state_def)
    with SubRunning assms(5) show ?thesis
      by (simp add: processStaticGoalState_def Let_def ok stay accepted_def)
  next
    case SubFinished
    then have "sm_current_sub_state (tmo_state_manager m) = SubFinished" using assms(1) by (simp add: sm_state_def)
    with SubFinished assms(5) show ?thesis by (simp add: processStaticGoalState_def ok accepted_def)
  qed (use assms(2) in simp)
qed

section \<open>One message\<close>

lemma process_state_of:
  "state_of m = (StNormal, ss) \<Longrightarrow> process_state m = processNormalState m"
  "state_of m = (StRampDown, ss) \<Longrightarrow> process_state m = processRampDownState m"
  "state_of m = (StStaticGoal, ss) \<Longrightarrow> process_state m = processStaticGoalState m"
  by (simp_all add: process_state_def sm_state_def)

lemma entered_simps [simp]:
  "queued (entered m) = queued m" "active_points (entered m) = active_points m" "external_goal (entered m) = external_goal m"
  by (simp_all add: queued_def active_points_def external_goal_def)

lemma process_state_ok:
  assumes "motion_inv m" "state_of m \<noteq> (StNormal, SubNone)"
  shows "motion_inv (process_state (entered m))"
    and "(state_of (entered m) = (StRampDown, SubFinished) \<Longrightarrow> \<not> pe_do_discard (events m)) \<Longrightarrow>
      done_from (finished_points (entered m)) (agenda m) (agenda (process_state (entered m)))"
proof -
  let ?e = "entered m"
  let ?kept = "state_of ?e = (StRampDown, SubFinished) \<longrightarrow> \<not> pe_do_discard (events m)"
  have e: "\<not> has_pending ?e" "sm_inv (tmo_state_manager ?e)" "p_current ?e = p_current m" "active ?e = active m"
    using sm_inv_entered [OF assms(1)] by simp_all
  have "motion_inv (process_state ?e) \<and>
    (?kept \<longrightarrow> done_from (finished_points ?e) (agenda m) (agenda (process_state ?e)))"
    using assms
  proof (cases rule: entered_cases)
    case normal
    then have "in_normal ?e" by (simp add: in_normal_def)
    with normal(2) have "agenda ?e = agenda m" by (simp add: agenda_def)
    with process_normal [OF normal(1) e(1,2)] normal e(3,4) show ?thesis
      by (simp add: process_state_of(1) [OF normal(1)] finished_points_def finished_points_def)
  next
    case ramp_from_normal
    with process_ramp_start [OF ramp_from_normal(1) e(1,2)] e(3,4) show ?thesis
      by (simp add: process_state_of(2) [OF ramp_from_normal(1)] finished_points_def done_from_def agenda_def)
  next
    case ramp_from_static
    with process_ramp_start(1,3) [OF ramp_from_static(1) e(1,2)] e(3) show ?thesis
      by (simp add: process_state_of(2) [OF ramp_from_static(1)] finished_points_def agenda_def active_points_def)
  next
    case ramping
    with process_ramping [OF ramping(1) e(1,2)] show ?thesis
      by (simp add: process_state_of(2) [OF ramping(1)] finished_points_def agenda_def)
  next
    case ramped
    with process_ramped [OF ramped(1) e(1,2)] show ?thesis
      by (simp add: process_state_of(2) [OF ramped(1)] finished_points_def agenda_def)
  next
    case static_start
    with process_static_start [OF static_start(1) e(1,2)] show ?thesis
      by (simp add: process_state_of(3) [OF static_start(1)] finished_points_def agenda_def)
  next
    case (static ss)
    with process_static [OF static(1,2) e(1,2)] e(3) show ?thesis
      by (simp add: process_state_of(3) [OF static(1)] finished_points_def agenda_def)
  qed
  then show "motion_inv (process_state ?e)"
    and "(state_of ?e = (StRampDown, SubFinished) \<Longrightarrow> \<not> pe_do_discard (events m)) \<Longrightarrow>
      done_from (finished_points ?e) (agenda m) (agenda (process_state ?e))"
    by blast+
qed

text \<open>The reset leaves no active goal, the state \<open>(Normal, None)\<close>, and no pending state.\<close>

lemma reset_components_core:
  "state_of (reset_components m) = (StNormal, SubNone)" "\<not> has_pending (reset_components m)"
  "p_current (reset_components m) = None" "\<not> active (reset_components m)"
  by (simp_all add: reset_components_def Let_def resetStateManager_def sm_state_def resetTrajectoryMotion_def split: option.split)

lemma reset_inv:
  assumes "state_of m = (StNormal, SubNone)" "\<not> has_pending m" "p_current m = None" "\<not> active m"
  shows "motion_inv m"
  using assms by (simp add: motion_inv_def sm_inv_def in_normal_def)

lemma activate_inv:
  assumes "motion_inv m" "state_of m = (StNormal, SubNone)"
  shows "motion_inv (m\<lparr>tmo_state_manager := activateStateManager (tmo_state_manager m)\<rparr>)"
    and "in_normal m = False"
proof -
  have "\<not> has_pending m" using assms by (auto simp: motion_inv_def sm_inv_def edge_simps)
  with assms show "motion_inv (m\<lparr>tmo_state_manager := activateStateManager (tmo_state_manager m)\<rparr>)"
    by (simp add: motion_inv_def in_normal_def sm_inv_def activateStateManager_def sm_state_def)
  show "in_normal m = False" using assms \<open>\<not> has_pending m\<close> by (simp add: in_normal_def)
qed

lemma verifyState_state: "verifyState s ss (tmo_state_manager m) \<longleftrightarrow> state_of m = (s, ss)"
  by (simp add: verifyState_def sm_state_def)

definition observe :: "InputContainer \<Rightarrow> TrajectoryMotion \<Rightarrow> TrajectoryMotion" where
  "observe ic m = m\<lparr>tmo_motion_step := (tmo_motion_step m)\<lparr>ms_data := (ms_data (tmo_motion_step m))
     \<lparr>pd_estimated_sample_time := ic_estimated_sample_time ic, pd_feedback := in_feedback_of (ic_current ic)\<rparr>\<rparr>\<rparr>"

lemma observe_core [simp]: "motion_inv (observe ic m) = motion_inv m" "agenda (observe ic m) = agenda m"
  "tmo_state_manager (observe ic m) = tmo_state_manager m" "tmo_data (observe ic m) = tmo_data m"
  by (auto simp: observe_def same_core_def external_goal_def agenda_def active_points_def queued_def in_normal_def
      intro!: motion_inv_core)

lemma prepare_inv:
  assumes "motion_inv m"
  shows "motion_inv (prepare ic m)" "statesOk ic \<Longrightarrow> state_of (prepare ic m) \<noteq> (StNormal, SubNone)"
    "\<not> statesOk ic \<Longrightarrow> state_of (prepare ic m) = (StNormal, SubNone)"
proof -
  define m2 where "m2 = (if ic_first_message ic then reset_components (observe ic m) else observe ic m)"
  let ?cleared = "(reset_components m2)\<lparr>tmo_trajectories := (tmo_trajectories (reset_components m2))
    \<lparr>tq_primary_queue := [], tq_temporary_queue := []\<rparr>\<rparr>"
  define m3 where "m3 = (if statesOk ic
    then if state_of m2 = (StNormal, SubNone) then m2\<lparr>tmo_state_manager := activateStateManager (tmo_state_manager m2)\<rparr> else m2
    else if state_of m2 \<noteq> (StNormal, SubNone) then ?cleared else m2)"
  have p: "prepare ic m = m3\<lparr>tmo_data := (tmo_data m3)\<lparr>dd_has_new_goal := False\<rparr>\<rparr>"
    by (simp add: prepare_def Let_def m3_def m2_def observe_def verifyState_state)
  have "motion_inv m2" using assms by (simp add: m2_def reset_inv reset_components_core)
  then have "motion_inv m3" by (auto simp: m3_def activate_inv reset_inv reset_components_core)
  then show "motion_inv (prepare ic m)" unfolding p by (subst motion_inv_core [of m3]) (simp_all add: same_core_def)
  show "statesOk ic \<Longrightarrow> state_of (prepare ic m) \<noteq> (StNormal, SubNone)"
    by (simp add: p m3_def activateStateManager_def) (simp add: sm_state_def)
  show "\<not> statesOk ic \<Longrightarrow> state_of (prepare ic m) = (StNormal, SubNone)"
    by (simp add: p m3_def reset_components_core)
qed

lemma prepare_agenda:
  assumes "motion_inv m" "\<not> ic_first_message ic" "statesOk ic"
  shows "agenda (prepare ic m) = agenda m" "events (prepare ic m) = events m"
proof -
  let ?m1 = "observe ic m"
  have p: "prepare ic m = (let m3 = if state_of m = (StNormal, SubNone)
      then ?m1\<lparr>tmo_state_manager := activateStateManager (tmo_state_manager ?m1)\<rparr> else ?m1
    in m3\<lparr>tmo_data := (tmo_data m3)\<lparr>dd_has_new_goal := False\<rparr>\<rparr>)"
    using assms(2,3) by (simp add: prepare_def Let_def observe_def verifyState_state)
  show "events (prepare ic m) = events m" by (simp add: p Let_def)
  show "agenda (prepare ic m) = agenda m"
  proof (cases "state_of m = (StNormal, SubNone)")
    case True
    then have "p_current m = None" "in_normal m = False"
      using assms(1) activate_inv(2) [OF assms(1) True] by (simp_all add: motion_inv_def)
    with True show ?thesis by (simp add: p Let_def agenda_def active_points_def queued_def observe_def)
  next
    case False
    have "agenda (m'\<lparr>tmo_data := d\<rparr>) = agenda m'" for m' d
      by (simp add: agenda_def active_points_def queued_def in_normal_def external_goal_def)
    with False show ?thesis by (simp add: p)
  qed
qed

text \<open>Interpolation and control change no part that the invariant or the agenda reads.\<close>

definition same_plan :: "TrajectoryMotion \<Rightarrow> TrajectoryMotion \<Rightarrow> bool" where
  "same_plan m m' \<longleftrightarrow> tmo_state_manager m' = tmo_state_manager m \<and> tmo_trajectories m' = tmo_trajectories m \<and>
     active m' = active m \<and> external_goal m' = external_goal m \<and> events m' = events m"

lemma same_plan_trans: "same_plan m m' \<Longrightarrow> same_plan m' m'' \<Longrightarrow> same_plan m m''"
  by (simp add: same_plan_def)

lemma same_plan_agenda: "same_plan m m' \<Longrightarrow> motion_inv m' = motion_inv m \<and> agenda m' = agenda m"
  by (simp add: same_plan_def motion_inv_def agenda_def active_points_def queued_def in_normal_def)

lemma install_goal_plan: "install_goal m = Some m' \<Longrightarrow> same_plan m m'"
  by (auto simp: install_goal_def updateInterpolator_def Let_def same_plan_def external_goal_def Option.bind_eq_Some_conv
      split: if_splits)

lemma calculate_external [simp]:
  "ms_external_goal (fst (snd (calculate outputs ms mc))) = ms_external_goal ms"
  "ms_data (fst (snd (calculate outputs ms mc))) = ms_data ms"
  by (simp_all add: calculate_def Let_def case_prod_beta split: EGMModes.split)

lemma produce_outputs_plan: "produce_outputs bq outputs m = Some (out, m') \<Longrightarrow> same_plan m m'"
  by (auto simp: produce_outputs_def evaluateInterpolator_def Let_def same_plan_def external_goal_def
      Option.bind_eq_Some_conv case_prod_beta split: if_splits)

lemma update_progress_plan: "same_plan m (update_progress out ic m)"
  by (simp add: update_progress_def Let_def same_plan_def external_goal_def)

lemma generateOutputs_plan:
  assumes "generateOutputs bq ic outputs m = Some (out, m')"
  shows "same_plan (if statesOk ic then process_state (entered (prepare ic m)) else prepare ic m) m'"
  using assms
  by (auto simp: generateOutputs_def Let_def Option.bind_eq_Some_conv
      intro: same_plan_trans [OF same_plan_trans [OF install_goal_plan produce_outputs_plan] update_progress_plan]
        update_progress_plan split: if_splits)

lemma generateOutputs_ok:
  assumes "generateOutputs bq ic outputs m = Some (out, m')" "motion_inv m"
  shows "motion_inv m'"
    and "\<not> ic_first_message ic \<Longrightarrow> statesOk ic \<Longrightarrow> \<not> pe_do_discard (events m) \<Longrightarrow>
      done_from (finished_points (entered (prepare ic m))) (agenda m) (agenda m')"
proof -
  note p = same_plan_agenda [OF generateOutputs_plan [OF assms(1)]]
  note i = prepare_inv [OF assms(2), of ic]
  show "motion_inv m'" using p i process_state_ok(1) by (cases "statesOk ic") auto
  show "done_from (finished_points (entered (prepare ic m))) (agenda m) (agenda m')"
    if "\<not> ic_first_message ic" "statesOk ic" "\<not> pe_do_discard (events m)"
    using p i(1,2) that prepare_agenda [OF assms(2) that(1,2)] process_state_ok(2) [of "prepare ic m"] by simp
qed

lemma process_state_discard:
  "\<not> pe_do_discard (events m) \<Longrightarrow> \<not> pe_do_discard (events (process_state m))"
  by (simp add: process_state_def processNormalState_def processRampDownState_def processStaticGoalState_def
      ramped_decision_def ramped_events_def static_update_def Let_def case_prod_beta storeNormalGoal_def
      split: States.split SubStates.split option.split list.split)

section \<open>Runs\<close>

text \<open>The points of the trajectories that are accepted along a run.\<close>

fun added_points :: "motion_call \<Rightarrow> TrajectoryMotion \<Rightarrow> PointGoal list" where
  "added_points (Order (AddTrajectory t ovr)) m = (if fst (addTrajectory t ovr m) then tg_points t else [])"
| "added_points _ m = []"

fun run_adds :: "boost_quaternion \<Rightarrow> motion_call list \<Rightarrow> TrajectoryMotion \<Rightarrow> PointGoal list" where
  "run_adds bq [] m = []"
| "run_adds bq (c # cs) m = added_points c m @ (case call bq c m of None \<Rightarrow> [] | Some m1 \<Rightarrow> run_adds bq cs m1)"

text \<open>The points that are finished along a run.\<close>

fun call_finishes :: "motion_call \<Rightarrow> TrajectoryMotion \<Rightarrow> PointGoal list" where
  "call_finishes (Message ic out) m = (if statesOk ic then finished_points (entered (prepare ic m)) else [])"
| "call_finishes _ m = []"

fun run_finishes :: "boost_quaternion \<Rightarrow> motion_call list \<Rightarrow> TrajectoryMotion \<Rightarrow> PointGoal list" where
  "run_finishes bq [] m = []"
| "run_finishes bq (c # cs) m = call_finishes c m @ (case call bq c m of None \<Rightarrow> [] | Some m1 \<Rightarrow> run_finishes bq cs m1)"

text \<open>Calls that order no discard, and messages that do not reset the motion.\<close>

fun keeps :: "motion_call \<Rightarrow> bool" where
  "keeps (Order (AddTrajectory t ovr)) = (\<not> ovr)"
| "keeps (Order (StopTrajectory d)) = (\<not> d)"
| "keeps (Order (StartStaticGoal d)) = (\<not> d)"
| "keeps (Message ic out) = (\<not> ic_first_message ic \<and> statesOk ic)"
| "keeps _ = True"

lemmas order_defs = addTrajectory_def stopTrajectory_def resumeTrajectory_def updateDurationFactor_def
  startStaticGoal_def setStaticGoal_position_def setStaticGoal_velocity_def finishStaticGoal_def
  retrieveExecutionProgress_def

text \<open>An order changes events and queues only.\<close>

lemma give_frame:
  "tmo_state_manager (snd (give x m)) = tmo_state_manager m" "p_current (snd (give x m)) = p_current m"
  "active (snd (give x m)) = active m" "tmo_motion_step (snd (give x m)) = tmo_motion_step m"
  "tmo_controller (snd (give x m)) = tmo_controller m" "tmo_configurations (snd (give x m)) = tmo_configurations m"
  by (cases x; simp add: order_defs Let_def)+

lemma give_inv: "motion_inv m \<Longrightarrow> motion_inv (snd (give x m))"
  using motion_inv_core [of m "snd (give x m)"] by (simp add: same_core_def give_frame)

lemma give_discard: "keeps (Order x) \<Longrightarrow> \<not> pe_do_discard (events m) \<Longrightarrow> \<not> pe_do_discard (events (snd (give x m)))"
  by (cases x) (simp_all add: order_defs Let_def)

lemma give_queued:
  "keeps (Order x) \<Longrightarrow> \<not> pe_do_discard (events m) \<Longrightarrow> queued (snd (give x m)) = queued m @ added_points (Order x) m"
  by (cases x) (simp_all add: order_defs Let_def queued_def)

lemma give_agenda:
  assumes "keeps (Order x)" "\<not> pe_do_discard (events m)"
  shows "agenda (snd (give x m)) = agenda m @ added_points (Order x) m"
  unfolding agenda_def give_queued [OF assms]
  by (simp add: active_points_def in_normal_def external_goal_def give_frame)

lemma updateConfigurations_plan: "same_plan m (updateConfigurations cfg m)"
  by (simp add: same_plan_def updateConfigurations_def external_goal_def updateConfigurations_step_def)

lemma call_inv:
  assumes "call bq c m = Some m'" "motion_inv m"
  shows "motion_inv m'"
  using assms by (cases c) (auto simp: give_inv same_plan_agenda [OF updateConfigurations_plan] dest: generateOutputs_ok(1))

lemma call_keeps:
  assumes "call bq c m = Some m'" "motion_inv m" "keeps c" "\<not> pe_do_discard (events m)"
  shows "done_from (call_finishes c m) (agenda m @ added_points c m) (agenda m') \<and> \<not> pe_do_discard (events m')"
proof (cases c)
  case (Order x)
  with give_agenda [of x m] give_discard [of x m] assms show ?thesis by auto
next
  case (Message ic out)
  then obtain o' where g: "generateOutputs bq ic out m = Some (o', m')" using assms(1) by auto
  have "events m' = events (process_state (entered (prepare ic m)))"
    using generateOutputs_plan [OF g] Message assms(3) by (simp add: same_plan_def)
  moreover have "\<not> pe_do_discard (events (entered (prepare ic m)))"
    using prepare_agenda(2) [OF assms(2)] Message assms(3,4) by simp
  ultimately have "\<not> pe_do_discard (events m')" using process_state_discard by simp
  with generateOutputs_ok(2) [OF g assms(2)] Message assms(3,4) show ?thesis by simp
next
  case (Reconfigure cfg)
  with updateConfigurations_plan [of m cfg] assms(1,4) show ?thesis by (auto simp: same_plan_agenda) (simp add: same_plan_def)
qed

lemma run_keeps:
  "run bq cs m = Some m' \<Longrightarrow> motion_inv m \<Longrightarrow> list_all keeps cs \<Longrightarrow> \<not> pe_do_discard (events m) \<Longrightarrow>
     done_from (run_finishes bq cs m) (agenda m @ run_adds bq cs m) (agenda m')"
proof (induction cs arbitrary: m)
  case Nil
  then show ?case by simp
next
  case (Cons c cs)
  from Cons.prems(1) obtain m1 where c: "call bq c m = Some m1" "run bq cs m1 = Some m'"
    by (auto simp: Option.bind_eq_Some_conv)
  have k: "done_from (call_finishes c m) (agenda m @ added_points c m) (agenda m1)" "\<not> pe_do_discard (events m1)"
    using call_keeps [OF c(1)] Cons.prems by simp_all
  have "done_from (run_finishes bq cs m1) (agenda m1 @ run_adds bq cs m1) (agenda m')"
    using Cons.IH [OF c(2)] call_inv [OF c(1)] Cons.prems k(2) by simp
  with done_from_append [OF k(1), of "run_adds bq cs m1"] show ?case
    by (auto simp: c(1) intro: done_from_trans)
qed

end
