(* ===== verification/EGM_Execution.thy ===== *)
theory EGM_Execution
  imports EGM_Agenda
begin

text \<open>
  Properties of the trajectory execution over its whole life, from the lemmas on single messages and orders:
  the consistency of the reachable states, the fate of the trajectory points, and the limits of the duration factor.
\<close>

declare ramped_events_flags [simp]

section \<open>Reachable states\<close>

abbreviation new_motion :: "TrajectoryMotion \<Rightarrow> bool" where
  "new_motion m \<equiv> (\<exists>off c. m = init_TrajectoryMotion off c)"

interpretation motion_sys: inv_system new_motion "motion_step bq" motion_inv for bq
proof
  show "motion_inv m'" if "motion_inv m" "motion_step bq m m'" for m m'
    using that(2,1) by (cases rule: motion_step.cases) (rule call_inv)
qed (auto simp: motion_inv_init)

lemma reach_run:
  "run bq cs m = Some m' \<Longrightarrow> reach new_motion (motion_step bq) m \<Longrightarrow> reach new_motion (motion_step bq) m'"
proof (induction cs arbitrary: m)
  case (Cons c cs)
  from Cons.prems(1) obtain m1 where "call bq c m = Some m1" "run bq cs m1 = Some m'" by (auto simp: Option.bind_eq_Some_conv)
  then show ?case using Cons.IH Cons.prems(2) by (blast intro: reach_step motion_call)
qed simp

text \<open>
  C12: The state of the trajectory execution is consistent after any sequence of messages, orders and
  configuration updates: the state \<open>(Normal, Finished)\<close> never occurs; in \<open>(Normal, None)\<close> there is no active
  trajectory and no active goal; in \<open>(Normal, Running)\<close> there is an active goal exactly if there is an active
  trajectory; while a static goal is followed there is no active trajectory; and the three transient
  states always have a pending successor.
\<close>

theorem reachable_states_consistent:
  assumes "reach new_motion (motion_step bq) m"
  shows "state_of m \<noteq> (StNormal, SubFinished) \<and>
    (state_of m = (StNormal, SubNone) \<longrightarrow> p_current m = None \<and> \<not> active m) \<and>
    (state_of m = (StNormal, SubRunning) \<longrightarrow> (active m \<longleftrightarrow> p_current m \<noteq> None)) \<and>
    (fst (state_of m) = StStaticGoal \<longrightarrow> p_current m = None) \<and>
    (state_of m \<in> {(StRampDown, SubNone), (StStaticGoal, SubNone), (StStaticGoal, SubFinished)} \<longrightarrow>
       has_pending m \<and> edge (state_of m) (pending_of m))"
  using motion_sys.reach_inv [OF assms] by (auto simp: motion_inv_def sm_inv_def in_normal_def)

definition idle_input :: InputContainer where
  "idle_input = init_InputContainer\<lparr>ic_current := default_Input
     \<lparr>in_status := Some (default_Status\<lparr>egm_state := Some EGM_RUNNING, motor_state := Some MOTORS_ON,
        rapid_execution_state := Some RAPID_RUNNING\<rparr>)\<rparr>\<rparr>"

definition sample_points :: "PointGoal list" where
  "sample_points = [flat_goal 6 0 (Fin 1), flat_goal 6 0 (Fin 2)]"

abbreviation new_sample :: TrajectoryMotion where
  "new_sample \<equiv> init_TrajectoryMotion 0 (make_TrajectoryConfiguration default_BaseConfiguration)"

lemma idle_input_ok [simp]: "statesOk idle_input" "\<not> ic_first_message idle_input"
  by (simp_all add: idle_input_def statesOk_def init_InputContainer_def)

lemma sample_start:
  obtains m where "call bq (Message idle_input default_Output) new_sample = Some m"
    "state_of m = (StNormal, SubRunning)" "\<not> active m" "p_current m = None" "queued m = []" "\<not> has_pending m"
    "\<not> pe_do_discard (events m)"
  by (simp add: generateOutputs_def prepare_def Let_def init_TrajectoryMotion_def init_DecisionData_def init_PendingEvents_def
      verifyState_def init_StateManager_def activateStateManager_def updateState_def process_state_def processNormalState_def
      install_goal_def produce_outputs_def update_progress_def sm_state_def queued_def)

theorem reachable_states_consistent_witness:
  "\<exists>m. reach new_motion (motion_step hamilton) m \<and> state_of m = (StNormal, SubRunning) \<and> (active m \<longleftrightarrow> p_current m \<noteq> None)"
proof -
  obtain m where m: "call hamilton (Message idle_input default_Output) new_sample = Some m" "state_of m = (StNormal, SubRunning)"
    by (rule sample_start)
  have "reach new_motion (motion_step hamilton) m"
    by (rule reach_step [of _ _ new_sample], rule reach_init, blast, rule motion_call, rule m(1))
  with reachable_states_consistent [OF this] m(2) show ?thesis by blast
qed

section \<open>The trajectory points\<close>

text \<open>
  C2: No trajectory point is lost, repeated or reordered. In a run without discard orders, overriding
  trajectories and resets, from any reachable state in which no discard is pending: what was still to be
  executed before, followed by the points of the trajectories accepted during the run, is what was finished during
  the run, followed by what is still to be executed afterwards. A point is finished only when its duration has
  passed and, if it has to be reached, its reach condition holds, or when its reach condition already holds as it
  is to be taken. Stops, resumptions, changes of the duration factor and static goals may occur in any number and
  order; points are compared up to their duration, which an interruption changes.
\<close>

theorem no_point_is_lost:
  assumes "reach new_motion (motion_step bq) m" "\<not> pe_do_discard (events m)"
    and "run bq cs m = Some m'" "list_all keeps cs"
  shows "map erase (agenda m @ run_adds bq cs m) = map erase (run_finishes bq cs m @ agenda m')"
  using run_keeps [OF assms(3) motion_sys.reach_inv [OF assms(1)] assms(4,2)] by (simp only: done_from_def)

theorem no_point_is_lost_witness:
  "\<exists>m'. run hamilton [Message idle_input default_Output, Order (AddTrajectory \<lparr>tg_points = sample_points\<rparr> False)] new_sample = Some m'
    \<and> map erase (agenda m') = map erase sample_points"
proof -
  let ?cs = "[Message idle_input default_Output, Order (AddTrajectory \<lparr>tg_points = sample_points\<rparr> False)]"
  obtain m where m: "call hamilton (Message idle_input default_Output) new_sample = Some m" "state_of m = (StNormal, SubRunning)"
    by (rule sample_start)
  then obtain m' where r: "run hamilton ?cs new_sample = Some m'"
    by (simp only: run.simps m(1) Option.bind.bind_lunit call.simps(1))
  have "fst (addTrajectory t ovr m)" for t ovr using m(2) by (simp add: addTrajectory_def Let_def verifyState_state)
  then have adds: "run_adds hamilton ?cs new_sample = sample_points"
    by (simp only: run_adds.simps m(1) option.case added_points.simps call.simps(1)) simp
  have fin: "finished_points (entered (prepare idle_input new_sample)) = []"
    by (simp add: finished_points_def finished_normal_def sm_state_def prepare_def Let_def init_TrajectoryMotion_def init_DecisionData_def
        init_PendingEvents_def verifyState_def init_StateManager_def activateStateManager_def updateState_def)
  then have "run_finishes hamilton ?cs new_sample = []"
    by (simp only: run_finishes.simps m(1) option.case call_finishes.simps call.simps(1)) simp
  moreover have "\<not> pe_do_discard (events new_sample)" "agenda new_sample = []"
    by (simp_all add: init_TrajectoryMotion_def init_DecisionData_def init_PendingEvents_def agenda_def active_points_def queued_def)
  moreover have "reach new_motion (motion_step hamilton) new_sample" by (rule reach_init) blast
  ultimately show ?thesis using no_point_is_lost [of hamilton new_sample ?cs m'] r adds by auto
qed

section \<open>The duration factor\<close>

definition limited :: "double \<Rightarrow> bool" where
  "limited f \<longleftrightarrow> DURATION_FACTOR_MIN \<le> f \<and> f \<le> DURATION_FACTOR_MAX"

abbreviation factor :: "TrajectoryMotion \<Rightarrow> double" where
  "factor m \<equiv> pd_duration_factor (ms_data (tmo_motion_step m))"

definition factor_inv :: "TrajectoryMotion \<Rightarrow> bool" where
  "factor_inv m \<longleftrightarrow> limited (factor m) \<and> limited (pe_duration_factor (events m))"

lemma factor_inv_init: "factor_inv (init_TrajectoryMotion off c)"
  by (simp add: factor_inv_def init_TrajectoryMotion_def init_MotionStep_def init_ProcessData_def init_DecisionData_def
      init_PendingEvents_def limited_def DURATION_FACTOR_MIN_def DURATION_FACTOR_MAX_def)

lemma factor_prepareNormalGoal [simp]:
  "pd_duration_factor (ms_data (prepareNormalGoal l ms)) = pd_duration_factor (ms_data ms)"
  by (simp add: prepareNormalGoal_def Let_def estimateDuration_def)

lemma factor_loop: "pd_duration_factor (ms_data (snd (snd (normal_goal_loop l ps ms)))) = pd_duration_factor (ms_data ms)"
  by (induction ps arbitrary: ms) (auto simp: normal_goal_loop_simps)

lemma factor_updateNormalGoal [simp]: "factor (updateNormalGoal m) = factor m"
  by (simp add: updateNormalGoal_def Let_def case_prod_beta factor_loop retriveNextTrajectoryPoint_def
      split: option.split list.split)

lemma factor_goals [simp]:
  "ms_data (prepareRampDownGoal b ms) = ms_data ms"
  "pd_duration_factor (ms_data (prepareStaticGoal_position p b ms)) = pd_duration_factor (ms_data ms)"
  "pd_duration_factor (ms_data (prepareStaticGoal_velocity v b ms)) = pd_duration_factor (ms_data ms)"
  "pd_duration_factor (ms_data (resetMotionStep ms)) = pd_duration_factor (ms_data ms)"
  by (simp_all add: prepareRampDownGoal_def prepareStaticGoal_position_def prepareStaticGoal_velocity_def resetMotionStep_def Let_def)

lemma factor_storeNormalGoal [simp]: "factor (storeNormalGoal m) = factor m"
  by (simp add: storeNormalGoal_def Let_def split: option.split)

text \<open>The states: only the end of a ramp down changes the factor, to the pending one.\<close>

lemma factor_ramped: "factor_inv m \<Longrightarrow> factor_inv (ramped_decision (ramped_events m))"
  by (auto simp: factor_inv_def ramped_decision_def ramped_events_def Let_def)

lemma factor_normal: "factor_inv m \<Longrightarrow> factor_inv (processNormalState m)"
  by (auto simp: factor_inv_def processNormalState_def Let_def case_prod_beta split: SubStates.split option.split list.split)

lemma factor_ramp: "factor_inv m \<Longrightarrow> factor_inv (processRampDownState m)"
  using factor_ramped [of m] by (auto simp: processRampDownState_def Let_def split: SubStates.split) (simp_all add: factor_inv_def)

lemma factor_static: "factor_inv m \<Longrightarrow> factor_inv (processStaticGoalState m)"
  by (auto simp: factor_inv_def processStaticGoalState_def static_update_def Let_def split: SubStates.split option.split)

lemma factor_process: "factor_inv m \<Longrightarrow> factor_inv (process_state m)"
  by (simp add: process_state_def factor_normal factor_ramp factor_static split: States.split)

lemma factor_prepare: "factor_inv m \<Longrightarrow> factor_inv (prepare ic m)"
  by (simp add: factor_inv_def prepare_def Let_def reset_components_def resetTrajectoryMotion_def split: option.split)

lemma factor_outputs:
  "install_goal m = Some m1 \<Longrightarrow> factor_inv m1 = factor_inv m"
  "produce_outputs bq outputs m = Some (out, m2) \<Longrightarrow> factor_inv m2 = factor_inv m"
  "factor_inv (update_progress out ic m) = factor_inv m"
  by (auto simp: factor_inv_def install_goal_def produce_outputs_def updateInterpolator_def evaluateInterpolator_def
      update_progress_def Let_def Option.bind_eq_Some_conv case_prod_beta split: if_splits)

lemma factor_generateOutputs:
  assumes "generateOutputs bq ic outputs m = Some (out, m')" "factor_inv m"
  shows "factor_inv m'"
proof -
  have p: "factor_inv (prepare ic m)" using assms(2) by (rule factor_prepare)
  then have "factor_inv (entered (prepare ic m))" by (simp add: factor_inv_def)
  then have "factor_inv (process_state (entered (prepare ic m)))" by (rule factor_process)
  with p assms(1) show ?thesis
    by (auto simp: generateOutputs_def Let_def Option.bind_eq_Some_conv factor_outputs split: if_splits)
qed

fun proper_factor :: "motion_call \<Rightarrow> bool" where
  "proper_factor (Order (UpdateDurationFactor f)) = (f \<noteq> NaN)"
| "proper_factor _ = True"

lemma factor_give: "factor_inv m \<Longrightarrow> proper_factor (Order x) \<Longrightarrow> factor_inv (snd (give x m))"
  using saturate_bounds [of DURATION_FACTOR_MIN DURATION_FACTOR_MAX]
  by (cases x) (simp_all add: factor_inv_def order_defs Let_def limited_def DURATION_FACTOR_MIN_def DURATION_FACTOR_MAX_def)

lemma factor_call:
  assumes "call bq c m = Some m'" "factor_inv m" "proper_factor c"
  shows "factor_inv m'"
proof (cases c)
  case (Reconfigure cfg)
  with assms show ?thesis by (auto simp: factor_inv_def updateConfigurations_def updateConfigurations_step_def)
qed (use assms factor_give factor_generateOutputs in auto)

lemma factor_run: "run bq cs m = Some m' \<Longrightarrow> factor_inv m \<Longrightarrow> list_all proper_factor cs \<Longrightarrow> factor_inv m'"
  by (induction cs arbitrary: m) (auto simp: Option.bind_eq_Some_conv dest: factor_call simp del: call.simps)

text \<open>
  The factor that scales the durations of all goals stays between 1 and 5 over the whole life of a
  \<open>TrajectoryMotion\<close>, whatever factors the user orders, infinite ones included, as long as none is NaN.
\<close>

theorem duration_factor_limited:
  assumes "run bq cs (init_TrajectoryMotion off c) = Some m" "list_all proper_factor cs"
  shows "Fin 1 \<le> pd_duration_factor (ms_data (tmo_motion_step m)) \<and> pd_duration_factor (ms_data (tmo_motion_step m)) \<le> Fin 5"
  using factor_run [OF assms(1) factor_inv_init assms(2)]
  by (simp add: factor_inv_def limited_def DURATION_FACTOR_MIN_def DURATION_FACTOR_MAX_def)

theorem duration_factor_limited_witness:
  "\<exists>m. run hamilton [Order (UpdateDurationFactor PInf)] new_sample = Some m \<and>
     Fin 1 \<le> pd_duration_factor (ms_data (tmo_motion_step m)) \<and> pd_duration_factor (ms_data (tmo_motion_step m)) \<le> Fin 5"
  using duration_factor_limited [of hamilton "[Order (UpdateDurationFactor PInf)]" 0
      "make_TrajectoryConfiguration default_BaseConfiguration"]
  by simp

text \<open>
  A factor that is not a number passes the limits: in the running normal state \<open>updateDurationFactor\<close>
  accepts NaN, and \<open>saturate\<close> hands it on as the factor of all later goals.
\<close>

theorem duration_factor_NaN_accepted:
  assumes "state_of m = (StNormal, SubRunning)"
  shows "\<exists>m'. updateDurationFactor NaN m = (True, m') \<and> pe_do_duration_factor_update (events m') \<and>
    pe_duration_factor (events m') = NaN"
  using assms by (simp add: updateDurationFactor_def Let_def verifyState_state)

theorem duration_factor_NaN_accepted_witness:
  "\<exists>m'. updateDurationFactor NaN (busy_motion\<lparr>tmo_state_manager := activateStateManager init_StateManager\<rparr>) = (True, m') \<and>
    pe_duration_factor (events m') = NaN"
  using duration_factor_NaN_accepted [of "busy_motion\<lparr>tmo_state_manager := activateStateManager init_StateManager\<rparr>"]
  by (auto simp: activateStateManager_def sm_state_def)

end
