(* ===== verification/EGM_Motion_Safety.thy ===== *)
theory EGM_Motion_Safety
  imports EGM_Agenda
begin

text \<open>
  Memory safety of the trajectory execution: while the joint counts of the messages of a session stay the same
  and fit the interpolator, no step of \<open>TrajectoryMotion\<close> accesses a repeated field or the array of spline
  polynomials out of range, whatever the user orders. The invariant says that the internal goal and the
  interpolation have the joint counts of the feedback.
\<close>

section \<open>Shapes of goals\<close>

lemma length_copyPresent_Joints [simp]: "length (jvalues (copyPresent_Joints t s)) = length (jvalues t)"
  by (simp add: min_def)

lemma joint_shape_transfer [simp]: "joint_shape n (transfer_joints source j) = joint_shape n j"
  by (simp add: joint_shape_def transfer_joints_def del: copyPresent_Joints_values)

lemma goal_shape_transfer [simp]:
  "goal_shape nr ne (transfer_RobotGoal r g) = goal_shape nr ne g"
  "goal_shape nr ne (transfer_ExternalGoal e g) = goal_shape nr ne g"
  "goal_shape nr ne (transfer_StaticPositionGoal p g) = goal_shape nr ne g"
  "goal_shape nr ne (transfer_StaticVelocityGoal v g) = goal_shape nr ne g"
  by (simp_all add: goal_shape_def transfer_RobotGoal_def transfer_ExternalGoal_def transfer_StaticPositionGoal_def
      transfer_StaticVelocityGoal_def Let_def joint_shape_def transfer_joints_def del: copyPresent_Joints_values)

lemma goal_shape_reset_derivatives:
  "goal_shape nr ne (reset_derivatives nr ne g) \<longleftrightarrow>
     length (robot_positions g) = nr \<and> length (external_positions g) = ne"
  by (auto simp: goal_shape_def reset_derivatives_def Let_def joint_shape_def robot_positions_def external_positions_def)

lemma goal_shape_positions:
  "goal_shape nr ne g \<Longrightarrow> length (robot_positions g) = nr \<and> length (external_positions g) = ne"
  by (simp add: goal_shape_def joint_shape_def robot_positions_def external_positions_def)

lemma goal_shape_fields [simp]:
  "goal_shape nr ne (g\<lparr>pg_reach := r\<rparr>) = goal_shape nr ne g"
  "goal_shape nr ne (g\<lparr>pg_duration := d\<rparr>) = goal_shape nr ne g"
  by (simp_all add: goal_shape_def)

section \<open>The motion step\<close>

definition feedback_sizes :: "nat \<Rightarrow> nat \<Rightarrow> Feedback \<Rightarrow> bool" where
  "feedback_sizes nr ne fb \<longleftrightarrow>
     length (jvalues (js_position_of (rob_joints_of (fb_robot_of fb)))) = nr \<and>
     length (jvalues (js_position_of (ext_joints_of (fb_external_of fb)))) = ne"

definition step_shaped :: "nat \<Rightarrow> nat \<Rightarrow> MotionStep \<Rightarrow> bool" where
  "step_shaped nr ne ms \<longleftrightarrow> goal_shape nr ne (ms_internal_goal ms) \<and> goal_shape nr ne (ms_interpolation ms) \<and>
     feedback_sizes nr ne (fdb ms) \<and> length (ip_spline_polynomials (ms_interpolator ms)) = MAX_NUMBER_OF_SPLINES"

definition offset_ok :: "nat \<Rightarrow> EGMInterpolator \<Rightarrow> bool" where
  "offset_ok nr ip \<longleftrightarrow> (cond_operation (ip_conditions ip) \<in> {OpNormal, OpRampDown} \<longrightarrow> ip_offset ip = nr)"

lemma resetMotionStep_shaped:
  assumes "feedback_sizes nr ne (fdb ms)" "length (ip_spline_polynomials (ms_interpolator ms)) = MAX_NUMBER_OF_SPLINES"
  shows "step_shaped nr ne (resetMotionStep ms)"
proof -
  have "goal_shape nr ne (ms_internal_goal (resetMotionStep ms))"
    using assms(1) by (simp add: resetMotionStep_def Let_def feedback_sizes_def goal_shape_reset_derivatives
        robot_positions_def external_positions_def)
  then show ?thesis using assms by (simp add: step_shaped_def resetMotionStep_def Let_def)
qed

lemma conditionMet_shaped [simp]: "step_shaped nr ne (snd (conditionMet ms)) = step_shaped nr ne ms"
  by (simp add: step_shaped_def)

lemma external_goal_shaped [simp]: "step_shaped nr ne (ms\<lparr>ms_external_goal := p\<rparr>) = step_shaped nr ne ms"
  by (simp add: step_shaped_def)

lemma prepareNormalGoal_shaped:
  assumes "step_shaped nr ne ms"
  shows "step_shaped nr ne (prepareNormalGoal last_point ms)"
    "ms_interpolator (prepareNormalGoal last_point ms) = ms_interpolator ms"
proof -
  have sizes: "length (jvalues (fdb_robot_position ms)) = nr" "length (jvalues (fdb_external_position ms)) = ne"
    using assms by (simp_all add: step_shaped_def feedback_sizes_def)
  have r: "goal_shape nr ne (reset_derivatives nr ne g)" if "goal_shape nr ne g" for g
    using goal_shape_positions [OF that] by (simp add: goal_shape_reset_derivatives)
  show "step_shaped nr ne (prepareNormalGoal last_point ms)"
    using assms by (auto simp: step_shaped_def prepareNormalGoal_def Let_def estimateDuration_def sizes intro!: r)
  show "ms_interpolator (prepareNormalGoal last_point ms) = ms_interpolator ms"
    by (simp add: prepareNormalGoal_def Let_def estimateDuration_def)
qed

lemma prepare_goals_shaped [simp]:
  "step_shaped nr ne (prepareRampDownGoal b ms) = step_shaped nr ne ms"
  "step_shaped nr ne ms \<Longrightarrow> step_shaped nr ne (prepareStaticGoal_position p b ms)"
  "step_shaped nr ne ms \<Longrightarrow> step_shaped nr ne (prepareStaticGoal_velocity v b ms)"
  by (simp_all add: step_shaped_def prepareRampDownGoal_def prepareStaticGoal_position_def
      prepareStaticGoal_velocity_def Let_def)

lemma prepareRampDownGoal_interpolator [simp]: "ms_interpolator (prepareRampDownGoal b ms) = ms_interpolator ms"
  by (simp add: prepareRampDownGoal_def Let_def)

lemma normal_goal_loop_shaped:
  "step_shaped nr ne ms \<Longrightarrow> step_shaped nr ne (snd (snd (normal_goal_loop l ps ms)))"
  by (induction ps arbitrary: ms) (auto simp: normal_goal_loop_simps prepareNormalGoal_shaped)

lemma updateInterpolator_shaped:
  assumes "step_shaped nr ne ms" "nr + ne \<le> MAX_NUMBER_OF_SPLINES"
  shows "\<exists>ms'. updateInterpolator ms = Some ms' \<and> step_shaped nr ne ms' \<and> offset_ok nr (ms_interpolator ms')"
proof -
  let ?i = "(ms_interpolation ms)\<lparr>pg_reach := Some (pg_reach_of (ms_internal_goal ms)),
    pg_duration := Some (cond_duration (ms_interpolator_conditions ms))\<rparr>"
  have "goal_shape nr ne ?i" "goal_shape nr ne (ms_internal_goal ms)"
    "length (ip_spline_polynomials (ms_interpolator ms)) = MAX_NUMBER_OF_SPLINES"
    using assms(1) by (simp_all add: step_shaped_def goal_shape_def)
  from EGMInterpolator_update_Some [OF this assms(2), of "ms_interpolator_conditions ms"] assms(1) show ?thesis
    by (auto simp: updateInterpolator_def Let_def step_shaped_def offset_ok_def)
qed

lemma evaluateInterpolator_shaped:
  assumes "step_shaped nr ne ms" "nr + ne \<le> MAX_NUMBER_OF_SPLINES" "offset_ok nr (ms_interpolator ms)"
  shows "\<exists>ms'. evaluateInterpolator bq ms = Some ms' \<and> step_shaped nr ne ms' \<and> offset_ok nr (ms_interpolator ms')"
proof -
  have "goal_shape nr ne (ms_interpolation ms)"
    "length (ip_spline_polynomials (ms_interpolator ms)) = MAX_NUMBER_OF_SPLINES"
    using assms(1) by (simp_all add: step_shaped_def)
  from EGMInterpolator_evaluate_Some [OF this assms(2)] assms(3) obtain out where
    "EGMInterpolator_evaluate bq (ms_interpolator ms) (ms_interpolation ms) (pd_estimated_sample_time (ms_data ms))
       (pd_time_passed (ms_data ms) + pd_estimated_sample_time (ms_data ms)) = Some out" "goal_shape nr ne out"
    unfolding offset_ok_def by blast
  with assms(1,3) show ?thesis by (simp add: evaluateInterpolator_def Let_def step_shaped_def)
qed

section \<open>The controller keeps the shape of the references\<close>

lemma calculate_Joints_length:
  "length (jvalues (snd (calculate_Joints mc fb s st))) = length (jvalues (snd st))"
  unfolding calculate_Joints_def
  by (rule for_range_inv [where P = "\<lambda>x. length (jvalues (snd x)) = length (jvalues (snd st))"])
    (auto simp: Let_def case_prod_beta)

lemma calc_shape [simp]:
  "goal_shape nr ne (snd (calc_robot_position mc fb st)) = goal_shape nr ne (snd st)"
  "goal_shape nr ne (snd (calc_external_position mc fb st)) = goal_shape nr ne (snd st)"
  "goal_shape nr ne (snd (calc_robot_velocity mc fb st)) = goal_shape nr ne (snd st)"
  "goal_shape nr ne (snd (calc_external_velocity mc fb st)) = goal_shape nr ne (snd st)"
  "goal_shape nr ne (snd (calc_pose_position mc fb st)) = goal_shape nr ne (snd st)"
  "goal_shape nr ne (snd (calc_pose_orientation mc fb st)) = goal_shape nr ne (snd st)"
  "goal_shape nr ne (snd (calc_linear_velocity mc fb st)) = goal_shape nr ne (snd st)"
  "goal_shape nr ne (snd (calc_angular_velocity mc fb st)) = goal_shape nr ne (snd st)"
  by (simp_all add: calc_robot_position_def calc_external_position_def calc_robot_velocity_def
      calc_external_velocity_def calc_pose_position_def calc_pose_orientation_def calc_linear_velocity_def
      calc_angular_velocity_def Let_def case_prod_beta goal_shape_def joint_shape_def calculate_Joints_length)

lemma checkForVelocityTransition_shape [simp]:
  "goal_shape nr ne (fst (checkForVelocityTransition refs mc)) = goal_shape nr ne refs"
  by (simp add: checkForVelocityTransition_def Let_def goal_shape_def joint_shape_def)

lemma controller_frame [simp]:
  "mc_initial_references (snd (checkForVelocityTransition refs mc)) = mc_initial_references mc"
  "mc_k (snd (checkForVelocityTransition refs mc)) = mc_k mc"
  "mc_initial_references (scale_factors t b mc) = mc_initial_references mc" "mc_k (scale_factors t b mc) = mc_k mc"
  by (simp_all add: checkForVelocityTransition_def scale_factors_def Let_def)

lemma calculate_shaped:
  assumes "calculate outputs ms mc = (out, ms', mc')"
  shows "step_shaped nr ne ms' = step_shaped nr ne ms" "ms_interpolator ms' = ms_interpolator ms"
    "mc_initial_references mc' = mc_initial_references mc"
  using assms
  by (auto simp: calculate_def Let_def case_prod_beta step_shaped_def split: EGMModes.splits)

section \<open>The trajectory motion\<close>

text \<open>
  Between two messages: an active goal has an interpolator that was set up for these joint counts, and so have the
  references the controller started with.
\<close>

definition motion_shaped :: "nat \<Rightarrow> nat \<Rightarrow> TrajectoryMotion \<Rightarrow> bool" where
  "motion_shaped nr ne m \<longleftrightarrow> step_shaped nr ne (tmo_motion_step m) \<and>
     (dd_has_active_goal (tmo_data m) \<longrightarrow> offset_ok nr (ms_interpolator (tmo_motion_step m)) \<and>
        goal_shape nr ne (mc_initial_references (tmo_controller m)))"

text \<open>While a message is processed: a goal that is not new has one.\<close>

definition motion_ready :: "nat \<Rightarrow> nat \<Rightarrow> TrajectoryMotion \<Rightarrow> bool" where
  "motion_ready nr ne m \<longleftrightarrow> step_shaped nr ne (tmo_motion_step m) \<and>
     (dd_has_active_goal (tmo_data m) \<and> \<not> dd_has_new_goal (tmo_data m) \<longrightarrow>
        offset_ok nr (ms_interpolator (tmo_motion_step m)) \<and>
        goal_shape nr ne (mc_initial_references (tmo_controller m)))"

lemma motion_ready_pending [simp]: "motion_ready nr ne (set_pending s ss m) = motion_ready nr ne m"
  by (simp add: motion_ready_def)

lemma motion_ready_events [simp]: "motion_ready nr ne (ev_mut f m) = motion_ready nr ne m"
  by (simp add: motion_ready_def)

lemma motion_ready_trajectories [simp]: "motion_ready nr ne (m\<lparr>tmo_trajectories := tq\<rparr>) = motion_ready nr ne m"
  by (simp add: motion_ready_def)

lemma updateNormalGoal_ready:
  "step_shaped nr ne (tmo_motion_step m) \<Longrightarrow> motion_ready nr ne (updateNormalGoal m)"
  using normal_goal_loop_shaped [of nr ne]
  by (auto simp: motion_ready_def updateNormalGoal_def Let_def case_prod_beta retriveNextTrajectoryPoint_def
      prepareNormalGoal_shaped split: option.split list.split)

lemma storeNormalGoal_ready [simp]: "motion_ready nr ne (storeNormalGoal m) = motion_ready nr ne m"
  by (simp add: motion_ready_def storeNormalGoal_def Let_def split: option.split)

lemma processNormalState_ready:
  assumes "motion_ready nr ne m" shows "motion_ready nr ne (processNormalState m)"
proof -
  have "step_shaped nr ne (tmo_motion_step m)" using assms by (simp add: motion_ready_def)
  then have up: "motion_ready nr ne (updateNormalGoal m)" "motion_ready nr ne (updateNormalGoal (m\<lparr>tmo_trajectories := tq\<rparr>))"
    "motion_ready nr ne (updateNormalGoal (m\<lparr>tmo_motion_step := snd (conditionMet (tmo_motion_step m))\<rparr>))" for tq
    by (simp_all add: updateNormalGoal_ready)
  have met: "motion_ready nr ne (m\<lparr>tmo_motion_step := snd (conditionMet (tmo_motion_step m))\<rparr>)"
    using assms by (simp add: motion_ready_def)
  show ?thesis
    using assms up met by (auto simp: processNormalState_def Let_def case_prod_beta split: SubStates.split option.split list.split)
qed

lemma storeNormalGoal_step [simp]: "step_shaped nr ne (tmo_motion_step (storeNormalGoal m)) = step_shaped nr ne (tmo_motion_step m)"
  by (simp add: storeNormalGoal_def Let_def split: option.split)

lemma duration_factor_shaped [simp]:
  "step_shaped nr ne (ms\<lparr>ms_data := (ms_data ms)\<lparr>pd_duration_factor := d\<rparr>\<rparr>) = step_shaped nr ne ms"
  by (simp add: step_shaped_def)

lemma ramped_decision_ready: "motion_ready nr ne m \<Longrightarrow> motion_ready nr ne (ramped_decision m)"
  by (auto simp: ramped_decision_def Let_def intro!: updateNormalGoal_ready) (simp_all add: motion_ready_def)

lemma processRampDownState_ready:
  assumes "motion_ready nr ne m" shows "motion_ready nr ne (processRampDownState m)"
proof -
  have s: "step_shaped nr ne (tmo_motion_step m)" using assms by (simp add: motion_ready_def)
  show ?thesis
  proof (cases "sm_current_sub_state (tmo_state_manager m)")
    case SubNone
    with s show ?thesis by (simp add: processRampDownState_def Let_def motion_ready_def)
  next
    case SubRunning
    with assms show ?thesis by (simp add: processRampDownState_def)
  next
    case SubFinished
    have "motion_ready nr ne (ramped_events m)" using assms by (simp add: ramped_events_def Let_def motion_ready_def)
    with SubFinished show ?thesis by (simp add: processRampDownState_def ramped_decision_ready)
  qed
qed

lemma processStaticGoalState_ready:
  assumes "motion_ready nr ne m" shows "motion_ready nr ne (processStaticGoalState m)"
proof -
  have s: "step_shaped nr ne (tmo_motion_step m)" using assms by (simp add: motion_ready_def)
  have off: "motion_ready nr ne (m\<lparr>tmo_data := d\<lparr>dd_has_active_goal := False\<rparr>\<rparr>)"
    "motion_ready nr ne (m\<lparr>tmo_trajectories := tq, tmo_data := d\<lparr>dd_has_active_goal := False\<rparr>\<rparr>)" for d tq
    using s by (simp_all add: motion_ready_def)
  show ?thesis
    using assms s off
    by (cases "sm_current_sub_state (tmo_state_manager m)"; cases "p_current m")
      (auto simp: processStaticGoalState_def static_update_def Let_def motion_ready_def)
qed

lemma process_state_ready: "motion_ready nr ne m \<Longrightarrow> motion_ready nr ne (process_state m)"
  by (simp add: process_state_def processNormalState_ready processRampDownState_ready processStaticGoalState_ready
      split: States.split)

lemma reset_components_shaped:
  assumes "feedback_sizes nr ne (fdb (tmo_motion_step m))"
    "length (ip_spline_polynomials (ms_interpolator (tmo_motion_step m))) = MAX_NUMBER_OF_SPLINES"
  shows "motion_shaped nr ne (reset_components m)"
proof -
  have "fdb (tmo_motion_step (resetTrajectoryMotion m)) = fdb (tmo_motion_step m)"
    "ms_interpolator (tmo_motion_step (resetTrajectoryMotion m)) = ms_interpolator (tmo_motion_step m)"
    "\<not> dd_has_active_goal (tmo_data (resetTrajectoryMotion m))"
    by (simp_all add: resetTrajectoryMotion_def storeNormalGoal_def Let_def split: option.split)
  with assms show ?thesis
    by (simp add: reset_components_def Let_def motion_shaped_def resetMotionStep_shaped)
qed

text \<open>A message with the joint counts of the session.\<close>

definition fits :: "nat \<Rightarrow> nat \<Rightarrow> InputContainer \<Rightarrow> bool" where
  "fits nr ne ic \<longleftrightarrow> feedback_sizes nr ne (in_feedback_of (ic_current ic))"

lemma prepare_ready:
  assumes "fits nr ne ic" "length (ip_spline_polynomials (ms_interpolator (tmo_motion_step m))) = MAX_NUMBER_OF_SPLINES"
    and "motion_shaped nr ne m \<or> ic_first_message ic"
  shows "motion_ready nr ne (prepare ic m)"
proof -
  let ?m1 = "m\<lparr>tmo_motion_step := (tmo_motion_step m)\<lparr>ms_data := (ms_data (tmo_motion_step m))
    \<lparr>pd_estimated_sample_time := ic_estimated_sample_time ic, pd_feedback := in_feedback_of (ic_current ic)\<rparr>\<rparr>\<rparr>"
  let ?m2 = "if ic_first_message ic then reset_components ?m1 else ?m1"
  have m1: "feedback_sizes nr ne (fdb (tmo_motion_step ?m1))"
    "length (ip_spline_polynomials (ms_interpolator (tmo_motion_step ?m1))) = MAX_NUMBER_OF_SPLINES"
    using assms(1,2) by (simp_all add: fits_def)
  have m2: "motion_shaped nr ne ?m2"
  proof (cases "ic_first_message ic")
    case True
    then show ?thesis using reset_components_shaped [OF m1] by simp
  next
    case False
    with assms(3) m1 show ?thesis by (auto simp: motion_shaped_def step_shaped_def)
  qed
  then have "feedback_sizes nr ne (fdb (tmo_motion_step ?m2))"
    "length (ip_spline_polynomials (ms_interpolator (tmo_motion_step ?m2))) = MAX_NUMBER_OF_SPLINES"
    by (simp_all add: motion_shaped_def step_shaped_def)
  from reset_components_shaped [OF this] m2 show ?thesis
    unfolding prepare_def Let_def by (auto simp: motion_ready_def motion_shaped_def)
qed

lemma update_progress_shaped [simp]: "motion_shaped nr ne (update_progress out ic m) = motion_shaped nr ne m"
  by (simp add: update_progress_def Let_def motion_shaped_def)

lemma install_goal_shaped:
  assumes "motion_ready nr ne m" "nr + ne \<le> MAX_NUMBER_OF_SPLINES"
  shows "\<exists>m'. install_goal m = Some m' \<and> motion_shaped nr ne m'"
  using updateInterpolator_shaped [of nr ne "tmo_motion_step m"] assms
  by (auto simp: install_goal_def motion_ready_def motion_shaped_def controller_update_def step_shaped_def)

lemma produce_outputs_shaped:
  assumes "motion_shaped nr ne m" "nr + ne \<le> MAX_NUMBER_OF_SPLINES"
  shows "\<exists>out m'. produce_outputs bq outputs m = Some (out, m') \<and> motion_shaped nr ne m'"
proof (cases "dd_has_active_goal (tmo_data m)")
  case False
  with assms(1) show ?thesis by (simp add: produce_outputs_def)
next
  case True
  with assms(1) have "step_shaped nr ne (tmo_motion_step m)" "offset_ok nr (ms_interpolator (tmo_motion_step m))"
    "goal_shape nr ne (mc_initial_references (tmo_controller m))" by (simp_all add: motion_shaped_def)
  with evaluateInterpolator_shaped assms(2) obtain ms where ms: "evaluateInterpolator bq (tmo_motion_step m) = Some ms"
    "step_shaped nr ne ms" "offset_ok nr (ms_interpolator ms)" "goal_shape nr ne (mc_initial_references (tmo_controller m))"
    by blast
  obtain out ms' mc where c: "calculate outputs ms (tmo_controller m) = (out, ms', mc)"
    by (cases "calculate outputs ms (tmo_controller m)")
  from calculate_shaped(1) [OF c, of nr ne] calculate_shaped(2,3) [OF c] ms c True show ?thesis
    by (simp add: produce_outputs_def motion_shaped_def)
qed

lemma generateOutputs_shaped:
  assumes "fits nr ne ic" "nr + ne \<le> MAX_NUMBER_OF_SPLINES"
    and "length (ip_spline_polynomials (ms_interpolator (tmo_motion_step m))) = MAX_NUMBER_OF_SPLINES"
    and "motion_shaped nr ne m \<or> ic_first_message ic"
  shows "\<exists>out m'. generateOutputs bq ic outputs m = Some (out, m') \<and> motion_shaped nr ne m'"
proof -
  let ?m1 = "prepare ic m"
  have m1: "motion_ready nr ne ?m1" using prepare_ready [OF assms(1,3,4)] .
  show ?thesis
  proof (cases "statesOk ic")
    case False
    have "\<not> dd_has_new_goal (tmo_data ?m1)" by (simp add: prepare_def Let_def)
    with m1 have "motion_shaped nr ne ?m1" by (simp add: motion_ready_def motion_shaped_def)
    with False show ?thesis by (simp add: generateOutputs_def Let_def)
  next
    case True
    let ?m2 = "process_state (?m1\<lparr>tmo_state_manager := updateState (tmo_state_manager ?m1)\<rparr>)"
    have "motion_ready nr ne (?m1\<lparr>tmo_state_manager := updateState (tmo_state_manager ?m1)\<rparr>)"
      using m1 by (simp add: motion_ready_def)
    then have "motion_ready nr ne ?m2" by (rule process_state_ready)
    with install_goal_shaped assms(2) obtain m3 where m3: "install_goal ?m2 = Some m3" "motion_shaped nr ne m3"
      by blast
    with produce_outputs_shaped assms(2) obtain out m' where
      "produce_outputs bq outputs m3 = Some (out, m')" "motion_shaped nr ne m'" by blast
    with True m3(1) show ?thesis by (simp add: generateOutputs_def Let_def)
  qed
qed

section \<open>Sessions\<close>

text \<open>Calls of a session whose messages have the joint counts \<open>nr\<close> and \<open>ne\<close>; calls that are no messages.\<close>

fun fitting :: "nat \<Rightarrow> nat \<Rightarrow> motion_call \<Rightarrow> bool" where
  "fitting nr ne (Message ic out) = fits nr ne ic"
| "fitting nr ne _ = True"

fun is_message :: "motion_call \<Rightarrow> bool" where
  "is_message (Message ic out) = True"
| "is_message _ = False"

definition splines_ok :: "TrajectoryMotion \<Rightarrow> bool" where
  "splines_ok m \<longleftrightarrow> length (ip_spline_polynomials (ms_interpolator (tmo_motion_step m))) = MAX_NUMBER_OF_SPLINES"

lemma splines_ok_init: "splines_ok (init_TrajectoryMotion off c)"
  by (simp add: splines_ok_def init_TrajectoryMotion_def init_MotionStep_def init_EGMInterpolator_def)

lemma motion_shaped_splines: "motion_shaped nr ne m \<Longrightarrow> splines_ok m"
  by (simp add: motion_shaped_def step_shaped_def splines_ok_def)

lemma call_shaped:
  assumes "motion_shaped nr ne m" "fitting nr ne c" "nr + ne \<le> MAX_NUMBER_OF_SPLINES"
  shows "\<exists>m'. call bq c m = Some m' \<and> motion_shaped nr ne m'"
proof (cases c)
  case (Order x)
  with assms(1) show ?thesis by (simp add: motion_shaped_def give_frame)
next
  case (Message ic out)
  with generateOutputs_shaped [of nr ne ic m bq out] assms motion_shaped_splines [OF assms(1)] show ?thesis
    by (auto simp: splines_ok_def)
next
  case (Reconfigure cfg)
  with assms(1) show ?thesis
    by (simp add: motion_shaped_def step_shaped_def updateConfigurations_def updateConfigurations_step_def)
qed

lemma run_shaped:
  assumes "motion_shaped nr ne m" "list_all (fitting nr ne) cs" "nr + ne \<le> MAX_NUMBER_OF_SPLINES"
  shows "\<exists>m'. run bq cs m = Some m' \<and> motion_shaped nr ne m'"
  using assms(1,2)
proof (induction cs arbitrary: m)
  case (Cons c cs)
  with call_shaped [of nr ne m c bq] assms(3) obtain m1 where "call bq c m = Some m1" "motion_shaped nr ne m1" by auto
  with Cons.IH [of m1] Cons.prems(2) show ?case by simp
qed simp

lemma orders_total:
  assumes "list_all (\<lambda>c. \<not> is_message c) cs" "splines_ok m"
  shows "\<exists>m'. run bq cs m = Some m' \<and> splines_ok m'"
  using assms
proof (induction cs arbitrary: m)
  case (Cons c cs)
  have "\<exists>m1. call bq c m = Some m1 \<and> splines_ok m1"
    using Cons.prems by (cases c) (simp_all add: splines_ok_def give_frame updateConfigurations_def updateConfigurations_step_def)
  with Cons show ?case by auto
qed simp

lemma run_append: "run bq (cs @ ds) m = do { m1 \<leftarrow> run bq cs m; run bq ds m1 }"
proof (induction cs arbitrary: m)
  case (Cons c cs)
  then show ?case by (cases "call bq c m") simp_all
qed simp

text \<open>
  C7: Trajectory execution never accesses a joint value or a spline polynomial out of range: on a new
  \<open>TrajectoryMotion\<close>, after any orders, a first message and then any sequence of messages, orders and
  configuration updates all return, as long as all messages have the same numbers of robot joints and of
  external joints, together at most the 12 splines of the interpolator.
\<close>

theorem trajectory_execution_in_range:
  assumes "list_all (\<lambda>c. \<not> is_message c) before" "ic_first_message ic" "fits nr ne ic"
    and "list_all (fitting nr ne) cs" "nr + ne \<le> MAX_NUMBER_OF_SPLINES"
  shows "\<exists>m. run bq (before @ Message ic out # cs) (init_TrajectoryMotion off c) = Some m"
proof -
  obtain m0 where m0: "run bq before (init_TrajectoryMotion off c) = Some m0" "splines_ok m0"
    using orders_total [OF assms(1) splines_ok_init] by blast
  obtain out' m1 where m1: "generateOutputs bq ic out m0 = Some (out', m1)" "motion_shaped nr ne m1"
    using generateOutputs_shaped [OF assms(3,5)] assms(2) m0(2) unfolding splines_ok_def by blast
  from run_shaped [OF m1(2) assms(4,5)] obtain m where "run bq cs m1 = Some m" by blast
  with m0 m1 show ?thesis by (simp add: run_append)
qed

definition six_joints :: InputContainer where
  "six_joints = init_InputContainer\<lparr>ic_first_message := True,
     ic_current := default_Input\<lparr>in_feedback := Some (default_Feedback\<lparr>fb_robot := Some (default_Robot
       \<lparr>rob_joints := Some \<lparr>js_position = Some \<lparr>jvalues = replicate 6 (Fin 0)\<rparr>, js_velocity = None\<rparr>\<rparr>)\<rparr>),
       in_status := Some (default_Status\<lparr>egm_state := Some EGM_RUNNING, motor_state := Some MOTORS_ON,
         rapid_execution_state := Some RAPID_RUNNING\<rparr>)\<rparr>\<rparr>"

theorem trajectory_execution_in_range_witness:
  "\<exists>m. run hamilton ([] @ Message six_joints default_Output #
       [Order (AddTrajectory \<lparr>tg_points = [flat_goal 6 0 (Fin 1)]\<rparr> False),
        Message (six_joints\<lparr>ic_first_message := False\<rparr>) default_Output,
        Message (six_joints\<lparr>ic_first_message := False\<rparr>) default_Output])
     (init_TrajectoryMotion 0 (make_TrajectoryConfiguration default_BaseConfiguration)) = Some m"
  by (rule trajectory_execution_in_range [of _ _ 6 0])
    (simp_all add: six_joints_def fits_def feedback_sizes_def MAX_NUMBER_OF_SPLINES_def joint_counts)

end
