(* ===== verification/EGM_Trajectory.thy ===== *)
theory EGM_Trajectory
  imports EGM_Base EGM_Execution EGM_Motion_Safety
begin

text \<open>
  \<open>EGMTrajectoryInterface\<close> of \<open>egm_trajectory_interface.h\<close> and \<open>egm_trajectory_interface.cpp\<close>: the interface
  that executes trajectories. It inherits from \<open>EGMBaseInterface\<close> but has a configuration container and an
  \<open>initializeCallback\<close> of its own; the view of a trajectory interface as a base interface shows that these do
  on the base part what the base class does. The user's methods hand the order on to \<open>TrajectoryMotion\<close>.
\<close>

section \<open>Data\<close>

record ConfigurationContainer =
  cc_active :: TrajectoryConfiguration
  cc_update :: TrajectoryConfiguration
  cc_has_pending_update :: bool

definition make_ConfigurationContainer :: "TrajectoryConfiguration \<Rightarrow> ConfigurationContainer" where
  "make_ConfigurationContainer initial = \<lparr>cc_active = initial, cc_update = initial, cc_has_pending_update = False\<rparr>"

record EGMTrajectoryInterface =
  ti_base :: EGMBaseInterface
  ti_configuration :: ConfigurationContainer
  ti_trajectory_motion :: TrajectoryMotion

section \<open>Operations\<close>

text \<open>The base part gets the default configuration; the logger is created from the trajectory configuration.\<close>

definition init_EGMTrajectoryInterface :: "nat \<Rightarrow> TrajectoryConfiguration \<Rightarrow> EGMTrajectoryInterface" where
  "init_EGMTrajectoryInterface off configuration =
     (let b = init_EGMBaseInterface default_BaseConfiguration; cc = make_ConfigurationContainer configuration
      in \<lparr>ti_base = (if use_logging (tc_base (cc_active cc)) then b\<lparr>bi_logger := Some (init_EGMLogger True)\<rparr> else b),
          ti_configuration = cc,
          ti_trajectory_motion = init_TrajectoryMotion off configuration\<rparr>)"

definition trajectory_initializeCallback ::
  "env \<Rightarrow> bytes option \<Rightarrow> EGMTrajectoryInterface \<Rightarrow> bool \<times> EGMTrajectoryInterface" where
  "trajectory_initializeCallback env data t =
     (let (s1, t1) =
            (if has data
             then let (s, ic) = parseFromArray (env_decode env) data (bi_inputs (ti_base t))
                  in (s, t\<lparr>ti_base := (ti_base t)\<lparr>bi_inputs := ic\<rparr>\<rparr>)
             else (False, t));
          t2 = (if s1 \<and> ic_first_message (bi_inputs (ti_base t1)) \<and> cc_has_pending_update (ti_configuration t1)
                then
                  let cc = (ti_configuration t1)\<lparr>cc_active := cc_update (ti_configuration t1), cc_has_pending_update := False\<rparr>
                  in t1\<lparr>ti_configuration := cc,
                        ti_trajectory_motion := updateConfigurations (cc_active cc) (ti_trajectory_motion t1)\<rparr>
                else t1);
          (s3, t3) =
            (if s1
             then
               let (s, ic) = extractParsedInformation (env_bq env) (axes (tc_base (cc_active (ti_configuration t2))))
                               (bi_inputs (ti_base t2));
                   ses = (if s then \<lparr>ses_header = in_header_of (ic_current ic), ses_status = in_status_of (ic_current ic)\<rparr>
                          else \<lparr>ses_header = default_Header, ses_status = default_Status\<rparr>)
               in (s, t2\<lparr>ti_base := (ti_base t2)\<lparr>bi_inputs := ic, bi_session_data := ses\<rparr>\<rparr>)
             else (s1, t2));
          b3 = (ti_base t3)\<lparr>bi_outputs := clearReply (bi_outputs (ti_base t3))\<rparr>
      in (s3, t3\<lparr>ti_base := (if s3 then b3\<lparr>bi_outputs := prepareOutputs (bi_inputs b3) (bi_outputs b3)\<rparr> else b3)\<rparr>))"

text \<open>The demo outputs or the outputs of the trajectory execution.\<close>

definition trajectory_outputs :: "env \<Rightarrow> EGMTrajectoryInterface \<Rightarrow> EGMTrajectoryInterface option" where
  "trajectory_outputs env t =
     (let b = ti_base t in
      if use_demo_outputs (tc_base (cc_active (ti_configuration t)))
      then do {
        oc \<leftarrow> generateDemoOutputs (bi_inputs b) (bi_outputs b);
        Some (t\<lparr>ti_base := b\<lparr>bi_outputs := oc\<rparr>\<rparr>)
      }
      else do {
        (out, m) \<leftarrow> generateOutputs (env_bq env) (bi_inputs b) (oc_current (bi_outputs b)) (ti_trajectory_motion t);
        Some (t\<lparr>ti_base := b\<lparr>bi_outputs := (bi_outputs b)\<lparr>oc_current := out\<rparr>\<rparr>, ti_trajectory_motion := m\<rparr>)
      })"

definition trajectory_finish :: "env \<Rightarrow> EGMTrajectoryInterface \<Rightarrow> EGMTrajectoryInterface" where
  "trajectory_finish env t =
     (let active = tc_base (cc_active (ti_configuration t)); b = ti_base t;
          b1 = (if use_logging active \<and> bi_logger b \<noteq> None then logData (max_logging_duration active) b else b)
      in t\<lparr>ti_base := b1\<lparr>bi_outputs := updatePrevious_outputs (constructReply (env_encode env) active (bi_outputs b1)),
                         bi_inputs := updatePrevious (bi_inputs b1)\<rparr>\<rparr>)"

definition trajectory_callback ::
  "env \<Rightarrow> bytes option \<Rightarrow> EGMTrajectoryInterface \<Rightarrow> (bytes \<times> EGMTrajectoryInterface) option" where
  "trajectory_callback env data t = do {
     let (success, t1) = trajectory_initializeCallback env data t;
     t2 \<leftarrow> (if success then do { t' \<leftarrow> trajectory_outputs env t1; Some (trajectory_finish env t') } else Some t1);
     Some (oc_reply (bi_outputs (ti_base t2)), t2)
   }"

definition trajectory_getConfiguration :: "EGMTrajectoryInterface \<Rightarrow> TrajectoryConfiguration" where
  "trajectory_getConfiguration t = cc_update (ti_configuration t)"

definition trajectory_setConfiguration :: "TrajectoryConfiguration \<Rightarrow> EGMTrajectoryInterface \<Rightarrow> EGMTrajectoryInterface" where
  "trajectory_setConfiguration configuration t =
     t\<lparr>ti_configuration := (ti_configuration t)\<lparr>cc_update := configuration, cc_has_pending_update := True\<rparr>\<rparr>"

text \<open>The user's methods, from \<open>addTrajectory\<close> to \<open>retrieveExecutionProgress\<close>: each calls its namesake.\<close>

definition trajectory_give :: "order \<Rightarrow> EGMTrajectoryInterface \<Rightarrow> bool \<times> EGMTrajectoryInterface" where
  "trajectory_give x t = (let (r, m) = give x (ti_trajectory_motion t) in (r, t\<lparr>ti_trajectory_motion := m\<rparr>))"

section \<open>The view as a base interface\<close>

definition base_view :: "EGMTrajectoryInterface \<Rightarrow> EGMBaseInterface" where
  "base_view t = (ti_base t)\<lparr>bi_configuration :=
     \<lparr>bc_active = tc_base (cc_active (ti_configuration t)), bc_update = tc_base (cc_update (ti_configuration t)),
      bc_has_pending_update = cc_has_pending_update (ti_configuration t)\<rparr>\<rparr>"

lemma base_view_simps [simp]:
  "bi_inputs (base_view t) = bi_inputs (ti_base t)" "bi_outputs (base_view t) = bi_outputs (ti_base t)"
  "bi_logger (base_view t) = bi_logger (ti_base t)" "bi_session_data (base_view t) = bi_session_data (ti_base t)"
  "bc_active (bi_configuration (base_view t)) = tc_base (cc_active (ti_configuration t))"
  "bc_update (bi_configuration (base_view t)) = tc_base (cc_update (ti_configuration t))"
  "bc_has_pending_update (bi_configuration (base_view t)) = cc_has_pending_update (ti_configuration t)"
  by (simp_all add: base_view_def)

lemma base_view_initializeCallback:
  "initializeCallback env data (base_view t) =
     (fst (trajectory_initializeCallback env data t), base_view (snd (trajectory_initializeCallback env data t)))"
proof (cases data)
  case None
  then show ?thesis by (simp add: initializeCallback_def trajectory_initializeCallback_def base_view_def)
next
  case (Some bs)
  obtain s ic where p: "parseFromArray (env_decode env) (Some bs) (bi_inputs (ti_base t)) = (s, ic)" by fastforce
  define ax where "ax = axes (tc_base (if ic_first_message ic \<and> cc_has_pending_update (ti_configuration t)
    then cc_update (ti_configuration t) else cc_active (ti_configuration t)))"
  obtain s' ic' where e: "extractParsedInformation (env_bq env) ax ic = (s', ic')" by fastforce
  show ?thesis
    using p e [unfolded ax_def]
    by (cases s; cases "ic_first_message ic"; cases "cc_has_pending_update (ti_configuration t)"; cases s')
      (simp_all add: Some initializeCallback_def trajectory_initializeCallback_def base_view_def)
qed

lemma logData_base_view:
  "logData d (b\<lparr>bi_configuration := c\<rparr>) = (logData d b)\<lparr>bi_configuration := c\<rparr>"
  by (simp add: logData_def split: option.split)

lemma base_view_finish: "base_view (trajectory_finish env t) = finish_callback env (base_view t)"
  by (auto simp: trajectory_finish_def finish_callback_def Let_def base_view_def logData_base_view)

lemma base_view_outputs: "base_view (t\<lparr>ti_base := (ti_base t)\<lparr>bi_outputs := oc\<rparr>\<rparr>) = (base_view t)\<lparr>bi_outputs := oc\<rparr>"
  by (simp add: base_view_def)

lemma trajectory_finish_outputs [simp]:
  "bi_outputs (ti_base (trajectory_finish env t)) = bi_outputs (finish_callback env (base_view t))"
  using base_view_simps(2) [of "trajectory_finish env t"] by (simp only: base_view_finish)

section \<open>What is sent\<close>

definition trajectory_inv :: "EGMTrajectoryInterface \<Rightarrow> bool" where
  "trajectory_inv t \<longleftrightarrow> base_inv (base_view t)"

definition trajectory_accepts :: "env \<Rightarrow> bytes option \<Rightarrow> EGMTrajectoryInterface \<Rightarrow> bool" where
  "trajectory_accepts env data t \<longleftrightarrow> accepts env data (base_view t)"

lemma trajectory_init_accepts: "fst (trajectory_initializeCallback env data t) \<longleftrightarrow> trajectory_accepts env data t"
  using initializeCallback_accepts [of env data "base_view t"]
  by (simp add: trajectory_accepts_def base_view_initializeCallback)

lemma trajectory_init_frame:
  "oc_reply (bi_outputs (ti_base (snd (trajectory_initializeCallback env data t)))) = []"
  "oc_egm_sensor (bi_outputs (ti_base (snd (trajectory_initializeCallback env data t)))) = oc_egm_sensor (bi_outputs (ti_base t))"
  using initializeCallback_reply_cleared [of env data "base_view t"] initializeCallback_sensor [of env data "base_view t"]
  by (simp_all add: base_view_initializeCallback)

lemma trajectory_outputs_sensor:
  "trajectory_outputs env t = Some t' \<Longrightarrow> oc_egm_sensor (bi_outputs (ti_base t')) = oc_egm_sensor (bi_outputs (ti_base t))"
  by (auto simp: trajectory_outputs_def Let_def Option.bind_eq_Some_conv dest: generateDemoOutputs_sensor split: if_splits)

lemma trajectory_callback_cases:
  assumes "trajectory_callback env data t = Some (r, t')"
  shows "r = oc_reply (bi_outputs (ti_base t')) \<and>
    (if trajectory_accepts env data t
     then \<exists>b. bi_outputs (ti_base t') = bi_outputs (finish_callback env b) \<and> oc_egm_sensor (bi_outputs b) = oc_egm_sensor (bi_outputs (ti_base t))
     else t' = snd (trajectory_initializeCallback env data t) \<and> r = [])"
proof (cases "trajectory_accepts env data t")
  case False
  with assms show ?thesis
    by (auto simp: trajectory_callback_def trajectory_init_accepts [symmetric] case_prod_beta trajectory_init_frame)
next
  case True
  then obtain t1 where t1: "trajectory_initializeCallback env data t = (True, t1)"
    using trajectory_init_accepts [of env data t] by (cases "trajectory_initializeCallback env data t") auto
  with assms obtain t2 where t2: "trajectory_outputs env t1 = Some t2" "t' = trajectory_finish env t2"
    "r = oc_reply (bi_outputs (ti_base t'))"
    by (auto simp: trajectory_callback_def Option.bind_eq_Some_conv)
  have "oc_egm_sensor (bi_outputs (base_view t2)) = oc_egm_sensor (bi_outputs (ti_base t))"
    using trajectory_outputs_sensor [OF t2(1)] trajectory_init_frame(2) [of env data t] t1 by simp
  with True t2 show ?thesis by auto
qed

interpretation trajectory_contract:
  reply_contract "trajectory_callback env" trajectory_inv "trajectory_accepts env" "finite_message env" for env
proof
  show "trajectory_inv t'" if "trajectory_inv t" "trajectory_callback env d t = Some (r, t')" for t d r t'
    using trajectory_callback_cases [OF that(2)] that(1) trajectory_init_frame(2) [of env d t]
    by (auto simp: trajectory_inv_def base_inv_def finish_callback_outputs intro!: constructReply_finite split: if_splits)
  show "finite_message env r" if "trajectory_inv t" "trajectory_callback env d t = Some (r, t')" "r \<noteq> []" for t d r t'
    using trajectory_callback_cases [OF that(2)] that(1,3)
    by (auto simp: trajectory_inv_def base_inv_def intro!: finish_callback_good split: if_splits)
  show "r = []" if "trajectory_callback env d t = Some (r, t')" "\<not> trajectory_accepts env d t" for d t r t'
    using trajectory_callback_cases [OF that(1)] that(2) by auto
qed

text \<open>The steps of the object: a datagram, an order of the user, a configuration update that is allowed.\<close>

inductive trajectory_step :: "env \<Rightarrow> (TrajectoryConfiguration \<Rightarrow> bool) \<Rightarrow> EGMTrajectoryInterface \<Rightarrow> EGMTrajectoryInterface \<Rightarrow> bool"
  for env allowed where
  traj_callback: "trajectory_callback env data t = Some (r, t') \<Longrightarrow> trajectory_step env allowed t t'"
| traj_order: "trajectory_step env allowed t (snd (trajectory_give x t))"
| traj_setConfiguration: "allowed c \<Longrightarrow> trajectory_step env allowed t (trajectory_setConfiguration c t)"

abbreviation new_trajectory :: "(TrajectoryConfiguration \<Rightarrow> bool) \<Rightarrow> EGMTrajectoryInterface \<Rightarrow> bool" where
  "new_trajectory allowed t \<equiv> (\<exists>off c. allowed c \<and> t = init_EGMTrajectoryInterface off c)"

lemma trajectory_inv_frame:
  "trajectory_inv (snd (trajectory_give x t)) = trajectory_inv t"
  "trajectory_inv (trajectory_setConfiguration c t) = trajectory_inv t"
  by (simp_all add: trajectory_inv_def base_inv_def trajectory_give_def trajectory_setConfiguration_def case_prod_beta)

lemma trajectory_inv_init: "trajectory_inv (init_EGMTrajectoryInterface off c)"
  using base_inv_init [of default_BaseConfiguration]
  by (simp add: trajectory_inv_def base_inv_def init_EGMTrajectoryInterface_def Let_def)

interpretation trajectory_sys: inv_system "new_trajectory allowed" "trajectory_step env allowed" trajectory_inv for env allowed
proof
  show "trajectory_inv t'" if "trajectory_inv t" "trajectory_step env allowed t t'" for t t'
    using that(2,1) by (cases rule: trajectory_step.cases)
      (auto simp: trajectory_inv_frame intro: trajectory_contract.callback_inv)
qed (auto simp: trajectory_inv_init)

text \<open>
  C8: In every state a trajectory interface can reach, by any sequence of datagrams, orders of the user and
  configuration updates, a callback returns a non-empty reply only for a datagram that decodes and holds
  everything the configuration in force needs, and the reply is the encoding of a sensor message without NaN
  or infinite values.
\<close>

theorem trajectory_replies_are_safe:
  assumes "reach (new_trajectory (\<lambda>_. True)) (trajectory_step env (\<lambda>_. True)) t"
    and "trajectory_callback env data t = Some (r, t')" "r \<noteq> []"
  shows "trajectory_accepts env data t \<and> finite_message env r"
  using trajectory_sys.reach_inv [OF assms(1)] assms(2,3) trajectory_contract.callback_good trajectory_contract.callback_silent
  by blast

section \<open>Demo outputs\<close>

text \<open>
  With demo outputs the trajectory interface behaves exactly like the base interface: the same reply and the
  same base state for every datagram, if the configuration in force for it asks for demo outputs. In particular,
  its own \<open>initializeCallback\<close> does on the base part what that of the base class does.
\<close>

theorem trajectory_demo_refines_base:
  assumes "use_demo_outputs (tc_base (cc_active (ti_configuration t)))"
    and "use_demo_outputs (tc_base (cc_update (ti_configuration t)))"
  shows "map_option (\<lambda>(r, t'). (r, base_view t')) (trajectory_callback env data t) = base_callback env data (base_view t)"
proof -
  obtain s t1 where t1: "trajectory_initializeCallback env data t = (s, t1)" by fastforce
  note i = base_view_initializeCallback [of env data t, unfolded t1, simplified]
  have "use_demo_outputs (tc_base (cc_active (ti_configuration t1)))"
    using assms t1 by (auto simp: trajectory_initializeCallback_def Let_def split: prod.splits if_splits)
  then show ?thesis
    by (cases "generateDemoOutputs (bi_inputs (ti_base t1)) (bi_outputs (ti_base t1))")
      (simp_all add: trajectory_callback_def base_callback_def i t1 trajectory_outputs_def base_view_finish base_view_outputs)
qed

section \<open>Without trajectories\<close>

text \<open>Nothing is executed and nothing is ordered.\<close>

definition idle :: "TrajectoryMotion \<Rightarrow> bool" where
  "idle m \<longleftrightarrow> state_of m \<in> {(StNormal, SubNone), (StNormal, SubRunning)} \<and> \<not> has_pending m \<and> p_current m = None \<and>
     \<not> active m \<and> tq_primary_queue (tmo_trajectories m) = [] \<and> \<not> pe_do_ramp_down (events m)"

lemma idle_init: "idle (init_TrajectoryMotion off c)"
  by (simp add: idle_def init_TrajectoryMotion_def init_StateManager_def sm_state_def init_DecisionData_def init_PendingEvents_def)

lemma idle_prepare:
  assumes "idle m"
  shows "idle (prepare ic m)" "\<not> dd_has_new_goal (tmo_data (prepare ic m))"
    "statesOk ic \<Longrightarrow> state_of (prepare ic m) = (StNormal, SubRunning)"
  using assms
  by (auto simp: idle_def prepare_def Let_def verifyState_def sm_state_def reset_components_def resetTrajectoryMotion_def
      resetStateManager_def activateStateManager_def)

lemma idle_process:
  assumes "idle m" "state_of m = (StNormal, SubRunning)"
  shows "process_state (entered m) = entered m" "idle (entered m)"
  using assms
  by (simp_all add: idle_def sm_state_def updateState_def process_state_def processNormalState_def)

lemma idle_generateOutputs:
  assumes "idle m"
  shows "\<exists>m'. generateOutputs bq ic outputs m = Some (outputs, m') \<and> idle m'"
proof -
  let ?p = "prepare ic m"
  have prog: "idle (update_progress out ic m') = idle m'" for out m'
    using update_progress_plan [of m' out ic] by (simp add: idle_def same_plan_def)
  have "install_goal (entered ?p) = Some (entered ?p)" "produce_outputs bq outputs (entered ?p) = Some (outputs, entered ?p)"
    using idle_prepare(1,2) [OF assms, of ic] by (simp_all add: install_goal_def produce_outputs_def idle_def)
  with idle_prepare [OF assms, of ic] idle_process [of ?p] prog show ?thesis
    by (simp add: generateOutputs_def Let_def)
qed

lemma base_callback_no_demo:
  assumes "initializeCallback env data b = (s, b1)" "\<not> use_demo_outputs (bc_active (bi_configuration b1))"
  shows "base_callback env data b = Some (let b2 = if s then finish_callback env b1 else b1 in (oc_reply (bi_outputs b2), b2))"
  using assms by (simp add: base_callback_def Let_def)

lemma idle_trajectory:
  assumes "idle (ti_trajectory_motion t)" "\<not> use_demo_outputs (tc_base (cc_active (ti_configuration t)))"
    and "\<not> use_demo_outputs (tc_base (cc_update (ti_configuration t)))"
  shows "\<exists>r t'. trajectory_callback env data t = Some (r, t') \<and> base_callback env data (base_view t) = Some (r, base_view t')
    \<and> idle (ti_trajectory_motion t')"
proof -
  obtain s t1 where t1: "trajectory_initializeCallback env data t = (s, t1)" by fastforce
  note i = base_view_initializeCallback [of env data t, unfolded t1, simplified]
  have demo: "\<not> use_demo_outputs (tc_base (cc_active (ti_configuration t1)))"
    using assms t1 by (auto simp: trajectory_initializeCallback_def Let_def split: prod.splits if_splits)
  have "ti_trajectory_motion t1 = ti_trajectory_motion t \<or>
      ti_trajectory_motion t1 = updateConfigurations (cc_update (ti_configuration t)) (ti_trajectory_motion t)"
    using t1 by (auto simp: trajectory_initializeCallback_def Let_def split: prod.splits if_splits)
  then have "idle (ti_trajectory_motion t1)" using assms(1) by (auto simp: idle_def updateConfigurations_def)
  then obtain m where m: "generateOutputs (env_bq env) (bi_inputs (ti_base t1)) (oc_current (bi_outputs (ti_base t1)))
      (ti_trajectory_motion t1) = Some (oc_current (bi_outputs (ti_base t1)), m)" "idle m"
    using idle_generateOutputs by blast
  have view: "base_view (t1\<lparr>ti_trajectory_motion := m\<rparr>) = base_view t1" by (simp add: base_view_def)
  have out: "trajectory_outputs env t1 = Some (t1\<lparr>ti_trajectory_motion := m\<rparr>)"
    using demo m(1) by (cases t1) (simp add: trajectory_outputs_def Let_def)
  have fin: "ti_trajectory_motion (trajectory_finish env (t1\<lparr>ti_trajectory_motion := m\<rparr>)) = m"
    by (simp add: trajectory_finish_def Let_def)
  show ?thesis
    using base_callback_no_demo [OF i] demo m(2) \<open>idle (ti_trajectory_motion t1)\<close>
    by (cases s) (auto simp: trajectory_callback_def t1 out base_view_finish view fin Let_def)
qed

text \<open>
  C29: A trajectory interface without work behaves exactly like the base interface: as long as there is no
  trajectory, no active goal and no order, every datagram gets the same reply and leaves the same base state,
  and the trajectory execution stays without work.
\<close>

theorem idle_trajectory_refines_base:
  assumes "idle (ti_trajectory_motion t)" "\<not> use_demo_outputs (tc_base (cc_active (ti_configuration t)))"
    and "\<not> use_demo_outputs (tc_base (cc_update (ti_configuration t)))"
  shows "\<exists>r t'. trajectory_callback env data t = Some (r, t') \<and> base_callback env data (base_view t) = Some (r, base_view t')
    \<and> idle (ti_trajectory_motion t')"
  using assms by (rule idle_trajectory)

section \<open>Every datagram of a session is handled\<close>

text \<open>The numbers of robot and external joints the parser finds in the feedback of a message.\<close>

definition joint_sizes :: "RobotAxes \<Rightarrow> EgmRobot \<Rightarrow> nat \<times> nat" where
  "joint_sizes ax msg =
     (let js = snd (parse_Joints (efb_joints_of (erb_feedBack_of msg)) (efb_externalJoints_of (erb_feedBack_of msg)) ax)
      in (length (jvalues (fst js)), length (jvalues (snd js))))"

text \<open>All datagrams that decode are complete messages of one robot.\<close>

definition uniform_robot :: "env \<Rightarrow> RobotAxes \<Rightarrow> nat \<Rightarrow> nat \<Rightarrow> bool" where
  "uniform_robot env ax nr ne \<longleftrightarrow>
     (\<forall>bs. fst (env_decode env bs) \<longrightarrow> acceptable ax (snd (env_decode env bs)) \<and> joint_sizes ax (snd (env_decode env bs)) = (nr, ne))"

definition plain :: "RobotAxes \<Rightarrow> TrajectoryConfiguration \<Rightarrow> bool" where
  "plain ax c \<longleftrightarrow> axes (tc_base c) = ax \<and> \<not> use_demo_outputs (tc_base c)"

definition session_inv :: "RobotAxes \<Rightarrow> nat \<Rightarrow> nat \<Rightarrow> EGMTrajectoryInterface \<Rightarrow> bool" where
  "session_inv ax nr ne t \<longleftrightarrow>
     plain ax (cc_active (ti_configuration t)) \<and> plain ax (cc_update (ti_configuration t)) \<and>
     splines_ok (ti_trajectory_motion t) \<and>
     (ic_first_call (bi_inputs (ti_base t)) \<or> motion_shaped nr ne (ti_trajectory_motion t))"

lemma updateConfigurations_shaped [simp]:
  "motion_shaped nr ne (updateConfigurations c m) = motion_shaped nr ne m"
  "splines_ok (updateConfigurations c m) = splines_ok m"
  by (simp_all add: updateConfigurations_def updateConfigurations_step_def motion_shaped_def step_shaped_def splines_ok_def)

lemma parse_fails_first_call:
  "\<not> fst (dec bs) \<Longrightarrow> ic_first_call (snd (parseFromArray dec (Some bs) ic)) = ic_first_call ic"
  by (simp add: parseFromArray_def Let_def case_prod_beta)

lemma trajectory_init_motion:
  "ti_trajectory_motion (snd (trajectory_initializeCallback env data t)) = ti_trajectory_motion t \<or>
   ti_trajectory_motion (snd (trajectory_initializeCallback env data t)) =
     updateConfigurations (cc_update (ti_configuration t)) (ti_trajectory_motion t)"
  by (auto simp: trajectory_initializeCallback_def Let_def case_prod_beta)

lemma trajectory_init_plain:
  assumes "plain ax (cc_active (ti_configuration t))" "plain ax (cc_update (ti_configuration t))"
  shows "plain ax (cc_active (ti_configuration (snd (trajectory_initializeCallback env data t))))"
    "plain ax (cc_update (ti_configuration (snd (trajectory_initializeCallback env data t))))"
  using assms by (simp_all add: trajectory_initializeCallback_def Let_def case_prod_beta)

lemma trajectory_init_rejects:
  assumes "session_inv ax nr ne t" "data = None \<or> \<not> fst (env_decode env (the data))"
  shows "fst (trajectory_initializeCallback env data t) = False"
    "session_inv ax nr ne (snd (trajectory_initializeCallback env data t))"
proof -
  show f: "fst (trajectory_initializeCallback env data t) = False"
    using assms(2) by (cases data) (auto simp: trajectory_init_accepts trajectory_accepts_def accepts_def)
  have "ic_first_call (bi_inputs (ti_base (snd (trajectory_initializeCallback env data t)))) = ic_first_call (bi_inputs (ti_base t))"
  proof (cases data)
    case None
    then show ?thesis by (simp add: trajectory_initializeCallback_def Let_def)
  next
    case (Some bs)
    obtain s ic where p: "parseFromArray (env_decode env) (Some bs) (bi_inputs (ti_base t)) = (s, ic)" by fastforce
    have "\<not> s" using parseFromArray_Some(1) [OF p] assms(2) Some by simp
    with Some p parse_fails_first_call [of "env_decode env" bs "bi_inputs (ti_base t)"] assms(2) show ?thesis
      by (simp add: trajectory_initializeCallback_def Let_def)
  qed
  with assms(1) trajectory_init_plain [of ax t env data] trajectory_init_motion [of env data t]
  show "session_inv ax nr ne (snd (trajectory_initializeCallback env data t))"
    by (auto simp: session_inv_def)
qed

lemma trajectory_init_ready:
  assumes "session_inv ax nr ne t" "uniform_robot env ax nr ne" "fst (env_decode env bs)"
    "trajectory_initializeCallback env (Some bs) t = (s, t1)"
  shows "s" "fits nr ne (bi_inputs (ti_base t1))" "splines_ok (ti_trajectory_motion t1)"
    "motion_shaped nr ne (ti_trajectory_motion t1) \<or> ic_first_message (bi_inputs (ti_base t1))"
proof -
  let ?msg = "snd (env_decode env bs)"
  have ax: "axes (config_for ?msg (base_view t)) = ax" using assms(1) by (simp add: config_for_def session_inv_def plain_def)
  have msg: "acceptable ax ?msg" "joint_sizes ax ?msg = (nr, ne)" using assms(2,3) by (simp_all add: uniform_robot_def)
  then show s using trajectory_init_accepts [of env "Some bs" t] assms(3,4) ax by (simp add: trajectory_accepts_def accepts_def)
  then have b: "fst (initializeCallback env (Some bs) (base_view t))"
    "bi_inputs (snd (initializeCallback env (Some bs) (base_view t))) = bi_inputs (ti_base t1)"
    using assms(4) by (simp_all add: base_view_initializeCallback)
  obtain ic where "extractParsedInformation (env_bq env) ax ic = (True, bi_inputs (ti_base t1))" "ic_egm_robot ic = ?msg"
    using initializeCallback_extract [OF b(1)] unfolding b(2) ax by blast
  from extracted_positions(1,2) [OF this(1)] this(2) msg(2) show "fits nr ne (bi_inputs (ti_base t1))"
    by (simp add: fits_def feedback_sizes_def joint_sizes_def Let_def joint_views)
  have "ic_first_message (bi_inputs (ti_base t1)) = is_first ?msg (base_view t)"
    using initializeCallback_active(2) [OF b(1)] unfolding b(2) .
  with assms(1,4) trajectory_init_motion [of env "Some bs" t]
  show "splines_ok (ti_trajectory_motion t1)"
    "motion_shaped nr ne (ti_trajectory_motion t1) \<or> ic_first_message (bi_inputs (ti_base t1))"
    by (auto simp: session_inv_def is_first_def)
qed

lemma trajectory_callback_total:
  assumes "session_inv ax nr ne t" "uniform_robot env ax nr ne" "nr + ne \<le> MAX_NUMBER_OF_SPLINES"
  shows "\<exists>r t'. trajectory_callback env data t = Some (r, t') \<and> session_inv ax nr ne t'"
proof (cases "data = None \<or> \<not> fst (env_decode env (the data))")
  case True
  from trajectory_init_rejects [OF assms(1) True] show ?thesis
    by (simp add: trajectory_callback_def case_prod_beta)
next
  case False
  then obtain bs where bs: "data = Some bs" "fst (env_decode env bs)" by auto
  obtain s t1 where t1: "trajectory_initializeCallback env (Some bs) t = (s, t1)" by fastforce
  note r = trajectory_init_ready [OF assms(1,2) bs(2) t1]
  have plain: "plain ax (cc_active (ti_configuration t1))" "plain ax (cc_update (ti_configuration t1))"
    using trajectory_init_plain [of ax t env "Some bs"] assms(1) t1 by (simp_all add: session_inv_def)
  obtain out m where g: "generateOutputs (env_bq env) (bi_inputs (ti_base t1)) (oc_current (bi_outputs (ti_base t1)))
      (ti_trajectory_motion t1) = Some (out, m)" "motion_shaped nr ne m"
    using generateOutputs_shaped [OF r(2) assms(3)] r(3,4) unfolding splines_ok_def by blast
  have "trajectory_outputs env t1 = Some (t1\<lparr>ti_base := (ti_base t1)\<lparr>bi_outputs := (bi_outputs (ti_base t1))
      \<lparr>oc_current := out\<rparr>\<rparr>, ti_trajectory_motion := m\<rparr>)"
    using plain(1) g(1) by (simp add: trajectory_outputs_def plain_def Let_def)
  with r(1) plain g(2) show ?thesis
    by (simp add: bs(1) trajectory_callback_def t1 session_inv_def trajectory_finish_def Let_def motion_shaped_splines)
qed

definition session_live :: "env \<Rightarrow> RobotAxes \<Rightarrow> nat \<Rightarrow> nat \<Rightarrow> EGMTrajectoryInterface \<Rightarrow> bool" where
  "session_live env ax nr ne t \<longleftrightarrow>
     uniform_robot env ax nr ne \<and> nr + ne \<le> MAX_NUMBER_OF_SPLINES \<and> session_inv ax nr ne t"

interpretation trajectory_total: total_callback "trajectory_callback env" "session_live env ax nr ne" for env ax nr ne
  by unfold_locales (auto simp: session_live_def intro: trajectory_callback_total)

lemma session_inv_order: "session_inv ax nr ne t \<Longrightarrow> session_inv ax nr ne (snd (trajectory_give x t))"
  by (simp add: session_inv_def trajectory_give_def case_prod_beta motion_shaped_def splines_ok_def give_frame)

lemma session_inv_init: "plain ax c \<Longrightarrow> session_inv ax nr ne (init_EGMTrajectoryInterface off c)"
  by (simp add: session_inv_def init_EGMTrajectoryInterface_def Let_def make_ConfigurationContainer_def splines_ok_init
      init_EGMBaseInterface_def init_InputContainer_def)

lemma session_reach_inv:
  assumes "uniform_robot env ax nr ne" "nr + ne \<le> MAX_NUMBER_OF_SPLINES"
    and "reach (new_trajectory (plain ax)) (trajectory_step env (plain ax)) t"
  shows "session_inv ax nr ne t"
  using assms(3)
proof (induction rule: reach.induct)
  case (reach_init t)
  then show ?case by (auto intro: session_inv_init)
next
  case (reach_step t t')
  from reach_step(2) show ?case
  proof (cases rule: trajectory_step.cases)
    case (traj_callback data r)
    with trajectory_callback_total [OF reach_step(3) assms(1,2), of data] show ?thesis by auto
  next
    case (traj_order x)
    with reach_step(3) show ?thesis by (simp add: session_inv_order)
  next
    case (traj_setConfiguration c)
    with reach_step(3) show ?thesis by (simp add: session_inv_def trajectory_setConfiguration_def)
  qed
qed

text \<open>What the user of the interface calls while the server runs.\<close>

datatype trajectory_use = UseOrder order | UseConfiguration TrajectoryConfiguration

fun use_trajectory :: "trajectory_use \<Rightarrow> EGMTrajectoryInterface \<Rightarrow> EGMTrajectoryInterface" where
  "use_trajectory (UseOrder x) t = snd (trajectory_give x t)"
| "use_trajectory (UseConfiguration c) t = trajectory_setConfiguration c t"

fun plain_use :: "RobotAxes \<Rightarrow> trajectory_use \<Rightarrow> bool" where
  "plain_use ax (UseOrder x) \<longleftrightarrow> True"
| "plain_use ax (UseConfiguration c) \<longleftrightarrow> plain ax c"

lemma session_inv_use: "session_inv ax nr ne t \<Longrightarrow> plain_use ax u \<Longrightarrow> session_inv ax nr ne (use_trajectory u t)"
proof (cases u)
  case (UseConfiguration c)
  then show "session_inv ax nr ne t \<Longrightarrow> plain_use ax u \<Longrightarrow> session_inv ax nr ne (use_trajectory u t)"
    by (simp add: session_inv_def trajectory_setConfiguration_def)
qed (simp add: session_inv_order)

interpretation trajectory_object: shared_object "trajectory_callback env" trajectory_inv "trajectory_accepts env" "finite_message env"
  "session_live env ax nr ne" use_trajectory "plain_use ax" for env ax nr ne
proof
  show "trajectory_inv (use_trajectory u t)" if "trajectory_inv t" for u t
    using that by (cases u) (simp_all add: trajectory_inv_frame)
qed (auto simp: session_live_def session_inv_use)

text \<open>
  C11: A trajectory interface handles every datagram: if all datagrams that decode are complete messages of one
  robot with \<open>nr\<close> robot joints and \<open>ne\<close> external joints, together at most 12, then in every state reachable by
  datagrams, orders of the user and updates of the other parts of the configuration, without demo
  outputs, the callback returns: it accesses no joint value and no spline polynomial out of range.
\<close>

theorem trajectory_callback_returns:
  assumes "uniform_robot env ax nr ne" "nr + ne \<le> MAX_NUMBER_OF_SPLINES"
    and "reach (new_trajectory (plain ax)) (trajectory_step env (plain ax)) t"
  shows "\<exists>r t'. trajectory_callback env data t = Some (r, t')"
  using trajectory_callback_total [OF session_reach_inv [OF assms] assms(1,2)] by blast

section \<open>Concrete instances\<close>

abbreviation sample_config :: TrajectoryConfiguration where
  "sample_config \<equiv> make_TrajectoryConfiguration default_BaseConfiguration"

lemma sample_uniform: "uniform_robot sample_env Six 6 1"
  by (simp add: uniform_robot_def sample_env_def joint_sizes_def Let_def)
    (simp add: sample_message_def parse_Joints_def Let_def joint_counts)

lemma sample_plain: "plain Six sample_config"
  by (simp add: plain_def make_TrajectoryConfiguration_def default_BaseConfiguration_def)

theorem trajectory_callback_returns_witness:
  "\<exists>r t'. trajectory_callback sample_env (Some [3]) (snd (trajectory_give (StopTrajectory True)
     (init_EGMTrajectoryInterface 0 sample_config))) = Some (r, t')"
proof (rule trajectory_callback_returns [OF sample_uniform])
  have "reach (new_trajectory (plain Six)) (trajectory_step sample_env (plain Six)) (init_EGMTrajectoryInterface 0 sample_config)"
    by (rule reach_init) (use sample_plain in blast)
  then show "reach (new_trajectory (plain Six)) (trajectory_step sample_env (plain Six))
      (snd (trajectory_give (StopTrajectory True) (init_EGMTrajectoryInterface 0 sample_config)))"
    by (rule reach_step) (rule traj_order)
qed (simp add: MAX_NUMBER_OF_SPLINES_def)

theorem trajectory_demo_refines_base_witness:
  "map_option (\<lambda>(r, t'). (r, base_view t')) (trajectory_callback sample_env (Some [3])
      (init_EGMTrajectoryInterface 0 (make_TrajectoryConfiguration (default_BaseConfiguration\<lparr>use_demo_outputs := True\<rparr>)))) =
    base_callback sample_env (Some [3]) (base_view
      (init_EGMTrajectoryInterface 0 (make_TrajectoryConfiguration (default_BaseConfiguration\<lparr>use_demo_outputs := True\<rparr>))))"
  by (rule trajectory_demo_refines_base)
    (simp_all add: init_EGMTrajectoryInterface_def Let_def make_ConfigurationContainer_def make_TrajectoryConfiguration_def)

lemma sample_new:
  "idle (ti_trajectory_motion (init_EGMTrajectoryInterface 0 sample_config))"
  "\<not> use_demo_outputs (tc_base (cc_active (ti_configuration (init_EGMTrajectoryInterface 0 sample_config))))"
  "\<not> use_demo_outputs (tc_base (cc_update (ti_configuration (init_EGMTrajectoryInterface 0 sample_config))))"
  "base_view (init_EGMTrajectoryInterface 0 sample_config) = init_EGMBaseInterface default_BaseConfiguration"
  by (simp_all add: init_EGMTrajectoryInterface_def Let_def make_ConfigurationContainer_def make_TrajectoryConfiguration_def
      default_BaseConfiguration_def idle_init base_view_def init_EGMBaseInterface_def make_BaseConfigurationContainer_def)

lemma sample_answered:
  "\<exists>r b'. base_callback sample_env (Some [3]) (init_EGMBaseInterface default_BaseConfiguration) = Some (r, b') \<and> r \<noteq> []"
  by (rule answered_first) (simp_all add: sample_first, simp_all add: default_BaseConfiguration_def)

theorem idle_trajectory_refines_base_witness:
  "\<exists>r t'. trajectory_callback sample_env (Some [3]) (init_EGMTrajectoryInterface 0 sample_config) = Some (r, t') \<and> r \<noteq> []"
  using idle_trajectory_refines_base [OF sample_new(1-3), of sample_env "Some [3]"] sample_answered
  by (auto simp: sample_new(4))

theorem trajectory_replies_are_safe_witness:
  "\<exists>r t'. trajectory_callback sample_env (Some [3]) (init_EGMTrajectoryInterface 0 sample_config) = Some (r, t') \<and>
     r \<noteq> [] \<and> finite_message sample_env r"
proof -
  obtain r t' where c: "trajectory_callback sample_env (Some [3]) (init_EGMTrajectoryInterface 0 sample_config) = Some (r, t')" "r \<noteq> []"
    using idle_trajectory [OF sample_new(1-3), of sample_env "Some [3]"] sample_answered by (auto simp: sample_new(4))
  moreover have "reach (new_trajectory (\<lambda>_. True)) (trajectory_step sample_env (\<lambda>_. True)) (init_EGMTrajectoryInterface 0 sample_config)"
    by (rule reach_init) blast
  ultimately show ?thesis using trajectory_replies_are_safe by blast
qed

end
