(* ===== verification/EGM_Progress.thy ===== *)
theory EGM_Progress
  imports EGM_Execution EGM_Motion_Safety
begin

text \<open>
  Progress of the trajectory execution: a ramp down comes to its end, and so does a goal that need not be reached.
  Time passes only with the received messages, by at least the lowest sample time each, so that both take a
  bounded number of them, whatever the user orders in between. The argument is the same for both and is made
  once, in a locale on states with a bound on the number of messages that are left, and another locale that instantiates
  it for the messages of a session.
\<close>

section \<open>Counting down\<close>

locale progress =
  fixes call :: "'c \<Rightarrow> 's \<Rightarrow> 's option" and run :: "'c list \<Rightarrow> 's \<Rightarrow> 's option"
    and allowed :: "'c list \<Rightarrow> 's \<Rightarrow> bool" and counts :: "'c \<Rightarrow> bool" and safe :: "'s \<Rightarrow> bool"
    and left :: "nat \<Rightarrow> 's \<Rightarrow> bool" and goal :: "'c \<Rightarrow> 's \<Rightarrow> 's \<Rightarrow> bool"
  assumes run_Nil: "run [] s = Some s"
    and run_Cons: "run (c # cs) s = do { s1 \<leftarrow> call c s; run cs s1 }"
    and left_0: "\<not> left 0 s"
    and total: "safe s \<Longrightarrow> allowed (c # cs) s \<Longrightarrow> \<exists>s'. call c s = Some s' \<and> safe s' \<and> allowed cs s'"
    and other: "safe s \<Longrightarrow> left k s \<Longrightarrow> allowed (c # cs) s \<Longrightarrow> \<not> counts c \<Longrightarrow> call c s = Some s' \<Longrightarrow> left k s'"
    and counted: "safe s \<Longrightarrow> left (Suc k) s \<Longrightarrow> allowed (c # cs) s \<Longrightarrow> counts c \<Longrightarrow> call c s = Some s' \<Longrightarrow> goal c s s' \<or> left k s'"
begin

lemma eventually:
  assumes "left k s" "safe s" "allowed cs s" "k \<le> length (filter counts cs)"
  shows "\<exists>cs1 c cs2 s1 s2. cs = cs1 @ c # cs2 \<and> run cs1 s = Some s1 \<and> call c s1 = Some s2 \<and> goal c s1 s2 \<and>
    length (filter counts (cs1 @ [c])) \<le> k"
  using assms
proof (induction cs arbitrary: k s)
  case Nil
  then show ?case using left_0 by simp
next
  case (Cons c cs)
  obtain s' where s': "call c s = Some s'" "safe s'" "allowed cs s'" using total [OF Cons.prems(2,3)] by blast
  obtain n where k: "k = Suc n" using Cons.prems(1) left_0 by (cases k) auto
  let ?k = "if counts c then n else k"
  show ?case
  proof (cases "counts c \<and> goal c s s'")
    case True
    with k s'(1) run_Nil have "c # cs = [] @ c # cs \<and> run [] s = Some s \<and> call c s = Some s' \<and> goal c s s' \<and>
      length (filter counts ([] @ [c])) \<le> k" by simp
    then show ?thesis by blast
  next
    case False
    then have "left ?k s'"
      using other [OF Cons.prems(2) _ Cons.prems(3) _ s'(1)] counted [OF Cons.prems(2) _ Cons.prems(3) _ s'(1)] Cons.prems(1) k by auto
    moreover have "?k \<le> length (filter counts cs)" using Cons.prems(4) k by auto
    ultimately obtain cs1 c' cs2 s1 s2 where "cs = cs1 @ c' # cs2" "run cs1 s' = Some s1" "call c' s1 = Some s2"
      "goal c' s1 s2" "length (filter counts (cs1 @ [c'])) \<le> ?k"
      using Cons.IH [of ?k s'] s'(2,3) by auto
    then have "c # cs = (c # cs1) @ c' # cs2 \<and> run (c # cs1) s = Some s1 \<and> call c' s1 = Some s2 \<and> goal c' s1 s2 \<and>
      length (filter counts ((c # cs1) @ [c'])) \<le> k" using s'(1) run_Cons k by (auto split: if_splits)
    then show ?thesis by blast
  qed
qed

end

section \<open>One message of a session\<close>

text \<open>A message inside a session of a robot with these joint counts, at least the lowest sample time after the last.\<close>

fun regular :: "nat \<Rightarrow> nat \<Rightarrow> motion_call \<Rightarrow> bool" where
  "regular nr ne (Message ic out) \<longleftrightarrow> fits nr ne ic \<and> \<not> ic_first_message ic \<and> statesOk ic \<and>
     (\<exists>T. ic_estimated_sample_time ic = Fin T \<and> 0.004 \<le> T)"
| "regular nr ne _ \<longleftrightarrow> True"

lemma regular_fitting: "regular nr ne c \<Longrightarrow> fitting nr ne c"
  by (cases c) auto

abbreviation elapsed :: "TrajectoryMotion \<Rightarrow> double" where
  "elapsed m \<equiv> pd_time_passed (ms_data (tmo_motion_step m))"

abbreviation duration :: "TrajectoryMotion \<Rightarrow> double" where
  "duration m \<equiv> getDuration (ms_interpolator (tmo_motion_step m))"

abbreviation sample_time :: "TrajectoryMotion \<Rightarrow> double" where
  "sample_time m \<equiv> pd_estimated_sample_time (ms_data (tmo_motion_step m))"

text \<open>The state a message inside a session is processed in.\<close>

abbreviation received :: "InputContainer \<Rightarrow> TrajectoryMotion \<Rightarrow> TrajectoryMotion" where
  "received ic m \<equiv> entered (prepare ic m)"

lemma received_simps:
  assumes "\<not> ic_first_message ic" "statesOk ic" "state_of m \<noteq> (StNormal, SubNone)"
  shows "tmo_state_manager (received ic m) = updateState (tmo_state_manager m)"
    "tmo_trajectories (received ic m) = tmo_trajectories m" "events (received ic m) = events m"
    "active (received ic m) = active m" "\<not> dd_has_new_goal (tmo_data (received ic m))"
    "elapsed (received ic m) = elapsed m" "duration (received ic m) = duration m"
    "sample_time (received ic m) = ic_estimated_sample_time ic"
    "ms_internal_goal (tmo_motion_step (received ic m)) = ms_internal_goal (tmo_motion_step m)"
    "external_goal (received ic m) = external_goal m"
  using assms by (simp_all add: prepare_def Let_def verifyState_state external_goal_def)

lemma calculate_frame [simp]:
  "ms_interpolator (fst (snd (calculate o1 ms mc))) = ms_interpolator ms"
  "ms_internal_goal (fst (snd (calculate o1 ms mc))) = ms_internal_goal ms"
  by (simp_all add: calculate_def Let_def case_prod_beta split: EGMModes.split)

lemma produce_outputs_time:
  assumes "produce_outputs bq outputs m = Some (out, m')"
  shows "duration m' = duration m" "active m \<Longrightarrow> elapsed m' = elapsed m + sample_time m"
    "ms_internal_goal (tmo_motion_step m') = ms_internal_goal (tmo_motion_step m)"
  using assms by (auto simp: produce_outputs_def evaluateInterpolator_def Let_def Option.bind_eq_Some_conv case_prod_beta
      split: if_splits)

lemma update_progress_step [simp]: "tmo_motion_step (update_progress out ic m) = tmo_motion_step m"
  by (simp add: update_progress_def Let_def)

text \<open>What a message leaves of the state \<open>p\<close> that processing it gives, after the interpolator was set up if the goal is new.\<close>

lemma generateOutputs_time:
  assumes "generateOutputs bq ic out m = Some (o', m')" "statesOk ic"
    and "install_goal (process_state (received ic m)) = Some p"
  shows "same_plan p m'" "duration m' = duration p" "active p \<Longrightarrow> elapsed m' = elapsed p + sample_time p"
    "ms_internal_goal (tmo_motion_step m') = ms_internal_goal (tmo_motion_step p)"
proof -
  obtain m4 where m4: "produce_outputs bq out p = Some (o', m4)" "m' = update_progress o' ic m4"
    using assms by (auto simp: generateOutputs_def Let_def Option.bind_eq_Some_conv)
  show "same_plan p m'"
    unfolding m4(2) by (rule same_plan_trans [OF produce_outputs_plan [OF m4(1)] update_progress_plan])
  show "duration m' = duration p" "active p \<Longrightarrow> elapsed m' = elapsed p + sample_time p"
    "ms_internal_goal (tmo_motion_step m') = ms_internal_goal (tmo_motion_step p)"
    using produce_outputs_time [OF m4(1)] by (simp_all add: m4(2))
qed

lemma install_old_goal: "\<not> dd_has_new_goal (tmo_data m) \<Longrightarrow> install_goal m = Some m"
  by (simp add: install_goal_def)

lemma install_new_goal:
  assumes "install_goal m = Some p" "dd_has_new_goal (tmo_data m)" "step_shaped nr ne (tmo_motion_step m)"
    "nr + ne \<le> MAX_NUMBER_OF_SPLINES"
  shows "elapsed p = Fin 0" "sample_time p = sample_time m"
    "duration p = fmax LOWEST_SAMPLE_TIME (cond_duration (ms_interpolator_conditions (tmo_motion_step m)))"
proof -
  let ?ms = "tmo_motion_step m"
  let ?i = "(ms_interpolation ?ms)\<lparr>pg_reach := Some (pg_reach_of (ms_internal_goal ?ms)),
    pg_duration := Some (cond_duration (ms_interpolator_conditions ?ms))\<rparr>"
  have "goal_shape nr ne ?i" "goal_shape nr ne (ms_internal_goal ?ms)"
    "length (ip_spline_polynomials (ms_interpolator ?ms)) = MAX_NUMBER_OF_SPLINES"
    using assms(3) by (simp_all add: step_shaped_def goal_shape_def)
  from EGMInterpolator_update_Some [OF this assms(4), of "ms_interpolator_conditions ?ms"] assms(1,2)
  show "elapsed p = Fin 0" "sample_time p = sample_time m"
    "duration p = fmax LOWEST_SAMPLE_TIME (cond_duration (ms_interpolator_conditions ?ms))"
    by (auto simp: install_goal_def updateInterpolator_def Let_def getDuration_def)
qed

section \<open>Counting the messages of a session\<close>

text \<open>
  The instances for one robot: orders in between keep the number of messages that are left, if they are \<open>ok\<close>, and
  every regular message brings the goal closer. All calls return, since the joint counts fit.
\<close>

locale message_progress =
  fixes bq :: boost_quaternion and nr ne :: nat and ok :: "motion_call \<Rightarrow> bool" and left :: "nat \<Rightarrow> TrajectoryMotion \<Rightarrow> bool"
    and goal :: "TrajectoryMotion \<Rightarrow> bool"
  assumes none_left: "\<not> left 0 m"
    and between: "left k m \<Longrightarrow> \<not> is_message c \<Longrightarrow> ok c \<Longrightarrow> call bq c m = Some m' \<Longrightarrow> left k m'"
    and message: "left (Suc k) m \<Longrightarrow> motion_shaped nr ne m \<Longrightarrow> nr + ne \<le> MAX_NUMBER_OF_SPLINES \<Longrightarrow> regular nr ne (Message ic out) \<Longrightarrow>
      generateOutputs bq ic out m = Some (o', m') \<Longrightarrow> goal m' \<or> left k m'"

sublocale message_progress \<subseteq> progress "call bq" "run bq"
  "\<lambda>cs _. list_all (\<lambda>c. regular nr ne c \<and> ok c) cs \<and> nr + ne \<le> MAX_NUMBER_OF_SPLINES" is_message "motion_shaped nr ne" left "\<lambda>_ _ m'. goal m'"
proof
  let ?allowed = "\<lambda>cs. list_all (\<lambda>c. regular nr ne c \<and> ok c) cs \<and> nr + ne \<le> MAX_NUMBER_OF_SPLINES"
  show "\<exists>m'. call bq c m = Some m' \<and> motion_shaped nr ne m' \<and> ?allowed cs" if "motion_shaped nr ne m" "?allowed (c # cs)" for m c cs
    using call_shaped [OF that(1), of c bq] that(2) regular_fitting by auto
  show "left k m'" if "left k m" "?allowed (c # cs)" "\<not> is_message c" "call bq c m = Some m'" for k m c cs m'
    using that between by simp
  show "goal m' \<or> left k m'"
    if "motion_shaped nr ne m" "left (Suc k) m" "?allowed (c # cs)" "is_message c" "call bq c m = Some m'" for m k c cs m'
  proof -
    note prems = that
    obtain ic out where c: "c = Message ic out" using prems(4) by (cases c) auto
    then obtain o' where o': "generateOutputs bq ic out m = Some (o', m')" using prems(5) by auto
    have "regular nr ne (Message ic out)" using prems(3) by (simp only: c list.pred_inject)
    from message [OF prems(2,1) _ this o'] prems(3) show ?thesis by simp
  qed
qed (simp_all add: none_left)

context message_progress
begin

lemma reaches_goal:
  assumes "left k m" "motion_shaped nr ne m" "nr + ne \<le> MAX_NUMBER_OF_SPLINES" "list_all (\<lambda>c. regular nr ne c \<and> ok c) cs"
    and "k \<le> length (filter is_message cs)"
  obtains cs1 cs2 m1 where "cs = cs1 @ cs2" "run bq cs1 m = Some m1" "goal m1" "motion_shaped nr ne m1"
    "length (filter is_message cs1) \<le> k"
proof -
  obtain cs1 c cs2 s1 s2 where e: "cs = cs1 @ c # cs2" "run bq cs1 m = Some s1" "call bq c s1 = Some s2" "goal s2"
    "length (filter is_message (cs1 @ [c])) \<le> k"
    using eventually [OF assms(1,2) _ assms(5)] assms(3,4) by blast
  have "run bq (cs1 @ [c]) m = Some s2" using e(2,3) by (simp add: run_append)
  moreover from this have "motion_shaped nr ne s2"
    using run_shaped [OF assms(2) _ assms(3), of "cs1 @ [c]" bq] assms(4) e(1) regular_fitting by (auto simp: list_all_iff)
  ultimately show thesis using e by (intro that [of "cs1 @ [c]" cs2 s2]) simp_all
qed

end

section \<open>A ramp down ends\<close>

text \<open>
  At most \<open>k\<close> messages are left until the ramp down has ended: it is ordered, about to be entered, running, or
  about to end. The ramp takes one second at most, 250 lowest sample times.
\<close>

inductive ramp_left :: "nat \<Rightarrow> TrajectoryMotion \<Rightarrow> bool" where
  ramp_ordered: "state_of m = (StNormal, SubRunning) \<Longrightarrow> \<not> has_pending m \<Longrightarrow> pe_do_ramp_down (events m) \<Longrightarrow> 253 \<le> k \<Longrightarrow>
    ramp_left k m"
| ramp_entering: "state_of m \<noteq> (StNormal, SubNone) \<Longrightarrow> has_pending m \<Longrightarrow> pending_of m = (StRampDown, SubNone) \<Longrightarrow> 252 \<le> k \<Longrightarrow>
    ramp_left k m"
| ramp_running: "state_of (entered m) = (StRampDown, SubRunning) \<Longrightarrow> fst (state_of m) = StRampDown \<Longrightarrow> active m \<Longrightarrow>
    duration m = Fin d \<Longrightarrow> elapsed m = Fin t \<Longrightarrow> d < t + 0.004 * real n + 0.002 \<Longrightarrow> n + 2 \<le> k \<Longrightarrow> ramp_left k m"
| ramp_ending: "state_of m = (StRampDown, SubRunning) \<Longrightarrow> has_pending m \<Longrightarrow> pending_of m = (StRampDown, SubFinished) \<Longrightarrow> 1 \<le> k \<Longrightarrow>
    ramp_left k m"

lemma ramp_left_0: "\<not> ramp_left 0 m"
  by (auto elim: ramp_left.cases)

lemma ramp_left_frame:
  assumes "ramp_left k m" "tmo_state_manager m' = tmo_state_manager m" "active m' = active m"
    "duration m' = duration m" "elapsed m' = elapsed m"
    "state_of m = (StNormal, SubRunning) \<Longrightarrow> pe_do_ramp_down (events m) \<Longrightarrow> pe_do_ramp_down (events m')"
  shows "ramp_left k m'"
  using assms(1)
proof cases
  case (ramp_running d t n)
  then show ?thesis using assms by (intro ramp_left.ramp_running [of m' d t n k]) simp_all
qed (use assms in \<open>auto intro: ramp_left.intros\<close>)

lemma give_ramp_down:
  "state_of m = (StNormal, SubRunning) \<Longrightarrow> pe_do_ramp_down (events m) \<Longrightarrow> pe_do_ramp_down (events (snd (give x m)))"
  by (cases x) (simp_all add: order_defs Let_def verifyState_state)

lemma ramp_left_other:
  assumes "ramp_left k m" "\<not> is_message c" "call bq c m = Some m'"
  shows "ramp_left k m'"
  using assms(2,3) give_ramp_down
  by (cases c) (auto intro!: ramp_left_frame [OF assms(1)] simp: give_frame updateConfigurations_def updateConfigurations_step_def)

text \<open>Every received message brings the end of the ramp down closer.\<close>

lemma process_interrupted:
  "state_of r = (StNormal, SubRunning) \<Longrightarrow> pe_do_ramp_down (events r) \<Longrightarrow> process_state r = set_pending StRampDown SubNone r"
  by (simp add: process_state_def processNormalState_def sm_state_def)

lemma ramp_ordered_step:
  assumes "state_of m = (StNormal, SubRunning)" "\<not> has_pending m" "pe_do_ramp_down (events m)" "252 \<le> k"
    and "\<not> ic_first_message ic" "statesOk ic" "generateOutputs bq ic out m = Some (o', m')"
  shows "ramp_left k m'"
proof -
  have n: "state_of m \<noteq> (StNormal, SubNone)" using assms(1) by simp
  note r = received_simps [OF assms(5,6) n]
  have sm: "tmo_state_manager (received ic m) = tmo_state_manager m" using assms(2) r(1) by (simp add: updateState_def)
  have "process_state (received ic m) = set_pending StRampDown SubNone (received ic m)"
    by (rule process_interrupted) (simp_all only: sm r(3) assms(1,3))
  then have "same_plan (set_pending StRampDown SubNone (received ic m)) m'"
    using generateOutputs_plan [OF assms(7)] assms(6) by simp
  then have "tmo_state_manager m' = setPendingState StRampDown SubNone (tmo_state_manager m)"
    using sm by (simp add: same_plan_def)
  with assms(1,4) show ?thesis
    by (intro ramp_left.ramp_entering) (simp_all add: setPendingState_def accepted_def sm_state_def)
qed

lemma ramp_start:
  assumes "state_of r = (StRampDown, SubNone)"
  shows "dd_has_new_goal (tmo_data (process_state r))" "active (process_state r)"
    "tmo_state_manager (process_state r) = setPendingState StRampDown SubRunning (tmo_state_manager r)"
    "sample_time (process_state r) = sample_time r"
    "cond_duration (ms_interpolator_conditions (tmo_motion_step (process_state r))) =
       Fin (if pe_do_stop (events r) then 1 else 1 / 2)"
  using assms
  by (simp_all add: process_state_def sm_state_def processRampDownState_def Let_def storeNormalGoal_def
      prepareRampDownGoal_def RAMP_DOWN_STOP_DURATION_def split: option.split)

lemma ramp_entering_step:
  assumes "state_of m \<noteq> (StNormal, SubNone)" "has_pending m" "pending_of m = (StRampDown, SubNone)" "251 \<le> k"
    and "regular nr ne (Message ic out)" "generateOutputs bq ic out m = Some (o', m')"
    and "motion_shaped nr ne m" "nr + ne \<le> MAX_NUMBER_OF_SPLINES"
  shows "ramp_left k m'"
proof -
  let ?r = "received ic m"
  have ic: "\<not> ic_first_message ic" "statesOk ic" "fits nr ne ic" using assms(5) by simp_all
  obtain T where T: "ic_estimated_sample_time ic = Fin T" "0.004 \<le> T" using assms(5) by auto
  note r = received_simps [OF ic(1,2) assms(1)]
  have st: "state_of ?r = (StRampDown, SubNone)" using assms(2,3) unfolding r(1) by (simp add: updateState_def sm_state_def)
  note start = ramp_start [OF st]
  define d where "d = (if pe_do_stop (events ?r) then 1 else 1 / 2 :: real)"
  have d: "cond_duration (ms_interpolator_conditions (tmo_motion_step (process_state ?r))) = Fin d" "d \<le> 1"
    using start(5) by (simp_all add: d_def)
  have "motion_ready nr ne (prepare ic m)"
    using prepare_ready [OF ic(3)] motion_shaped_splines [OF assms(7)] assms(7) unfolding splines_ok_def by blast
  then have "motion_ready nr ne (process_state ?r)" by (intro process_state_ready) (simp add: motion_ready_def)
  then have shaped: "step_shaped nr ne (tmo_motion_step (process_state ?r))" by (simp add: motion_ready_def)
  obtain p where p: "install_goal (process_state ?r) = Some p"
    using assms(6) ic(2) by (auto simp: generateOutputs_def Let_def Option.bind_eq_Some_conv)
  note new = install_new_goal [OF p start(1) shaped assms(8)]
  note t = generateOutputs_time [OF assms(6) ic(2) p]
  have plan: "same_plan (process_state ?r) m'" using generateOutputs_plan [OF assms(6)] ic(2) by simp
  have act: "active p" using install_goal_plan [OF p] start(2) by (simp add: same_plan_def)
  have sm: "tmo_state_manager m' = setPendingState StRampDown SubRunning (tmo_state_manager ?r)"
    using plan start(3) by (simp add: same_plan_def)
  have cur: "sm_current_state (tmo_state_manager ?r) = StRampDown" "sm_current_sub_state (tmo_state_manager ?r) = SubNone"
    using st by (simp_all add: sm_state_def)
  show ?thesis
  proof (rule ramp_left.ramp_running [of m' "max 0.004 d" T 249])
    show "state_of (entered m') = (StRampDown, SubRunning)" "fst (state_of m') = StRampDown"
      using cur by (simp_all add: sm setPendingState_def accepted_def updateState_def sm_state_def)
    show "active m'" using t(1) act by (simp add: same_plan_def)
    show "duration m' = Fin (max 0.004 d)" using t(2) new(3) d by (simp add: LOWEST_SAMPLE_TIME_def)
    show "elapsed m' = Fin T" using t(3) [OF act] new(1,2) start(4) r(8) T(1) by simp
  qed (use assms(4) T(2) d(2) in auto)
qed

lemma process_ramp:
  assumes "state_of r = (StRampDown, SubRunning)"
  shows "process_state r = (if interpolationDurationReached (tmo_motion_step r) then set_pending StRampDown SubFinished r else r)"
  using assms by (simp add: process_state_def sm_state_def processRampDownState_def)

lemma ramp_process_events:
  assumes "state_of r \<in> {(StRampDown, SubNone), (StRampDown, SubRunning)}"
  shows "events (process_state r) = events r" "state_of (process_state r) = state_of r"
  using assms
  by (auto simp: process_state_def sm_state_def processRampDownState_def storeNormalGoal_def Let_def setPendingState_def split: option.split)

lemma ramp_running_step:
  assumes "state_of (entered m) = (StRampDown, SubRunning)" "fst (state_of m) = StRampDown" "active m"
    and "duration m = Fin d" "elapsed m = Fin t" "d < t + 0.004 * real n + 0.002" "n + 1 \<le> k"
    and "regular nr ne (Message ic out)" "generateOutputs bq ic out m = Some (o', m')"
  shows "ramp_left k m'"
proof -
  have ic: "\<not> ic_first_message ic" "statesOk ic" using assms(8) by simp_all
  obtain T where T: "ic_estimated_sample_time ic = Fin T" "0.004 \<le> T" using assms(8) by auto
  have ne: "state_of m \<noteq> (StNormal, SubNone)" using assms(2) by auto
  define r where "r = received ic m"
  note simps = received_simps [OF ic ne, folded r_def]
  have st: "state_of r = (StRampDown, SubRunning)" "\<not> has_pending r" using assms(1) simps(1) by simp_all
  define p where "p = process_state r"
  have p: "p = (if interpolationDurationReached (tmo_motion_step r) then set_pending StRampDown SubFinished r else r)"
    unfolding p_def by (rule process_ramp [OF st(1)])
  have frame: "\<not> dd_has_new_goal (tmo_data p)" "active p" "duration p = Fin d" "elapsed p = Fin t" "sample_time p = Fin T"
    using assms(3-5) T(1) simps(4-8) by (simp_all add: p)
  have old: "install_goal (process_state (received ic m)) = Some p"
    using install_old_goal [OF frame(1)] by (simp add: p_def r_def)
  note time = generateOutputs_time [OF assms(9) ic(2) old]
  have sm: "tmo_state_manager m' = tmo_state_manager p" "active m'" using time(1) frame(2) by (simp_all add: same_plan_def)
  have dur: "duration m' = Fin d" "elapsed m' = Fin (t + T)" using time(2,3) frame by simp_all
  show ?thesis
  proof (cases "interpolationDurationReached (tmo_motion_step r)")
    case True
    with sm(1) st assms(7) show ?thesis
      by (intro ramp_left.ramp_ending) (simp_all add: p setPendingState_def accepted_def sm_state_def)
  next
    case False
    then have sm': "tmo_state_manager m' = tmo_state_manager r" using sm(1) by (simp add: p)
    have "0.002 \<le> d - t"
      using False assms(4,5) simps(6,7) by (simp add: interpolationDurationReached_def LOWEST_SAMPLE_TIME_def)
    with assms(6) obtain n' where n: "n = Suc n'" by (cases n) auto
    have up: "updateState (tmo_state_manager r) = tmo_state_manager r" using st(2) by (simp add: updateState_def)
    have "state_of (entered m') = (StRampDown, SubRunning)" "fst (state_of m') = StRampDown"
      using sm' st(1) up by simp_all
    moreover have "d < (t + T) + 0.004 * real n' + 0.002" "n' + 2 \<le> k" using assms(6,7) T(2) n by (auto simp: add_divide_distrib)
    ultimately show ?thesis using ramp_left.ramp_running [OF _ _ sm(2) dur] by blast
  qed
qed

lemma ramp_ending_step:
  assumes "state_of m = (StRampDown, SubRunning)" "has_pending m" "pending_of m = (StRampDown, SubFinished)"
    and "\<not> ic_first_message ic" "statesOk ic" "generateOutputs bq ic out m = Some (o', m')"
  shows "state_of m' = (StRampDown, SubFinished)"
proof -
  have ne: "state_of m \<noteq> (StNormal, SubNone)" using assms(1) by simp
  define r where "r = received ic m"
  note simps = received_simps [OF assms(4,5) ne, folded r_def]
  have st: "state_of r = (StRampDown, SubFinished)" using assms(2,3) simps(1) by (simp add: updateState_def sm_state_def)
  have "process_state r = ramped_decision (ramped_events r)"
    using st by (simp add: process_state_of(2) processRampDownState_ramped)
  moreover have "state_of (ramped_decision (ramped_events r)) = state_of r"
    by (simp add: ramped_decision_def Let_def ramped_events_frame(1))
  moreover have "tmo_state_manager m' = tmo_state_manager (process_state r)"
    using generateOutputs_plan [OF assms(6)] assms(5) by (simp add: same_plan_def r_def)
  ultimately show ?thesis using st by simp
qed

lemma ramp_left_message:
  assumes "ramp_left (Suc k) m" "regular nr ne (Message ic out)" "generateOutputs bq ic out m = Some (o', m')"
    and "motion_shaped nr ne m" "nr + ne \<le> MAX_NUMBER_OF_SPLINES"
  shows "state_of m' = (StRampDown, SubFinished) \<or> ramp_left k m'"
  using assms(1)
proof cases
  case ramp_ordered
  then show ?thesis using ramp_ordered_step [of m k ic bq out] assms(2,3) by simp
next
  case ramp_entering
  then show ?thesis using ramp_entering_step [of m k] assms(2-5) by simp
next
  case (ramp_running d t n)
  then show ?thesis using ramp_running_step [of m d t n k] assms(2,3) by simp
next
  case ramp_ending
  then show ?thesis using ramp_ending_step [of m ic bq out] assms(2,3) by simp
qed

interpretation ramp: message_progress bq nr ne "\<lambda>_. True" ramp_left "\<lambda>m. state_of m = (StRampDown, SubFinished)" for bq nr ne
proof
  show "state_of m' = (StRampDown, SubFinished) \<or> ramp_left k m'"
    if "ramp_left (Suc k) m" "motion_shaped nr ne m" "nr + ne \<le> MAX_NUMBER_OF_SPLINES" "regular nr ne (Message ic out)"
      "generateOutputs bq ic out m = Some (o', m')" for k m ic out o' m'
    using ramp_left_message [OF that(1,4,5,2,3)] .
qed (simp_all add: ramp_left_0 ramp_left_other)

text \<open>
  C14: A ramp down ends within 253 messages. From the moment in which the user has ordered it, by a stop, an
  overriding trajectory, a change of the duration factor or a static goal, and whatever is ordered afterwards, the
  execution is in the ramped down state after at most 253 messages of the session, each at least 4 ms after the
  one before; all calls until then return.
\<close>

theorem ramp_down_ends:
  assumes "motion_shaped nr ne m" "nr + ne \<le> MAX_NUMBER_OF_SPLINES"
    and "state_of m = (StNormal, SubRunning)" "\<not> has_pending m" "pe_do_ramp_down (events m)"
    and "list_all (regular nr ne) cs" "253 \<le> length (filter is_message cs)"
  shows "\<exists>cs1 cs2 m'. cs = cs1 @ cs2 \<and> length (filter is_message cs1) \<le> 253 \<and> run bq cs1 m = Some m' \<and>
    state_of m' = (StRampDown, SubFinished)"
proof -
  have "ramp_left 253 m" using assms(3-5) by (intro ramp_left.ramp_ordered) simp_all
  moreover have "list_all (\<lambda>c. regular nr ne c \<and> True) cs" using assms(6) by simp
  ultimately show ?thesis using ramp.reaches_goal [OF _ assms(1,2) _ assms(7)] by metis
qed

text \<open>A new motion after the first message of a robot with six joints.\<close>

lemma first_message_plan:
  assumes "generateOutputs bq ic out new_sample = Some (o', m)" "statesOk ic" "ic_first_message ic"
  shows "state_of m = (StNormal, SubRunning)" "\<not> has_pending m" "tmo_trajectories m = tmo_trajectories new_sample"
    "events m = init_PendingEvents"
proof -
  have sm: "tmo_state_manager (received ic new_sample) = init_StateManager\<lparr>sm_current_state := StNormal, sm_current_sub_state := SubRunning\<rparr>"
    using assms(2,3) by (simp add: prepare_def Let_def reset_components_def resetTrajectoryMotion_def init_TrajectoryMotion_def
        verifyState_def resetStateManager_def activateStateManager_def updateState_def init_StateManager_def)
  have "tmo_state_manager (process_state (received ic new_sample)) = tmo_state_manager (received ic new_sample)"
    "tmo_trajectories (process_state (received ic new_sample)) = tmo_trajectories new_sample"
    "events (process_state (received ic new_sample)) = init_PendingEvents"
    using assms(2,3) by (simp_all add: process_state_def processNormalState_def prepare_def Let_def reset_components_def
        resetTrajectoryMotion_def init_TrajectoryMotion_def init_DecisionData_def init_PendingEvents_def
        verifyState_def resetStateManager_def activateStateManager_def updateState_def init_StateManager_def)
  with sm have "tmo_state_manager m = init_StateManager\<lparr>sm_current_state := StNormal, sm_current_sub_state := SubRunning\<rparr>"
    "tmo_trajectories m = tmo_trajectories new_sample" "events m = init_PendingEvents"
    using generateOutputs_plan [OF assms(1)] assms(2) by (simp_all add: same_plan_def)
  then show "state_of m = (StNormal, SubRunning)" "\<not> has_pending m" "tmo_trajectories m = tmo_trajectories new_sample"
    "events m = init_PendingEvents" by (simp_all add: sm_state_def init_StateManager_def)
qed

lemma first_sample:
  obtains m where "call bq (Message six_joints default_Output) new_sample = Some m" "motion_shaped 6 0 m"
    "state_of m = (StNormal, SubRunning)" "\<not> has_pending m" "tmo_trajectories m = tmo_trajectories new_sample"
    "events m = init_PendingEvents"
proof -
  have "\<exists>o' m. generateOutputs bq six_joints default_Output new_sample = Some (o', m) \<and> motion_shaped 6 0 m"
    using splines_ok_init
    by (intro generateOutputs_shaped)
      (simp_all add: splines_ok_def six_joints_def fits_def feedback_sizes_def MAX_NUMBER_OF_SPLINES_def joint_counts)
  then obtain o' m where m: "generateOutputs bq six_joints default_Output new_sample = Some (o', m)" "motion_shaped 6 0 m"
    by blast
  have "statesOk six_joints" "ic_first_message six_joints" by (simp_all add: six_joints_def statesOk_def)
  with m first_message_plan [OF m(1)] show thesis by (intro that [of m]) simp_all
qed

definition next_message :: motion_call where
  "next_message = Message (six_joints\<lparr>ic_first_message := False\<rparr>) default_Output"

lemma next_message_regular [simp]: "regular 6 0 next_message" "is_message next_message"
  by (auto simp: next_message_def six_joints_def fits_def feedback_sizes_def statesOk_def init_InputContainer_def
      LOWEST_SAMPLE_TIME_def intro: exI [of _ "1 / 250"])

theorem ramp_down_ends_witness:
  "\<exists>m cs m'. call hamilton (Order (StopTrajectory False)) m = Some m' \<and> pe_do_ramp_down (events m') \<and>
     (\<exists>m''. run hamilton cs m' = Some m'' \<and> state_of m'' = (StRampDown, SubFinished))"
proof -
  obtain m where m: "motion_shaped 6 0 m" "state_of m = (StNormal, SubRunning)" "\<not> has_pending m" by (rule first_sample)
  define m' where "m' = snd (give (StopTrajectory False) m)"
  have c: "call hamilton (Order (StopTrajectory False)) m = Some m'" by (simp only: m'_def call.simps)
  have "motion_shaped 6 0 m'" using m(1) by (simp add: m'_def motion_shaped_def give_frame del: give.simps)
  moreover have "state_of m' = (StNormal, SubRunning)" "\<not> has_pending m'"
    using m(2,3) by (simp_all add: m'_def give_frame del: give.simps)
  moreover have r: "pe_do_ramp_down (events m')" using m(2) by (simp add: m'_def stopTrajectory_def verifyState_state)
  moreover have "list_all (regular 6 0) (replicate 253 next_message)" by (simp add: list_all_iff)
  moreover have "(6 :: nat) + 0 \<le> MAX_NUMBER_OF_SPLINES" by (simp add: MAX_NUMBER_OF_SPLINES_def joint_counts)
  ultimately have "\<exists>cs1 cs2 m''. replicate 253 next_message = cs1 @ cs2 \<and> length (filter is_message cs1) \<le> 253 \<and>
      run hamilton cs1 m' = Some m'' \<and> state_of m'' = (StRampDown, SubFinished)"
    by (intro ramp_down_ends) simp_all
  with c r show ?thesis by blast
qed

section \<open>A goal is finished\<close>

text \<open>Orders that do not interrupt the motion.\<close>

fun calm :: "motion_call \<Rightarrow> bool" where
  "calm (Order (AddTrajectory t ovr)) \<longleftrightarrow> \<not> ovr"
| "calm (Order (StopTrajectory d)) \<longleftrightarrow> False"
| "calm (Order (UpdateDurationFactor f)) \<longleftrightarrow> False"
| "calm (Order (StartStaticGoal d)) \<longleftrightarrow> False"
| "calm _ \<longleftrightarrow> True"

text \<open>The goal \<open>g\<close> is followed, need not be reached, and is finished after at most \<open>k\<close> more messages.\<close>

inductive goal_left :: "PointGoal \<Rightarrow> nat \<Rightarrow> TrajectoryMotion \<Rightarrow> bool" for g where
  goal_followed: "state_of m = (StNormal, SubRunning) \<Longrightarrow> \<not> has_pending m \<Longrightarrow> \<not> pe_do_ramp_down (events m) \<Longrightarrow> active m \<Longrightarrow>
    p_current m = Some tr \<Longrightarrow> external_goal m = g \<Longrightarrow> \<not> pg_reach_of (ms_internal_goal (tmo_motion_step m)) \<Longrightarrow>
    duration m = Fin d \<Longrightarrow> elapsed m = Fin t \<Longrightarrow> d < t + 0.004 * real n + 0.002 \<Longrightarrow> n + 1 \<le> k \<Longrightarrow> goal_left g k m"

lemma goal_left_0: "\<not> goal_left g 0 m"
  by (auto elim: goal_left.cases)

lemma give_calm:
  "state_of m = (StNormal, SubRunning) \<Longrightarrow> calm (Order x) \<Longrightarrow> pe_do_ramp_down (events (snd (give x m))) = pe_do_ramp_down (events m)"
  by (cases x) (simp_all add: order_defs Let_def verifyState_state)

lemma goal_left_other:
  assumes "goal_left g k m" "\<not> is_message c" "calm c" "call bq c m = Some m'"
  shows "goal_left g k m'"
  using assms(1)
proof cases
  case (goal_followed tr d t n)
  show ?thesis
  proof (cases c)
    case (Order x)
    with assms(4) have "m' = snd (give x m)" by simp
    with goal_followed give_calm [of m x] assms(3) Order show ?thesis
      by (intro goal_left.goal_followed [of m' tr g d t n]) (simp_all add: give_frame external_goal_def del: give.simps)
  next
    case (Reconfigure cfg)
    with goal_followed assms(4) show ?thesis
      by (intro goal_left.goal_followed [of m' tr g d t n])
        (auto simp: updateConfigurations_def updateConfigurations_step_def external_goal_def)
  qed (use assms(2) in simp)
qed

lemma goal_left_message:
  assumes "goal_left g (Suc k) m" "regular nr ne (Message ic out)" "generateOutputs bq ic out m = Some (o', m')"
  shows "take 1 (call_finishes (Message ic out) m) = [g] \<or> goal_left g k m'"
  using assms(1)
proof cases
  case (goal_followed tr d t n)
  have ic: "\<not> ic_first_message ic" "statesOk ic" using assms(2) by simp_all
  obtain T where T: "ic_estimated_sample_time ic = Fin T" "0.004 \<le> T" using assms(2) by auto
  have ne: "state_of m \<noteq> (StNormal, SubNone)" using goal_followed(1) by simp
  define r where "r = received ic m"
  note simps = received_simps [OF ic ne, folded r_def]
  have sm: "tmo_state_manager r = tmo_state_manager m" using goal_followed(2) simps(1) by (simp add: updateState_def)
  have r: "state_of r = (StNormal, SubRunning)" "p_current r = Some tr" "\<not> pe_do_ramp_down (events r)"
    "\<not> pg_reach_of (ms_internal_goal (tmo_motion_step r))" "external_goal r = g"
    using goal_followed simps sm by simp_all
  show ?thesis
  proof (cases "interpolationDurationReached (tmo_motion_step r)")
    case True
    then have "finished_points r = g # skipped_points r"
      using r by (simp add: finished_points_def finished_normal_def completed_def)
    then show ?thesis using ic(2) by (simp add: r_def)
  next
    case False
    then have p: "process_state r = r" using r by (simp add: process_state_def processNormalState_def sm_state_def)
    then have old: "install_goal (process_state (received ic m)) = Some r"
      using install_old_goal [of r] simps(5) by (simp add: r_def)
    note time = generateOutputs_time [OF assms(3) ic(2) old]
    have act: "active r" using simps(4) goal_followed(4) by simp
    have "0.002 \<le> d - t"
      using False goal_followed simps(6,7) by (simp add: interpolationDurationReached_def LOWEST_SAMPLE_TIME_def)
    with goal_followed obtain n' where n: "n = Suc n'" by (cases n) auto
    have "d < (t + T) + 0.004 * real n' + 0.002" "n' + 1 \<le> k" using goal_followed T(2) n by (auto simp: add_divide_distrib)
    moreover have "duration m' = Fin d" "elapsed m' = Fin (t + T)"
      using time(2,3) act goal_followed simps(6-8) T(1) by simp_all
    moreover have "same_plan r m'" by (rule time(1))
    ultimately have "goal_left g k m'"
      using r act goal_followed(2) sm time(4)
      by (intro goal_left.goal_followed [of m' tr g d "t + T" n']) (simp_all add: same_plan_def)
    then show ?thesis ..
  qed
qed

interpretation following: progress "call bq" "run bq" "\<lambda>cs _. list_all (\<lambda>c. regular nr ne c \<and> calm c) cs \<and> nr + ne \<le> MAX_NUMBER_OF_SPLINES"
  is_message "motion_shaped nr ne" "goal_left g" "\<lambda>c m _. take 1 (call_finishes c m) = [g]" for bq nr ne g
proof
  show "\<exists>m'. call bq c m = Some m' \<and> motion_shaped nr ne m' \<and> list_all (\<lambda>c. regular nr ne c \<and> calm c) cs \<and> nr + ne \<le> MAX_NUMBER_OF_SPLINES"
    if "motion_shaped nr ne m" "list_all (\<lambda>c. regular nr ne c \<and> calm c) (c # cs) \<and> nr + ne \<le> MAX_NUMBER_OF_SPLINES" for m c cs
    using call_shaped [OF that(1), of c bq] that(2) regular_fitting by auto
  show "goal_left g k m'"
    if "goal_left g k m" "list_all (\<lambda>c. regular nr ne c \<and> calm c) (c # cs) \<and> nr + ne \<le> MAX_NUMBER_OF_SPLINES" "\<not> is_message c" "call bq c m = Some m'"
    for k m c cs m'
    using that goal_left_other by auto
  show "take 1 (call_finishes c m) = [g] \<or> goal_left g k m'"
    if "goal_left g (Suc k) m" "list_all (\<lambda>c. regular nr ne c \<and> calm c) (c # cs) \<and> nr + ne \<le> MAX_NUMBER_OF_SPLINES" "is_message c"
      "call bq c m = Some m'" for m k c cs m'
  proof -
    note prems = that
    obtain ic out where c: "c = Message ic out" using prems(3) by (cases c) auto
    then obtain o' where "generateOutputs bq ic out m = Some (o', m')" using prems(4) by auto
    moreover have "regular nr ne (Message ic out)" using prems(2) by (simp only: c list.pred_inject)
    ultimately show ?thesis using goal_left_message [OF prems(1)] by (simp only: c)
  qed
qed (simp_all add: goal_left_0)

text \<open>
  A goal is finished in time. While a goal of duration \<open>d\<close> that need not be reached is followed, of which the
  time \<open>t\<close> has passed, and the user does not interrupt the motion, it is finished with one of the next \<open>n + 1\<close>
  messages of the session, where \<open>n\<close> lowest sample times of 4 ms make up for the time that is left.
\<close>

theorem goal_is_finished:
  assumes "motion_shaped nr ne m" "nr + ne \<le> MAX_NUMBER_OF_SPLINES"
    and "state_of m = (StNormal, SubRunning)" "\<not> has_pending m" "\<not> pe_do_ramp_down (events m)" "active m"
    and "p_current m = Some tr" "\<not> pg_reach_of (ms_internal_goal (tmo_motion_step m))"
    and "getDuration (ms_interpolator (tmo_motion_step m)) = Fin d" "pd_time_passed (ms_data (tmo_motion_step m)) = Fin t"
    and "d < t + 0.004 * real n + 0.002" "list_all (regular nr ne) cs" "list_all calm cs"
    and "n < length (filter is_message cs)"
  shows "\<exists>cs1 c cs2 m1. cs = cs1 @ c # cs2 \<and> length (filter is_message (cs1 @ [c])) \<le> n + 1 \<and>
    run bq cs1 m = Some m1 \<and> take 1 (call_finishes c m1) = [external_goal m]"
proof -
  have "goal_left (external_goal m) (n + 1) m" using assms by (intro goal_followed [of m tr _ d t n]) simp_all
  moreover have "list_all (\<lambda>c. regular nr ne c \<and> calm c) cs \<and> nr + ne \<le> MAX_NUMBER_OF_SPLINES"
    using assms(2,12,13) by (auto simp: list_all_iff)
  moreover have "n + 1 \<le> length (filter is_message cs)" using assms(14) by simp
  ultimately show ?thesis using following.eventually [of "external_goal m" "n + 1" m nr ne cs bq] assms(1) by blast
qed

theorem goal_is_finished_witness:
  "\<exists>m cs c m1. duration m = Fin 1 \<and> elapsed m = Fin 0 \<and> length (filter is_message (cs @ [c])) \<le> 251 \<and> run hamilton cs m = Some m1 \<and>
     take 1 (call_finishes c m1) = [external_goal m]"
proof -
  obtain m0 where m0: "motion_shaped 6 0 m0" "state_of m0 = (StNormal, SubRunning)" "\<not> has_pending m0" by (rule first_sample)
  let ?ms = "tmo_motion_step m0"
  define ms where "ms = ?ms\<lparr>ms_internal_goal := (ms_internal_goal ?ms)\<lparr>pg_reach := Some False\<rparr>,
    ms_data := (ms_data ?ms)\<lparr>pd_time_passed := Fin 0\<rparr>,
    ms_interpolator := (ms_interpolator ?ms)\<lparr>ip_offset := 6, ip_conditions := default_Conditions\<lparr>cond_duration := Fin 1\<rparr>\<rparr>\<rparr>"
  define m where "m = m0\<lparr>tmo_motion_step := ms, tmo_controller := (tmo_controller m0)\<lparr>mc_initial_references := ms_interpolation ?ms\<rparr>,
    tmo_data := init_DecisionData\<lparr>dd_has_active_goal := True\<rparr>,
    tmo_trajectories := (tmo_trajectories m0)\<lparr>tq_p_current := Some \<lparr>tr_points = []\<rparr>\<rparr>\<rparr>"
  have "motion_shaped 6 0 m"
    using m0(1) by (simp add: motion_shaped_def step_shaped_def offset_ok_def m_def ms_def)
  moreover have "state_of m = (StNormal, SubRunning)" "\<not> has_pending m" using m0(2,3) by (simp_all add: m_def)
  moreover have "\<not> pe_do_ramp_down (events m)" "active m" "p_current m = Some \<lparr>tr_points = []\<rparr>"
    by (simp_all add: m_def init_DecisionData_def init_PendingEvents_def)
  moreover have m: "\<not> pg_reach_of (ms_internal_goal (tmo_motion_step m))" "duration m = Fin 1" "elapsed m = Fin 0"
    by (simp_all add: m_def ms_def getDuration_def)
  moreover have "list_all (regular 6 0) (replicate 251 next_message)" by (simp add: list_all_iff)
  moreover have "list_all calm (replicate 251 next_message)" by (simp add: list_all_iff next_message_def)
  moreover have "(6 :: nat) + 0 \<le> MAX_NUMBER_OF_SPLINES" by (simp add: MAX_NUMBER_OF_SPLINES_def joint_counts)
  ultimately have "\<exists>cs1 c cs2 m1. replicate 251 next_message = cs1 @ c # cs2 \<and> length (filter is_message (cs1 @ [c])) \<le> 250 + 1 \<and>
      run hamilton cs1 m = Some m1 \<and> take 1 (call_finishes c m1) = [external_goal m]"
    by (intro goal_is_finished [of 6 0 m "\<lparr>tr_points = []\<rparr>" 1 0 250]) simp_all
  then obtain cs1 c m1 where "length (filter is_message (cs1 @ [c])) \<le> 250 + 1" "run hamilton cs1 m = Some m1"
      "take 1 (call_finishes c m1) = [external_goal m]" by blast
  with m show ?thesis by (intro exI [of _ m] exI [of _ cs1] exI [of _ c] exI [of _ m1]) simp
qed

end
