(* ===== verification/EGM_Tracking.thy ===== *)
theory EGM_Tracking
  imports EGM_Progress
begin

text \<open>
  From the interpolated references to the outputs: \<open>TrajectoryMotion::Controller\<close> has the constant gain 1, so that in
  joint mode the output positions are the references and the feedback drops out. At the end of a goal that has to
  be reached the output velocities are zero.
\<close>

section \<open>One group of joints\<close>

text \<open>The reference after the velocity transition.\<close>

definition blended :: "MotionController \<Rightarrow> double \<Rightarrow> double \<Rightarrow> double" where
  "blended mc s r =
     (if mc_do_velocity_transition mc
      then if mc_is_linear mc then mc_a mc * (s + mc_b mc * (r - s)) else mc_a mc * r
      else r)"

lemma update_front: "length xs = i \<Longrightarrow> i < length ys \<Longrightarrow> (xs @ drop i ys)[i := v] = (xs @ [v]) @ drop (Suc i) ys"
  by (simp add: list_update_append Cons_nth_drop_Suc [symmetric])

lemma calculate_Joints_values:
  fixes mc :: MotionController
  assumes "length (jvalues p_out) = n" "length (jvalues p_ref) = n" "length (jvalues feedback) = n" "length (jvalues start) = n"
  defines "r \<equiv> \<lambda>i. blended mc (jvalues start ! i) (jvalues p_ref ! i)"
  shows "jvalues (snd (calculate_Joints mc feedback start (p_out, p_ref))) = map r [0..<n]"
    "jvalues (fst (calculate_Joints mc feedback start (p_out, p_ref))) =
       map (\<lambda>i. jvalues feedback ! i + mc_k mc * (r i - jvalues feedback ! i)) [0..<n]"
proof -
  let ?o = "\<lambda>i. jvalues feedback ! i + mc_k mc * (r i - jvalues feedback ! i)"
  let ?body = "\<lambda>i (p_out, p_ref).
          let s = jvalues start ! i; r = jvalues p_ref ! i; f = jvalues feedback ! i;
              p_ref1 =
                (if mc_do_velocity_transition mc
                 then
                   if mc_is_linear mc then set_value i (mc_a mc * (s + mc_b mc * (r - s))) p_ref
                   else set_value i (mc_a mc * r) p_ref
                 else p_ref)
          in (set_value i (f + mc_k mc * (jvalues p_ref1 ! i - f)) p_out, p_ref1)"
  have "i \<le> n \<Longrightarrow> jvalues (snd (for_range i ?body (p_out, p_ref))) = map r [0..<i] @ drop i (jvalues p_ref) \<and>
      jvalues (fst (for_range i ?body (p_out, p_ref))) = map ?o [0..<i] @ drop i (jvalues p_out)" for i
  proof (induction i)
    case (Suc i)
    obtain o1 r1 where st: "for_range i ?body (p_out, p_ref) = (o1, r1)" by (cases "for_range i ?body (p_out, p_ref)")
    from Suc st have v: "jvalues r1 = map r [0..<i] @ drop i (jvalues p_ref)" "jvalues o1 = map ?o [0..<i] @ drop i (jvalues p_out)"
      by auto
    have ri: "jvalues r1 ! i = jvalues p_ref ! i" "i < length (jvalues r1)" using Suc.prems assms(2) by (simp_all add: v nth_append)
    have body: "jvalues (snd (?body i (o', r'))) = (jvalues r')[i := blended mc (jvalues start ! i) (jvalues r' ! i)]"
      "jvalues (fst (?body i (o', r'))) = (jvalues o')[i := jvalues feedback ! i +
         mc_k mc * (blended mc (jvalues start ! i) (jvalues r' ! i) - jvalues feedback ! i)]"
      if "i < length (jvalues r')" for o' r'
      using that by (simp_all add: blended_def set_value_def Let_def)
    have "jvalues (snd (?body i (o1, r1))) = (jvalues r1)[i := r i]" "jvalues (fst (?body i (o1, r1))) = (jvalues o1)[i := ?o i]"
      using body [OF ri(2)] by (simp_all only: ri(1) r_def)
    then show ?case using Suc.prems assms(1,2) by (simp add: st v update_front del: append_assoc)
  qed simp
  from this [of n] show "jvalues (snd (calculate_Joints mc feedback start (p_out, p_ref))) = map r [0..<n]"
    "jvalues (fst (calculate_Joints mc feedback start (p_out, p_ref))) = map ?o [0..<n]"
    using assms(1-4) by (simp_all add: calculate_Joints_def)
qed

text \<open>With gain 1 the feedback drops out.\<close>

lemma gain_one: "is_fin f \<Longrightarrow> f + Fin 1 * (r - f) = r"
  by (cases r) (auto simp: is_fin_iff minus_double_def)

lemma gain_one_fin: "is_fin (f + Fin 1 * (r - f)) \<Longrightarrow> is_fin f"
  by (cases r; cases f) (simp_all add: minus_double_def)

definition values_fin :: "nat \<Rightarrow> Joints \<Rightarrow> bool" where
  "values_fin n j \<longleftrightarrow> length (jvalues j) = n \<and> (\<forall>v \<in> set (jvalues j). is_fin v)"

lemma values_fin_nth: "values_fin n j \<Longrightarrow> i < n \<Longrightarrow> is_fin (jvalues j ! i)"
  by (simp add: values_fin_def)

lemma calculate_Joints_references:
  assumes "length (jvalues p_out) = n" "length (jvalues p_ref) = n" "length (jvalues feedback) = n" "length (jvalues start) = n"
    and "\<not> mc_do_velocity_transition mc"
  shows "jvalues (snd (calculate_Joints mc feedback start (p_out, p_ref))) = jvalues p_ref"
  using calculate_Joints_values(1) [OF assms(1-4), of mc] assms(2,5) map_nth [of "jvalues p_ref"] by (simp add: blended_def)

lemma calculate_Joints_track:
  assumes "mc_k mc = Fin 1" "length (jvalues p_out) = n" "length (jvalues p_ref) = n" "values_fin n feedback" "length (jvalues start) = n"
    and "\<not> mc_do_velocity_transition mc"
  shows "jvalues (fst (calculate_Joints mc feedback start (p_out, p_ref))) = jvalues p_ref"
proof -
  have len: "length (jvalues feedback) = n" using assms(4) by (simp add: values_fin_def)
  have b: "blended mc s r = r" for s r using assms(6) by (simp add: blended_def)
  show ?thesis
    unfolding calculate_Joints_values(2) [OF assms(2,3) len assms(5)]
    using assms(3) values_fin_nth [OF assms(4)]
    by (intro nth_equalityI) (simp_all add: b assms(1) gain_one)
qed

text \<open>With gain 1 an output is finite only if the feedback is.\<close>

lemma calculate_Joints_feedback_fin:
  assumes "mc_k mc = Fin 1" "length (jvalues p_out) = n" "length (jvalues p_ref) = n" "length (jvalues feedback) = n"
    and "length (jvalues start) = n" "\<forall>v \<in> set (jvalues (fst (calculate_Joints mc feedback start (p_out, p_ref)))). is_fin v"
  shows "values_fin n feedback"
proof -
  have "is_fin (jvalues feedback ! i)" if "i < n" for i
    using assms(6) that unfolding calculate_Joints_values(2) [OF assms(2-5)] assms(1) by (auto intro: gain_one_fin)
  with assms(4) show ?thesis by (auto simp: values_fin_def in_set_conv_nth)
qed

lemma calculate_Joints_rest:
  assumes "mc_k mc = Fin 1" "length (jvalues p_out) = n" "values_fin n p_ref" "values_fin n feedback" "values_fin n start"
    and "mc_do_velocity_transition mc" "mc_a mc = Fin 0" "is_fin (mc_b mc)"
  shows "jvalues (fst (calculate_Joints mc feedback start (p_out, p_ref))) = replicate n (Fin 0)"
proof -
  have len: "length (jvalues p_ref) = n" "length (jvalues feedback) = n" "length (jvalues start) = n"
    using assms(3-5) by (simp_all add: values_fin_def)
  have b: "blended mc (jvalues start ! i) (jvalues p_ref ! i) = Fin 0" if "i < n" for i
    using values_fin_nth [OF assms(3) that] values_fin_nth [OF assms(5) that] assms(6-8) by (auto simp: blended_def is_fin_iff)
  show ?thesis
    unfolding calculate_Joints_values(2) [OF assms(2) len] using values_fin_nth [OF assms(4)]
    by (intro nth_equalityI) (simp_all add: b assms(1) gain_one del: times_double.simps)
qed

section \<open>The controller in joint mode\<close>

abbreviation out_positions :: "Output \<Rightarrow> double list \<times> double list" where
  "out_positions out \<equiv> (jvalues (js_position_of (rob_joints_of (out_robot_of out))),
     jvalues (js_position_of (ext_joints_of (out_external_of out))))"

abbreviation out_velocities :: "Output \<Rightarrow> double list \<times> double list" where
  "out_velocities out \<equiv> (jvalues (js_velocity_of (rob_joints_of (out_robot_of out))),
     jvalues (js_velocity_of (ext_joints_of (out_external_of out))))"

abbreviation goal_positions :: "PointGoal \<Rightarrow> double list \<times> double list" where
  "goal_positions g \<equiv> (robot_positions g, external_positions g)"

definition output_shape :: "nat \<Rightarrow> nat \<Rightarrow> Output \<Rightarrow> bool" where
  "output_shape nr ne out \<longleftrightarrow>
     length (fst (out_positions out)) = nr \<and> length (snd (out_positions out)) = ne \<and>
     length (fst (out_velocities out)) = nr \<and> length (snd (out_velocities out)) = ne"

definition positions_fin :: "nat \<Rightarrow> nat \<Rightarrow> Feedback \<Rightarrow> bool" where
  "positions_fin nr ne fb \<longleftrightarrow>
     values_fin nr (js_position_of (rob_joints_of (fb_robot_of fb))) \<and> values_fin ne (js_position_of (ext_joints_of (fb_external_of fb)))"

definition outputs_fin :: "Output \<Rightarrow> bool" where
  "outputs_fin out \<longleftrightarrow> (\<forall>v \<in> set (fst (out_positions out)) \<union> set (snd (out_positions out)). is_fin v)"

definition velocities_fin :: "nat \<Rightarrow> nat \<Rightarrow> Feedback \<Rightarrow> bool" where
  "velocities_fin nr ne fb \<longleftrightarrow>
     values_fin nr (js_velocity_of (rob_joints_of (fb_robot_of fb))) \<and> values_fin ne (js_velocity_of (ext_joints_of (fb_external_of fb)))"

definition goal_velocities_fin :: "nat \<Rightarrow> nat \<Rightarrow> PointGoal \<Rightarrow> bool" where
  "goal_velocities_fin nr ne g \<longleftrightarrow>
     values_fin nr (jg_velocity_of (goal_robot_joints g)) \<and> values_fin ne (jg_velocity_of (goal_external_joints g))"

text \<open>The parts of the outputs and references, each from one call on a group of joints.\<close>

lemma velocity_transition_frame [simp]:
  "jg_position_of (goal_robot_joints (fst (checkForVelocityTransition refs mc))) = jg_position_of (goal_robot_joints refs)"
  "jg_position_of (goal_external_joints (fst (checkForVelocityTransition refs mc))) = jg_position_of (goal_external_joints refs)"
  "jg_velocity_of (goal_robot_joints (fst (checkForVelocityTransition refs mc))) = jg_velocity_of (goal_robot_joints refs)"
  "jg_velocity_of (goal_external_joints (fst (checkForVelocityTransition refs mc))) = jg_velocity_of (goal_external_joints refs)"
  by (simp_all add: checkForVelocityTransition_def Let_def)

definition scaled :: "MotionStep \<Rightarrow> MotionController \<Rightarrow> MotionController" where
  "scaled ms mc = scale_factors
     (saturate (pd_time_passed (ms_data ms) / pg_duration_of (ms_interpolation ms)) (Fin 0) (Fin 1))
     (pg_reach_of (ms_interpolation ms)) (mc\<lparr>mc_do_velocity_transition := False\<rparr>)"

lemmas calc_joint_defs = calc_robot_position_def calc_external_position_def calc_robot_velocity_def calc_external_velocity_def

lemma calculate_joint_mode:
  assumes "calculate outputs ms mc = (out, ms', mc')" "mc_egm_mode mc = EGMJoint"
  defines "pos_r \<equiv> calculate_Joints (scaled ms mc) (fdb_robot_position ms) (jg_position_of (goal_robot_joints (mc_initial_references mc)))
      (js_position_of (rob_joints_of (out_robot_of outputs)), jg_position_of (goal_robot_joints (ms_interpolation ms)))"
    and "pos_e \<equiv> calculate_Joints (scaled ms mc) (fdb_external_position ms) (jg_position_of (goal_external_joints (mc_initial_references mc)))
      (js_position_of (ext_joints_of (out_external_of outputs)), jg_position_of (goal_external_joints (ms_interpolation ms)))"
    and "vel_r \<equiv> calculate_Joints mc' (js_velocity_of (rob_joints_of (fb_robot_of (fdb ms))))
      (jg_velocity_of (goal_robot_joints (mc_initial_references mc)))
      (js_velocity_of (rob_joints_of (out_robot_of outputs)), jg_velocity_of (goal_robot_joints (ms_interpolation ms)))"
    and "vel_e \<equiv> calculate_Joints mc' (js_velocity_of (ext_joints_of (fb_external_of (fdb ms))))
      (jg_velocity_of (goal_external_joints (mc_initial_references mc)))
      (js_velocity_of (ext_joints_of (out_external_of outputs)), jg_velocity_of (goal_external_joints (ms_interpolation ms)))"
  shows "out_positions out = (jvalues (fst pos_r), jvalues (fst pos_e))"
    "goal_positions (ms_interpolation ms') = (jvalues (snd pos_r), jvalues (snd pos_e))"
    "out_velocities out = (jvalues (fst vel_r), jvalues (fst vel_e))"
    "\<exists>refs. mc' = snd (checkForVelocityTransition refs (scaled ms mc)) \<and> pg_reach_of refs = pg_reach_of (ms_interpolation ms)"
proof -
  let ?mc1 = "scaled ms mc"
  let ?st0 = "(out_robot_mut (rob_cartesian_mut (cs_pose_mut (\<lambda>p. p\<lparr>pose_euler := None\<rparr>))) outputs, ms_interpolation ms)"
  define st1 where "st1 = calc_external_position ?mc1 (fdb ms) (calc_robot_position ?mc1 (fdb ms) ?st0)"
  define mc2 where "mc2 = snd (checkForVelocityTransition (snd st1) ?mc1)"
  define refs2 where "refs2 = fst (checkForVelocityTransition (snd st1) ?mc1)"
  define st3 where "st3 = calc_external_velocity mc2 (fdb ms) (calc_robot_velocity mc2 (fdb ms) (fst st1, refs2))"
  have mode: "mc_egm_mode ?mc1 = EGMJoint" "mc_initial_references ?mc1 = mc_initial_references mc"
    using assms(2) by (simp_all add: scaled_def scale_factors_def)
  have res: "calculate outputs ms mc = (fst st3, ms\<lparr>ms_interpolation := snd st3\<rparr>, mc2)"
    using mode(1) by (simp add: calculate_def scaled_def [symmetric] Let_def case_prod_beta st1_def mc2_def refs2_def st3_def)
  have out: "out = fst st3" "ms_interpolation ms' = snd st3" "mc' = mc2" using assms(1) res by auto
  have init: "mc_initial_references mc2 = mc_initial_references mc" by (simp add: mc2_def mode(2))
  have st1: "js_position_of (rob_joints_of (out_robot_of (fst st1))) = fst pos_r"
    "js_position_of (ext_joints_of (out_external_of (fst st1))) = fst pos_e"
    "js_velocity_of (rob_joints_of (out_robot_of (fst st1))) = js_velocity_of (rob_joints_of (out_robot_of outputs))"
    "js_velocity_of (ext_joints_of (out_external_of (fst st1))) = js_velocity_of (ext_joints_of (out_external_of outputs))"
    "jg_position_of (goal_robot_joints (snd st1)) = snd pos_r" "jg_position_of (goal_external_joints (snd st1)) = snd pos_e"
    "jg_velocity_of (goal_robot_joints (snd st1)) = jg_velocity_of (goal_robot_joints (ms_interpolation ms))"
    "jg_velocity_of (goal_external_joints (snd st1)) = jg_velocity_of (goal_external_joints (ms_interpolation ms))"
    "pg_reach_of (snd st1) = pg_reach_of (ms_interpolation ms)"
    by (simp_all add: st1_def calc_joint_defs Let_def case_prod_beta pos_r_def pos_e_def mode(2))
  show "out_positions out = (jvalues (fst pos_r), jvalues (fst pos_e))"
    "goal_positions (ms_interpolation ms') = (jvalues (snd pos_r), jvalues (snd pos_e))"
    "out_velocities out = (jvalues (fst vel_r), jvalues (fst vel_e))"
    using st1(1-8)
    by (simp_all add: out st3_def refs2_def calc_joint_defs Let_def case_prod_beta vel_r_def vel_e_def init
        robot_positions_def external_positions_def)
  show "\<exists>refs. mc' = snd (checkForVelocityTransition refs ?mc1) \<and> pg_reach_of refs = pg_reach_of (ms_interpolation ms)"
    using st1(9) out(3) mc2_def by blast
qed

lemma scaled_simps [simp]:
  "mc_k (scaled ms mc) = mc_k mc" "\<not> mc_do_velocity_transition (scaled ms mc)"
  "mc_is_normal_state (scaled ms mc) = mc_is_normal_state mc"
  by (simp_all add: scaled_def scale_factors_def)

lemma calculate_positions:
  assumes "calculate outputs ms mc = (out, ms', mc')" "mc_egm_mode mc = EGMJoint" "output_shape nr ne outputs"
    and "step_shaped nr ne ms" "goal_shape nr ne (mc_initial_references mc)"
  shows "goal_positions (ms_interpolation ms') = goal_positions (ms_interpolation ms)"
    "mc_k mc = Fin 1 \<Longrightarrow> positions_fin nr ne (fdb ms) \<Longrightarrow> out_positions out = goal_positions (ms_interpolation ms)"
    "mc_k mc = Fin 1 \<Longrightarrow> outputs_fin out \<Longrightarrow> positions_fin nr ne (fdb ms)"
proof -
  note c = calculate_joint_mode [OF assms(1,2)]
  have len: "length (fst (out_positions outputs)) = nr" "length (snd (out_positions outputs)) = ne"
    "length (robot_positions (ms_interpolation ms)) = nr" "length (external_positions (ms_interpolation ms)) = ne"
    "length (jvalues (fdb_robot_position ms)) = nr" "length (jvalues (fdb_external_position ms)) = ne"
    "length (robot_positions (mc_initial_references mc)) = nr" "length (external_positions (mc_initial_references mc)) = ne"
    using assms(3-5) goal_shape_positions by (auto simp: output_shape_def step_shaped_def feedback_sizes_def)
  show "goal_positions (ms_interpolation ms') = goal_positions (ms_interpolation ms)"
    unfolding c(2) using len by (simp add: calculate_Joints_references robot_positions_def external_positions_def)
  show "out_positions out = goal_positions (ms_interpolation ms)" if "mc_k mc = Fin 1" "positions_fin nr ne (fdb ms)"
    unfolding c(1) using len that calculate_Joints_track
    by (simp add: positions_fin_def robot_positions_def external_positions_def)
  show "positions_fin nr ne (fdb ms)" if "mc_k mc = Fin 1" "outputs_fin out"
    using that len c(1) calculate_Joints_feedback_fin [of "scaled ms mc"]
    by (auto simp: positions_fin_def outputs_fin_def robot_positions_def external_positions_def)
qed

text \<open>
  C15: A goal that has to be reached ends at rest: in the normal state and in joint mode, from the end of its
  duration on the controller outputs zero velocities for all joints, whatever the interpolated velocities, the
  velocities it started with and the measured ones are, as long as they are finite.
\<close>

theorem reached_goal_at_rest:
  assumes "calculate outputs ms mc = (out, ms', mc')" "mc_egm_mode mc = EGMJoint" "mc_k mc = Fin 1" "mc_is_normal_state mc"
    and "output_shape nr ne outputs" "velocities_fin nr ne (pd_feedback (ms_data ms))"
    and "goal_velocities_fin nr ne (ms_interpolation ms)" "goal_velocities_fin nr ne (mc_initial_references mc)"
    and "pg_reach_of (ms_interpolation ms)" "pg_duration_of (ms_interpolation ms) = Fin d" "0 < d"
    and "pd_time_passed (ms_data ms) = Fin t" "d \<le> t"
  shows "jvalues (js_velocity_of (rob_joints_of (out_robot_of out))) = replicate nr (Fin 0) \<and>
    jvalues (js_velocity_of (ext_joints_of (out_external_of out))) = replicate ne (Fin 0)"
proof -
  note c = calculate_joint_mode [OF assms(1,2)]
  obtain refs where refs: "mc' = snd (checkForVelocityTransition refs (scaled ms mc))" "pg_reach_of refs"
    using c(4) assms(9) by auto
  have "saturate (Fin t / Fin d) (Fin 0) (Fin 1) = Fin 1" using assms(11,13) by (auto simp: saturate_def divide_less_0_iff)
  then have s: "mc_a (scaled ms mc) = Fin 0" "mc_b (scaled ms mc) = Fin 1"
    by (simp_all add: scaled_def scale_factors_def assms(9,10,12) M_PI_def)
  have mc': "mc_k mc' = Fin 1" "mc_do_velocity_transition mc'" "mc_a mc' = Fin 0" "is_fin (mc_b mc')"
    using refs(2) assms(3,4) s by (simp_all add: refs(1) checkForVelocityTransition_def Let_def is_fin_iff)
  show ?thesis
    using c(3) calculate_Joints_rest [OF mc'(1) _ _ _ _ mc'(2-4)] assms(5-8)
    by (simp add: output_shape_def velocities_fin_def goal_velocities_fin_def)
qed

definition moving_joint :: JointSpace where
  "moving_joint = \<lparr>js_position = Some \<lparr>jvalues = [Fin 3]\<rparr>, js_velocity = Some \<lparr>jvalues = [Fin 2]\<rparr>\<rparr>"

definition last_goal :: PointGoal where
  "last_goal = pg_robot_mut (rg_joints_mut (\<lambda>j. j\<lparr>jg_velocity := Some \<lparr>jvalues = [Fin 7]\<rparr>\<rparr>))
     ((flat_goal 1 0 (Fin 5))\<lparr>pg_reach := Some True, pg_duration := Some (Fin 1)\<rparr>)"

definition last_step :: MotionStep where
  "last_step = (init_MotionStep 0 (make_TrajectoryConfiguration default_BaseConfiguration))
     \<lparr>ms_interpolation := last_goal, ms_data := init_ProcessData\<lparr>pd_time_passed := Fin 1,
        pd_feedback := default_Feedback\<lparr>fb_robot := Some (default_Robot\<lparr>rob_joints := Some moving_joint\<rparr>)\<rparr>\<rparr>\<rparr>"

definition last_controller :: MotionController where
  "last_controller = init_MotionController\<lparr>mc_is_normal_state := True, mc_initial_references := last_goal\<rparr>"

definition moving_output :: Output where
  "moving_output = default_Output\<lparr>out_robot := Some (default_Robot\<lparr>rob_joints := Some moving_joint\<rparr>)\<rparr>"

theorem reached_goal_at_rest_witness:
  "jvalues (js_velocity_of (rob_joints_of (out_robot_of (fst (calculate moving_output last_step last_controller))))) = [Fin 0]"
proof -
  obtain out ms' mc' where "calculate moving_output last_step last_controller = (out, ms', mc')"
    by (cases "calculate moving_output last_step last_controller")
  moreover have "jvalues (js_velocity_of (rob_joints_of (out_robot_of out))) = replicate 1 (Fin 0) \<and>
      jvalues (js_velocity_of (ext_joints_of (out_external_of out))) = replicate 0 (Fin 0)"
    by (rule reached_goal_at_rest [OF calculation, of 1 0 1 1])
      (simp_all add: last_controller_def init_MotionController_def output_shape_def moving_output_def moving_joint_def
        velocities_fin_def values_fin_def last_step_def goal_velocities_fin_def last_goal_def flat_goal_def Let_def)
  ultimately show ?thesis by simp
qed

section \<open>The outputs of a message\<close>

text \<open>The gain is 1 in every reachable state.\<close>

lemma gain_states [simp]:
  "tmo_controller (storeNormalGoal m) = tmo_controller m" "tmo_controller (ramped_events m) = tmo_controller m"
  "tmo_controller (ramped_decision m) = tmo_controller m" "tmo_controller (static_update m) = tmo_controller m"
  "tmo_controller (reset_components m) = tmo_controller m"
  by (simp_all add: storeNormalGoal_def ramped_events_def ramped_decision_def static_update_def reset_components_def
      resetTrajectoryMotion_def Let_def split: option.split)

lemma gain_process [simp]: "tmo_controller (process_state m) = tmo_controller m"
  by (simp add: process_state_def processNormalState_def processRampDownState_def processStaticGoalState_def Let_def case_prod_beta
      split: States.split SubStates.split option.split list.split)

lemma gain_prepare [simp]: "tmo_controller (prepare ic m) = tmo_controller m"
  by (simp add: prepare_def Let_def)

lemma calculate_gain: "mc_k (snd (snd (calculate outputs ms mc))) = mc_k mc"
  by (simp add: calculate_def Let_def case_prod_beta split: EGMModes.split)

lemma calculate_mode: "calculate outputs ms mc = (out, ms', mc') \<Longrightarrow> mc_egm_mode mc' = mc_egm_mode mc"
  by (auto simp: calculate_def Let_def case_prod_beta checkForVelocityTransition_def scale_factors_def split: EGMModes.splits if_splits)

lemma gain_outputs:
  "install_goal m = Some m1 \<Longrightarrow> mc_k (tmo_controller m1) = mc_k (tmo_controller m)"
  "produce_outputs bq outputs m = Some (out, m2) \<Longrightarrow> mc_k (tmo_controller m2) = mc_k (tmo_controller m)"
  "mc_k (tmo_controller (update_progress out ic m)) = mc_k (tmo_controller m)"
  using calculate_gain
  by (auto simp: install_goal_def produce_outputs_def update_progress_def controller_update_def Let_def
      Option.bind_eq_Some_conv case_prod_beta split: if_splits)

lemma gain_call:
  assumes "call bq c m = Some m'"
  shows "mc_k (tmo_controller m') = mc_k (tmo_controller m)"
proof (cases c)
  case (Message ic out)
  then obtain o' where "generateOutputs bq ic out m = Some (o', m')" using assms by auto
  then show ?thesis
    by (auto simp: generateOutputs_def Let_def Option.bind_eq_Some_conv gain_outputs split: if_splits)
qed (use assms in \<open>auto simp: give_frame updateConfigurations_def simp del: give.simps\<close>)

interpretation gain_sys: inv_system new_motion "motion_step bq" "\<lambda>m. mc_k (tmo_controller m) = Fin 1" for bq
proof
  show "mc_k (tmo_controller m') = Fin 1" if "mc_k (tmo_controller m) = Fin 1" "motion_step bq m m'" for m m'
    using that(2,1) by (cases rule: motion_step.cases) (simp add: gain_call)
qed (auto simp: init_TrajectoryMotion_def init_MotionController_def)

text \<open>The feedback the controller uses is that of the message.\<close>

lemma feedback_goals [simp]:
  "fdb (prepareNormalGoal l ms) = fdb ms" "fdb (prepareStaticGoal_position p b ms) = fdb ms"
  "fdb (prepareStaticGoal_velocity v b ms) = fdb ms" "fdb (prepareRampDownGoal b ms) = fdb ms"
  by (simp_all add: prepareNormalGoal_def estimateDuration_def prepareStaticGoal_position_def prepareStaticGoal_velocity_def
      prepareRampDownGoal_def Let_def)

lemma feedback_loop: "fdb (snd (snd (normal_goal_loop l ps ms))) = fdb ms"
  by (induction ps arbitrary: ms) (auto simp: normal_goal_loop_simps)

lemma feedback_update [simp]: "fdb (tmo_motion_step (updateNormalGoal m)) = fdb (tmo_motion_step m)"
  by (simp add: updateNormalGoal_def Let_def case_prod_beta feedback_loop retriveNextTrajectoryPoint_def
      split: option.split list.split)

lemma feedback_states [simp]:
  "fdb (tmo_motion_step (storeNormalGoal m)) = fdb (tmo_motion_step m)"
  "fdb (tmo_motion_step (ramped_events m)) = fdb (tmo_motion_step m)"
  "fdb (tmo_motion_step (ramped_decision m)) = fdb (tmo_motion_step m)"
  "fdb (tmo_motion_step (static_update m)) = fdb (tmo_motion_step m)"
  by (simp_all add: storeNormalGoal_def ramped_events_def ramped_decision_def static_update_def Let_def split: option.split)

lemma feedback_process [simp]: "fdb (tmo_motion_step (process_state m)) = fdb (tmo_motion_step m)"
  by (simp add: process_state_def processNormalState_def processRampDownState_def processStaticGoalState_def Let_def case_prod_beta
      split: States.split SubStates.split option.split list.split)

lemma feedback_reset [simp]: "fdb (tmo_motion_step (reset_components m)) = fdb (tmo_motion_step m)"
  by (simp add: reset_components_def resetTrajectoryMotion_def resetMotionStep_def Let_def split: option.split)

lemma feedback_prepare [simp]: "fdb (tmo_motion_step (prepare ic m)) = in_feedback_of (ic_current ic)"
  by (simp add: prepare_def Let_def)

lemma feedback_install: "install_goal m = Some m1 \<Longrightarrow> fdb (tmo_motion_step m1) = fdb (tmo_motion_step m)"
  by (auto simp: install_goal_def updateInterpolator_def Let_def Option.bind_eq_Some_conv split: if_splits)

lemma produce_outputs_active:
  assumes "produce_outputs bq outputs m = Some (out, m')" "active m"
  obtains ms ms' mc' where "evaluateInterpolator bq (tmo_motion_step m) = Some ms" "calculate outputs ms (tmo_controller m) = (out, ms', mc')"
    "m' = m\<lparr>tmo_motion_step := ms', tmo_controller := mc'\<rparr>"
  using assms by (cases "calculate outputs (the (evaluateInterpolator bq (tmo_motion_step m))) (tmo_controller m)")
    (auto simp: produce_outputs_def Let_def Option.bind_eq_Some_conv)

lemma outputs_are_references:
  assumes "mc_k (tmo_controller m) = Fin 1" "motion_shaped nr ne m \<or> splines_ok m \<and> ic_first_message ic" "nr + ne \<le> MAX_NUMBER_OF_SPLINES"
    and "fits nr ne ic" "statesOk ic" "generateOutputs bq ic outputs m = Some (out, m')"
    and "active m'" "mc_egm_mode (tmo_controller m') = EGMJoint"
    and "output_shape nr ne outputs" "positions_fin nr ne (in_feedback_of (ic_current ic)) \<or> outputs_fin out"
  shows "out_positions out = goal_positions (ms_interpolation (tmo_motion_step m'))"
proof -
  let ?p = "process_state (entered (prepare ic m))"
  obtain m3 m4 where m3: "install_goal ?p = Some m3" "produce_outputs bq outputs m3 = Some (out, m4)" "m' = update_progress out ic m4"
    using assms(5,6) by (auto simp: generateOutputs_def Let_def Option.bind_eq_Some_conv)
  have "motion_ready nr ne (prepare ic m)"
    using prepare_ready [OF assms(4)] motion_shaped_splines [of nr ne m] assms(2) unfolding splines_ok_def by blast
  then have "motion_ready nr ne ?p" by (intro process_state_ready) (simp add: motion_ready_def)
  with install_goal_shaped [OF this assms(3)] m3(1) have sh: "motion_shaped nr ne m3" by auto
  have act: "active m3" using produce_outputs_plan [OF m3(2)] assms(7) by (simp add: m3(3) update_progress_def Let_def same_plan_def)
  obtain ms ms' mc' where ms: "evaluateInterpolator bq (tmo_motion_step m3) = Some ms" "calculate outputs ms (tmo_controller m3) = (out, ms', mc')"
    "m4 = m3\<lparr>tmo_motion_step := ms', tmo_controller := mc'\<rparr>"
    by (rule produce_outputs_active [OF m3(2) act])
  have m': "tmo_motion_step m' = ms'" "tmo_controller m' = mc'" by (simp_all add: m3(3) ms(3) update_progress_def Let_def)
  have shaped: "step_shaped nr ne ms"
    using evaluateInterpolator_shaped [of nr ne "tmo_motion_step m3" bq] sh act assms(3) ms(1) by (auto simp: motion_shaped_def)
  have fb: "fdb ms = in_feedback_of (ic_current ic)"
    using ms(1) feedback_install [OF m3(1)] by (auto simp: evaluateInterpolator_def Let_def Option.bind_eq_Some_conv)
  have k: "mc_k (tmo_controller m3) = Fin 1" using gain_outputs(1) [OF m3(1)] assms(1) by simp
  have mode: "mc_egm_mode (tmo_controller m3) = EGMJoint" using ms(2) assms(8) m'(2) calculate_mode by metis
  have init: "goal_shape nr ne (mc_initial_references (tmo_controller m3))" using sh act by (simp add: motion_shaped_def)
  note pos = calculate_positions [OF ms(2) mode assms(9) shaped init]
  have "out_positions out = goal_positions (ms_interpolation ms)"
    using assms(10) pos(3) [OF k] by (intro pos(2) [OF k]) (auto simp: fb)
  with pos(1) show ?thesis by (simp add: m'(1))
qed

text \<open>
  The outputs follow the interpolation. Whenever a goal is active in joint mode, in any reachable state of a
  session, the joint positions a message is answered with are exactly the interpolated ones, whatever the measured
  positions are, as long as these are finite; the interpolation is that of the state the message leaves.
\<close>

theorem outputs_follow_references:
  assumes "reach new_motion (motion_step bq) m" "motion_shaped nr ne m" "nr + ne \<le> MAX_NUMBER_OF_SPLINES"
    and "fits nr ne ic" "statesOk ic" "generateOutputs bq ic outputs m = Some (out, m')"
    and "dd_has_active_goal (tmo_data m')" "mc_egm_mode (tmo_controller m') = EGMJoint"
    and "output_shape nr ne outputs" "positions_fin nr ne (in_feedback_of (ic_current ic))"
  shows "jvalues (js_position_of (rob_joints_of (out_robot_of out))) = robot_positions (ms_interpolation (tmo_motion_step m')) \<and>
    jvalues (js_position_of (ext_joints_of (out_external_of out))) = external_positions (ms_interpolation (tmo_motion_step m'))"
  using outputs_are_references [OF gain_sys.reach_inv [OF assms(1)] disjI1 [OF assms(2)] assms(3-9) disjI1 [OF assms(10)]] by simp

definition six_outputs :: Output where
  "six_outputs = default_Output\<lparr>out_robot := Some (default_Robot\<lparr>rob_joints :=
     Some \<lparr>js_position = Some \<lparr>jvalues = replicate 6 (Fin 0)\<rparr>, js_velocity = Some \<lparr>jvalues = replicate 6 (Fin 0)\<rparr>\<rparr>\<rparr>)\<rparr>"

text \<open>The first point of the first trajectory is taken in joint mode.\<close>

lemma first_goal_taken:
  assumes "state_of r = (StNormal, SubRunning)" "\<not> pe_do_ramp_down (events r)" "p_current r = None"
    and "tq_primary_queue (tmo_trajectories r) = [\<lparr>tr_points = [p]\<rparr>]" "\<not> pg_reach_of p" "\<not> has (rg_cartesian (pg_robot_of p))"
  shows "active (process_state r)" "dd_has_new_goal (tmo_data (process_state r))"
    "pd_mode (ms_data (tmo_motion_step (process_state r))) = EGMJoint"
  using assms
  by (simp_all add: process_state_def processNormalState_def sm_state_def updateNormalGoal_def retriveNextTrajectoryPoint_def
      Let_def prepareNormalGoal_def estimateDuration_def)

lemma new_goal_mode:
  assumes "generateOutputs bq ic outputs m = Some (out, m')" "statesOk ic"
    and "dd_has_new_goal (tmo_data (process_state (received ic m)))"
  shows "mc_egm_mode (tmo_controller m') = pd_mode (ms_data (tmo_motion_step (process_state (received ic m))))"
proof -
  let ?p = "process_state (received ic m)"
  obtain m3 m4 where m3: "install_goal ?p = Some m3" "produce_outputs bq outputs m3 = Some (out, m4)" "m' = update_progress out ic m4"
    using assms(1,2) by (auto simp: generateOutputs_def Let_def Option.bind_eq_Some_conv)
  have "mc_egm_mode (tmo_controller m3) = pd_mode (ms_data (tmo_motion_step ?p))"
    using m3(1) assms(3) by (auto simp: install_goal_def updateInterpolator_def controller_update_def Let_def Option.bind_eq_Some_conv)
  moreover have "mc_egm_mode (snd (snd (calculate o1 ms mc))) = mc_egm_mode mc" for o1 ms mc
    using calculate_mode [of o1 ms mc] by (cases "calculate o1 ms mc") auto
  then have "mc_egm_mode (tmo_controller m4) = mc_egm_mode (tmo_controller m3)"
    using m3(2) by (auto simp: produce_outputs_def Let_def Option.bind_eq_Some_conv case_prod_beta split: if_splits)
  ultimately show ?thesis by (simp add: m3(3) update_progress_def Let_def)
qed

theorem outputs_follow_references_witness:
  "\<exists>m ic out m'. generateOutputs hamilton ic six_outputs m = Some (out, m') \<and> dd_has_active_goal (tmo_data m') \<and>
     jvalues (js_position_of (rob_joints_of (out_robot_of out))) = robot_positions (ms_interpolation (tmo_motion_step m')) \<and>
     length (robot_positions (ms_interpolation (tmo_motion_step m'))) = 6"
proof -
  obtain m0 where m0: "call hamilton (Message six_joints default_Output) new_sample = Some m0" "motion_shaped 6 0 m0"
    "state_of m0 = (StNormal, SubRunning)" "\<not> has_pending m0" "tmo_trajectories m0 = tmo_trajectories new_sample"
    "events m0 = init_PendingEvents" by (rule first_sample)
  define x where "x = AddTrajectory \<lparr>tg_points = [flat_goal 6 0 (Fin 1)]\<rparr> False"
  define m where "m = snd (give x m0)"
  let ?ic = "six_joints\<lparr>ic_first_message := False\<rparr>"
  have c: "call hamilton (Order x) m0 = Some m" by (simp add: m_def)
  have "reach new_motion (motion_step hamilton) new_sample" by (rule reach_init) blast
  then have "reach new_motion (motion_step hamilton) m0" by (rule reach_step) (rule motion_call [OF m0(1)])
  then have reach: "reach new_motion (motion_step hamilton) m" by (rule reach_step) (rule motion_call [OF c])
  have m: "motion_shaped 6 0 m" "state_of m = (StNormal, SubRunning)" "\<not> has_pending m"
    using m0(2-4) by (simp_all add: m_def give_frame motion_shaped_def del: give.simps)
  have q: "p_current m = None" "tq_primary_queue (tmo_trajectories m) = [\<lparr>tr_points = [flat_goal 6 0 (Fin 1)]\<rparr>]"
    "\<not> pe_do_ramp_down (events m)"
    using m0(3,5,6)
    by (simp_all add: m_def x_def addTrajectory_def Let_def verifyState_state init_TrajectoryMotion_def init_PendingEvents_def
        make_Trajectory_def addTrajectoryPointBack_def)
  have ic: "\<not> ic_first_message ?ic" "statesOk ?ic" "fits 6 0 ?ic" "positions_fin 6 0 (in_feedback_of (ic_current ?ic))"
    by (simp_all add: six_joints_def statesOk_def fits_def feedback_sizes_def positions_fin_def values_fin_def)
  have s: "(6 :: nat) + 0 \<le> MAX_NUMBER_OF_SPLINES" by (simp add: MAX_NUMBER_OF_SPLINES_def joint_counts)
  obtain out m' where g: "generateOutputs hamilton ?ic six_outputs m = Some (out, m')" "motion_shaped 6 0 m'"
    using generateOutputs_shaped [OF ic(3) s] m(1) motion_shaped_splines [OF m(1)] unfolding splines_ok_def by blast
  define r where "r = received ?ic m"
  have n: "state_of m \<noteq> (StNormal, SubNone)" using m(2) by simp
  note rs = received_simps [OF ic(1,2) n, folded r_def]
  have "state_of r = (StNormal, SubRunning)" using rs(1) m(2,3) by (simp add: updateState_def)
  note taken = first_goal_taken [OF this, of "flat_goal 6 0 (Fin 1)"]
  have t: "active (process_state r)" "dd_has_new_goal (tmo_data (process_state r))" "pd_mode (ms_data (tmo_motion_step (process_state r))) = EGMJoint"
    using taken q rs(2,3) by (simp_all add: flat_goal_def Let_def)
  have act: "active m'" using generateOutputs_plan [OF g(1)] ic(2) t(1) by (simp add: same_plan_def r_def)
  have mode: "mc_egm_mode (tmo_controller m') = EGMJoint" using new_goal_mode [OF g(1) ic(2)] t(2,3) by (simp add: r_def)
  have "output_shape 6 0 six_outputs" by (simp add: output_shape_def six_outputs_def)
  from outputs_follow_references [OF reach m(1) s ic(3,2) g(1) act mode this ic(4)]
  have "jvalues (js_position_of (rob_joints_of (out_robot_of out))) = robot_positions (ms_interpolation (tmo_motion_step m'))" by simp
  moreover have "length (robot_positions (ms_interpolation (tmo_motion_step m'))) = 6"
    using g(2) goal_shape_positions by (auto simp: motion_shaped_def step_shaped_def)
  ultimately show ?thesis using g(1) act by blast
qed

end
