(* ===== verification/EGM_Joint_Goals.thy ===== *)
theory EGM_Joint_Goals
  imports EGM_Tracking
begin

text \<open>
  The execution of joint goals with finite values, message by message: the next goal is taken and its interpolator
  set up, the goal is followed with finite references until it is completed, and at the end of its duration the
  outputs are its positions.
\<close>

section \<open>Goals with finite values in joint space\<close>

definition plain_point :: "PointGoal \<Rightarrow> bool" where
  "plain_point p \<longleftrightarrow> \<not> has (rg_cartesian (pg_robot_of p)) \<and> fin_goal p \<and> (\<exists>d. pg_duration p = Some (Fin d) \<and> 0 < d)"

definition point_time :: "PointGoal \<Rightarrow> real" where
  "point_time p = the_fin (pg_duration_of p)"

lemma plain_point_duration: "plain_point p \<Longrightarrow> pg_duration p = Some (Fin (point_time p)) \<and> 0 < point_time p"
  by (auto simp: plain_point_def point_time_def)

definition fin_Joints :: "Joints \<Rightarrow> bool" where
  "fin_Joints j \<longleftrightarrow> (\<forall>v \<in> set (jvalues j). is_fin v)"

lemma fin_joint_goal_iff:
  "fin_joint_goal g \<longleftrightarrow> fin_Joints (jg_position_of g) \<and> fin_Joints (jg_velocity_of g) \<and> fin_Joints (jg_acceleration_of g)"
  by (auto simp: fin_joint_goal_def fin_Joints_def)

lemma fin_copyPresent: "fin_Joints t \<Longrightarrow> fin_Joints s \<Longrightarrow> fin_Joints (copyPresent_Joints t s)"
  by (auto simp: fin_Joints_def dest!: in_set_takeD in_set_dropD)

lemma fin_transfer_joints: "fin_joint_goal j \<Longrightarrow> fin_joint_goal s \<Longrightarrow> fin_joint_goal (transfer_joints s j)"
  by (simp add: fin_joint_goal_iff transfer_joints_def fin_copyPresent)

lemma fin_goal_transfer:
  "fin_goal g \<Longrightarrow> fin_goal p \<Longrightarrow> fin_goal (transfer_ExternalGoal (pg_external_of p) (transfer_RobotGoal (pg_robot_of p) g))"
  by (simp add: fin_goal_def transfer_ExternalGoal_def transfer_RobotGoal_def fin_transfer_joints)

lemma fin_goal_reset: "fin_goal g \<Longrightarrow> fin_goal (reset_derivatives nr ne g)"
  by (auto simp: fin_goal_def fin_joint_goal_def reset_derivatives_def Let_def)

lemma fin_goal_fields [simp]:
  "fin_goal (g\<lparr>pg_reach := r\<rparr>) = fin_goal g" "fin_goal (g\<lparr>pg_duration := d\<rparr>) = fin_goal g"
  by (simp_all add: fin_goal_def)

section \<open>Taking a goal\<close>

text \<open>A motion step with finite goals, and one whose interpolator can be set up for its joint goal.\<close>

definition fin_step :: "real \<Rightarrow> MotionStep \<Rightarrow> bool" where
  "fin_step f ms \<longleftrightarrow> fin_goal (ms_internal_goal ms) \<and> fin_goal (ms_interpolation ms) \<and> pd_duration_factor (ms_data ms) = Fin f"

definition primed :: "real \<Rightarrow> MotionStep \<Rightarrow> bool" where
  "primed f ms \<longleftrightarrow> fin_step f ms \<and> pd_mode (ms_data ms) = EGMJoint \<and>
     (let c = ms_interpolator_conditions ms
      in cond_mode c = EGMJoint \<and> cond_operation c = OpNormal \<and> cond_duration c = Fin (f * point_time (ms_external_goal ms)))"

lemma fin_step_frame [simp]:
  "fin_step f (ms\<lparr>ms_external_goal := p\<rparr>) = fin_step f ms" "fin_step f (ms\<lparr>ms_condition_met := b\<rparr>) = fin_step f ms"
  "fin_step f (snd (conditionMet ms)) = fin_step f ms" "primed f (snd (conditionMet ms)) = primed f ms"
  by (simp_all add: fin_step_def primed_def)

lemma prepareNormalGoal_primed:
  assumes "fin_step f ms" "plain_point (ms_external_goal ms)"
  shows "primed f (prepareNormalGoal l ms)"
proof -
  let ?p = "ms_external_goal ms"
  obtain d where d: "pg_duration ?p = Some (Fin d)" "\<not> has (rg_cartesian (pg_robot_of ?p))" "fin_goal ?p"
    using assms(2) by (auto simp: plain_point_def)
  then have t: "point_time ?p = d" by (simp add: point_time_def)
  show ?thesis
    using assms(1) d t
    by (auto simp: primed_def fin_step_def prepareNormalGoal_def Let_def intro!: fin_goal_transfer fin_goal_reset)
qed

lemma normal_goal_loop_primed:
  assumes "fin_step f ms" "plain_point (ms_external_goal ms)" "list_all plain_point ps"
    and "normal_goal_loop l ps ms = (True, rest, ms')"
  shows "primed f ms' \<and> plain_point (ms_external_goal ms') \<and> list_all plain_point rest"
  using assms
proof (induction ps arbitrary: ms)
  case Nil
  then show ?case using prepareNormalGoal_primed [of f ms l] by (auto simp: normal_goal_loop_simps)
next
  case (Cons p ps)
  have pr: "primed f (prepareNormalGoal l ms)" using prepareNormalGoal_primed Cons.prems by blast
  show ?case
  proof (cases "fst (conditionMet (prepareNormalGoal l ms))")
    case True
    with Cons.prems pr show ?thesis
      by (intro Cons.IH [of "(snd (conditionMet (prepareNormalGoal l ms)))\<lparr>ms_external_goal := p\<rparr>"])
        (auto simp: normal_goal_loop_simps primed_def)
  next
    case False
    with Cons.prems pr show ?thesis by (auto simp: normal_goal_loop_simps)
  qed
qed

lemma updateNormalGoal_primed:
  assumes "fin_step f (tmo_motion_step m)" "list_all plain_point (active_points m)" "active (updateNormalGoal m)"
  shows "primed f (tmo_motion_step (updateNormalGoal m))" "plain_point (external_goal (updateNormalGoal m))"
    "list_all plain_point (active_points (updateNormalGoal m))"
proof -
  obtain tr p ps where tr: "p_current m = Some tr" "tr_points tr = p # ps"
    using assms(3) by (cases "p_current m"; cases "tr_points (the (p_current m))")
      (auto simp: updateNormalGoal_def retriveNextTrajectoryPoint_def)
  let ?ms = "(tmo_motion_step m)\<lparr>ms_external_goal := p\<rparr>"
  obtain s rest ms' where loop: "normal_goal_loop (ps = []) ps ?ms = (s, rest, ms')" by (cases "normal_goal_loop (ps = []) ps ?ms")
  have p: "plain_point p" "list_all plain_point ps" using assms(2) tr by (simp_all add: active_points_def)
  note defs = updateNormalGoal_def retriveNextTrajectoryPoint_def tr external_goal_def active_points_def
  have "primed f (tmo_motion_step (updateNormalGoal m)) \<and> plain_point (external_goal (updateNormalGoal m)) \<and>
    list_all plain_point (active_points (updateNormalGoal m))"
  proof (cases "pg_reach_of p")
    case True
    then have "s" using assms(3) loop by (simp add: defs)
    with normal_goal_loop_primed [of f ?ms ps "ps = []" rest ms'] assms(1) p loop True show ?thesis by (simp add: defs)
  next
    case False
    with prepareNormalGoal_primed [of f ?ms "ps = []"] assms(1) p show ?thesis by (simp add: defs)
  qed
  then show "primed f (tmo_motion_step (updateNormalGoal m))" "plain_point (external_goal (updateNormalGoal m))"
    "list_all plain_point (active_points (updateNormalGoal m))" by simp_all
qed

section \<open>Following a goal\<close>

text \<open>The interpolator aims at the positions of the internal goal: it is there after its duration \<open>d\<close>.\<close>

definition aimed :: "nat \<Rightarrow> nat \<Rightarrow> real \<Rightarrow> MotionStep \<Rightarrow> bool" where
  "aimed nr ne d ms \<longleftrightarrow>
     (let ip = ms_interpolator ms; ps = ip_spline_polynomials ip; g = ms_internal_goal ms
      in cond_mode (ip_conditions ip) = EGMJoint \<and> cond_operation (ip_conditions ip) = OpNormal \<and> ip_offset ip = nr \<and>
         nr + ne \<le> length ps \<and> getDuration ip = Fin d \<and> 0 < d \<and> (\<forall>i < nr + ne. fin_polynomial (ps ! i)) \<and>
         map (\<lambda>i. calculatePosition (ps ! i) (Fin d)) [0..<nr] = robot_positions g \<and>
         map (\<lambda>i. calculatePosition (ps ! (i + nr)) (Fin d)) [0..<ne] = external_positions g)"

lemma updateInterpolator_aimed:
  assumes "primed f ms" "step_shaped nr ne ms" "nr + ne \<le> MAX_NUMBER_OF_SPLINES" "updateInterpolator ms = Some ms'"
  shows "aimed nr ne (max 0.004 (f * point_time (ms_external_goal ms))) ms'" "fin_step f ms'"
    "ms_internal_goal ms' = ms_internal_goal ms" "pd_time_passed (ms_data ms') = Fin 0"
    "pd_estimated_sample_time (ms_data ms') = pd_estimated_sample_time (ms_data ms)" "pd_mode (ms_data ms') = EGMJoint"
    "pg_duration_of (ms_interpolation ms') = Fin (f * point_time (ms_external_goal ms))"
    "fdb ms' = fdb ms"
proof -
  let ?c = "ms_interpolator_conditions ms"
  define start where "start = (ms_interpolation ms)\<lparr>pg_reach := Some (pg_reach_of (ms_internal_goal ms)), pg_duration := Some (cond_duration ?c)\<rparr>"
  define goal where "goal = ms_internal_goal ms"
  have pr: "fin_goal start" "fin_goal goal" "cond_mode ?c = EGMJoint" "cond_operation ?c = OpNormal"
    "cond_duration ?c = Fin (f * point_time (ms_external_goal ms))" "pd_duration_factor (ms_data ms) = Fin f" "pd_mode (ms_data ms) = EGMJoint"
    using assms(1) by (simp_all add: primed_def fin_step_def start_def goal_def Let_def)
  have sh: "goal_shape nr ne start" "goal_shape nr ne goal" "length (ip_spline_polynomials (ms_interpolator ms)) = MAX_NUMBER_OF_SPLINES"
    using assms(2) by (simp_all add: step_shaped_def start_def goal_def)
  obtain ip where ip: "EGMInterpolator_update start goal ?c (ms_interpolator ms) = Some ip"
    "ms' = ms\<lparr>ms_data := (ms_data ms)\<lparr>pd_time_passed := Fin 0\<rparr>, ms_interpolation := start, ms_interpolator := ip\<rparr>"
    using assms(4) by (auto simp: updateInterpolator_def Let_def start_def goal_def Option.bind_eq_Some_conv)
  show "aimed nr ne (max 0.004 (f * point_time (ms_external_goal ms))) ms'"
    by (rule joint_interpolation [OF sh(1,2) pr(1,2) sh(3) assms(3) pr(3-5)])
      (use ip(1) pr(3,4) in \<open>simp add: aimed_def Let_def ip(2) goal_def [symmetric] getDuration_def\<close>)
  show "fin_step f ms'" "ms_internal_goal ms' = ms_internal_goal ms" "pd_time_passed (ms_data ms') = Fin 0"
    "pd_estimated_sample_time (ms_data ms') = pd_estimated_sample_time (ms_data ms)" "pd_mode (ms_data ms') = EGMJoint"
    "pg_duration_of (ms_interpolation ms') = Fin (f * point_time (ms_external_goal ms))" "fdb ms' = fdb ms"
    using pr by (simp_all add: ip(2) fin_step_def start_def goal_def)
qed

text \<open>The controller keeps the references finite.\<close>

definition fin_controller :: "MotionController \<Rightarrow> bool" where
  "fin_controller mc \<longleftrightarrow> fin_goal (mc_initial_references mc) \<and> is_fin (mc_a mc) \<and> is_fin (mc_b mc)"

lemma fin_set_value: "fin_Joints j \<Longrightarrow> is_fin v \<Longrightarrow> fin_Joints (set_value i v j)"
  by (auto simp: fin_Joints_def set_value_def dest!: subsetD [OF set_update_subset_insert])

lemma fin_Joints_nth: "fin_Joints j \<Longrightarrow> i < length (jvalues j) \<Longrightarrow> is_fin (jvalues j ! i)"
  by (simp add: fin_Joints_def)

lemma calculate_Joints_fin:
  assumes "fin_Joints (snd st)" "fin_Joints start" "is_fin (mc_a mc)" "is_fin (mc_b mc)"
  shows "fin_Joints (snd (calculate_Joints mc fb start st))"
proof -
  have "fin_Joints (snd (calculate_Joints mc fb start st)) \<and> length (jvalues (snd (calculate_Joints mc fb start st))) = length (jvalues (snd st))"
    unfolding calculate_Joints_def
    by (rule for_range_inv [where P = "\<lambda>x. fin_Joints (snd x) \<and> length (jvalues (snd x)) = length (jvalues (snd st))"])
      (use assms in \<open>auto simp: Let_def case_prod_beta fin_Joints_nth intro!: fin_set_value\<close>)
  then show ?thesis ..
qed

lemma calc_fin:
  assumes "fin_goal (snd st)" "fin_controller mc"
  shows "fin_goal (snd (calc_robot_position mc fb st))" "fin_goal (snd (calc_external_position mc fb st))"
    "fin_goal (snd (calc_robot_velocity mc fb st))" "fin_goal (snd (calc_external_velocity mc fb st))"
  using assms
  by (simp_all add: calc_joint_defs fin_goal_def fin_joint_goal_iff fin_controller_def Let_def case_prod_beta calculate_Joints_fin)

lemma velocity_transition_fin:
  assumes "fin_goal refs" "fin_controller mc"
  shows "fin_goal (fst (checkForVelocityTransition refs mc))" "fin_controller (snd (checkForVelocityTransition refs mc))"
  using assms by (auto simp: checkForVelocityTransition_def Let_def fin_goal_def fin_joint_goal_iff fin_controller_def fin_Joints_def)

lemma calculate_fin:
  assumes "calculate outputs ms mc = (out, ms', mc')" "mc_egm_mode mc = EGMJoint" "fin_goal (ms_interpolation ms)"
    and "fin_controller (scaled ms mc)"
  shows "fin_goal (ms_interpolation ms')"
proof -
  have "mc_egm_mode (scaled ms mc) = EGMJoint" using assms(2) by (simp add: scaled_def scale_factors_def)
  with assms show ?thesis
    by (auto simp: calculate_def scaled_def [symmetric] Let_def case_prod_beta calc_fin velocity_transition_fin)
qed

lemma scaled_fin:
  assumes "fin_goal (mc_initial_references mc)" "pd_time_passed (ms_data ms) = Fin t" "0 < t" "is_fin (pg_duration_of (ms_interpolation ms))"
  shows "fin_controller (scaled ms mc)"
proof -
  obtain d where d: "pg_duration_of (ms_interpolation ms) = Fin d" using assms(4) by (auto simp: is_fin_iff)
  have "is_fin (saturate (Fin t / Fin d) (Fin 0) (Fin 1))" using assms(3) by (cases "d = 0") (simp_all add: saturate_def)
  then obtain x where "saturate (Fin t / Fin d) (Fin 0) (Fin 1) = Fin x" by (auto simp: is_fin_iff)
  with assms(1,2) d show ?thesis by (simp add: fin_controller_def scaled_def scale_factors_def M_PI_def)
qed

text \<open>The reach flag and the duration of a goal are not touched by interpolation and control.\<close>

lemma evaluate_joints_duration:
  "evaluate_robot_joints polys t out = Some g \<Longrightarrow> pg_duration g = pg_duration out"
  "evaluate_external_joints off polys t out = Some g \<Longrightarrow> pg_duration g = pg_duration out"
  unfolding evaluate_robot_joints_def evaluate_external_joints_def
  by (erule for_rangeM_invariant [where P = "\<lambda>g. pg_duration g = pg_duration out"]; auto simp: Option.bind_eq_Some_conv)+

lemma calculate_duration:
  assumes "calculate outputs ms mc = (out, ms', mc')"
  shows "pg_duration (ms_interpolation ms') = pg_duration (ms_interpolation ms)" "mc_initial_references mc' = mc_initial_references mc"
  using assms
  by (auto simp: calculate_def calc_joint_defs calc_pose_position_def calc_pose_orientation_def calc_linear_velocity_def
      calc_angular_velocity_def checkForVelocityTransition_def scale_factors_def Let_def case_prod_beta split: EGMModes.splits if_splits)

text \<open>A joint goal of duration \<open>d\<close> is followed, with all references finite.\<close>

definition on_goal :: "nat \<Rightarrow> nat \<Rightarrow> real \<Rightarrow> real \<Rightarrow> TrajectoryMotion \<Rightarrow> bool" where
  "on_goal nr ne f d m \<longleftrightarrow>
     (let ms = tmo_motion_step m; mc = tmo_controller m
      in fin_step f ms \<and> aimed nr ne d ms \<and> pd_mode (ms_data ms) = EGMJoint \<and> is_fin (pg_duration_of (ms_interpolation ms)) \<and>
         mc_egm_mode mc = EGMJoint \<and> mc_k mc = Fin 1 \<and> fin_goal (mc_initial_references mc))"

lemma evaluateInterpolator_aimed:
  assumes "aimed nr ne d ms" "goal_shape nr ne (ms_interpolation ms)" "fin_step f ms"
    and "pd_time_passed (ms_data ms) = Fin t" "pd_estimated_sample_time (ms_data ms) = Fin T" "evaluateInterpolator bq ms = Some ms'"
  shows "aimed nr ne d ms'" "fin_step f ms'" "pd_mode (ms_data ms') = pd_mode (ms_data ms)" "pd_time_passed (ms_data ms') = Fin (t + T)"
    "pg_duration (ms_interpolation ms') = pg_duration (ms_interpolation ms)" "fdb ms' = fdb ms"
    "ms_internal_goal ms' = ms_internal_goal ms"
    "d \<le> t + T \<Longrightarrow> goal_positions (ms_interpolation ms') = goal_positions (ms_internal_goal ms)"
proof -
  let ?ip = "ms_interpolator ms"
  have ip: "cond_mode (ip_conditions ?ip) = EGMJoint" "cond_operation (ip_conditions ?ip) = OpNormal" "ip_offset ?ip = nr"
    "nr + ne \<le> length (ip_spline_polynomials ?ip)" "cond_duration (ip_conditions ?ip) = Fin d" "0 < d"
    "\<forall>i < nr + ne. fin_polynomial (ip_spline_polynomials ?ip ! i)"
    "map (\<lambda>i. calculatePosition (ip_spline_polynomials ?ip ! i) (Fin d)) [0..<nr] = robot_positions (ms_internal_goal ms)"
    "map (\<lambda>i. calculatePosition (ip_spline_polynomials ?ip ! (i + nr)) (Fin d)) [0..<ne] = external_positions (ms_internal_goal ms)"
    using assms(1) by (simp_all add: aimed_def Let_def getDuration_def)
  obtain out where out: "EGMInterpolator_evaluate bq ?ip (ms_interpolation ms) (Fin T) (Fin (t + T)) = Some out"
    "ms' = ms\<lparr>ms_data := (ms_data ms)\<lparr>pd_time_passed := Fin (t + T)\<rparr>, ms_interpolation := out\<rparr>"
    using assms(4-6) by (auto simp: evaluateInterpolator_def Let_def Option.bind_eq_Some_conv)
  have sat: "saturate (Fin (t + T)) (Fin 0) (Fin d) = Fin (max 0 (min (t + T) d))" using ip(6) by (simp add: saturate_Fin)
  note ev = evaluate_joint_mode [OF assms(2) ip(4,3,1,2), of bq "Fin T" "Fin (t + T)", unfolded ip(5) sat out(1)]
  show "aimed nr ne d ms'" using assms(1) by (simp add: aimed_def out(2))
  show "fin_step f ms'" using ev assms(3) ip(7) by (auto simp: fin_step_def out(2))
  show "pg_duration (ms_interpolation ms') = pg_duration (ms_interpolation ms)"
    using out(1) ip(1,2) by (auto simp: out(2) EGMInterpolator_evaluate_def Let_def Option.bind_eq_Some_conv dest!: evaluate_joints_duration)
  show "goal_positions (ms_interpolation ms') = goal_positions (ms_internal_goal ms)" if "d \<le> t + T"
  proof -
    have "max 0 (min (t + T) d) = d" using that ip(6) by simp
    then show ?thesis using ev ip(8,9) by (auto simp: out(2))
  qed
  show "pd_mode (ms_data ms') = pd_mode (ms_data ms)" "pd_time_passed (ms_data ms') = Fin (t + T)" "fdb ms' = fdb ms"
    "ms_internal_goal ms' = ms_internal_goal ms"
    by (simp_all add: out(2))
qed

lemma produce_outputs_on_goal:
  assumes "on_goal nr ne f d m" "motion_shaped nr ne m" "nr + ne \<le> MAX_NUMBER_OF_SPLINES" "active m"
    and "elapsed m = Fin t" "0 \<le> t" "sample_time m = Fin T" "0 < T" "produce_outputs bq outputs m = Some (out, m')"
  shows "on_goal nr ne f d m'" "elapsed m' = Fin (t + T)"
    "output_shape nr ne outputs \<Longrightarrow> positions_fin nr ne (fdb (tmo_motion_step m)) \<Longrightarrow> d \<le> t + T \<Longrightarrow>
      out_positions out = goal_positions (ms_internal_goal (tmo_motion_step m'))"
proof -
  let ?ms = "tmo_motion_step m" and ?mc = "tmo_controller m"
  have g: "fin_step f ?ms" "aimed nr ne d ?ms" "pd_mode (ms_data ?ms) = EGMJoint" "is_fin (pg_duration_of (ms_interpolation ?ms))"
    "mc_egm_mode ?mc = EGMJoint" "mc_k ?mc = Fin 1" "fin_goal (mc_initial_references ?mc)"
    using assms(1) by (simp_all add: on_goal_def Let_def)
  have sh: "step_shaped nr ne ?ms" "goal_shape nr ne (ms_interpolation ?ms)" "goal_shape nr ne (mc_initial_references ?mc)"
    "offset_ok nr (ms_interpolator ?ms)"
    using assms(2,4) by (simp_all add: motion_shaped_def step_shaped_def)
  obtain ms ms' mc' where ms: "evaluateInterpolator bq ?ms = Some ms" "calculate outputs ms ?mc = (out, ms', mc')"
    "m' = m\<lparr>tmo_motion_step := ms', tmo_controller := mc'\<rparr>"
    by (rule produce_outputs_active [OF assms(9,4)])
  note ev = evaluateInterpolator_aimed [OF g(2) sh(2) g(1) assms(5,7) ms(1)]
  have shaped: "step_shaped nr ne ms"
    using evaluateInterpolator_shaped [OF sh(1) assms(3) sh(4), of bq] ms(1) by auto
  have fin: "is_fin (pg_duration_of (ms_interpolation ms))" using g(4) ev(5) by simp
  have "0 < t + T" using assms(6,8) by simp
  note sc = scaled_fin [OF g(7) ev(4) this fin]
  have fm: "fin_goal (ms_interpolation ms)" using ev(2) by (simp add: fin_step_def)
  note cf = calculate_fin [OF ms(2) g(5) fm sc]
  have fr: "ms_data ms' = ms_data ms" "ms_interpolator ms' = ms_interpolator ms" "ms_internal_goal ms' = ms_internal_goal ms"
    using calculate_external(2) [of outputs ms ?mc] calculate_frame [of outputs ms ?mc] by (simp_all add: ms(2))
  have mc: "mc_k mc' = Fin 1" "mc_egm_mode mc' = EGMJoint"
    using calculate_gain [of outputs ms ?mc] calculate_mode [OF ms(2)] g(5,6) by (simp_all add: ms(2))
  show "on_goal nr ne f d m'"
    using ev g cf mc calculate_duration [OF ms(2)] fr fin by (simp add: on_goal_def Let_def ms(3) fin_step_def aimed_def)
  show "elapsed m' = Fin (t + T)" using ev(4) fr by (simp add: ms(3))
  show "out_positions out = goal_positions (ms_internal_goal (tmo_motion_step m'))" if "output_shape nr ne outputs" "positions_fin nr ne (fdb (tmo_motion_step m))" "d \<le> t + T"
    using calculate_positions(2) [OF ms(2) g(5) that(1) shaped sh(3) g(6)] ev(6,7,8) that(2,3) fr by (simp add: ms(3))
qed

lemma install_on_goal:
  assumes "primed f (tmo_motion_step m)" "step_shaped nr ne (tmo_motion_step m)" "nr + ne \<le> MAX_NUMBER_OF_SPLINES"
    and "mc_k (tmo_controller m) = Fin 1" "dd_has_new_goal (tmo_data m)" "install_goal m = Some m'"
  shows "on_goal nr ne f (max 0.004 (f * point_time (external_goal m))) m'" "elapsed m' = Fin 0"
    "sample_time m' = sample_time m" "fdb (tmo_motion_step m') = fdb (tmo_motion_step m)"
    "ms_internal_goal (tmo_motion_step m') = ms_internal_goal (tmo_motion_step m)"
proof -
  obtain ms where ms: "updateInterpolator (tmo_motion_step m) = Some ms"
    "m' = m\<lparr>tmo_motion_step := ms, tmo_controller := controller_update (sm_current_state (tmo_state_manager m)) ms
       (tmo_configurations m) (tmo_controller m)\<rparr>"
    using assms(5,6) by (auto simp: install_goal_def Option.bind_eq_Some_conv)
  note up = updateInterpolator_aimed [OF assms(1-3) ms(1)]
  show "on_goal nr ne f (max 0.004 (f * point_time (external_goal m))) m'"
    using up(1,2,6,7) assms(4) by (simp add: on_goal_def ms(2) controller_update_def external_goal_def fin_step_def)
  show "elapsed m' = Fin 0" "sample_time m' = sample_time m" "fdb (tmo_motion_step m') = fdb (tmo_motion_step m)"
    "ms_internal_goal (tmo_motion_step m') = ms_internal_goal (tmo_motion_step m)"
    using up(3,4,5,8) by (simp_all add: ms(2))
qed

section \<open>One message\<close>

abbreviation quiet :: "TrajectoryMotion \<Rightarrow> bool" where
  "quiet m \<equiv> state_of m = (StNormal, SubRunning) \<and> \<not> has_pending m \<and> \<not> pe_do_ramp_down (events m)"

text \<open>A message of the session, with the outputs it is answered into.\<close>

fun proper :: "nat \<Rightarrow> nat \<Rightarrow> motion_call \<Rightarrow> bool" where
  "proper nr ne (Message ic out) \<longleftrightarrow> regular nr ne (Message ic out) \<and> output_shape nr ne out \<and>
     positions_fin nr ne (in_feedback_of (ic_current ic))"
| "proper nr ne c \<longleftrightarrow> calm c"

lemma received_quiet:
  assumes "quiet m" "\<not> ic_first_message ic" "statesOk ic"
  shows "quiet (received ic m)" "tmo_trajectories (received ic m) = tmo_trajectories m"
    "tmo_controller (received ic m) = tmo_controller m" "tmo_configurations (received ic m) = tmo_configurations m"
    "events (received ic m) = events m" "active (received ic m) = active m" "\<not> dd_has_new_goal (tmo_data (received ic m))"
    "tmo_motion_step (received ic m) = (tmo_motion_step m)\<lparr>ms_data := (ms_data (tmo_motion_step m))
       \<lparr>pd_estimated_sample_time := ic_estimated_sample_time ic, pd_feedback := in_feedback_of (ic_current ic)\<rparr>\<rparr>"
  using assms by (simp_all add: prepare_def Let_def verifyState_state updateState_def)

lemma observed_simps [simp]:
  "fin_step f (ms\<lparr>ms_data := (ms_data ms)\<lparr>pd_estimated_sample_time := T, pd_feedback := fb\<rparr>\<rparr>) = fin_step f ms"
  "aimed nr ne d (ms\<lparr>ms_data := x\<rparr>) = aimed nr ne d ms" "aimed nr ne d (ms\<lparr>ms_condition_met := b\<rparr>) = aimed nr ne d ms"
  by (simp_all add: fin_step_def aimed_def)

lemma on_goal_received:
  assumes "quiet m" "\<not> ic_first_message ic" "statesOk ic" "on_goal nr ne f d m"
  shows "on_goal nr ne f d (received ic m)"
  using assms(4) by (simp add: on_goal_def Let_def received_quiet(3,8) [OF assms(1-3)])

lemma on_goal_condition [simp]:
  "on_goal nr ne f d (m\<lparr>tmo_motion_step := snd (conditionMet (tmo_motion_step m))\<rparr>) = on_goal nr ne f d m"
  by (simp add: on_goal_def Let_def aimed_def)

text \<open>What is left of \<open>generateOutputs\<close> when the state has been processed, for a goal that is followed.\<close>

lemma outputs_on_goal:
  assumes "on_goal nr ne f d p" "motion_shaped nr ne p" "nr + ne \<le> MAX_NUMBER_OF_SPLINES" "active p"
    and "output_shape nr ne out" "positions_fin nr ne (fdb (tmo_motion_step p))" "elapsed p = Fin t" "0 \<le> t"
    and "sample_time p = Fin T" "0 < T" "produce_outputs bq out p = Some (o', m4)"
  shows "on_goal nr ne f d (update_progress o' ic m4)" "elapsed (update_progress o' ic m4) = Fin (t + T)"
    "d \<le> t + T \<Longrightarrow> out_positions o' = goal_positions (ms_internal_goal (tmo_motion_step (update_progress o' ic m4)))"
    "same_plan p (update_progress o' ic m4)"
proof -
  note po = produce_outputs_on_goal [OF assms(1-4,7-11)]
  show "on_goal nr ne f d (update_progress o' ic m4)" using po(1) by (simp add: on_goal_def update_progress_def Let_def)
  show "elapsed (update_progress o' ic m4) = Fin (t + T)" using po(2) by simp
  show "out_positions o' = goal_positions (ms_internal_goal (tmo_motion_step (update_progress o' ic m4)))" if "d \<le> t + T"
    using po(3) [OF assms(5,6) that] by simp
  show "same_plan p (update_progress o' ic m4)"
    using same_plan_trans [OF produce_outputs_plan [OF assms(11)] update_progress_plan] .
qed

text \<open>A goal that is not completed is followed on.\<close>

lemma message_stays:
  assumes "quiet m" "motion_shaped nr ne m" "nr + ne \<le> MAX_NUMBER_OF_SPLINES" "proper nr ne (Message ic out)"
    and "generateOutputs bq ic out m = Some (o', m')" "on_goal nr ne f d m" "active m" "p_current m = Some tr"
    and "elapsed m = Fin t" "0 \<le> t" "ic_estimated_sample_time ic = Fin T" "0.004 \<le> T" "\<not> completed (received ic m)"
  shows "on_goal nr ne f d m'" "elapsed m' = Fin (t + T)" "same_plan (received ic m) m'"
    "d \<le> t + T \<Longrightarrow> out_positions o' = goal_positions (ms_internal_goal (tmo_motion_step m'))"
    "ms_internal_goal (tmo_motion_step m') = ms_internal_goal (tmo_motion_step m)"
proof -
  have ic: "\<not> ic_first_message ic" "statesOk ic" "fits nr ne ic" "output_shape nr ne out" "positions_fin nr ne (in_feedback_of (ic_current ic))"
    using assms(4) by simp_all
  define r where "r = received ic m"
  note rq = received_quiet [OF assms(1) ic(1,2), folded r_def]
  define p where "p = process_state r"
  have "p = r \<or> p = r\<lparr>tmo_motion_step := snd (conditionMet (tmo_motion_step r))\<rparr>"
    using rq(1,2) assms(8,13)
    by (auto simp: p_def r_def [symmetric] process_state_def processNormalState_def sm_state_def completed_def Let_def case_prod_beta)
  then have p: "on_goal nr ne f d p" "active p" "same_plan r p" "elapsed p = elapsed r" "sample_time p = sample_time r"
    "fdb (tmo_motion_step p) = fdb (tmo_motion_step r)" "\<not> dd_has_new_goal (tmo_data p)"
    "ms_internal_goal (tmo_motion_step p) = ms_internal_goal (tmo_motion_step r)"
    using on_goal_received [OF assms(1) ic(1,2) assms(6)] rq(6,7) assms(7)
    by (auto simp: r_def [symmetric] same_plan_def external_goal_def)
  obtain m4 where m4: "produce_outputs bq out p = Some (o', m4)" "m' = update_progress o' ic m4"
    using assms(5) ic(2) install_old_goal [OF p(7)] by (auto simp: generateOutputs_def Let_def p_def r_def Option.bind_eq_Some_conv)
  have "motion_ready nr ne (prepare ic m)"
    using prepare_ready [OF ic(3)] motion_shaped_splines [OF assms(2)] assms(2) unfolding splines_ok_def by blast
  then have "motion_ready nr ne p" unfolding p_def r_def by (intro process_state_ready) (simp add: motion_ready_def)
  then have sh: "motion_shaped nr ne p" using p(7) by (simp add: motion_ready_def motion_shaped_def)
  have e: "elapsed p = Fin t" "sample_time p = Fin T" "0 < T" "positions_fin nr ne (fdb (tmo_motion_step p))"
    using p(4-6) rq(8) assms(9,11,12) ic(5) by simp_all
  note out = outputs_on_goal [OF p(1) sh assms(3) p(2) ic(4) e(4,1) assms(10) e(2,3) m4(1), of ic, folded m4(2)]
  show "on_goal nr ne f d m'" "elapsed m' = Fin (t + T)"
    "d \<le> t + T \<Longrightarrow> out_positions o' = goal_positions (ms_internal_goal (tmo_motion_step m'))"
    using out(1-3) by simp_all
  show "same_plan (received ic m) m'" using same_plan_trans [OF p(3) out(4)] by (simp add: r_def)
  show "ms_internal_goal (tmo_motion_step m') = ms_internal_goal (tmo_motion_step m)"
    using produce_outputs_time(3) [OF m4(1)] p(8) rq(8) by (simp add: m4(2))
qed

text \<open>A completed goal, or a waiting trajectory: the next goal is taken and followed, or the trajectory is over.\<close>

lemma sample_goals [simp]:
  "pd_estimated_sample_time (ms_data (prepareNormalGoal l ms)) = pd_estimated_sample_time (ms_data ms)"
  by (simp add: prepareNormalGoal_def estimateDuration_def Let_def)

lemma sample_loop: "pd_estimated_sample_time (ms_data (snd (snd (normal_goal_loop l ps ms)))) = pd_estimated_sample_time (ms_data ms)"
  by (induction ps arbitrary: ms) (auto simp: normal_goal_loop_simps)

lemma sample_update: "sample_time (updateNormalGoal m) = sample_time m"
  by (simp add: updateNormalGoal_def Let_def case_prod_beta sample_loop retriveNextTrajectoryPoint_def
      split: option.split list.split)

definition takes :: "nat \<Rightarrow> nat \<Rightarrow> real \<Rightarrow> real \<Rightarrow> TrajectoryMotion \<Rightarrow> TrajectoryMotion \<Rightarrow> bool" where
  "takes nr ne f T q m' \<longleftrightarrow> active m' \<and> plain_point (external_goal m') \<and> list_all plain_point (active_points m') \<and>
     p_current m' \<noteq> None \<and> active_points q = skipped_points q @ external_goal m' # active_points m' \<and>
     on_goal nr ne f (max 0.004 (f * point_time (external_goal m'))) m' \<and> elapsed m' = Fin T"

lemma message_takes:
  assumes "nr + ne \<le> MAX_NUMBER_OF_SPLINES" "proper nr ne (Message ic out)" "generateOutputs bq ic out m = Some (o', m')"
    and "process_state (received ic m) = updateNormalGoal q" "quiet q" "mc_k (tmo_controller q) = Fin 1"
    and "fin_step f (tmo_motion_step q)" "step_shaped nr ne (tmo_motion_step q)" "list_all plain_point (active_points q)"
    and "sample_time q = Fin T" "0.004 \<le> T" "fdb (tmo_motion_step q) = in_feedback_of (ic_current ic)"
  shows "quiet m'" "tq_primary_queue (tmo_trajectories m') = tq_primary_queue (tmo_trajectories q)"
    "p_current m' = None \<and> \<not> active m' \<and> active_points q = skipped_points q \<and> o' = out \<or> takes nr ne f T q m'"
proof -
  have ic: "statesOk ic" "output_shape nr ne out" "positions_fin nr ne (in_feedback_of (ic_current ic))"
    using assms(2) by simp_all
  define p where "p = updateNormalGoal q"
  obtain m3 m4 where m3: "install_goal p = Some m3" "produce_outputs bq out m3 = Some (o', m4)" "m' = update_progress o' ic m4"
    using assms(3,4) ic(1) by (auto simp: generateOutputs_def Let_def Option.bind_eq_Some_conv p_def)
  have plan: "same_plan p m'" using generateOutputs_plan [OF assms(3)] ic(1) assms(4) by (simp add: p_def)
  show "quiet m'" using plan assms(5) by (simp add: same_plan_def p_def)
  show "tq_primary_queue (tmo_trajectories m') = tq_primary_queue (tmo_trajectories q)"
    using plan by (simp add: same_plan_def p_def)
  show "p_current m' = None \<and> \<not> active m' \<and> active_points q = skipped_points q \<and> o' = out \<or> takes nr ne f T q m'"
  proof (cases rule: updateNormalGoal_cases [of q])
    case idle
    then have "\<not> dd_has_new_goal (tmo_data p)" by (simp add: p_def updateNormalGoal_flags)
    then have "m3 = p" using m3(1) install_old_goal [of p] by simp
    then have "o' = out" using m3(2) idle(1) by (auto simp: produce_outputs_def p_def)
    with idle plan show ?thesis by (simp add: same_plan_def p_def)
  next
    case (active rest)
    have new: "dd_has_new_goal (tmo_data p)" using active(1) by (simp add: p_def updateNormalGoal_flags)
    note pr = updateNormalGoal_primed [OF assms(7,9) active(1), folded p_def]
    have ready: "motion_ready nr ne p" unfolding p_def by (rule updateNormalGoal_ready [OF assms(8)])
    then have sh: "step_shaped nr ne (tmo_motion_step p)" by (simp add: motion_ready_def)
    have k: "mc_k (tmo_controller p) = Fin 1" using assms(6) by (simp add: p_def)
    note inst = install_on_goal [OF pr(1) sh assms(1) k new m3(1)]
    have m3': "motion_shaped nr ne m3" using install_goal_shaped [OF ready assms(1)] m3(1) by auto
    have act: "dd_has_active_goal (tmo_data m3)" using install_goal_plan [OF m3(1)] active(1) by (simp add: same_plan_def p_def)
    have e: "sample_time m3 = Fin T" "0 < T" "positions_fin nr ne (fdb (tmo_motion_step m3))"
      using inst(3,4) assms(10-12) ic(3) by (simp_all add: p_def sample_update)
    note og = outputs_on_goal [OF inst(1) m3' assms(1) act ic(2) e(3) inst(2) _ e(1,2) m3(2), of ic, folded m3(3)]
    have pl: "external_goal m' = external_goal p" "active_points m' = active_points p" "p_current m' = Some \<lparr>tr_points = rest\<rparr>"
      "dd_has_active_goal (tmo_data m')"
      using plan active(1,2) by (simp_all add: same_plan_def active_points_def p_def)
    with og(1,2) pr(2,3) active(3) [folded p_def] have "takes nr ne f T q m'"
      by (simp add: takes_def active_points_def)
    then show ?thesis ..
  qed
qed

text \<open>The first message of a session is answered without a goal.\<close>

lemma first_motion:
  assumes "generateOutputs bq ic out new_sample = Some (o', m)" "statesOk ic" "ic_first_message ic"
  shows "tmo_motion_step m = tmo_motion_step (received ic new_sample)" "\<not> active m"
proof -
  let ?r = "received ic new_sample"
  have p: "tmo_motion_step (process_state ?r) = tmo_motion_step ?r" "\<not> dd_has_new_goal (tmo_data (process_state ?r))" "\<not> active (process_state ?r)"
    using assms(2,3) by (simp_all add: process_state_def processNormalState_def prepare_def Let_def reset_components_def
        resetTrajectoryMotion_def init_TrajectoryMotion_def init_DecisionData_def init_PendingEvents_def
        verifyState_def resetStateManager_def activateStateManager_def updateState_def init_StateManager_def)
  show "tmo_motion_step m = tmo_motion_step ?r" "\<not> active m"
    using assms(1,2) p install_old_goal [OF p(2)] by (auto simp: generateOutputs_def Let_def produce_outputs_def update_progress_def)
qed

lemma first_step:
  assumes "generateOutputs bq ic out new_sample = Some (o', m)" "statesOk ic" "ic_first_message ic"
    and "positions_fin nr ne (in_feedback_of (ic_current ic))"
  shows "fin_step 1 (tmo_motion_step m)" "pd_mode (ms_data (tmo_motion_step m)) = EGMJoint"
proof -
  show "fin_step 1 (tmo_motion_step m)" "pd_mode (ms_data (tmo_motion_step m)) = EGMJoint"
    unfolding first_motion(1) [OF assms(1-3)]
    using assms(2-4) by (auto simp: fin_step_def fin_goal_def fin_joint_goal_def prepare_def Let_def reset_components_def resetTrajectoryMotion_def
        init_TrajectoryMotion_def init_MotionStep_def init_ProcessData_def resetMotionStep_def reset_derivatives_def positions_fin_def values_fin_def)
qed

end
