(* ===== verification/EGM_Closed_Loop.thy ===== *)
theory EGM_Closed_Loop
  imports EGM_Joint_Goals
begin

text \<open>
  The trajectory execution together with the robot: if the robot settles on joint positions it was sent for some
  messages, a trajectory of joint goals is executed to its end after a bounded number of messages, and every
  point of it is finished, in order. The robot's behaviour is a condition on the messages it sends. The count of
  the messages that are left is an instance of the locale \<open>progress\<close>.
\<close>

section \<open>The closed loop\<close>

text \<open>
  The state of the loop: the motion, the joint positions of the last reply, the number of replies that had the same
  ones, and the points that are finished.
\<close>

record Loop =
  lo_motion :: TrajectoryMotion
  lo_target :: "double list \<times> double list"
  lo_age :: nat
  lo_log :: "PointGoal list"

fun loop_call :: "boost_quaternion \<Rightarrow> motion_call \<Rightarrow> Loop \<Rightarrow> Loop option" where
  "loop_call bq (Message ic out) s = do {
     (o', m') \<leftarrow> generateOutputs bq ic out (lo_motion s);
     Some \<lparr>lo_motion = m', lo_target = out_positions o',
       lo_age = (if out_positions o' = lo_target s then lo_age s else 0) + 1,
       lo_log = lo_log s @ call_finishes (Message ic out) (lo_motion s)\<rparr>
   }"
| "loop_call bq c s = do { m' \<leftarrow> call bq c (lo_motion s); Some (s\<lparr>lo_motion := m'\<rparr>) }"

fun loop_run :: "boost_quaternion \<Rightarrow> motion_call list \<Rightarrow> Loop \<Rightarrow> Loop option" where
  "loop_run bq [] s = Some s"
| "loop_run bq (c # cs) s = do { s1 \<leftarrow> loop_call bq c s; loop_run bq cs s1 }"

lemma loop_run_run:
  "loop_run bq cs s = Some s' \<Longrightarrow> run bq cs (lo_motion s) = Some (lo_motion s') \<and> lo_log s' = lo_log s @ run_finishes bq cs (lo_motion s)"
proof (induction cs arbitrary: s)
  case (Cons c cs)
  from Cons.prems obtain s1 where s1: "loop_call bq c s = Some s1" "loop_run bq cs s1 = Some s'" by (auto simp: Option.bind_eq_Some_conv)
  then have "call bq c (lo_motion s) = Some (lo_motion s1) \<and> lo_log s1 = lo_log s @ call_finishes c (lo_motion s)"
    by (cases c) (auto simp: Option.bind_eq_Some_conv simp del: call_finishes.simps(1))
  with Cons.IH [OF s1(2)] show ?case by simp
qed simp

text \<open>The robot is within the tolerance of the reach condition of some positions.\<close>

definition near :: "double list \<times> double list \<Rightarrow> Feedback \<Rightarrow> bool" where
  "near target fb \<longleftrightarrow>
     list_all2 (\<lambda>g v. \<bar>g - v\<bar> < CONDITION) (fst target) (jvalues (js_position_of (rob_joints_of (fb_robot_of fb)))) \<and>
     list_all2 (\<lambda>g v. \<bar>g - v\<bar> < CONDITION) (snd target) (jvalues (js_position_of (ext_joints_of (fb_external_of fb))))"

text \<open>The robot settles: it is near the positions it was sent if the last \<open>L\<close> replies had the same ones.\<close>

fun settled :: "nat \<Rightarrow> motion_call \<Rightarrow> Loop \<Rightarrow> bool" where
  "settled L (Message ic out) s \<longleftrightarrow> (L \<le> lo_age s \<longrightarrow> near (lo_target s) (in_feedback_of (ic_current ic)))"
| "settled L c s \<longleftrightarrow> True"

fun session :: "nat \<Rightarrow> nat \<Rightarrow> nat \<Rightarrow> boost_quaternion \<Rightarrow> motion_call list \<Rightarrow> Loop \<Rightarrow> bool" where
  "session nr ne L bq [] s \<longleftrightarrow> True"
| "session nr ne L bq (c # cs) s \<longleftrightarrow> proper nr ne c \<and> settled L c s \<and>
     (case loop_call bq c s of None \<Rightarrow> True | Some s' \<Rightarrow> session nr ne L bq cs s')"

lemma checkConditions_Joints_iff:
  "checkConditions_Joints a b met \<longleftrightarrow>
     met \<and> (\<forall>i < min (length (jvalues a)) (length (jvalues b)). \<bar>jvalues a ! i - jvalues b ! i\<bar> < CONDITION)"
proof -
  have "for_range n (\<lambda>i m. if m then \<bar>jvalues a ! i - jvalues b ! i\<bar> < CONDITION else m) met \<longleftrightarrow>
      met \<and> (\<forall>i < n. \<bar>jvalues a ! i - jvalues b ! i\<bar> < CONDITION)" for n
    by (induction n) (auto simp: less_Suc_eq)
  then show ?thesis by (simp add: checkConditions_Joints_def)
qed

lemma near_conditionMet:
  assumes "near (goal_positions (ms_internal_goal ms)) (fdb ms)" "pd_mode (ms_data ms) = EGMJoint"
  shows "fst (conditionMet ms)"
  using assms
  by (auto simp: conditionMet_def Let_def checkConditions_Joints_iff near_def robot_positions_def external_positions_def list_all2_conv_all_nth)

section \<open>Counting the messages\<close>

text \<open>A bound on the messages a list of points takes: its duration in lowest sample times, and the time to settle.\<close>

definition messages :: "nat \<Rightarrow> real \<Rightarrow> PointGoal list \<Rightarrow> nat" where
  "messages L f ps = sum_list (map (\<lambda>p. nat \<lceil>250 * (f * point_time p)\<rceil> + L + 1) ps)"

lemma messages_simps [simp]:
  "messages L f [] = 0" "messages L f (p # ps) = nat \<lceil>250 * (f * point_time p)\<rceil> + L + 1 + messages L f ps"
  "messages L f (ps @ qs) = messages L f ps + messages L f qs"
  by (simp_all add: messages_def)

inductive trajectory_left :: "nat \<Rightarrow> nat \<Rightarrow> nat \<Rightarrow> real \<Rightarrow> PointGoal list \<Rightarrow> nat \<Rightarrow> Loop \<Rightarrow> bool" for nr ne L f ps where
  waits: "quiet m \<Longrightarrow> lo_motion s = m \<Longrightarrow> p_current m = None \<Longrightarrow> tq_primary_queue (tmo_trajectories m) = tr # trs \<Longrightarrow>
    mc_k (tmo_controller m) = Fin 1 \<Longrightarrow> fin_step f (tmo_motion_step m) \<Longrightarrow> list_all plain_point (tr_points tr) \<Longrightarrow>
    lo_log s @ tr_points tr = ps \<Longrightarrow> 1 + messages L f (tr_points tr) \<le> k \<Longrightarrow> trajectory_left nr ne L f ps k s"
| follows: "quiet m \<Longrightarrow> lo_motion s = m \<Longrightarrow> p_current m \<noteq> None \<Longrightarrow> active m \<Longrightarrow> on_goal nr ne f d m \<Longrightarrow> elapsed m = Fin t \<Longrightarrow> 0 \<le> t \<Longrightarrow>
    list_all plain_point (active_points m) \<Longrightarrow> lo_log s @ external_goal m # active_points m = ps \<Longrightarrow>
    d < t + 0.004 * real n + 0.002 \<Longrightarrow> n + 1 + L + messages L f (active_points m) \<le> k \<Longrightarrow> trajectory_left nr ne L f ps k s"
| arrives: "quiet m \<Longrightarrow> lo_motion s = m \<Longrightarrow> p_current m \<noteq> None \<Longrightarrow> active m \<Longrightarrow> on_goal nr ne f d m \<Longrightarrow> elapsed m = Fin t \<Longrightarrow> 0 \<le> t \<Longrightarrow>
    list_all plain_point (active_points m) \<Longrightarrow> lo_log s @ external_goal m # active_points m = ps \<Longrightarrow>
    d < t + 0.002 \<Longrightarrow> lo_target s = goal_positions (ms_internal_goal (tmo_motion_step m)) \<Longrightarrow> 1 \<le> lo_age s \<Longrightarrow>
    L - lo_age s + 1 + messages L f (active_points m) \<le> k \<Longrightarrow> trajectory_left nr ne L f ps k s"

lemma trajectory_left_0: "\<not> trajectory_left nr ne L f ps 0 s"
  by (auto elim: trajectory_left.cases)

definition trajectory_over :: "PointGoal list \<Rightarrow> Loop \<Rightarrow> bool" where
  "trajectory_over ps s \<longleftrightarrow> quiet (lo_motion s) \<and> p_current (lo_motion s) = None \<and> \<not> active (lo_motion s) \<and> lo_log s = ps"

lemma takes_left:
  assumes "takes nr ne f T q m'" "quiet m'" "lo_motion s' = m'" "lo_log s' = lg @ skipped_points q" "lg @ active_points q = ps"
    and "0.004 \<le> T" "messages L f (active_points q) \<le> k"
  shows "trajectory_left nr ne L f ps k s'"
proof -
  let ?p = "external_goal m'"
  define n where "n = nat \<lceil>250 * (f * point_time ?p)\<rceil>"
  have t: "active m'" "p_current m' \<noteq> None" "list_all plain_point (active_points m')" "active_points q = skipped_points q @ ?p # active_points m'"
    "on_goal nr ne f (max 0.004 (f * point_time ?p)) m'" "elapsed m' = Fin T"
    using assms(1) by (simp_all add: takes_def)
  have "250 * (f * point_time ?p) \<le> real n" unfolding n_def by linarith
  then have "max 0.004 (f * point_time ?p) < T + 0.004 * real n + 0.002" using assms(6) by (auto simp: max_def)
  moreover have "n + 1 + L + messages L f (active_points m') \<le> k" using assms(7) t(4) by (simp add: n_def)
  ultimately show ?thesis
    using t assms(2-6) by (intro trajectory_left.follows [of m' s' nr ne f "max 0.004 (f * point_time ?p)" T ps n L k]) auto
qed

lemma message_completes:
  assumes "quiet m" "motion_shaped nr ne m" "nr + ne \<le> MAX_NUMBER_OF_SPLINES" "proper nr ne (Message ic out)"
    and "loop_call bq (Message ic out) s = Some s'" "lo_motion s = m" "p_current m \<noteq> None" "mc_k (tmo_controller m) = Fin 1"
    and "fin_step f (tmo_motion_step m)" "list_all plain_point (active_points m)" "completed (received ic m)"
    and "lo_log s @ external_goal m # active_points m = ps" "messages L f (active_points m) \<le> k"
  shows "trajectory_over ps s' \<or> trajectory_left nr ne L f ps k s'"
proof -
  have ic: "\<not> ic_first_message ic" "statesOk ic" "fits nr ne ic" using assms(4) by simp_all
  obtain T where T: "ic_estimated_sample_time ic = Fin T" "0.004 \<le> T" using assms(4) by auto
  define r where "r = received ic m"
  define q where "q = (if pg_reach_of (ms_internal_goal (tmo_motion_step r))
    then r\<lparr>tmo_motion_step := snd (conditionMet (tmo_motion_step r))\<rparr> else r)"
  note rq = received_quiet [OF assms(1) ic(1,2), folded r_def]
  have r: "external_goal r = external_goal m" "active_points r = active_points m" "p_current r \<noteq> None"
    using rq(2,8) assms(7) by (simp_all add: external_goal_def active_points_def)
  have ps: "process_state r = updateNormalGoal q"
    using rq(1) r(3) assms(11)
    by (auto simp: q_def r_def [symmetric] process_state_def processNormalState_def sm_state_def completed_def Let_def case_prod_beta)
  have sk: "skipped_points q = skipped_points r" "active_points q = active_points r"
    by (simp_all add: q_def skipped_points_conditionMet)
  have fin: "call_finishes (Message ic out) m = external_goal m # skipped_points q"
    using rq(1) r assms(11) ic(2)
    by (auto simp: r_def [symmetric] finished_points_def finished_normal_def sk)
  obtain o' where o': "generateOutputs bq ic out m = Some (o', lo_motion s')" "lo_log s' = lo_log s @ external_goal m # skipped_points q"
    using assms(5,6) fin by (auto simp: Option.bind_eq_Some_conv simp del: call_finishes.simps)
  have "motion_ready nr ne (prepare ic m)"
    using prepare_ready [OF ic(3)] motion_shaped_splines [OF assms(2)] assms(2) unfolding splines_ok_def by blast
  then have sh: "step_shaped nr ne (tmo_motion_step q)" by (simp add: motion_ready_def q_def r_def)
  have q: "quiet q" "mc_k (tmo_controller q) = Fin 1" "fin_step f (tmo_motion_step q)" "list_all plain_point (active_points q)"
    "sample_time q = Fin T" "fdb (tmo_motion_step q) = in_feedback_of (ic_current ic)"
    using rq(1,3,8) assms(8-10) T(1) r(2) by (simp_all add: q_def active_points_def)
  note mt = message_takes [OF assms(3,4) o'(1) ps [unfolded r_def] q(1-3) sh q(4,5) T(2) q(6)]
  have "trajectory_over ps s'" if "p_current (lo_motion s') = None \<and> \<not> active (lo_motion s') \<and> active_points q = skipped_points q"
    using that mt(1) o'(2) assms(12) sk(2) r(2) by (simp add: trajectory_over_def)
  moreover have "trajectory_left nr ne L f ps k s'" if "takes nr ne f T q (lo_motion s')"
    using takes_left [OF that mt(1) refl, of "lo_log s @ [external_goal m]" ps L k] o'(2) assms(12,13) T(2) sk(2) r(2) by simp
  ultimately show ?thesis using mt(3) by blast
qed

lemma message_starts:
  assumes "trajectory_left nr ne L f ps (Suc k) s" "p_current (lo_motion s) = None" "motion_shaped nr ne (lo_motion s)"
    and "nr + ne \<le> MAX_NUMBER_OF_SPLINES" "proper nr ne (Message ic out)" "loop_call bq (Message ic out) s = Some s'"
  shows "trajectory_over ps s' \<or> trajectory_left nr ne L f ps k s'"
  using assms(1)
proof cases
  case (waits m tr trs)
  have ic: "\<not> ic_first_message ic" "statesOk ic" "fits nr ne ic" using assms(5) by simp_all
  obtain T where T: "ic_estimated_sample_time ic = Fin T" "0.004 \<le> T" using assms(5) by auto
  define r where "r = received ic m"
  define q where "q = r\<lparr>tmo_trajectories := (tmo_trajectories r)\<lparr>tq_p_current := Some tr, tq_primary_queue := trs\<rparr>\<rparr>"
  note rq = received_quiet [OF waits(1) ic(1,2), folded r_def]
  have ps: "process_state (received ic m) = updateNormalGoal q"
    using rq(1,2) waits(3,4) by (simp add: q_def r_def [symmetric] process_state_def processNormalState_def sm_state_def)
  have ap: "active_points q = tr_points tr" by (simp add: q_def active_points_def)
  have "skipped_points (r\<lparr>tmo_trajectories := (tmo_trajectories r)\<lparr>tq_p_current := Some tr\<rparr>\<rparr>) = skipped_points q"
    by (rule skipped_points_cong) (simp_all add: q_def active_points_def)
  then have "call_finishes (Message ic out) m = skipped_points q"
    using rq(1,2) waits(3,4) ic(2) by (simp add: r_def [symmetric] finished_points_def finished_normal_def)
  then obtain o' where o': "generateOutputs bq ic out m = Some (o', lo_motion s')" "lo_log s' = lo_log s @ skipped_points q"
    using assms(6) waits(2) by (auto simp: Option.bind_eq_Some_conv simp del: call_finishes.simps)
  have "motion_ready nr ne (prepare ic m)"
    using prepare_ready [OF ic(3)] motion_shaped_splines [OF assms(3)] assms(3) waits(2) unfolding splines_ok_def by blast
  then have sh: "step_shaped nr ne (tmo_motion_step q)" by (simp add: motion_ready_def q_def r_def)
  have q: "quiet q" "mc_k (tmo_controller q) = Fin 1" "fin_step f (tmo_motion_step q)" "list_all plain_point (active_points q)"
    "sample_time q = Fin T" "fdb (tmo_motion_step q) = in_feedback_of (ic_current ic)"
    using rq(1,3,8) waits(5-7) T(1) ap by (simp_all add: q_def)
  note mt = message_takes [OF assms(4,5) o'(1) ps q(1-3) sh q(4,5) T(2) q(6)]
  have "trajectory_over ps s'" if "p_current (lo_motion s') = None \<and> \<not> active (lo_motion s') \<and> active_points q = skipped_points q"
    using that mt(1) o'(2) waits(8) ap by (simp add: trajectory_over_def)
  moreover have "trajectory_left nr ne L f ps k s'" if "takes nr ne f T q (lo_motion s')"
    using takes_left [OF that mt(1) refl o'(2), of ps L k] waits(8,9) T(2) ap by simp
  ultimately show ?thesis using mt(3) by blast
qed (use assms(2) in auto)

lemma completed_iff:
  assumes "quiet m" "\<not> ic_first_message ic" "statesOk ic" "duration m = Fin d" "elapsed m = Fin t"
  shows "completed (received ic m) \<longleftrightarrow> d < t + 0.002 \<and>
    (pg_reach_of (ms_internal_goal (tmo_motion_step m)) \<longrightarrow> fst (conditionMet (tmo_motion_step (received ic m))))"
  using assms(4,5) by (auto simp: completed_def interpolationDurationReached_def received_quiet(8) [OF assms(1-3)] LOWEST_SAMPLE_TIME_def)

text \<open>A goal that is not completed is followed on: what the message leaves of the loop.\<close>

lemma loop_stays:
  assumes "lo_motion s = m" "quiet m" "motion_shaped nr ne m" "nr + ne \<le> MAX_NUMBER_OF_SPLINES" "proper nr ne (Message ic out)"
    and "loop_call bq (Message ic out) s = Some s'" "on_goal nr ne f d m" "active m" "p_current m \<noteq> None" "elapsed m = Fin t" "0 \<le> t"
    and "ic_estimated_sample_time ic = Fin T" "0.004 \<le> T" "\<not> completed (received ic m)"
  shows "quiet (lo_motion s')" "p_current (lo_motion s') \<noteq> None" "active (lo_motion s')" "active_points (lo_motion s') = active_points m"
    "external_goal (lo_motion s') = external_goal m" "on_goal nr ne f d (lo_motion s')" "elapsed (lo_motion s') = Fin (t + T)"
    "ms_internal_goal (tmo_motion_step (lo_motion s')) = ms_internal_goal (tmo_motion_step m)" "lo_log s' = lo_log s"
    "lo_age s' = (if lo_target s' = lo_target s then lo_age s else 0) + 1"
    "d \<le> t + T \<Longrightarrow> lo_target s' = goal_positions (ms_internal_goal (tmo_motion_step m))"
proof -
  have ic: "\<not> ic_first_message ic" "statesOk ic" using assms(5) by simp_all
  obtain tr where tr: "p_current m = Some tr" using assms(9) by auto
  obtain o' where o': "generateOutputs bq ic out m = Some (o', lo_motion s')" "lo_target s' = out_positions o'"
    "lo_age s' = (if out_positions o' = lo_target s then lo_age s else 0) + 1" "lo_log s' = lo_log s @ call_finishes (Message ic out) m"
    using assms(1,6) by (auto simp: Option.bind_eq_Some_conv simp del: call_finishes.simps)
  note st = message_stays [OF assms(2-5) o'(1) assms(7,8) tr assms(10-14)] and rq = received_quiet [OF assms(2) ic]
  have "call_finishes (Message ic out) m = []"
    using rq(1,2) tr assms(14) ic(2) by (simp add: finished_points_def finished_normal_def)
  then show "lo_log s' = lo_log s" using o'(4) by simp
  show "lo_age s' = (if lo_target s' = lo_target s then lo_age s else 0) + 1" using o'(2,3) by simp
  show "quiet (lo_motion s')" "p_current (lo_motion s') \<noteq> None" "active (lo_motion s')" "active_points (lo_motion s') = active_points m"
    "external_goal (lo_motion s') = external_goal m"
    using st(3) rq(1,2,6,8) tr assms(8) by (simp_all add: same_plan_def active_points_def external_goal_def)
  show "on_goal nr ne f d (lo_motion s')" "elapsed (lo_motion s') = Fin (t + T)"
    "ms_internal_goal (tmo_motion_step (lo_motion s')) = ms_internal_goal (tmo_motion_step m)" using st(1,2,5) by simp_all
  show "lo_target s' = goal_positions (ms_internal_goal (tmo_motion_step m))" if "d \<le> t + T" using st(4,5) that o'(2) by simp
qed

text \<open>A robot that has settled meets the condition of the goal it was sent.\<close>

lemma settled_age:
  assumes "settled L (Message ic out) s" "lo_target s = goal_positions (ms_internal_goal (tmo_motion_step m))" "on_goal nr ne f d m"
    and "quiet m" "\<not> ic_first_message ic" "statesOk ic" "\<not> fst (conditionMet (tmo_motion_step (received ic m)))"
  shows "lo_age s < L"
proof (rule ccontr)
  assume "\<not> lo_age s < L"
  with assms(1,2) have "near (goal_positions (ms_internal_goal (tmo_motion_step m))) (in_feedback_of (ic_current ic))" by simp
  then have "fst (conditionMet (tmo_motion_step (received ic m)))"
    using assms(3) by (intro near_conditionMet) (simp_all add: received_quiet(8) [OF assms(4-6)] on_goal_def Let_def)
  with assms(7) show False ..
qed

lemma message_follows:
  assumes "trajectory_left nr ne L f ps (Suc k) s" "p_current (lo_motion s) \<noteq> None" "motion_shaped nr ne (lo_motion s)"
    and "nr + ne \<le> MAX_NUMBER_OF_SPLINES" "1 \<le> L" "proper nr ne (Message ic out)" "settled L (Message ic out) s"
    and "loop_call bq (Message ic out) s = Some s'"
  shows "trajectory_over ps s' \<or> trajectory_left nr ne L f ps k s'"
proof -
  define m where "m = lo_motion s"
  have sm: "lo_motion s = m" "motion_shaped nr ne m" "p_current m \<noteq> None" using assms(2,3) by (simp_all add: m_def)
  have ic: "\<not> ic_first_message ic" "statesOk ic" using assms(6) by simp_all
  obtain T where T: "ic_estimated_sample_time ic = Fin T" "0.004 \<le> T" using assms(6) by auto
  from assms(1) obtain d t where m: "quiet m" "active m" "on_goal nr ne f d m" "elapsed m = Fin t" "0 \<le> t"
    "list_all plain_point (active_points m)" "lo_log s @ external_goal m # active_points m = ps"
    and phase: "(\<exists>n. d < t + 0.004 * real n + 0.002 \<and> n + 1 + L + messages L f (active_points m) \<le> Suc k) \<or>
      (d < t + 0.002 \<and> lo_target s = goal_positions (ms_internal_goal (tmo_motion_step m)) \<and> 1 \<le> lo_age s \<and>
         L - lo_age s + 1 + messages L f (active_points m) \<le> Suc k)"
    by (cases rule: trajectory_left.cases) (use assms(2) in \<open>auto simp: m_def\<close>)
  have g: "fin_step f (tmo_motion_step m)" "mc_k (tmo_controller m) = Fin 1" "duration m = Fin d"
    using m(3) by (simp_all add: on_goal_def aimed_def Let_def)
  show ?thesis
  proof (cases "completed (received ic m)")
    case True
    have "messages L f (active_points m) \<le> k" using phase by auto
    from message_completes [OF m(1) sm(2) assms(4,6,8) sm(1,3) g(2,1) m(6) True m(7) this] show ?thesis .
  next
    case False
    note st = loop_stays [OF sm(1) m(1) sm(2) assms(4,6,8) m(3,2) sm(3) m(4,5) T False]
    have "trajectory_left nr ne L f ps k s'"
    proof (cases "d < t + 0.002")
      case True
      have hit: "lo_target s' = goal_positions (ms_internal_goal (tmo_motion_step m))" using st(11) True T(2) by simp
      have "\<not> fst (conditionMet (tmo_motion_step (received ic m)))" using False completed_iff [OF m(1) ic g(3) m(4)] True by simp
      note age = settled_age [OF assms(7) _ m(3,1) ic this]
      from phase have "L - lo_age s' + 1 + messages L f (active_points m) \<le> k"
      proof
        assume a: "d < t + 0.002 \<and> lo_target s = goal_positions (ms_internal_goal (tmo_motion_step m)) \<and> 1 \<le> lo_age s \<and>
          L - lo_age s + 1 + messages L f (active_points m) \<le> Suc k"
        then have "lo_age s' = lo_age s + 1" "lo_age s < L" using st(10) hit age by simp_all
        with a show ?thesis by linarith
      qed (use assms(5) st(10) in auto)
      with True st hit m(5-7) T(2) show ?thesis
        by (intro trajectory_left.arrives [of "lo_motion s'" s' nr ne f d "t + T" ps L k]) auto
    next
      case far: False
      with phase obtain n where n: "d < t + 0.004 * real n + 0.002" "n + 1 + L + messages L f (active_points m) \<le> Suc k" by auto
      then obtain n' where n': "n = Suc n'" using far by (cases n) auto
      have "d < (t + T) + 0.004 * real n' + 0.002" "n' + 1 + L + messages L f (active_points m) \<le> k"
        using n n' T(2) by (auto simp: add_divide_distrib)
      with st m(5-7) T(2) show ?thesis
        by (intro trajectory_left.follows [of "lo_motion s'" s' nr ne f d "t + T" ps n' L k]) auto
    qed
    then show ?thesis ..
  qed
qed

text \<open>Orders that do not interrupt the motion only append trajectories to the queue.\<close>

lemma give_primary:
  "calm (Order x) \<Longrightarrow> quiet m \<Longrightarrow> \<exists>ts. tq_primary_queue (tmo_trajectories (snd (give x m))) = tq_primary_queue (tmo_trajectories m) @ ts"
  by (cases x) (auto simp: order_defs Let_def)

lemma trajectory_left_other:
  assumes "trajectory_left nr ne L f ps k s" "\<not> is_message c" "calm c" "loop_call bq c s = Some s'"
  shows "trajectory_left nr ne L f ps k s'"
proof -
  define m where "m = lo_motion s"
  obtain m' where m': "call bq c m = Some m'" "s' = s\<lparr>lo_motion := m'\<rparr>"
    using assms(2,4) by (cases c) (auto simp: m_def Option.bind_eq_Some_conv)
  have q: "quiet m" using assms(1) by (cases rule: trajectory_left.cases) (simp_all add: m_def)
  have frame: "quiet m'" "p_current m' = p_current m" "active m' = active m" "tmo_controller m' = tmo_controller m" "external_goal m' = external_goal m"
    "on_goal nr ne f d m' = on_goal nr ne f d m" "fin_step f (tmo_motion_step m') = fin_step f (tmo_motion_step m)"
    "elapsed m' = elapsed m" "ms_internal_goal (tmo_motion_step m') = ms_internal_goal (tmo_motion_step m)"
    "\<exists>ts. tq_primary_queue (tmo_trajectories m') = tq_primary_queue (tmo_trajectories m) @ ts" for d
  proof -
    have "(\<exists>x. m' = snd (give x m) \<and> calm (Order x)) \<or> (\<exists>cfg. m' = updateConfigurations cfg m)"
      using m'(1) assms(2,3) by (cases c) auto
    then show "quiet m'" "p_current m' = p_current m" "active m' = active m" "tmo_controller m' = tmo_controller m" "external_goal m' = external_goal m"
      "on_goal nr ne f d m' = on_goal nr ne f d m" "fin_step f (tmo_motion_step m') = fin_step f (tmo_motion_step m)"
      "elapsed m' = elapsed m" "ms_internal_goal (tmo_motion_step m') = ms_internal_goal (tmo_motion_step m)"
      "\<exists>ts. tq_primary_queue (tmo_trajectories m') = tq_primary_queue (tmo_trajectories m) @ ts"
      using q give_calm give_primary
      by (auto simp: give_frame external_goal_def on_goal_def aimed_def fin_step_def Let_def updateConfigurations_def updateConfigurations_step_def
          simp del: give.simps)
  qed
  have ap: "active_points m' = active_points m" using frame(2) by (simp add: active_points_def)
  from assms(1) show ?thesis
  proof cases
    case (waits m0 tr trs)
    with frame(10) obtain ts where "tq_primary_queue (tmo_trajectories m') = tr # trs @ ts" by (auto simp: m_def)
    with waits frame show ?thesis by (intro trajectory_left.waits [of m' s' tr "trs @ ts"]) (simp_all add: m_def m'(2))
  next
    case (follows m0 d t n)
    with frame ap show ?thesis by (intro trajectory_left.follows [of m' s' nr ne f d t ps n]) (simp_all add: m_def m'(2))
  next
    case (arrives m0 d t)
    with frame ap show ?thesis by (intro trajectory_left.arrives [of m' s' nr ne f d t ps]) (simp_all add: m_def m'(2))
  qed
qed

lemma trajectory_left_message:
  assumes "trajectory_left nr ne L f ps (Suc k) s" "motion_shaped nr ne (lo_motion s)" "nr + ne \<le> MAX_NUMBER_OF_SPLINES" "1 \<le> L"
    and "is_message c" "proper nr ne c" "settled L c s" "loop_call bq c s = Some s'"
  shows "trajectory_over ps s' \<or> trajectory_left nr ne L f ps k s'"
proof -
  obtain ic out where c: "c = Message ic out" using assms(5) by (cases c) auto
  show ?thesis
    using message_starts [OF assms(1) _ assms(2,3)] message_follows [OF assms(1) _ assms(2-4)] assms(6-8) unfolding c by blast
qed

lemma proper_fitting: "proper nr ne c \<Longrightarrow> fitting nr ne c"
  by (cases c) simp_all

lemma loop_call_shaped:
  assumes "motion_shaped nr ne (lo_motion s)" "proper nr ne c" "nr + ne \<le> MAX_NUMBER_OF_SPLINES"
  shows "\<exists>s'. loop_call bq c s = Some s' \<and> motion_shaped nr ne (lo_motion s')"
  using call_shaped [OF assms(1) proper_fitting [OF assms(2)] assms(3), of bq]
  by (cases c) (auto simp del: call_finishes.simps)

interpretation closed: progress "loop_call bq" "loop_run bq"
  "\<lambda>cs s. session nr ne L bq cs s \<and> nr + ne \<le> MAX_NUMBER_OF_SPLINES \<and> 1 \<le> L" is_message
  "\<lambda>s. motion_shaped nr ne (lo_motion s)" "trajectory_left nr ne L f ps" "\<lambda>_ _ s'. trajectory_over ps s'" for bq nr ne L f ps
proof
  show "\<exists>s'. loop_call bq c s = Some s' \<and> motion_shaped nr ne (lo_motion s') \<and> session nr ne L bq cs s' \<and>
      nr + ne \<le> MAX_NUMBER_OF_SPLINES \<and> 1 \<le> L"
    if "motion_shaped nr ne (lo_motion s)" "session nr ne L bq (c # cs) s \<and> nr + ne \<le> MAX_NUMBER_OF_SPLINES \<and> 1 \<le> L" for s c cs
    using loop_call_shaped [OF that(1), of c bq] that(2) by auto
  show "trajectory_left nr ne L f ps k s'"
    if "trajectory_left nr ne L f ps k s" "session nr ne L bq (c # cs) s \<and> nr + ne \<le> MAX_NUMBER_OF_SPLINES \<and> 1 \<le> L" "\<not> is_message c"
      "loop_call bq c s = Some s'" for k s c cs s'
    using that trajectory_left_other [OF that(1,3) _ that(4)] by (cases c) auto
  show "trajectory_over ps s' \<or> trajectory_left nr ne L f ps k s'"
    if "motion_shaped nr ne (lo_motion s)" "trajectory_left nr ne L f ps (Suc k) s"
      "session nr ne L bq (c # cs) s \<and> nr + ne \<le> MAX_NUMBER_OF_SPLINES \<and> 1 \<le> L" "is_message c" "loop_call bq c s = Some s'"
    for s k c cs s'
    using trajectory_left_message [OF that(2,1) _ _ that(4) _ _ that(5)] that(3) by auto
qed (simp_all add: trajectory_left_0)

section \<open>A trajectory is completed\<close>

lemma loop_run_append: "loop_run bq (cs @ ds) s = do { s1 \<leftarrow> loop_run bq cs s; loop_run bq ds s1 }"
proof (induction cs arbitrary: s)
  case (Cons c cs)
  then show ?case by (cases "loop_call bq c s") simp_all
qed simp

abbreviation new_loop :: "TrajectoryMotion \<Rightarrow> double list \<times> double list \<Rightarrow> Loop" where
  "new_loop m target \<equiv> \<lparr>lo_motion = m, lo_target = target, lo_age = 0, lo_log = []\<rparr>"

text \<open>
  C4: A trajectory is executed to its end. In a session of a robot that settles, that is, whose measured joint positions are
  within the tolerance of the reach condition once the last \<open>L\<close> replies had the same positions, the first
  trajectory of the queue is completed after a bounded number of messages, if its points are joint goals with finite
  values and positive durations: for each point as many messages as its scaled duration has periods of 4 ms, and
  \<open>L + 1\<close> more, and one message to start. Until then all calls return, and the points that are finished are exactly
  the points of the trajectory, in order. The user may add trajectories and give other orders that do not interrupt the
  motion.
\<close>

theorem trajectory_is_completed:
  assumes "reach new_motion (motion_step bq) m" "motion_shaped nr ne m" "nr + ne \<le> MAX_NUMBER_OF_SPLINES" "1 \<le> L"
    and "state_of m = (StNormal, SubRunning)" "\<not> has_pending m" "\<not> pe_do_ramp_down (events m)" "p_current m = None"
    and "tq_primary_queue (tmo_trajectories m) = tr # trs" "list_all plain_point (tr_points tr)"
    and "fin_goal (ms_internal_goal (tmo_motion_step m))" "fin_goal (ms_interpolation (tmo_motion_step m))"
    and "pd_duration_factor (ms_data (tmo_motion_step m)) = Fin f" "session nr ne L bq cs (new_loop m target)"
    and "messages L f (tr_points tr) < length (filter is_message cs)"
  shows "\<exists>cs1 cs2 m'. cs = cs1 @ cs2 \<and> length (filter is_message cs1) \<le> messages L f (tr_points tr) + 1 \<and>
    run bq cs1 m = Some m' \<and> p_current m' = None \<and> run_finishes bq cs1 m = tr_points tr"
proof -
  have "trajectory_left nr ne L f (tr_points tr) (messages L f (tr_points tr) + 1) (new_loop m target)"
    using assms gain_sys.reach_inv [OF assms(1)] by (intro trajectory_left.waits [of m _ tr trs]) (simp_all add: fin_step_def)
  from closed.eventually [OF this, where cs = cs and bq = bq] assms(2-4,14,15) obtain cs1 c cs2 s1 s2 where
    cs: "cs = cs1 @ c # cs2" "loop_run bq cs1 (new_loop m target) = Some s1" "loop_call bq c s1 = Some s2" "trajectory_over (tr_points tr) s2"
      "length (filter is_message (cs1 @ [c])) \<le> messages L f (tr_points tr) + 1" by auto
  from cs(2,3) have "loop_run bq (cs1 @ [c]) (new_loop m target) = Some s2" by (simp add: loop_run_append)
  from loop_run_run [OF this] cs(1,4,5) have "cs = (cs1 @ [c]) @ cs2 \<and> length (filter is_message (cs1 @ [c])) \<le> messages L f (tr_points tr) + 1 \<and>
    run bq (cs1 @ [c]) m = Some (lo_motion s2) \<and> p_current (lo_motion s2) = None \<and> run_finishes bq (cs1 @ [c]) m = tr_points tr"
    by (simp add: trajectory_over_def)
  then show ?thesis by blast
qed

subsection \<open>A robot that follows at once\<close>

text \<open>
  Sessions of such robots exist: a robot with six joints that is always where the last reply sent it takes part in a session
  of any length, whatever the trajectory is.
\<close>

definition obedient :: "double list \<times> double list \<Rightarrow> motion_call" where
  "obedient target = Message (six_joints\<lparr>ic_first_message := False, ic_current := (ic_current six_joints)
     \<lparr>in_feedback := Some (default_Feedback\<lparr>fb_robot := Some (default_Robot
       \<lparr>rob_joints := Some \<lparr>js_position = Some \<lparr>jvalues = fst target\<rparr>, js_velocity = None\<rparr>\<rparr>)\<rparr>)\<rparr>\<rparr>) six_outputs"

definition six_fin :: "double list \<times> double list \<Rightarrow> bool" where
  "six_fin target \<longleftrightarrow> length (fst target) = 6 \<and> snd target = [] \<and> (\<forall>v \<in> set (fst target). is_fin v)"

lemma obedient_ok:
  assumes "six_fin target"
  shows "proper 6 0 (obedient target)" "lo_target s = target \<Longrightarrow> settled L (obedient target) s" "is_message (obedient target)"
proof -
  have "\<bar>v - v\<bar> < CONDITION" if "is_fin v" for v using that by (auto simp: is_fin_iff CONDITION_def)
  then have "list_all2 (\<lambda>g v. \<bar>g - v\<bar> < CONDITION) (fst target) (fst target)"
    using assms by (auto simp: six_fin_def list_all2_conv_all_nth)
  with assms show "proper 6 0 (obedient target)" "lo_target s = target \<Longrightarrow> settled L (obedient target) s" "is_message (obedient target)"
    by (auto simp: obedient_def six_joints_def fits_def feedback_sizes_def statesOk_def init_InputContainer_def LOWEST_SAMPLE_TIME_def
        output_shape_def six_outputs_def positions_fin_def values_fin_def six_fin_def near_def intro: exI [of _ "1 / 250"])
qed

abbreviation primary :: "TrajectoryMotion \<Rightarrow> Trajectory list" where
  "primary m \<equiv> tq_primary_queue (tmo_trajectories m)"

lemma primary_message:
  assumes "quiet m" "\<not> ic_first_message ic" "statesOk ic" "generateOutputs bq ic out m = Some (o', m')"
  shows "primary m' = (if p_current m = None then tl (primary m) else primary m)"
proof -
  define r where "r = received ic m"
  note rq = received_quiet [OF assms(1-3), folded r_def]
  have "tmo_trajectories m' = tmo_trajectories (process_state r)"
    using generateOutputs_plan [OF assms(4)] assms(3) by (simp add: same_plan_def r_def)
  moreover have "primary (process_state r) = (if p_current r = None then tl (primary r) else primary r)"
    using rq(1) by (simp add: process_state_def processNormalState_def sm_state_def Let_def case_prod_beta split: option.split list.split)
  ultimately show ?thesis using rq(2) by simp
qed

text \<open>Without an active goal the prepared outputs are not changed.\<close>

lemma outputs_idle:
  assumes "generateOutputs bq ic out m = Some (o', m')" "statesOk ic" "\<not> active m'"
  shows "o' = out"
proof -
  obtain m3 m4 where m3: "produce_outputs bq out m3 = Some (o', m4)" "m' = update_progress o' ic m4"
    using assms(1,2) by (auto simp: generateOutputs_def Let_def Option.bind_eq_Some_conv)
  have "\<not> active m3" using produce_outputs_plan [OF m3(1)] assms(3) by (simp add: same_plan_def m3(2) update_progress_def Let_def)
  with m3(1) show ?thesis by (simp add: produce_outputs_def)
qed

definition alive :: "real \<Rightarrow> PointGoal list \<Rightarrow> Loop \<Rightarrow> bool" where
  "alive f ps s \<longleftrightarrow> motion_shaped 6 0 (lo_motion s) \<and> mc_k (tmo_controller (lo_motion s)) = Fin 1 \<and> six_fin (lo_target s) \<and>
     ((\<exists>k. trajectory_left 6 0 1 f ps k s) \<and> length (primary (lo_motion s)) = (if p_current (lo_motion s) = None then 1 else 0) \<or>
      trajectory_over ps s \<and> primary (lo_motion s) = [])"

lemma over_message:
  assumes "trajectory_over ps s" "primary (lo_motion s) = []" "\<not> ic_first_message ic" "statesOk ic"
    and "loop_call bq (Message ic out) s = Some s'"
  shows "trajectory_over ps s'"
proof -
  define r where "r = received ic (lo_motion s)"
  have o: "quiet (lo_motion s)" "p_current (lo_motion s) = None" "\<not> active (lo_motion s)" "lo_log s = ps"
    using assms(1) by (simp_all add: trajectory_over_def)
  note rq = received_quiet [OF o(1) assms(3,4), folded r_def]
  have p: "process_state r = r" "finished_points r = []"
    using rq(1,2) o(2) assms(2) by (simp_all add: process_state_def processNormalState_def sm_state_def finished_points_def finished_normal_def)
  obtain o' where o': "generateOutputs bq ic out (lo_motion s) = Some (o', lo_motion s')"
    "lo_log s' = lo_log s @ call_finishes (Message ic out) (lo_motion s)"
    using assms(5) by (auto simp: Option.bind_eq_Some_conv simp del: call_finishes.simps)
  have "same_plan r (lo_motion s')" using generateOutputs_plan [OF o'(1)] assms(4) p(1) by (simp add: r_def)
  moreover have "call_finishes (Message ic out) (lo_motion s) = []" using p(2) assms(4) by (simp add: r_def)
  ultimately show ?thesis using o rq(1,2,6) o'(2) by (simp add: trajectory_over_def same_plan_def)
qed

lemma left_not_over:
  assumes "trajectory_left nr ne L f ps k s" "primary (lo_motion s) = []"
  shows "p_current (lo_motion s) \<noteq> None" "active (lo_motion s)" "\<exists>d. on_goal nr ne f d (lo_motion s)"
  using assms by (cases rule: trajectory_left.cases; auto)+

lemma alive_quiet: "alive f ps s \<Longrightarrow> quiet (lo_motion s)"
  by (auto simp: alive_def trajectory_over_def elim: trajectory_left.cases)

lemma six_fits: "(6 :: nat) + 0 \<le> MAX_NUMBER_OF_SPLINES"
  by (simp add: MAX_NUMBER_OF_SPLINES_def joint_counts)

lemma alive_step:
  assumes "alive f ps s"
  shows "\<exists>s'. loop_call bq (obedient (lo_target s)) s = Some s' \<and> alive f ps s'"
proof -
  let ?m = "lo_motion s"
  have a: "motion_shaped 6 0 ?m" "mc_k (tmo_controller ?m) = Fin 1" "six_fin (lo_target s)" using assms by (simp_all add: alive_def)
  note ok = obedient_ok [OF a(3)]
  obtain ic where c: "obedient (lo_target s) = Message ic six_outputs" by (simp add: obedient_def)
  have ic: "\<not> ic_first_message ic" "statesOk ic" "fits 6 0 ic" "output_shape 6 0 six_outputs" "positions_fin 6 0 (in_feedback_of (ic_current ic))"
    using ok(1) unfolding c by simp_all
  obtain s' where s': "loop_call bq (Message ic six_outputs) s = Some s'" "motion_shaped 6 0 (lo_motion s')"
    using loop_call_shaped [OF a(1) ok(1) six_fits] unfolding c by blast
  obtain o' where o': "generateOutputs bq ic six_outputs ?m = Some (o', lo_motion s')" "lo_target s' = out_positions o'"
    using s'(1) by (auto simp: Option.bind_eq_Some_conv simp del: call_finishes.simps)
  have k: "mc_k (tmo_controller (lo_motion s')) = Fin 1"
    using gain_call [of bq "Message ic six_outputs" ?m "lo_motion s'"] o'(1) a(2) by simp
  have pq: "primary (lo_motion s') = (if p_current ?m = None then tl (primary ?m) else primary ?m)"
    by (rule primary_message [OF alive_quiet [OF assms] ic(1,2) o'(1)])
  have next_s: "(trajectory_over ps s' \<or> (\<exists>k. trajectory_left 6 0 1 f ps k s')) \<and> primary (lo_motion s') = []"
  proof (cases "trajectory_over ps s \<and> primary ?m = []")
    case True
    then show ?thesis using over_message [OF _ _ ic(1,2) s'(1)] pq by simp
  next
    case False
    with assms obtain k where l: "trajectory_left 6 0 1 f ps k s" "length (primary ?m) = (if p_current ?m = None then 1 else 0)"
      by (auto simp: alive_def)
    then obtain k' where "k = Suc k'" using trajectory_left_0 by (cases k) auto
    with trajectory_left_message [of 6 0 1 f ps k' s "Message ic six_outputs" bq s'] l(1) a(1) six_fits ok s'(1) c
    have "trajectory_over ps s' \<or> (\<exists>k. trajectory_left 6 0 1 f ps k s')" by auto
    moreover have "primary (lo_motion s') = []" using pq l(2) by (cases "primary ?m") (auto split: if_splits)
    ultimately show ?thesis by blast
  qed
  have "six_fin (lo_target s')"
  proof (cases "trajectory_over ps s'")
    case True
    then have "o' = six_outputs" using outputs_idle [OF o'(1) ic(2)] by (simp add: trajectory_over_def)
    then show ?thesis by (simp add: o'(2) six_fin_def six_outputs_def)
  next
    case False
    with next_s obtain k where "trajectory_left 6 0 1 f ps k s'" "primary (lo_motion s') = []" by blast
    from left_not_over(2,3) [OF this] obtain d where l: "active (lo_motion s')" "on_goal 6 0 f d (lo_motion s')" by blast
    then have "out_positions o' = goal_positions (ms_interpolation (tmo_motion_step (lo_motion s')))"
      using ic by (intro outputs_are_references [OF a(2) disjI1 [OF a(1)] six_fits _ _ o'(1)]) (simp_all add: on_goal_def Let_def)
    moreover have "fin_goal (ms_interpolation (tmo_motion_step (lo_motion s')))" using l(2) by (simp add: on_goal_def Let_def fin_step_def)
    moreover have "goal_shape 6 0 (ms_interpolation (tmo_motion_step (lo_motion s')))" using s'(2) by (simp add: motion_shaped_def step_shaped_def)
    ultimately show ?thesis using goal_shape_positions
      by (auto simp: o'(2) six_fin_def fin_goal_def fin_joint_goal_def robot_positions_def)
  qed
  moreover have "length (primary (lo_motion s')) = (if p_current (lo_motion s') = None then 1 else 0)" if "trajectory_left 6 0 1 f ps k s'" for k
    using left_not_over(1) [OF that] next_s by simp
  ultimately have "alive f ps s'" unfolding alive_def using next_s s'(2) k by blast
  with s'(1) show ?thesis unfolding c by blast
qed

lemma session_exists:
  assumes "alive f ps s"
  shows "\<exists>cs. length (filter is_message cs) = n \<and> session 6 0 1 bq cs s"
  using assms
proof (induction n arbitrary: s)
  case 0
  have "length (filter is_message []) = 0 \<and> session 6 0 1 bq [] s" by simp
  then show ?case by blast
next
  case (Suc n)
  obtain s' where s': "loop_call bq (obedient (lo_target s)) s = Some s'" "alive f ps s'" using alive_step [OF Suc.prems] by blast
  from Suc.IH [OF s'(2)] obtain cs where cs: "length (filter is_message cs) = n" "session 6 0 1 bq cs s'" by blast
  have "six_fin (lo_target s)" using Suc.prems by (simp add: alive_def)
  note ok = obedient_ok [OF this]
  have "length (filter is_message (obedient (lo_target s) # cs)) = Suc n \<and> session 6 0 1 bq (obedient (lo_target s) # cs) s"
    using cs s'(1) ok by simp
  then show ?case by blast
qed

theorem trajectory_is_completed_witness:
  "\<exists>m cs m'. primary m = [\<lparr>tr_points = [(flat_goal 6 0 (Fin 5))\<lparr>pg_duration := Some (Fin 1)\<rparr>]\<rparr>] \<and>
     length (filter is_message cs) \<le> 253 \<and> run hamilton cs m = Some m' \<and> p_current m' = None \<and>
     run_finishes hamilton cs m = [(flat_goal 6 0 (Fin 5))\<lparr>pg_duration := Some (Fin 1)\<rparr>]"
proof -
  define p where "p = (flat_goal 6 0 (Fin 5))\<lparr>pg_duration := Some (Fin 1)\<rparr>"
  obtain m0 where m0: "call hamilton (Message six_joints default_Output) new_sample = Some m0" "motion_shaped 6 0 m0"
    "state_of m0 = (StNormal, SubRunning)" "\<not> has_pending m0" "tmo_trajectories m0 = tmo_trajectories new_sample"
    "events m0 = init_PendingEvents" by (rule first_sample)
  define x where "x = AddTrajectory \<lparr>tg_points = [p]\<rparr> False"
  define m where "m = snd (give x m0)"
  have c: "call hamilton (Order x) m0 = Some m" by (simp add: m_def)
  have "reach new_motion (motion_step hamilton) new_sample" by (rule reach_init) blast
  then have "reach new_motion (motion_step hamilton) m0" by (rule reach_step) (rule motion_call [OF m0(1)])
  then have reach: "reach new_motion (motion_step hamilton) m" by (rule reach_step) (rule motion_call [OF c])
  obtain o' where "generateOutputs hamilton six_joints default_Output new_sample = Some (o', m0)" using m0(1) by auto
  then have "fin_step 1 (tmo_motion_step m0)"
    by (rule first_step(1) [of _ _ _ _ _ 6 0]) (simp_all add: six_joints_def statesOk_def positions_fin_def values_fin_def)
  then have m: "motion_shaped 6 0 m" "state_of m = (StNormal, SubRunning)" "\<not> has_pending m" "fin_step 1 (tmo_motion_step m)"
    using m0(2-4) by (simp_all add: m_def give_frame motion_shaped_def del: give.simps)
  have q: "p_current m = None" "primary m = [\<lparr>tr_points = [p]\<rparr>]" "\<not> pe_do_ramp_down (events m)"
    using m0(3,5,6)
    by (simp_all add: m_def x_def addTrajectory_def Let_def verifyState_state init_TrajectoryMotion_def init_PendingEvents_def
        make_Trajectory_def addTrajectoryPointBack_def)
  have plain: "plain_point p" "point_time p = 1" by (simp_all add: plain_point_def p_def point_time_def) (simp add: flat_goal_def Let_def)
  define s where "s = new_loop m (replicate 6 (Fin 0), [])"
  have n: "messages 1 1 [p] = 252" by (simp add: plain(2))
  have "trajectory_left 6 0 1 1 [p] 253 s"
    using m q plain n gain_sys.reach_inv [OF reach] by (intro trajectory_left.waits [of m _ "\<lparr>tr_points = [p]\<rparr>" "[]"]) (simp_all add: s_def)
  then have "alive 1 [p] s" using m(1) q gain_sys.reach_inv [OF reach] by (auto simp: alive_def s_def six_fin_def)
  from session_exists [OF this, of 253 hamilton] obtain cs where cs: "length (filter is_message cs) = 253" "session 6 0 1 hamilton cs s"
    by blast
  have "\<exists>cs1 cs2 m'. cs = cs1 @ cs2 \<and> length (filter is_message cs1) \<le> messages 1 1 (tr_points \<lparr>tr_points = [p]\<rparr>) + 1 \<and>
      run hamilton cs1 m = Some m' \<and> p_current m' = None \<and> run_finishes hamilton cs1 m = tr_points \<lparr>tr_points = [p]\<rparr>"
    using m(4) cs n plain(1)
    by (intro trajectory_is_completed [OF reach m(1) six_fits _ m(2,3) q(3,1,2)]) (simp_all add: fin_step_def s_def)
  with q(2) n show ?thesis by (auto simp: p_def)
qed

end
