(* ===== verification/EGM_Session.thy ===== *)
theory EGM_Session
  imports EGM_Trajectory EGM_Closed_Loop
begin

text \<open>
  A session of a trajectory interface with one robot: the types of the data it keeps, and what it sends. The joint
  counts of the outputs, of the goals and of the feedback are those of the robot, once a message has started the
  session; and the joint positions that go into the datagrams are the interpolated references.
\<close>

section \<open>The joint counts of the outputs\<close>

lemma calculate_Joints_length_out:
  "length (jvalues (fst (calculate_Joints mc fb s st))) = length (jvalues (fst st))"
  unfolding calculate_Joints_def
  by (rule for_range_inv [where P = "\<lambda>x. length (jvalues (fst x)) = length (jvalues (fst st))"])
    (auto simp: Let_def case_prod_beta)

lemma calc_output_shape [simp]:
  "output_shape nr ne (fst (calc_robot_position mc fb st)) = output_shape nr ne (fst st)"
  "output_shape nr ne (fst (calc_external_position mc fb st)) = output_shape nr ne (fst st)"
  "output_shape nr ne (fst (calc_robot_velocity mc fb st)) = output_shape nr ne (fst st)"
  "output_shape nr ne (fst (calc_external_velocity mc fb st)) = output_shape nr ne (fst st)"
  "output_shape nr ne (fst (calc_pose_position mc fb st)) = output_shape nr ne (fst st)"
  "output_shape nr ne (fst (calc_pose_orientation mc fb st)) = output_shape nr ne (fst st)"
  "output_shape nr ne (fst (calc_linear_velocity mc fb st)) = output_shape nr ne (fst st)"
  "output_shape nr ne (fst (calc_angular_velocity mc fb st)) = output_shape nr ne (fst st)"
  by (simp_all add: calc_joint_defs calc_pose_position_def calc_pose_orientation_def calc_linear_velocity_def
      calc_angular_velocity_def Let_def case_prod_beta output_shape_def calculate_Joints_length_out)

lemma calculate_output_shape: "output_shape nr ne (fst (calculate outputs ms mc)) = output_shape nr ne outputs"
proof -
  have "output_shape nr ne (out_robot_mut (rob_cartesian_mut f) outputs) = output_shape nr ne outputs" for f
    by (simp add: output_shape_def)
  then show ?thesis by (simp add: calculate_def Let_def case_prod_beta split: EGMModes.split)
qed

lemma generateOutputs_output_shape:
  assumes "generateOutputs bq ic outputs m = Some (out, m')"
  shows "output_shape nr ne out = output_shape nr ne outputs"
proof -
  have "output_shape nr ne o' = output_shape nr ne outputs" if "produce_outputs bq outputs m1 = Some (o', m2)" for m1 o' m2
    using that calculate_output_shape [of nr ne outputs]
    by (auto simp: produce_outputs_def Let_def Option.bind_eq_Some_conv case_prod_beta split: if_splits)
  with assms show ?thesis by (auto simp: generateOutputs_def Let_def Option.bind_eq_Some_conv split: if_splits)
qed

text \<open>The first message of a session gives the outputs the joint counts of the feedback.\<close>

lemma first_velocity_sizes:
  assumes "extractParsedInformation bq ax ic = (True, ic')" "ic_first_message ic'"
  shows "length (jvalues (js_velocity_of (fb_robot_joints (ic_current ic')))) = length (jvalues (js_position_of (fb_robot_joints (ic_current ic'))))"
    "length (jvalues (js_velocity_of (fb_external_joints (ic_current ic')))) = length (jvalues (js_position_of (fb_external_joints (ic_current ic'))))"
proof -
  from assms(1) have "fst (extractParsedInformation bq ax ic)" by simp
  then obtain ic4 where ic4: "ic' = (snd (estimateAllVelocities bq ic4))\<lparr>ic_has_new_data := False\<rparr>" "Fin 0 < ic_estimated_sample_time ic4"
    "ic_previous ic4 = (if ic_first_message ic4 then ic_current ic4 else ic_previous ic)"
    using assms(1) by (elim extract_accepted) auto
  then have "ic_previous ic4 = ic_current ic4" using assms(2) by (simp add: estimateAllVelocities_frame)
  with estimateAllVelocities_spec(1,2) [OF ic4(2), of bq] estimateAllVelocities_positions(1,2) [OF ic4(2), of bq]
  show "length (jvalues (js_velocity_of (fb_robot_joints (ic_current ic')))) = length (jvalues (js_position_of (fb_robot_joints (ic_current ic'))))"
    "length (jvalues (js_velocity_of (fb_external_joints (ic_current ic')))) = length (jvalues (js_position_of (fb_external_joints (ic_current ic'))))"
    by (simp_all add: ic4(1) difference_quotient_def)
qed

lemma prepareOutputs_shape:
  assumes "extractParsedInformation bq ax ic = (True, ic')" "fits nr ne ic'" "ic_first_message ic' \<or> output_shape nr ne (oc_current oc)"
  shows "output_shape nr ne (oc_current (prepareOutputs ic' oc))"
proof (cases "ic_first_message ic'")
  case True
  with first_velocity_sizes [OF assms(1) True] assms(2) show ?thesis
    by (simp add: prepareOutputs_def Let_def output_shape_def joint_views zero_velocities_values fits_def feedback_sizes_def)
next
  case False
  with assms(3) show ?thesis by (simp add: prepareOutputs_def Let_def)
qed

section \<open>An accepted datagram\<close>

definition session_typed :: "RobotAxes \<Rightarrow> nat \<Rightarrow> nat \<Rightarrow> EGMTrajectoryInterface \<Rightarrow> bool" where
  "session_typed ax nr ne t \<longleftrightarrow> session_inv ax nr ne t \<and> mc_k (tmo_controller (ti_trajectory_motion t)) = Fin 1 \<and>
     (ic_first_call (bi_inputs (ti_base t)) \<or> output_shape nr ne (oc_current (bi_outputs (ti_base t))))"

lemma trajectory_init_outputs:
  assumes "trajectory_initializeCallback env (Some bs) t = (True, t1)"
  shows "\<exists>oc. bi_outputs (ti_base t1) = prepareOutputs (bi_inputs (ti_base t1)) oc \<and> oc_current oc = oc_current (bi_outputs (ti_base t))"
    "\<not> ic_first_call (bi_inputs (ti_base t1))"
proof -
  have call: "ic_first_call (snd (extractParsedInformation bq ax i)) = ic_first_call i" for bq ax i
    by (simp add: extractParsedInformation_def detectRWAndEGMVersions_def estimateAllVelocities_def Let_def case_prod_beta)
  obtain s ic where p: "parseFromArray (env_decode env) (Some bs) (bi_inputs (ti_base t)) = (s, ic)" by fastforce
  have s: s using assms p by (auto simp: trajectory_initializeCallback_def Let_def split: if_splits)
  show "\<exists>oc. bi_outputs (ti_base t1) = prepareOutputs (bi_inputs (ti_base t1)) oc \<and> oc_current oc = oc_current (bi_outputs (ti_base t))"
    using assms by (auto simp: trajectory_initializeCallback_def Let_def case_prod_beta clearReply_def intro!: exI split: if_splits)
  show "\<not> ic_first_call (bi_inputs (ti_base t1))"
    using assms p s call parseFromArray_Some(1,5) [OF p]
    by (auto simp: trajectory_initializeCallback_def Let_def case_prod_beta split: if_splits)
qed

text \<open>What an accepted datagram does: the prepared inputs and outputs, the motion, the reply.\<close>

lemma trajectory_init_typed:
  assumes "session_typed ax nr ne t" "uniform_robot env ax nr ne" "fst (env_decode env bs)"
    and "trajectory_initializeCallback env (Some bs) t = (s, t1)"
  shows "output_shape nr ne (oc_current (bi_outputs (ti_base t1)))" "mc_k (tmo_controller (ti_trajectory_motion t1)) = Fin 1"
    "\<exists>ic. extractParsedInformation (env_bq env) ax ic = (True, bi_inputs (ti_base t1)) \<and> ic_egm_robot ic = snd (env_decode env bs)"
    "ic_first_message (bi_inputs (ti_base t1)) = is_first (snd (env_decode env bs)) (base_view t)"
proof -
  let ?msg = "snd (env_decode env bs)"
  have inv: "session_inv ax nr ne t" using assms(1) by (simp add: session_typed_def)
  note r = trajectory_init_ready [OF inv assms(2-4)]
  have ax: "axes (config_for ?msg (base_view t)) = ax" using inv by (simp add: config_for_def session_inv_def plain_def)
  have b: "fst (initializeCallback env (Some bs) (base_view t))"
    "bi_inputs (snd (initializeCallback env (Some bs) (base_view t))) = bi_inputs (ti_base t1)"
    using assms(4) r(1) by (simp_all add: base_view_initializeCallback)
  obtain ic where ic: "extractParsedInformation (env_bq env) ax ic = (True, bi_inputs (ti_base t1))" "ic_egm_robot ic = ?msg"
    using initializeCallback_extract [OF b(1)] unfolding b(2) ax by blast
  then show "\<exists>ic. extractParsedInformation (env_bq env) ax ic = (True, bi_inputs (ti_base t1)) \<and> ic_egm_robot ic = ?msg" by blast
  show f: "ic_first_message (bi_inputs (ti_base t1)) = is_first ?msg (base_view t)"
    using initializeCallback_active(2) [OF b(1)] unfolding b(2) .
  obtain oc where oc: "bi_outputs (ti_base t1) = prepareOutputs (bi_inputs (ti_base t1)) oc" "oc_current oc = oc_current (bi_outputs (ti_base t))"
    using trajectory_init_outputs(1) [of env bs t t1] assms(4) r(1) by auto
  have "ic_first_message (bi_inputs (ti_base t1)) \<or> output_shape nr ne (oc_current oc)"
    using assms(1) by (auto simp: f is_first_def session_typed_def oc(2))
  from prepareOutputs_shape [OF ic(1) r(2) this] show "output_shape nr ne (oc_current (bi_outputs (ti_base t1)))" by (simp add: oc(1))
  show "mc_k (tmo_controller (ti_trajectory_motion t1)) = Fin 1"
    using trajectory_init_motion [of env "Some bs" t] assms(1,4) by (auto simp: session_typed_def updateConfigurations_def)
qed

lemma accepted_call:
  assumes "session_typed ax nr ne t" "uniform_robot env ax nr ne" "nr + ne \<le> MAX_NUMBER_OF_SPLINES" "fst (env_decode env bs)"
    and "trajectory_callback env (Some bs) t = Some (r, t')"
  obtains t1 out where "trajectory_initializeCallback env (Some bs) t = (True, t1)"
    "generateOutputs (env_bq env) (bi_inputs (ti_base t1)) (oc_current (bi_outputs (ti_base t1))) (ti_trajectory_motion t1)
       = Some (out, ti_trajectory_motion t')"
    "bi_outputs (ti_base t') = updatePrevious_outputs (constructReply (env_encode env) (tc_base (cc_active (ti_configuration t1)))
       ((bi_outputs (ti_base t1))\<lparr>oc_current := out\<rparr>))"
    "r = oc_reply (bi_outputs (ti_base t'))" "bi_inputs (ti_base t') = updatePrevious (bi_inputs (ti_base t1))"
    "plain ax (cc_active (ti_configuration t1))" "ti_configuration t' = ti_configuration t1"
proof -
  have inv: "session_inv ax nr ne t" using assms(1) by (simp add: session_typed_def)
  obtain s t1 where t1: "trajectory_initializeCallback env (Some bs) t = (s, t1)" by fastforce
  have s: s by (rule trajectory_init_ready(1) [OF inv assms(2,4) t1])
  have plain: "plain ax (cc_active (ti_configuration t1))"
    using trajectory_init_plain(1) [of ax t env "Some bs"] inv t1 by (simp add: session_inv_def)
  from assms(5) s t1 plain obtain out m where g: "generateOutputs (env_bq env) (bi_inputs (ti_base t1)) (oc_current (bi_outputs (ti_base t1)))
      (ti_trajectory_motion t1) = Some (out, m)"
    "t' = trajectory_finish env (t1\<lparr>ti_base := (ti_base t1)\<lparr>bi_outputs := (bi_outputs (ti_base t1))\<lparr>oc_current := out\<rparr>\<rparr>, ti_trajectory_motion := m\<rparr>)"
    "r = oc_reply (bi_outputs (ti_base t'))"
    by (auto simp: trajectory_callback_def trajectory_outputs_def plain_def Let_def Option.bind_eq_Some_conv)
  with s t1 plain show thesis
    by (intro that [of t1 out]) (simp_all add: trajectory_finish_def Let_def finish_callback_outputs)
qed

lemma updatePrevious_first_call [simp]: "ic_first_call (updatePrevious ic) = ic_first_call ic"
  by (simp add: updatePrevious_def)

lemma session_typed_callback:
  assumes "session_typed ax nr ne t" "uniform_robot env ax nr ne" "nr + ne \<le> MAX_NUMBER_OF_SPLINES"
    and "trajectory_callback env data t = Some (r, t')"
  shows "session_typed ax nr ne t'"
proof (cases "data = None \<or> \<not> fst (env_decode env (the data))")
  case True
  have inv: "session_inv ax nr ne t" using assms(1) by (simp add: session_typed_def)
  from trajectory_init_rejects(1) [OF inv True] assms(4) have t': "t' = snd (trajectory_initializeCallback env data t)"
    by (simp add: trajectory_callback_def case_prod_beta)
  have "ic_first_call (bi_inputs (ti_base t')) = ic_first_call (bi_inputs (ti_base t))"
    using trajectory_init_rejects(1) [OF inv True] True parse_fails_first_call [of "env_decode env"]
    by (cases data) (auto simp: t' trajectory_initializeCallback_def Let_def case_prod_beta parseFromArray_def)
  moreover have "oc_current (bi_outputs (ti_base t')) = oc_current (bi_outputs (ti_base t))"
    using trajectory_init_rejects(1) [OF inv True]
    by (auto simp: t' trajectory_initializeCallback_def Let_def case_prod_beta clearReply_def split: if_splits)
  moreover have "mc_k (tmo_controller (ti_trajectory_motion t')) = mc_k (tmo_controller (ti_trajectory_motion t))"
    using trajectory_init_motion [of env data t] by (auto simp: t' updateConfigurations_def)
  ultimately show ?thesis
    using trajectory_init_rejects(2) [OF inv True] assms(1) by (simp add: session_typed_def t')
next
  case False
  then obtain bs where bs: "data = Some bs" "fst (env_decode env bs)" by auto
  obtain t1 out where c: "trajectory_initializeCallback env (Some bs) t = (True, t1)"
    "generateOutputs (env_bq env) (bi_inputs (ti_base t1)) (oc_current (bi_outputs (ti_base t1))) (ti_trajectory_motion t1)
       = Some (out, ti_trajectory_motion t')" "oc_current (bi_outputs (ti_base t')) = out"
    by (rule accepted_call [OF assms(1-3) bs(2) assms(4) [unfolded bs(1)]], rule that) simp_all
  note ty = trajectory_init_typed [OF assms(1,2) bs(2) c(1)]
  have "session_inv ax nr ne t'"
    using trajectory_callback_total [OF _ assms(2,3), of t data] assms(1,4) by (auto simp: session_typed_def)
  moreover have "mc_k (tmo_controller (ti_trajectory_motion t')) = Fin 1"
    using gain_call [of "env_bq env" "Message (bi_inputs (ti_base t1)) (oc_current (bi_outputs (ti_base t1)))"
        "ti_trajectory_motion t1" "ti_trajectory_motion t'"] c(2) ty(2) by simp
  moreover have "output_shape nr ne (oc_current (bi_outputs (ti_base t')))"
    using generateOutputs_output_shape [OF c(2)] ty(1) c(3) by simp
  ultimately show ?thesis by (simp add: session_typed_def)
qed

lemma session_typed_order: "session_typed ax nr ne t \<Longrightarrow> session_typed ax nr ne (snd (trajectory_give x t))"
  using session_inv_order [of ax nr ne t x] by (simp add: session_typed_def trajectory_give_def case_prod_beta give_frame)

lemma session_typed_init: "plain ax c \<Longrightarrow> session_typed ax nr ne (init_EGMTrajectoryInterface off c)"
  using session_inv_init [of ax c nr ne off]
  by (simp add: session_typed_def init_EGMTrajectoryInterface_def Let_def init_EGMBaseInterface_def init_InputContainer_def
      init_TrajectoryMotion_def init_MotionController_def)

lemma session_typed_config: "session_typed ax nr ne t \<Longrightarrow> plain ax c \<Longrightarrow> session_typed ax nr ne (trajectory_setConfiguration c t)"
  by (simp add: session_typed_def session_inv_def trajectory_setConfiguration_def)


interpretation session_sys: inv_system "new_trajectory (plain ax)" "trajectory_step env (plain ax)"
  "\<lambda>t. uniform_robot env ax nr ne \<and> nr + ne \<le> MAX_NUMBER_OF_SPLINES \<longrightarrow> session_typed ax nr ne t" for env ax nr ne
proof
  show "uniform_robot env ax nr ne \<and> nr + ne \<le> MAX_NUMBER_OF_SPLINES \<longrightarrow> session_typed ax nr ne t'"
    if "uniform_robot env ax nr ne \<and> nr + ne \<le> MAX_NUMBER_OF_SPLINES \<longrightarrow> session_typed ax nr ne t" "trajectory_step env (plain ax) t t'" for t t'
    using that(2,1) by (cases rule: trajectory_step.cases)
      (auto intro: session_typed_callback session_typed_order session_typed_config)
qed (auto intro: session_typed_init)

text \<open>
  C10: The data of a session is typed by the robot: if all datagrams that decode are complete messages of one robot
  with \<open>nr\<close> robot joints and \<open>ne\<close> external joints, then in every state reachable by datagrams, orders of the user
  and configuration updates, once the first message has arrived, the positions and velocities of the outputs, the
  internal goal, the interpolation and the feedback all have exactly these joint counts, whatever joint counts the goals
  of the user have, and the interpolator has all its spline polynomials.
\<close>

theorem session_data_typed:
  assumes "uniform_robot env ax nr ne" "nr + ne \<le> MAX_NUMBER_OF_SPLINES"
    and "reach (new_trajectory (plain ax)) (trajectory_step env (plain ax)) t" "\<not> ic_first_call (bi_inputs (ti_base t))"
  shows "output_shape nr ne (oc_current (bi_outputs (ti_base t))) \<and>
    goal_shape nr ne (ms_internal_goal (tmo_motion_step (ti_trajectory_motion t))) \<and>
    goal_shape nr ne (ms_interpolation (tmo_motion_step (ti_trajectory_motion t))) \<and>
    feedback_sizes nr ne (pd_feedback (ms_data (tmo_motion_step (ti_trajectory_motion t)))) \<and>
    length (ip_spline_polynomials (ms_interpolator (tmo_motion_step (ti_trajectory_motion t)))) = MAX_NUMBER_OF_SPLINES"
  using session_sys.reach_inv [OF assms(3), of nr ne] assms(1,2,4)
  by (simp add: session_typed_def session_inv_def motion_shaped_def step_shaped_def)

section \<open>What is sent\<close>

lemma constructJointBody_sent:
  assumes "constructJointBody c oc = (True, oc')" "length (snd (out_positions (oc_current oc))) \<le> ext_capacity (axes c)"
  shows "outputs_fin (oc_current oc)"
    "parse_Joints (epl_joints_of (sns_planned_of (oc_egm_sensor oc'))) (epl_externalJoints_of (sns_planned_of (oc_egm_sensor oc'))) (axes c) =
      (True, \<lparr>jvalues = fst (out_positions (oc_current oc))\<rparr>, \<lparr>jvalues = snd (out_positions (oc_current oc))\<rparr>)"
proof -
  let ?r = "fst (out_positions (oc_current oc))" and ?e = "snd (out_positions (oc_current oc))"
  have b: "verify_Joints (js_position_of (rob_joints_of (out_robot_of (oc_current oc))))"
    "verify_Joints (js_position_of (ext_joints_of (out_external_of (oc_current oc))))" "fst (map_axes (axes c) ?r ?e)"
    "epl_joints (sns_planned_of (oc_egm_sensor oc')) = fst (snd (map_axes (axes c) ?r ?e))"
    "epl_externalJoints (sns_planned_of (oc_egm_sensor oc')) = snd (snd (map_axes (axes c) ?r ?e))"
    using assms(1) by (auto simp: constructJointBody_def Let_def case_prod_beta simp del: verify_Joints_iff split: if_splits)
  from b(1,2) show "outputs_fin (oc_current oc)" by (auto simp: outputs_fin_def)
  from b(3) have "axes_fit (axes c) ?r" by (simp add: map_axes_ok)
  from map_axes_parse [OF this assms(2)] b(4,5)
  show "parse_Joints (epl_joints_of (sns_planned_of (oc_egm_sensor oc'))) (epl_externalJoints_of (sns_planned_of (oc_egm_sensor oc'))) (axes c) =
      (True, \<lparr>jvalues = ?r\<rparr>, \<lparr>jvalues = ?e\<rparr>)" by simp
qed

lemma constructReply_sent:
  assumes "oc_reply (constructReply enc c oc) \<noteq> []" "length (snd (out_positions (oc_current oc))) \<le> ext_capacity (axes c)"
  defines "pl \<equiv> sns_planned_of (oc_egm_sensor (constructReply enc c oc))"
  shows "outputs_fin (oc_current oc)"
    "parse_Joints (epl_joints_of pl) (epl_externalJoints_of pl) (axes c) =
      (True, \<lparr>jvalues = fst (out_positions (oc_current oc))\<rparr>, \<lparr>jvalues = snd (out_positions (oc_current oc))\<rparr>)"
proof -
  obtain s oc1 where b: "constructJointBody c (constructHeader oc) = (s, oc1)" by fastforce
  with assms(1) have s by (auto simp: constructReply_def Let_def case_prod_beta split: if_splits)
  have keep: "epl_joints (sns_planned_of (oc_egm_sensor (snd (constructCartesianBody c o1)))) = epl_joints (sns_planned_of (oc_egm_sensor o1))"
    "epl_externalJoints (sns_planned_of (oc_egm_sensor (snd (constructCartesianBody c o1)))) = epl_externalJoints (sns_planned_of (oc_egm_sensor o1))" for o1
    by (simp_all add: constructCartesianBody_def Let_def)
  have pl: "epl_joints pl = epl_joints (sns_planned_of (oc_egm_sensor oc1))"
    "epl_externalJoints pl = epl_externalJoints (sns_planned_of (oc_egm_sensor oc1))"
    using b keep by (simp_all add: pl_def constructReply_def Let_def case_prod_beta)
  have h: "oc_current (constructHeader oc) = oc_current oc" by (simp add: constructHeader_def)
  from constructJointBody_sent [of c "constructHeader oc" oc1] b \<open>s\<close> assms(2) pl
  show "outputs_fin (oc_current oc)" "parse_Joints (epl_joints_of pl) (epl_externalJoints_of pl) (axes c) =
      (True, \<lparr>jvalues = fst (out_positions (oc_current oc))\<rparr>, \<lparr>jvalues = snd (out_positions (oc_current oc))\<rparr>)"
    by (simp_all add: h)
qed

text \<open>
  C9: The robot is sent the interpolated references. In any reachable state of a session, if a datagram is answered while a
  goal is active in joint mode, then the reply is the encoding of a message whose planned joints, parsed the way the library
  parses the robot's own messages, are exactly the interpolated joint positions of the state the datagram leaves,
  whatever the measured positions are.
\<close>

theorem sent_positions_are_references:
  assumes "uniform_robot env ax nr ne" "nr + ne \<le> MAX_NUMBER_OF_SPLINES" "ne \<le> ext_capacity ax"
    and "reach (new_trajectory (plain ax)) (trajectory_step env (plain ax)) t"
    and "trajectory_callback env (Some bs) t = Some (r, t')" "r \<noteq> []" "statesOk (bi_inputs (ti_base t'))"
    and "dd_has_active_goal (tmo_data (ti_trajectory_motion t'))" "mc_egm_mode (tmo_controller (ti_trajectory_motion t')) = EGMJoint"
  shows "\<exists>msg. env_encode env msg = (True, r) \<and>
    parse_Joints (epl_joints_of (sns_planned_of msg)) (epl_externalJoints_of (sns_planned_of msg)) ax =
      (True, \<lparr>jvalues = robot_positions (ms_interpolation (tmo_motion_step (ti_trajectory_motion t')))\<rparr>,
       \<lparr>jvalues = external_positions (ms_interpolation (tmo_motion_step (ti_trajectory_motion t')))\<rparr>)"
proof -
  have ty: "session_typed ax nr ne t" using session_sys.reach_inv [OF assms(4), of nr ne] assms(1,2) by simp
  then have inv: "session_inv ax nr ne t" by (simp add: session_typed_def)
  have dec: "fst (env_decode env bs)"
    using trajectory_callback_cases [OF assms(5)] assms(6) by (auto simp: trajectory_accepts_def accepts_def split: if_splits)
  obtain t1 out where c: "trajectory_initializeCallback env (Some bs) t = (True, t1)"
    "generateOutputs (env_bq env) (bi_inputs (ti_base t1)) (oc_current (bi_outputs (ti_base t1))) (ti_trajectory_motion t1)
       = Some (out, ti_trajectory_motion t')"
    "bi_outputs (ti_base t') = updatePrevious_outputs (constructReply (env_encode env) (tc_base (cc_active (ti_configuration t1)))
       ((bi_outputs (ti_base t1))\<lparr>oc_current := out\<rparr>))"
    "r = oc_reply (bi_outputs (ti_base t'))" "bi_inputs (ti_base t') = updatePrevious (bi_inputs (ti_base t1))"
    "plain ax (cc_active (ti_configuration t1))"
    by (rule accepted_call [OF ty assms(1,2) dec assms(5)]) (rule that)
  let ?cfg = "tc_base (cc_active (ti_configuration t1))" and ?oc = "(bi_outputs (ti_base t1))\<lparr>oc_current := out\<rparr>"
  note i = trajectory_init_typed [OF ty assms(1) dec c(1)] and ready = trajectory_init_ready [OF inv assms(1) dec c(1)]
  have reply: "r = oc_reply (constructReply (env_encode env) ?cfg ?oc)" "axes ?cfg = ax" using c(3,4,6) by (simp_all add: plain_def)
  have shape: "output_shape nr ne out" using generateOutputs_output_shape [OF c(2)] i(1) by simp
  then have len: "length (snd (out_positions (oc_current ?oc))) \<le> ext_capacity (axes ?cfg)" using assms(3) reply(2) by (simp add: output_shape_def)
  note sent = constructReply_sent [OF assms(6) [unfolded reply(1)] len]
  have st: "statesOk (bi_inputs (ti_base t1))" using assms(7) c(5) by (simp add: statesOk_def updatePrevious_def)
  have "out_positions out = goal_positions (ms_interpolation (tmo_motion_step (ti_trajectory_motion t')))"
    using ready(3,4) sent(1) by (intro outputs_are_references [OF i(2) _ assms(2) ready(2) st c(2) assms(8,9) i(1)]) auto
  then have "parse_Joints (epl_joints_of (sns_planned_of (oc_egm_sensor (constructReply (env_encode env) ?cfg ?oc))))
      (epl_externalJoints_of (sns_planned_of (oc_egm_sensor (constructReply (env_encode env) ?cfg ?oc)))) ax =
      (True, \<lparr>jvalues = robot_positions (ms_interpolation (tmo_motion_step (ti_trajectory_motion t')))\<rparr>,
       \<lparr>jvalues = external_positions (ms_interpolation (tmo_motion_step (ti_trajectory_motion t')))\<rparr>)"
    using sent(2) reply(2) by simp
  with constructReply_encoded [OF assms(6) [unfolded reply(1)]] reply(1) show ?thesis by auto
qed

section \<open>Concrete instances\<close>

text \<open>In joint mode the pose of the outputs is kept, without its Euler angles.\<close>

lemma calculate_pose:
  assumes "calculate outputs ms mc = (out, ms', mc')" "mc_egm_mode mc = EGMJoint"
  shows "has (js_position (rob_joints_of (out_robot_of out)))" "has (cs_pose (rob_cartesian_of (out_robot_of out)))"
    "cs_pose_of (rob_cartesian_of (out_robot_of out)) = (cs_pose_of (rob_cartesian_of (out_robot_of outputs)))\<lparr>pose_euler := None\<rparr>"
  using assms by (auto simp: calculate_def calc_joint_defs scale_factors_def Let_def case_prod_beta)

lemma joint_outputs_pose:
  assumes "generateOutputs bq ic outputs m = Some (out, m')" "statesOk ic" "active m'" "mc_egm_mode (tmo_controller m') = EGMJoint"
  shows "has (js_position (rob_joints_of (out_robot_of out)))" "has (cs_pose (rob_cartesian_of (out_robot_of out)))"
    "cs_pose_of (rob_cartesian_of (out_robot_of out)) = (cs_pose_of (rob_cartesian_of (out_robot_of outputs)))\<lparr>pose_euler := None\<rparr>"
proof -
  obtain m3 m4 where m3: "produce_outputs bq outputs m3 = Some (out, m4)" "m' = update_progress out ic m4"
    using assms(1,2) by (auto simp: generateOutputs_def Let_def Option.bind_eq_Some_conv)
  have act: "active m3" using produce_outputs_plan [OF m3(1)] assms(3) by (simp add: m3(2) update_progress_def Let_def same_plan_def)
  obtain ms ms' mc' where c: "calculate outputs ms (tmo_controller m3) = (out, ms', mc')" "tmo_controller m4 = mc'"
    by (rule produce_outputs_active [OF m3(1) act], rule that) simp_all
  have "mc_egm_mode (tmo_controller m3) = EGMJoint"
    using calculate_mode [OF c(1)] assms(4) c(2) by (simp add: m3(2) update_progress_def Let_def)
  from calculate_pose [OF c(1) this] show "has (js_position (rob_joints_of (out_robot_of out)))" "has (cs_pose (rob_cartesian_of (out_robot_of out)))"
    "cs_pose_of (rob_cartesian_of (out_robot_of out)) = (cs_pose_of (rob_cartesian_of (out_robot_of outputs)))\<lparr>pose_euler := None\<rparr>"
    by simp_all
qed

lemma extracted_sample_time:
  assumes "extractParsedInformation bq ax ic = (True, ic')"
  shows "\<exists>T. ic_estimated_sample_time ic' = Fin T \<and> 0.004 \<le> T"
proof -
  from assms have "fst (extractParsedInformation bq ax ic)" by simp
  then obtain ic4 where "ic' = (snd (estimateAllVelocities bq ic4))\<lparr>ic_has_new_data := False\<rparr>"
    "ic_estimated_sample_time ic4 = estimateSampleTime ic4"
    using assms by (elim extract_accepted) auto
  then show ?thesis using estimateSampleTime_fin [of ic4] by (simp add: estimateAllVelocities_frame)
qed

text \<open>The messages of the sample robot, which has six axes and one external axis.\<close>

lemma sample_inputs:
  assumes "session_typed Six 6 1 t" "trajectory_initializeCallback sample_env (Some bs) t = (True, t1)"
  defines "ic \<equiv> bi_inputs (ti_base t1)"
  shows "statesOk ic" "fits 6 1 ic" "positions_fin 6 1 (in_feedback_of (ic_current ic))"
    "\<exists>T. ic_estimated_sample_time ic = Fin T \<and> 0.004 \<le> T" "verify_CartesianPose (fb_pose (ic_current ic))"
proof -
  have dec: "fst (env_decode sample_env bs)" by (simp add: sample_env_def)
  have inv: "session_inv Six 6 1 t" using assms(1) by (simp add: session_typed_def)
  obtain ic0 where e: "extractParsedInformation (env_bq sample_env) Six ic0 = (True, ic)"
    "ic_egm_robot ic0 = sample_message (of_nat (length bs))"
    using trajectory_init_typed(3) [OF assms(1) sample_uniform dec assms(2)] by (auto simp: sample_env_def ic_def)
  show "statesOk ic" using extracted_statesOk [OF e(1)] e(2) by (simp add: sample_message_def)
  show "fits 6 1 ic" using trajectory_init_ready(2) [OF inv sample_uniform dec assms(2)] by (simp add: ic_def)
  have "js_position_of (fb_robot_joints (ic_current ic)) = \<lparr>jvalues = replicate 6 (Fin 10)\<rparr>"
    "js_position_of (fb_external_joints (ic_current ic)) = \<lparr>jvalues = [Fin 5]\<rparr>"
    using extracted_positions(1,2) [OF e(1)] e(2) by (simp_all add: sample_message_def parse_Joints_def Let_def joint_counts)
  then show "positions_fin 6 1 (in_feedback_of (ic_current ic))" by (simp add: positions_fin_def values_fin_def joint_views)
  show "\<exists>T. ic_estimated_sample_time ic = Fin T \<and> 0.004 \<le> T" by (rule extracted_sample_time [OF e(1)])
  show "verify_CartesianPose (fb_pose (ic_current ic))"
    using extracted_pose [OF e(1)] sample_first(4) [of Six bs] e(2) by (simp add: sample_env_def fin_feedback_def)
qed

text \<open>The only point of a first trajectory is followed, with finite outputs.\<close>

lemma first_point_followed:
  assumes "quiet m" "motion_shaped nr ne m" "nr + ne \<le> MAX_NUMBER_OF_SPLINES" "mc_k (tmo_controller m) = Fin 1"
    and "fin_step f (tmo_motion_step m)" "p_current m = None" "primary m = [\<lparr>tr_points = [p]\<rparr>]" "plain_point p" "\<not> pg_reach_of p"
    and "proper nr ne (Message ic out)" "generateOutputs bq ic out m = Some (o', m')"
  shows "active m'" "mc_egm_mode (tmo_controller m') = EGMJoint" "outputs_fin o'"
proof -
  have ic: "\<not> ic_first_message ic" "statesOk ic" "fits nr ne ic" "output_shape nr ne out" "positions_fin nr ne (in_feedback_of (ic_current ic))"
    using assms(10) by simp_all
  let ?r = "received ic m"
  note rq = received_quiet [OF assms(1) ic(1,2)]
  have t: "active (process_state ?r)" "dd_has_new_goal (tmo_data (process_state ?r))" "pd_mode (ms_data (tmo_motion_step (process_state ?r))) = EGMJoint"
    using first_goal_taken [of ?r p] rq(1,2) assms(6-9) by (auto simp: plain_point_def)
  show act: "active m'" using generateOutputs_plan [OF assms(11)] ic(2) t(1) by (simp add: same_plan_def)
  show mode: "mc_egm_mode (tmo_controller m') = EGMJoint" using new_goal_mode [OF assms(11) ic(2) t(2)] t(3) by simp
  have left: "trajectory_left nr ne 1 f [p] (Suc (messages 1 f [p])) (new_loop m ([], []))"
    using assms(1,4-8) by (intro trajectory_left.waits [of m _ "\<lparr>tr_points = [p]\<rparr>" "[]"]) simp_all
  obtain s' where s': "loop_call bq (Message ic out) (new_loop m ([], [])) = Some s'" "lo_motion s' = m'"
    using assms(11) by (simp del: call_finishes.simps)
  have "\<not> trajectory_over [p] s'" using act s'(2) by (simp add: trajectory_over_def)
  with message_starts [OF left _ _ assms(3,10) s'(1)] assms(2,6) have "trajectory_left nr ne 1 f [p] (messages 1 f [p]) s'" by simp
  moreover have "primary (lo_motion s') = []" using primary_message [OF assms(1) ic(1,2) assms(11)] assms(6,7) s'(2) by simp
  ultimately have "\<exists>d. on_goal nr ne f d m'" using left_not_over(3) [of nr ne 1 f "[p]" _ s'] s'(2) by auto
  then have fin: "fin_goal (ms_interpolation (tmo_motion_step m'))" by (auto simp: on_goal_def fin_step_def Let_def)
  have "out_positions o' = goal_positions (ms_interpolation (tmo_motion_step m'))"
    by (rule outputs_are_references [OF assms(4) disjI1 [OF assms(2)] assms(3) ic(3,2) assms(11) act mode ic(4) disjI1 [OF ic(5)]])
  with fin show "outputs_fin o'"
    by (auto simp: outputs_fin_def fin_goal_def fin_joint_goal_def robot_positions_def external_positions_def)
qed

lemma trajectory_init_config:
  "\<not> cc_has_pending_update (ti_configuration t) \<Longrightarrow> ti_configuration (snd (trajectory_initializeCallback env data t)) = ti_configuration t"
  "\<not> cc_has_pending_update (ti_configuration t) \<Longrightarrow>
     ti_trajectory_motion (snd (trajectory_initializeCallback env data t)) = ti_trajectory_motion t"
  by (simp_all add: trajectory_initializeCallback_def Let_def case_prod_beta)

definition sample_interface :: EGMTrajectoryInterface where
  "sample_interface = init_EGMTrajectoryInterface 0 sample_config"

abbreviation sample_reach :: "EGMTrajectoryInterface \<Rightarrow> bool" where
  "sample_reach \<equiv> reach (new_trajectory (plain Six)) (trajectory_step sample_env (plain Six))"

lemma sample_size: "(6 :: nat) + 1 \<le> MAX_NUMBER_OF_SPLINES" by (simp add: MAX_NUMBER_OF_SPLINES_def joint_counts)

lemma sample_decodes: "fst (env_decode sample_env bs)" by (simp add: sample_env_def)

lemma sample_typed: "sample_reach t \<Longrightarrow> session_typed Six 6 1 t"
  using session_sys.reach_inv [where nr = 6 and ne = 1] sample_uniform sample_size by blast

text \<open>The first message starts the session.\<close>

lemma sample_started:
  obtains r t where "trajectory_callback sample_env (Some [3]) sample_interface = Some (r, t)" "sample_reach t"
    "\<not> ic_first_call (bi_inputs (ti_base t))" "ti_configuration t = make_ConfigurationContainer sample_config"
    "quiet (ti_trajectory_motion t)" "tmo_trajectories (ti_trajectory_motion t) = tmo_trajectories new_sample"
    "fin_step 1 (tmo_motion_step (ti_trajectory_motion t))"
    "verify_CartesianPose (cs_pose_of (rob_cartesian_of (out_robot_of (oc_current (bi_outputs (ti_base t))))))"
    "events (ti_trajectory_motion t) = init_PendingEvents"
proof -
  have r0: "sample_reach sample_interface" by (rule reach_init) (use sample_plain in \<open>auto simp: sample_interface_def\<close>)
  note ty = sample_typed [OF r0]
  have new: "ti_configuration sample_interface = make_ConfigurationContainer sample_config" "ti_trajectory_motion sample_interface = new_sample"
    "ic_first_call (bi_inputs (ti_base sample_interface))"
    by (simp_all add: sample_interface_def init_EGMTrajectoryInterface_def Let_def init_EGMBaseInterface_def init_InputContainer_def)
  obtain r t where c: "trajectory_callback sample_env (Some [3]) sample_interface = Some (r, t)"
    using trajectory_callback_total [OF _ sample_uniform sample_size] ty unfolding session_typed_def by blast
  then have rt: "sample_reach t" using r0 by (auto intro: reach_step traj_callback)
  obtain t1 out where a: "trajectory_initializeCallback sample_env (Some [3]) sample_interface = (True, t1)"
    "generateOutputs (env_bq sample_env) (bi_inputs (ti_base t1)) (oc_current (bi_outputs (ti_base t1))) (ti_trajectory_motion t1)
       = Some (out, ti_trajectory_motion t)" "oc_current (bi_outputs (ti_base t)) = out"
    "bi_inputs (ti_base t) = updatePrevious (bi_inputs (ti_base t1))" "ti_configuration t = ti_configuration t1"
    by (rule accepted_call [OF ty sample_uniform sample_size sample_decodes c], rule that) simp_all
  have t1: "ti_configuration t1 = make_ConfigurationContainer sample_config" "ti_trajectory_motion t1 = new_sample"
    using trajectory_init_config [of sample_interface sample_env "Some [3]"] a(1) new by (simp_all add: make_ConfigurationContainer_def)
  note i = sample_inputs [OF ty a(1)]
  have f: "ic_first_message (bi_inputs (ti_base t1))"
    using trajectory_init_typed(4) [OF ty sample_uniform sample_decodes a(1)] new(3) by (simp add: is_first_def)
  note g = a(2) [unfolded t1(2)]
  note plan = first_message_plan [OF g i(1) f] and fs = first_step [OF g i(1) f i(3)]
  obtain m where "generateOutputs (env_bq sample_env) (bi_inputs (ti_base t1)) (oc_current (bi_outputs (ti_base t1))) new_sample
      = Some (oc_current (bi_outputs (ti_base t1)), m)"
    using idle_generateOutputs [OF idle_init] by blast
  with g have out: "out = oc_current (bi_outputs (ti_base t1))" by simp
  obtain oc where oc: "bi_outputs (ti_base t1) = prepareOutputs (bi_inputs (ti_base t1)) oc" using trajectory_init_outputs(1) [OF a(1)] by blast
  have "verify_CartesianPose (cs_pose_of (rob_cartesian_of (out_robot_of out)))"
    using i(5) by (simp only: out oc prepareOutputs_first_outputs(5) [OF f])
  moreover have "\<not> ic_first_call (bi_inputs (ti_base t))" using trajectory_init_outputs(2) [OF a(1)] a(4) by simp
  ultimately show thesis
    using c rt a(3,5) t1(1) plan fs by (intro that [of r t]) (simp_all add: init_PendingEvents_def)
qed

theorem session_data_typed_witness:
  "\<exists>r t. trajectory_callback sample_env (Some [3]) sample_interface = Some (r, t) \<and> output_shape 6 1 (oc_current (bi_outputs (ti_base t)))"
proof -
  obtain r t where t: "trajectory_callback sample_env (Some [3]) sample_interface = Some (r, t)" "sample_reach t"
    "\<not> ic_first_call (bi_inputs (ti_base t))" by (rule sample_started)
  with session_data_typed [OF sample_uniform sample_size t(2,3)] show ?thesis by blast
qed

definition sample_point :: PointGoal where
  "sample_point = (flat_goal 6 1 (Fin 20))\<lparr>pg_duration := Some (Fin 1)\<rparr>"

lemma sample_answers:
  obtains r t r' t' where "trajectory_callback sample_env (Some [3]) sample_interface = Some (r, t)"
    "sample_reach (snd (trajectory_give (AddTrajectory \<lparr>tg_points = [sample_point]\<rparr> False) t))"
    "trajectory_callback sample_env (Some [4]) (snd (trajectory_give (AddTrajectory \<lparr>tg_points = [sample_point]\<rparr> False) t)) = Some (r', t')"
    "r' \<noteq> []" "statesOk (bi_inputs (ti_base t'))" "active (ti_trajectory_motion t')"
    "mc_egm_mode (tmo_controller (ti_trajectory_motion t')) = EGMJoint"
proof -
  obtain r t where t: "trajectory_callback sample_env (Some [3]) sample_interface = Some (r, t)" "sample_reach t"
    "\<not> ic_first_call (bi_inputs (ti_base t))" "ti_configuration t = make_ConfigurationContainer sample_config"
    "quiet (ti_trajectory_motion t)" "tmo_trajectories (ti_trajectory_motion t) = tmo_trajectories new_sample"
    "fin_step 1 (tmo_motion_step (ti_trajectory_motion t))"
    "verify_CartesianPose (cs_pose_of (rob_cartesian_of (out_robot_of (oc_current (bi_outputs (ti_base t))))))"
    "events (ti_trajectory_motion t) = init_PendingEvents"
    by (rule sample_started)
  define x where "x = AddTrajectory \<lparr>tg_points = [sample_point]\<rparr> False"
  define t2 where "t2 = snd (trajectory_give x t)"
  have r2: "sample_reach t2" using t(2) unfolding t2_def by (rule reach_step) (rule traj_order)
  note ty = sample_typed [OF r2]
  have t2: "ti_base t2 = ti_base t" "ti_configuration t2 = ti_configuration t" "ti_trajectory_motion t2 = snd (give x (ti_trajectory_motion t))"
    by (simp_all add: t2_def trajectory_give_def case_prod_beta)
  define m where "m = ti_trajectory_motion t2"
  have m: "quiet m" "p_current m = None" "primary m = [\<lparr>tr_points = [sample_point]\<rparr>]" "fin_step 1 (tmo_motion_step m)"
    using t(5-7,9)
    by (simp_all add: m_def t2(3) x_def init_PendingEvents_def addTrajectory_def Let_def verifyState_state init_TrajectoryMotion_def
        make_Trajectory_def addTrajectoryPointBack_def)
  have ms: "motion_shaped 6 1 m" "mc_k (tmo_controller m) = Fin 1" using ty t(3) by (simp_all add: session_typed_def session_inv_def t2(1) m_def)
  obtain r' t' where c: "trajectory_callback sample_env (Some [4]) t2 = Some (r', t')"
    using trajectory_callback_total [OF _ sample_uniform sample_size] ty unfolding session_typed_def by blast
  obtain t3 out where a: "trajectory_initializeCallback sample_env (Some [4]) t2 = (True, t3)"
    "generateOutputs (env_bq sample_env) (bi_inputs (ti_base t3)) (oc_current (bi_outputs (ti_base t3))) (ti_trajectory_motion t3)
       = Some (out, ti_trajectory_motion t')"
    "bi_outputs (ti_base t') = updatePrevious_outputs (constructReply (env_encode sample_env) (tc_base (cc_active (ti_configuration t3)))
       ((bi_outputs (ti_base t3))\<lparr>oc_current := out\<rparr>))"
    "r' = oc_reply (bi_outputs (ti_base t'))" "bi_inputs (ti_base t') = updatePrevious (bi_inputs (ti_base t3))"
    by (rule accepted_call [OF ty sample_uniform sample_size sample_decodes c], rule that) simp_all
  have t3: "ti_configuration t3 = make_ConfigurationContainer sample_config" "ti_trajectory_motion t3 = m"
    using trajectory_init_config [of t2 sample_env "Some [4]"] a(1) t(4) by (simp_all add: t2(2) m_def make_ConfigurationContainer_def)
  note i = sample_inputs [OF ty a(1)] and it = trajectory_init_typed [OF ty sample_uniform sample_decodes a(1)]
  have f: "\<not> ic_first_message (bi_inputs (ti_base t3))" using it(4) t(3) by (simp add: is_first_def t2(1) sample_env_def sample_message_def)
  have pose: "verify_CartesianPose (cs_pose_of (rob_cartesian_of (out_robot_of (oc_current (bi_outputs (ti_base t3))))))"
    using trajectory_init_outputs(1) [OF a(1)] f t(8) by (auto simp: prepareOutputs_def Let_def t2(1) simp del: verify_CartesianPose_iff)
  have p: "plain_point sample_point" "\<not> pg_reach_of sample_point"
    by (auto simp: plain_point_def sample_point_def flat_goal_def Let_def fin_goal_def fin_joint_goal_def)
  have "proper 6 1 (Message (bi_inputs (ti_base t3)) (oc_current (bi_outputs (ti_base t3))))" using i(1-4) f it(1) by simp
  note fp = first_point_followed [OF m(1) ms(1) sample_size ms(2) m(4,2,3) p this a(2) [unfolded t3(2)]]
  note jp = joint_outputs_pose [OF a(2) i(1) fp(1,2)]
  have shape: "output_shape 6 1 out" using generateOutputs_output_shape [OF a(2)] it(1) by simp
  have "r' \<noteq> []"
    unfolding a(4) a(3) updatePrevious_outputs_frame
    using jp pose fp(3) shape sample_first(5)
    by (intro constructReply_success)
      (auto simp: t3(1) make_ConfigurationContainer_def make_TrajectoryConfiguration_def default_BaseConfiguration_def axes_fit_def
        outputs_fin_def output_shape_def)
  moreover have "statesOk (bi_inputs (ti_base t'))" using i(1) by (simp add: a(5) statesOk_def updatePrevious_def)
  ultimately show thesis using t(1) r2 c fp(1,2) by (intro that [of r t r' t']) (simp_all add: t2_def x_def)
qed

theorem sent_positions_are_references_witness:
  "\<exists>r t r' t' msg. trajectory_callback sample_env (Some [3]) sample_interface = Some (r, t) \<and>
     trajectory_callback sample_env (Some [4]) (snd (trajectory_give (AddTrajectory \<lparr>tg_points = [sample_point]\<rparr> False) t)) = Some (r', t') \<and>
     env_encode sample_env msg = (True, r') \<and>
     parse_Joints (epl_joints_of (sns_planned_of msg)) (epl_externalJoints_of (sns_planned_of msg)) Six =
      (True, \<lparr>jvalues = robot_positions (ms_interpolation (tmo_motion_step (ti_trajectory_motion t')))\<rparr>,
       \<lparr>jvalues = external_positions (ms_interpolation (tmo_motion_step (ti_trajectory_motion t')))\<rparr>)"
proof -
  obtain r t r' t' where s: "trajectory_callback sample_env (Some [3]) sample_interface = Some (r, t)"
    "sample_reach (snd (trajectory_give (AddTrajectory \<lparr>tg_points = [sample_point]\<rparr> False) t))"
    "trajectory_callback sample_env (Some [4]) (snd (trajectory_give (AddTrajectory \<lparr>tg_points = [sample_point]\<rparr> False) t)) = Some (r', t')"
    "r' \<noteq> []" "statesOk (bi_inputs (ti_base t'))" "active (ti_trajectory_motion t')"
    "mc_egm_mode (tmo_controller (ti_trajectory_motion t')) = EGMJoint" by (rule sample_answers)
  have "(1 :: nat) \<le> ext_capacity Six" by (simp add: ext_capacity_def)
  from sent_positions_are_references [OF sample_uniform sample_size this s(2-7)] s(1,3) show ?thesis by blast
qed

end
