(* ===== verification/EGM_Plan.thy ===== *)
theory EGM_Plan
  imports EGM_Progress
begin

text \<open>
  The trajectory execution as a scheduler: an abstract machine that has work to do, work on standby and a flag that the
  standby is to replace the work, and that knows nothing of states, goals, interpolation and control. Every call of the
  execution is a short sequence of events of this machine, so that every run of the former is a run of the latter: points are
  finished at the front of the work only, and leave it in no other way than by the user's orders and the robot's state.
\<close>

section \<open>Trace refinement\<close>

text \<open>Events of an abstract machine, one after the other.\<close>

fun perform :: "('e \<Rightarrow> 'a \<Rightarrow> 'a option) \<Rightarrow> 'e list \<Rightarrow> 'a \<Rightarrow> 'a option" where
  "perform f [] a = Some a"
| "perform f (e # es) a = do { a1 \<leftarrow> f e a; perform f es a1 }"

lemma perform_append: "perform f (es @ es') a = do { a1 \<leftarrow> perform f es a; perform f es' a1 }"
proof (induction es arbitrary: a)
  case (Cons e es)
  then show ?case by (cases "f e a") simp_all
qed simp

locale trace_refinement =
  fixes call :: "'c \<Rightarrow> 's \<Rightarrow> 's option" and run :: "'c list \<Rightarrow> 's \<Rightarrow> 's option" and inv :: "'s \<Rightarrow> bool"
    and shown :: "'c \<Rightarrow> 's \<Rightarrow> 'e list" and trace :: "'c list \<Rightarrow> 's \<Rightarrow> 'e list" and abs :: "'s \<Rightarrow> 'a" and do_event :: "'e \<Rightarrow> 'a \<Rightarrow> 'a option"
  assumes run_Nil: "run [] s = Some s"
    and run_Cons: "run (c # cs) s = do { s1 \<leftarrow> call c s; run cs s1 }"
    and trace_Nil: "trace [] s = []"
    and trace_Cons: "call c s = Some s1 \<Longrightarrow> trace (c # cs) s = shown c s @ trace cs s1"
    and keeps_inv: "inv s \<Longrightarrow> call c s = Some s1 \<Longrightarrow> inv s1"
    and refines: "inv s \<Longrightarrow> call c s = Some s1 \<Longrightarrow> perform do_event (shown c s) (abs s) = Some (abs s1)"
begin

lemma run_refines: "run cs s = Some s' \<Longrightarrow> inv s \<Longrightarrow> perform do_event (trace cs s) (abs s) = Some (abs s')"
proof (induction cs arbitrary: s)
  case Nil
  then show ?case by (simp add: run_Nil trace_Nil)
next
  case (Cons c cs)
  from Cons.prems(1) obtain s1 where s1: "call c s = Some s1" "run cs s1 = Some s'" by (auto simp: run_Cons Option.bind_eq_Some_conv)
  from Cons.IH [OF s1(2) keeps_inv [OF Cons.prems(2) s1(1)]] refines [OF Cons.prems(2) s1(1)] show ?case
    by (simp add: trace_Cons [OF s1(1)] perform_append)
qed

end

section \<open>The scheduler\<close>

record plan =
  pl_work :: "PointGoal list"
  pl_standby :: "PointGoal list"
  pl_discard :: bool

text \<open>
  Points are accepted as further work, or on standby while the work is to be discarded; an overriding trajectory is put
  on standby and the work to be discarded; the standby takes the place of the work; work is finished; a reset repeats an
  interrupted point, or clears everything.
\<close>

datatype plan_event =
  Accept "PointGoal list"
| Override "PointGoal list"
| Discard bool
| Swap
| Finish "PointGoal list"
| Repeat "PointGoal list"
| Clear

fun plan_do :: "plan_event \<Rightarrow> plan \<Rightarrow> plan option" where
  "plan_do (Accept ps) p = Some (if pl_discard p then p\<lparr>pl_standby := pl_standby p @ ps\<rparr> else p\<lparr>pl_work := pl_work p @ ps\<rparr>)"
| "plan_do (Override ps) p = Some (p\<lparr>pl_standby := ps, pl_discard := True\<rparr>)"
| "plan_do (Discard b) p = Some (p\<lparr>pl_discard := b\<rparr>)"
| "plan_do Swap p = (if pl_discard p then Some \<lparr>pl_work = pl_standby p, pl_standby = [], pl_discard = False\<rparr> else None)"
| "plan_do (Finish ps) p =
     (if take (length ps) (pl_work p) = ps then Some (p\<lparr>pl_work := drop (length ps) (pl_work p)\<rparr>) else None)"
| "plan_do (Repeat ps) p = Some (p\<lparr>pl_work := ps @ pl_work p\<rparr>)"
| "plan_do Clear p = Some (p\<lparr>pl_work := [], pl_standby := []\<rparr>)"

section \<open>The plan of the execution\<close>

definition standby :: "TrajectoryMotion \<Rightarrow> PointGoal list" where
  "standby m = concat (map tr_points (tq_temporary_queue (tmo_trajectories m)))"

text \<open>Points are compared up to their durations, as an interruption changes these.\<close>

definition plan_of :: "TrajectoryMotion \<Rightarrow> plan" where
  "plan_of m = \<lparr>pl_work = map erase (agenda m), pl_standby = map erase (standby m), pl_discard = pe_do_discard (events m)\<rparr>"

text \<open>The point a reset repeats: that of a trajectory whose motion is being ramped down, which has been stored already.\<close>

definition repeated :: "TrajectoryMotion \<Rightarrow> PointGoal list" where
  "repeated m = (if \<not> in_normal m \<and> p_current m \<noteq> None then [external_goal m] else [])"

definition message_plan :: "InputContainer \<Rightarrow> TrajectoryMotion \<Rightarrow> plan_event list" where
  "message_plan ic m =
     (if ic_first_message ic then [Repeat (map erase (repeated m))] else []) @
     (if statesOk ic
      then let r = entered (prepare ic m) in
        (if state_of r = (StRampDown, SubFinished) \<and> pe_do_discard (events r) then [Swap] else []) @ [Finish (map erase (finished_points r))]
      else if ic_first_message ic \<or> state_of m = (StNormal, SubNone) then [] else [Clear])"

fun call_plan :: "motion_call \<Rightarrow> TrajectoryMotion \<Rightarrow> plan_event list" where
  "call_plan (Order (AddTrajectory t ovr)) m =
     (if fst (addTrajectory t ovr m) then [(if ovr then Override else Accept) (map erase (tg_points t))] else [])"
| "call_plan (Order (StopTrajectory d)) m = (if fst (stopTrajectory d m) then [Discard d] else [])"
| "call_plan (Order (StartStaticGoal d)) m = (if fst (startStaticGoal d m) then [Discard d] else [])"
| "call_plan (Message ic out) m = message_plan ic m"
| "call_plan _ m = []"

fun run_plan :: "boost_quaternion \<Rightarrow> motion_call list \<Rightarrow> TrajectoryMotion \<Rightarrow> plan_event list" where
  "run_plan bq [] m = []"
| "run_plan bq (c # cs) m = call_plan c m @ (case call bq c m of None \<Rightarrow> [] | Some m1 \<Rightarrow> run_plan bq cs m1)"

subsection \<open>Orders\<close>

lemma order_plan: "perform plan_do (call_plan (Order x) m) (plan_of m) = Some (plan_of (snd (give x m)))"
  by (cases x)
    (auto simp: order_defs Let_def plan_of_def standby_def agenda_def queued_def active_points_def in_normal_def external_goal_def)

subsection \<open>Messages\<close>

lemma same_plan_of: "same_plan m m' \<Longrightarrow> plan_of m' = plan_of m"
  using same_plan_agenda [of m m'] by (simp add: plan_of_def standby_def) (simp add: same_plan_def)

lemma finish_plan:
  "map erase (agenda m) = map erase (ps @ agenda m') \<Longrightarrow> standby m' = standby m \<Longrightarrow> pe_do_discard (events m') = pe_do_discard (events m) \<Longrightarrow>
     plan_do (Finish (map erase ps)) (plan_of m) = Some (plan_of m')"
  by (simp add: plan_of_def)

lemma standby_simps [simp]:
  "standby (set_pending s ss m) = standby m" "standby (updateNormalGoal m) = standby m" "standby (storeNormalGoal m) = standby m"
  "standby (static_update m) = standby m" "standby (entered m) = standby m" "standby (ev_mut f m) = standby m"
  by (simp_all add: standby_def updateNormalGoal_def retriveNextTrajectoryPoint_def storeNormalGoal_def static_update_def Let_def case_prod_beta
      split: option.split list.split)

text \<open>Only the end of a ramp down takes the standby.\<close>

lemma standby_fields [simp]:
  "standby (tmo_data_update f m) = standby m" "standby (m\<lparr>tmo_motion_step := ms\<rparr>) = standby m"
  "standby (m\<lparr>tmo_trajectories := tq\<lparr>tq_p_current := c\<rparr>\<rparr>) = standby (m\<lparr>tmo_trajectories := tq\<rparr>)"
  "standby (m\<lparr>tmo_trajectories := tq\<lparr>tq_primary_queue := q\<rparr>\<rparr>) = standby (m\<lparr>tmo_trajectories := tq\<rparr>)"
  "standby (m\<lparr>tmo_trajectories := tmo_trajectories m\<rparr>) = standby m"
  by (simp_all add: standby_def)

lemma states_standby:
  "standby (processNormalState m) = standby m" "pe_do_discard (events (processNormalState m)) = pe_do_discard (events m)"
  "standby (processStaticGoalState m) = standby m" "pe_do_discard (events (processStaticGoalState m)) = pe_do_discard (events m)"
  "standby (ramped_decision m) = standby m" "pe_do_discard (events (ramped_decision m)) = pe_do_discard (events m)"
  by (simp_all add: processNormalState_def processStaticGoalState_def ramped_decision_def static_update_def Let_def case_prod_beta
      split: SubStates.split option.split list.split)

lemma process_standby:
  assumes "state_of r = (StRampDown, SubFinished) \<Longrightarrow> \<not> pe_do_discard (events r)"
  shows "standby (process_state r) = standby r" "pe_do_discard (events (process_state r)) = pe_do_discard (events r)"
proof -
  have "standby (processRampDownState r) = standby r \<and> pe_do_discard (events (processRampDownState r)) = pe_do_discard (events r)"
    if "sm_current_state (tmo_state_manager r) = StRampDown"
    using assms that
    by (cases "sm_current_sub_state (tmo_state_manager r)")
      (simp_all add: processRampDownState_def sm_state_def Let_def states_standby ramped_events_def)
  then show "standby (process_state r) = standby r" "pe_do_discard (events (process_state r)) = pe_do_discard (events r)"
    by (simp_all add: process_state_def states_standby split: States.split)
qed

lemma swap_plan:
  assumes "state_of r = (StRampDown, SubFinished)" "\<not> has_pending r" "sm_inv (tmo_state_manager r)" "pe_do_discard (events r)"
    and "pl_discard (plan_of m)" "standby m = standby r"
  shows "perform plan_do [Swap, Finish (map erase (finished_points r))] (plan_of m) = Some (plan_of (process_state r))"
proof -
  let ?r = "ramped_events r"
  have pr: "process_state r = ramped_decision ?r" using assms(1) by (simp add: process_state_of(2) processRampDownState_ramped)
  have r: "active_points ?r = []" "queued ?r = standby r" "standby ?r = []" "\<not> pe_do_discard (events ?r)"
    using assms(4) by (simp_all add: ramped_events_def Let_def active_points_def queued_def standby_def)
  have "done_from (finished_points r) (standby r) (agenda (ramped_decision ?r))"
    using ramped_decision_ok [of ?r] assms(1-3) r(1,2)
    by (simp add: ramped_events_frame(1) ramped_events_flags finished_points_def finished_ramp_def)
  then have "map erase (standby m) = map erase (finished_points r) @ map erase (agenda (process_state r))"
    using assms(6) by (simp add: done_from_def pr)
  moreover have "standby (process_state r) = []" "\<not> pe_do_discard (events (process_state r))"
    using r(3,4) by (simp_all add: pr states_standby)
  ultimately show ?thesis using assms(5) by (simp add: plan_of_def)
qed

lemma process_plan:
  assumes "motion_inv m" "state_of m \<noteq> (StNormal, SubNone)"
  defines "r \<equiv> entered m"
  shows "perform plan_do ((if state_of r = (StRampDown, SubFinished) \<and> pe_do_discard (events r) then [Swap] else []) @
    [Finish (map erase (finished_points r))]) (plan_of m) = Some (plan_of (process_state r))"
proof (cases "state_of r = (StRampDown, SubFinished) \<and> pe_do_discard (events r)")
  case True
  have "\<not> has_pending r" "sm_inv (tmo_state_manager r)" using sm_inv_entered [OF assms(1)] by (simp_all add: r_def)
  moreover have "pl_discard (plan_of m)" "standby m = standby r" using True by (simp_all add: plan_of_def r_def)
  ultimately have "perform plan_do [Swap, Finish (map erase (finished_points r))] (plan_of m) = Some (plan_of (process_state r))"
    using True by (intro swap_plan) blast+
  with True show ?thesis by simp
next
  case False
  then have "map erase (agenda m) = map erase (finished_points r @ agenda (process_state r))"
    using process_state_ok(2) [OF assms(1,2)] by (simp add: r_def done_from_def)
  moreover have "standby (process_state r) = standby m" "pe_do_discard (events (process_state r)) = pe_do_discard (events m)"
    using process_standby [of r] False by (auto simp: r_def)
  ultimately have "plan_do (Finish (map erase (finished_points r))) (plan_of m) = Some (plan_of (process_state r))"
    by (rule finish_plan)
  then show ?thesis unfolding if_not_P [OF False] by (simp del: plan_do.simps)
qed

text \<open>The reset for a new session and that of a robot that is not ready.\<close>

lemma reset_plan:
  "map erase (agenda (reset_components m)) = map erase (repeated m @ agenda m)" "standby (reset_components m) = standby m"
  "events (reset_components m) = events m"
proof -
  have a: "agenda (reset_components m) = queued (reset_components m)"
    using reset_components_core [of m] by (simp add: agenda_def in_normal_def active_points_def)
  show "map erase (agenda (reset_components m)) = map erase (repeated m @ agenda m)"
  proof (cases "p_current m")
    case None
    then show ?thesis
      unfolding a by (simp add: repeated_def agenda_def active_points_def reset_components_def resetTrajectoryMotion_def queued_def)
  next
    case (Some tr)
    then have "queued (reset_components m) = active_points (storeNormalGoal m) @ queued (storeNormalGoal m)"
      by (simp add: reset_components_def resetTrajectoryMotion_def Let_def queued_def active_points_def storeNormalGoal_def)
    with storeNormalGoal_points [of m] Some show ?thesis unfolding a by (simp add: repeated_def agenda_def)
  qed
  show "standby (reset_components m) = standby m" "events (reset_components m) = events m"
    by (simp_all add: standby_def reset_components_def resetTrajectoryMotion_def storeNormalGoal_def Let_def split: option.split)
qed

text \<open>The plan after the preparation of a message.\<close>

definition prepare_plan :: "InputContainer \<Rightarrow> TrajectoryMotion \<Rightarrow> plan_event list" where
  "prepare_plan ic m =
     (if ic_first_message ic then [Repeat (map erase (repeated m))]
      else if \<not> statesOk ic \<and> state_of m \<noteq> (StNormal, SubNone) then [Clear] else [])"

lemma prepared_plan:
  assumes "motion_inv m"
  shows "perform plan_do (prepare_plan ic m) (plan_of m) = Some (plan_of (prepare ic m))" "events (prepare ic m) = events m"
proof -
  define m2 where "m2 = (if ic_first_message ic then reset_components (observe ic m) else observe ic m)"
  let ?cleared = "(reset_components m2)\<lparr>tmo_trajectories := (tmo_trajectories (reset_components m2))
    \<lparr>tq_primary_queue := [], tq_temporary_queue := []\<rparr>\<rparr>"
  define m3 where "m3 = (if statesOk ic
    then if state_of m2 = (StNormal, SubNone) then m2\<lparr>tmo_state_manager := activateStateManager (tmo_state_manager m2)\<rparr> else m2
    else if state_of m2 \<noteq> (StNormal, SubNone) then ?cleared else m2)"
  have p: "prepare ic m = m3\<lparr>tmo_data := (tmo_data m3)\<lparr>dd_has_new_goal := False\<rparr>\<rparr>"
    by (simp add: prepare_def Let_def m3_def m2_def observe_def verifyState_state)
  have o: "plan_of (observe ic m) = plan_of m" "repeated (observe ic m) = repeated m" "motion_inv (observe ic m)"
    using assms by (simp_all add: plan_of_def standby_def repeated_def) (simp_all add: observe_def in_normal_def external_goal_def)
  have m2: "motion_inv m2" "plan_of m2 = (if ic_first_message ic then (plan_of m)\<lparr>pl_work := map erase (repeated m) @ pl_work (plan_of m)\<rparr> else plan_of m)"
    using o reset_plan [of "observe ic m"] by (auto simp: m2_def reset_inv reset_components_core plan_of_def)
  have act: "plan_of (m2\<lparr>tmo_state_manager := activateStateManager (tmo_state_manager m2)\<rparr>) = plan_of m2" if "state_of m2 = (StNormal, SubNone)"
    using m2(1) that activate_inv(2) [OF m2(1) that] by (simp add: plan_of_def standby_def agenda_def queued_def active_points_def motion_inv_def)
  have clr: "plan_of ?cleared = (plan_of m2)\<lparr>pl_work := [], pl_standby := []\<rparr>"
    using reset_components_core [of m2] reset_plan(3) [of m2]
    by (simp add: plan_of_def standby_def agenda_def queued_def active_points_def in_normal_def)
  have m3: "plan_of m3 = (if \<not> statesOk ic \<and> state_of m2 \<noteq> (StNormal, SubNone) then (plan_of m2)\<lparr>pl_work := [], pl_standby := []\<rparr> else plan_of m2)"
    using act clr by (simp add: m3_def)
  have "plan_of (prepare ic m) = plan_of m3"
    unfolding p by (simp add: plan_of_def standby_def agenda_def queued_def active_points_def in_normal_def external_goal_def)
  moreover have "state_of m2 = (if ic_first_message ic then (StNormal, SubNone) else state_of m)" by (simp add: m2_def reset_components_core)
  ultimately show "perform plan_do (prepare_plan ic m) (plan_of m) = Some (plan_of (prepare ic m))"
    using m3 m2(2) by (simp add: prepare_plan_def)
  show "events (prepare ic m) = events m"
    by (simp add: p m3_def m2_def reset_plan(3))
qed

lemma message_refines:
  assumes "motion_inv m" "generateOutputs bq ic out m = Some (o', m')"
  shows "perform plan_do (message_plan ic m) (plan_of m) = Some (plan_of m')"
proof -
  note pl = same_plan_of [OF generateOutputs_plan [OF assms(2)]] and i = prepare_inv [OF assms(1), of ic]
  show ?thesis
  proof (cases "statesOk ic")
    case True
    let ?r = "entered (prepare ic m)"
    have "message_plan ic m = prepare_plan ic m @ (if state_of ?r = (StRampDown, SubFinished) \<and> pe_do_discard (events ?r) then [Swap] else []) @
        [Finish (map erase (finished_points ?r))]"
      using True by (simp add: message_plan_def prepare_plan_def Let_def)
    with process_plan [OF i(1) i(2) [OF True]] prepared_plan(1) [OF assms(1), of ic] pl True show ?thesis
      by (simp only: perform_append Option.bind.bind_lunit if_True)
  next
    case False
    then have "message_plan ic m = prepare_plan ic m" by (simp add: message_plan_def prepare_plan_def)
    with prepared_plan(1) [OF assms(1), of ic] pl False show ?thesis by simp
  qed
qed

lemma call_refines:
  assumes "motion_inv m" "call bq c m = Some m'"
  shows "perform plan_do (call_plan c m) (plan_of m) = Some (plan_of m')"
proof (cases c)
  case (Order x)
  with assms(2) order_plan [of x m] show ?thesis by (simp only: call.simps option.inject)
next
  case (Message ic out)
  with assms(2) obtain o' where "generateOutputs bq ic out m = Some (o', m')" by auto
  from message_refines [OF assms(1) this] Message show ?thesis by simp
next
  case (Reconfigure cfg)
  with assms(2) same_plan_of [OF updateConfigurations_plan [of m cfg]] show ?thesis by auto
qed

interpretation scheduler: trace_refinement "call bq" "run bq" motion_inv call_plan "run_plan bq" plan_of plan_do for bq
  by unfold_locales (simp_all add: call_inv call_refines)

text \<open>
  C3: The trajectory execution refines the scheduler. Every sequence of calls, messages of new sessions, of robots that
  are not ready and configuration updates included, in every reachable state, shows a sequence of
  events that the scheduler can perform, from the plan of the first to the plan of the last state: accepted trajectories are
  appended to the work, or to the standby while the work is to be discarded, an overriding one replaces the standby, the
  standby replaces the work at the end of a ramp down only, and only if a discard is ordered, and finished points
  are always at the front of the work.
\<close>

theorem execution_refines_scheduler:
  assumes "reach new_motion (motion_step bq) m" "run bq cs m = Some m'"
  shows "perform plan_do (run_plan bq cs m) (plan_of m) = Some (plan_of m')"
  using scheduler.run_refines [OF assms(2) motion_sys.reach_inv [OF assms(1)]] .

theorem execution_refines_scheduler_witness:
  "\<exists>m'. run hamilton [Message idle_input default_Output, Order (AddTrajectory \<lparr>tg_points = sample_points\<rparr> False),
      Order (AddTrajectory \<lparr>tg_points = [flat_goal 6 0 (Fin 1)]\<rparr> True)] new_sample = Some m' \<and>
    plan_of m' = \<lparr>pl_work = map erase sample_points, pl_standby = [erase (flat_goal 6 0 (Fin 1))], pl_discard = True\<rparr>"
proof -
  let ?o1 = "Order (AddTrajectory \<lparr>tg_points = sample_points\<rparr> False)"
  let ?o2 = "Order (AddTrajectory \<lparr>tg_points = [flat_goal 6 0 (Fin 1)]\<rparr> True)"
  let ?cs = "[Message idle_input default_Output, ?o1, ?o2]"
  obtain m where m: "call hamilton (Message idle_input default_Output) new_sample = Some m" "state_of m = (StNormal, SubRunning)"
    by (rule sample_start)
  define m1 where "m1 = snd (give (AddTrajectory \<lparr>tg_points = sample_points\<rparr> False) m)"
  have m1: "call hamilton ?o1 m = Some m1" "state_of m1 = (StNormal, SubRunning)" using m(2) by (simp_all add: m1_def give_frame del: give.simps)
  have acc: "fst (addTrajectory t ovr m)" "fst (addTrajectory t ovr m1)" for t ovr
    using m(2) m1(2) by (simp_all add: addTrajectory_def Let_def verifyState_state)
  have fin: "finished_points (entered (prepare idle_input new_sample)) = []" "state_of (entered (prepare idle_input new_sample)) = (StNormal, SubRunning)"
    by (simp_all add: finished_points_def finished_normal_def sm_state_def prepare_def Let_def init_TrajectoryMotion_def init_DecisionData_def
        init_PendingEvents_def verifyState_def init_StateManager_def activateStateManager_def updateState_def)
  have new: "plan_of new_sample = \<lparr>pl_work = [], pl_standby = [], pl_discard = False\<rparr>"
    by (simp add: plan_of_def standby_def init_TrajectoryMotion_def init_DecisionData_def init_PendingEvents_def agenda_def active_points_def queued_def)
  have "message_plan idle_input new_sample = [Finish []]" using fin by (simp add: message_plan_def Let_def)
  then have "run_plan hamilton ?cs new_sample = [Finish [], Accept (map erase sample_points), Override [erase (flat_goal 6 0 (Fin 1))]]"
    using acc by (simp only: run_plan.simps m(1) m1(1) option.case call_plan.simps) simp
  moreover obtain m' where r: "run hamilton ?cs new_sample = Some m'" by (simp only: run.simps m(1) m1(1) Option.bind.bind_lunit call.simps(1))
  moreover have "reach new_motion (motion_step hamilton) new_sample" by (rule reach_init) blast
  ultimately have "perform plan_do [Finish [], Accept (map erase sample_points), Override [erase (flat_goal 6 0 (Fin 1))]]
      (plan_of new_sample) = Some (plan_of m')"
    using execution_refines_scheduler [of hamilton new_sample ?cs m'] by simp
  with r new show ?thesis by simp
qed

section \<open>Discarded work\<close>

text \<open>Calls that neither order another stop or static goal nor override trajectories.\<close>

fun appending :: "motion_call \<Rightarrow> bool" where
  "appending (Order (AddTrajectory t ovr)) \<longleftrightarrow> \<not> ovr"
| "appending (Order ResumeTrajectory) \<longleftrightarrow> True"
| "appending (Order (UpdateDurationFactor f)) \<longleftrightarrow> True"
| "appending (Order (RetrieveExecutionProgress p)) \<longleftrightarrow> True"
| "appending (Order x) \<longleftrightarrow> False"
| "appending c \<longleftrightarrow> True"

text \<open>The motion is ramped down, and the standby will replace the work afterwards.\<close>

definition replacing :: "PendingEvents \<Rightarrow> bool" where
  "replacing e \<longleftrightarrow> pe_do_discard e \<and> pe_do_stop e \<and> pe_do_resume e \<and> \<not> pe_do_static_goal_start e"

lemma order_appends:
  assumes "appending (Order x)" "replacing (events m)"
  shows "replacing (events (snd (give x m)))" "standby (snd (give x m)) = standby m @ added_points (Order x) m"
  using assms by (cases x; simp add: order_defs Let_def replacing_def standby_def)+

lemma call_appends:
  assumes "call bq c m = Some m'" "\<not> is_message c" "appending c" "replacing (events m)"
  shows "replacing (events m')" "standby m' = standby m @ added_points c m"
  using assms order_appends [of _ m]
  by (cases c; auto simp: updateConfigurations_def standby_def simp del: give.simps added_points.simps(1))+

text \<open>One message: the standby replaces the work, or the end of the ramp down is one message closer.\<close>

lemma ramp_replaces:
  assumes "ramp_left (Suc k) m" "motion_inv m" "motion_shaped nr ne m" "nr + ne \<le> MAX_NUMBER_OF_SPLINES" "replacing (events m)"
    and "regular nr ne (Message ic out)" "generateOutputs bq ic out m = Some (o', m')"
  shows "state_of m' = (StRampDown, SubFinished) \<and> state_of (entered m') = (StNormal, SubRunning) \<and>
      map erase (standby m) = map erase (call_finishes (Message ic out) m @ agenda m') \<or>
    ramp_left k m' \<and> replacing (events m') \<and> standby m' = standby m"
proof -
  have ic: "\<not> ic_first_message ic" "statesOk ic" using assms(6) by simp_all
  have n: "state_of m \<noteq> (StNormal, SubNone)" using assms(1) by (cases rule: ramp_left.cases) auto
  define r where "r = received ic m"
  note rs = received_simps [OF ic n, folded r_def]
  have plan: "same_plan (process_state r) m'" using generateOutputs_plan [OF assms(7)] ic(2) by (simp add: r_def)
  consider (ordered) "state_of r = (StNormal, SubRunning)" "pe_do_ramp_down (events r)"
    | (ramp) "state_of r \<in> {(StRampDown, SubNone), (StRampDown, SubRunning)}" | (ramped) "state_of r = (StRampDown, SubFinished)"
    using assms(1) unfolding rs(1,3) by (cases rule: ramp_left.cases) (auto simp: updateState_def sm_state_def)
  then show ?thesis
  proof cases
    case ramped
    have sw: "message_plan ic m = [Swap, Finish (map erase (finished_points r))]"
      using ramped ic assms(5) rs(3) by (simp add: message_plan_def Let_def r_def replacing_def)
    have "plan_do Swap (plan_of m) = Some \<lparr>pl_work = map erase (standby m), pl_standby = [], pl_discard = False\<rparr>"
      using assms(5) by (simp add: plan_of_def replacing_def)
    with message_refines [OF assms(2,7)] sw have "map erase (standby m) = map erase (finished_points r) @ map erase (agenda m')"
      by (auto simp: plan_of_def split: if_splits) (metis append_take_drop_id)
    moreover have "process_state r = ramped_decision (ramped_events r)" using ramped by (simp add: process_state_of(2) processRampDownState_ramped)
    moreover have "tmo_state_manager (ramped_decision (ramped_events r)) = setPendingState StNormal SubRunning (tmo_state_manager r)"
      using assms(5) rs(3) by (simp add: ramped_decision_def Let_def ramped_events_flags ramped_events_frame(1) replacing_def)
    ultimately show ?thesis using plan ramped ic(2)
      by (simp add: same_plan_def r_def setPendingState_def accepted_def sm_state_def updateState_def)
  next
    case ordered
    then have "events (process_state r) = events r" "standby (process_state r) = standby r" "state_of (process_state r) = state_of r"
      using process_interrupted [OF ordered] by simp_all
    with ordered plan rs(2,3) ramp_left_message [OF assms(1,6,7,3,4)] assms(5) show ?thesis by (auto simp: same_plan_def standby_def)
  next
    case ramp
    note e = ramp_process_events [OF ramp]
    have "standby (process_state r) = standby r" using process_standby(1) [of r] ramp by auto
    with ramp e plan rs(2,3) ramp_left_message [OF assms(1,6,7,3,4)] assms(5) show ?thesis by (auto simp: same_plan_def standby_def)
  qed
qed

text \<open>Until then accepted trajectories are appended to the standby.\<close>

definition replaced :: "boost_quaternion \<Rightarrow> nat \<Rightarrow> PointGoal list \<Rightarrow> TrajectoryMotion \<Rightarrow> motion_call list \<Rightarrow> motion_call \<Rightarrow> TrajectoryMotion \<Rightarrow> bool" where
  "replaced bq k ps m cs c m' \<longleftrightarrow> (\<exists>m1. run bq cs m = Some m1 \<and> call bq c m1 = Some m' \<and> length (filter is_message (cs @ [c])) \<le> k \<and>
     state_of (entered m') = (StNormal, SubRunning) \<and>
     map erase (ps @ run_adds bq cs m) = map erase (call_finishes c m1 @ agenda m'))"

lemma discard_ends:
  assumes "ramp_left k m" "motion_inv m" "motion_shaped nr ne m" "replacing (events m)" "list_all (\<lambda>c. regular nr ne c \<and> appending c) cs"
    and "k \<le> length (filter is_message cs)" "nr + ne \<le> MAX_NUMBER_OF_SPLINES"
  shows "\<exists>cs1 c cs2 m'. cs = cs1 @ c # cs2 \<and> replaced bq k (standby m) m cs1 c m'"
  using assms(1-6)
proof (induction cs arbitrary: k m)
  case Nil
  then show ?case using ramp_left_0 by simp
next
  case (Cons c cs)
  have c: "regular nr ne c" "appending c" using Cons.prems(5) by simp_all
  obtain m1 where m1: "call bq c m = Some m1" "motion_shaped nr ne m1"
    using call_shaped [OF Cons.prems(3) regular_fitting [OF c(1)] assms(7), of bq] by blast
  have inv: "motion_inv m1" by (rule call_inv [OF m1(1) Cons.prems(2)])
  obtain n where k: "k = Suc n" using Cons.prems(1) ramp_left_0 not0_implies_Suc by metis
  let ?k = "if is_message c then n else k"
  have "replaced bq k (standby m) m [] c m1 \<or> ramp_left ?k m1 \<and> replacing (events m1) \<and> standby m1 = standby m @ added_points c m"
  proof (cases "is_message c")
    case True
    then obtain ic out o' where g: "c = Message ic out" "generateOutputs bq ic out m = Some (o', m1)" using m1(1) by (cases c) auto
    have "regular nr ne (Message ic out)" using c(1) g(1) by blast
    from ramp_replaces [OF Cons.prems(1) [unfolded k] Cons.prems(2,3) assms(7) Cons.prems(4) this g(2)] g m1(1) k show ?thesis
      by (auto simp: replaced_def)
  next
    case False
    then show ?thesis using call_appends [OF m1(1) False c(2) Cons.prems(4)] ramp_left_other [OF Cons.prems(1) False m1(1)] by simp
  qed
  then show ?case
  proof
    assume "replaced bq k (standby m) m [] c m1"
    then show ?thesis by (metis append_Nil)
  next
    assume l: "ramp_left ?k m1 \<and> replacing (events m1) \<and> standby m1 = standby m @ added_points c m"
    moreover have "?k \<le> length (filter is_message cs)" using Cons.prems(6) k by auto
    ultimately obtain cs1 c' cs2 m' where ih: "cs = cs1 @ c' # cs2" "replaced bq ?k (standby m1) m1 cs1 c' m'"
      using Cons.IH [of ?k m1] inv m1(2) Cons.prems(5) by auto
    then have "replaced bq k (standby m) m (c # cs1) c' m'" using l m1(1) k by (auto simp: replaced_def split: if_splits)
    with ih(1) show ?thesis by (metis append_Cons)
  qed
qed

text \<open>
  C6: An overriding trajectory replaces all others. If it is accepted in a reachable state, no static goal is ordered and
  afterwards there are only messages of the session, non-overriding trajectories, changes of the duration factor and the
  configuration, then within 253 messages the motion is ramped down and the normal execution resumed, and the points to execute, with those
  finished by the last message as already reached, are exactly those of the overriding trajectory and those accepted since.
\<close>

theorem override_replaces_trajectories:
  assumes "reach new_motion (motion_step bq) m" "motion_shaped nr ne m" "nr + ne \<le> MAX_NUMBER_OF_SPLINES"
    and "state_of m = (StNormal, SubRunning)" "\<not> has_pending m" "\<not> pe_do_static_goal_start (events m)"
    and "list_all (\<lambda>c. regular nr ne c \<and> appending c) cs" "253 \<le> length (filter is_message cs)"
  shows "\<exists>cs1 c cs2 m1 m2. cs = cs1 @ c # cs2 \<and> length (filter is_message (cs1 @ [c])) \<le> 253 \<and>
    run bq (Order (AddTrajectory t True) # cs1) m = Some m1 \<and> call bq c m1 = Some m2 \<and> state_of (entered m2) = (StNormal, SubRunning) \<and>
    map erase (tg_points t @ run_adds bq cs1 (snd (addTrajectory t True m))) = map erase (call_finishes c m1 @ agenda m2)"
proof -
  let ?m = "snd (give (AddTrajectory t True) m)"
  have e: "replacing (events ?m)" "standby ?m = tg_points t" "pe_do_ramp_down (events ?m)"
    using assms(4,6) by (simp_all add: addTrajectory_def Let_def verifyState_state replacing_def standby_def make_Trajectory_points)
  have "ramp_left 253 ?m" using assms(4,5) e(3) by (intro ramp_left.ramp_ordered) (simp_all add: give_frame del: give.simps)
  moreover have "motion_inv ?m" "motion_shaped nr ne ?m"
    using give_inv [OF motion_sys.reach_inv [OF assms(1)]] assms(2) by (simp_all add: motion_shaped_def give_frame del: give.simps)
  ultimately obtain cs1 c cs2 m2 where "cs = cs1 @ c # cs2" "replaced bq 253 (tg_points t) ?m cs1 c m2"
    using discard_ends [OF _ _ _ e(1) assms(7,8,3)] e(2) by metis
  moreover have "run bq (Order (AddTrajectory t True) # cs1) m = run bq cs1 ?m" "?m = snd (addTrajectory t True m)" by simp_all
  ultimately show ?thesis unfolding replaced_def by metis
qed

lemma run_adds_messages: "list_all is_message cs \<Longrightarrow> run_adds bq cs m = []"
proof (induction cs arbitrary: m)
  case (Cons c cs)
  then show ?case by (cases c) (auto split: option.split)
qed simp

lemma sample_prefix: "replicate n next_message = cs1 @ cs2 \<Longrightarrow> run_adds bq cs1 m = []"
  by (rule run_adds_messages) (metis in_set_conv_decomp_first in_set_replicate list_all_iff next_message_regular(2) Un_iff set_append)

lemma sample_session:
  obtains m where "reach new_motion (motion_step hamilton) m" "motion_shaped 6 0 m" "(6 :: nat) + 0 \<le> MAX_NUMBER_OF_SPLINES"
    "state_of m = (StNormal, SubRunning)" "\<not> has_pending m" "\<not> pe_do_static_goal_start (events m)"
    "list_all (\<lambda>c. regular 6 0 c \<and> appending c) (replicate 253 next_message)" "253 \<le> length (filter is_message (replicate 253 next_message))"
proof -
  obtain m where m: "call hamilton (Message six_joints default_Output) new_sample = Some m" "motion_shaped 6 0 m"
    "state_of m = (StNormal, SubRunning)" "\<not> has_pending m" "events m = init_PendingEvents" by (rule first_sample)
  have "reach new_motion (motion_step hamilton) new_sample" by (rule reach_init) blast
  then have "reach new_motion (motion_step hamilton) m" by (rule reach_step) (rule motion_call [OF m(1)])
  moreover have "(6 :: nat) + 0 \<le> MAX_NUMBER_OF_SPLINES" by (simp add: MAX_NUMBER_OF_SPLINES_def joint_counts)
  moreover have "list_all (\<lambda>c. regular 6 0 c \<and> appending c) (replicate 253 next_message)" by (simp add: list_all_iff) (simp add: next_message_def)
  ultimately show thesis using that [of m] m by (simp add: init_PendingEvents_def)
qed

theorem override_replaces_trajectories_witness:
  "\<exists>m cs c m1 m2. run hamilton (Order (AddTrajectory \<lparr>tg_points = sample_points\<rparr> True) # cs) m = Some m1 \<and>
     call hamilton c m1 = Some m2 \<and> state_of (entered m2) = (StNormal, SubRunning) \<and>
     map erase sample_points = map erase (call_finishes c m1 @ agenda m2)"
proof -
  obtain m where m: "reach new_motion (motion_step hamilton) m" "motion_shaped 6 0 m" "(6 :: nat) + 0 \<le> MAX_NUMBER_OF_SPLINES"
    "state_of m = (StNormal, SubRunning)" "\<not> has_pending m" "\<not> pe_do_static_goal_start (events m)"
    "list_all (\<lambda>c. regular 6 0 c \<and> appending c) (replicate 253 next_message)" "253 \<le> length (filter is_message (replicate 253 next_message))"
    by (rule sample_session)
  obtain cs1 c cs2 m1 m2 where cs: "replicate 253 next_message = cs1 @ c # cs2"
    "run hamilton (Order (AddTrajectory \<lparr>tg_points = sample_points\<rparr> True) # cs1) m = Some m1" "call hamilton c m1 = Some m2"
    "state_of (entered m2) = (StNormal, SubRunning)"
    "map erase (sample_points @ run_adds hamilton cs1 (snd (addTrajectory \<lparr>tg_points = sample_points\<rparr> True m))) =
       map erase (call_finishes c m1 @ agenda m2)"
    using override_replaces_trajectories [OF m, of "\<lparr>tg_points = sample_points\<rparr>"] by auto
  then show ?thesis using sample_prefix [OF cs(1)] by (metis append_Nil2)
qed

text \<open>
  C37: Stopping the motion and discarding all trajectories right after an overriding trajectory was accepted does not
  discard the latter, and the stop is undone: within 253 messages the motion is ramped down and the normal
  execution resumed, without a resume order of the user, and the points to execute are exactly those of the overriding trajectory and those accepted since.
\<close>

theorem stop_keeps_override:
  assumes "reach new_motion (motion_step bq) m" "motion_shaped nr ne m" "nr + ne \<le> MAX_NUMBER_OF_SPLINES"
    and "state_of m = (StNormal, SubRunning)" "\<not> has_pending m" "\<not> pe_do_static_goal_start (events m)"
    and "list_all (\<lambda>c. regular nr ne c \<and> appending c) cs" "253 \<le> length (filter is_message cs)"
  shows "\<exists>cs1 c cs2 m1 m2. cs = cs1 @ c # cs2 \<and> length (filter is_message (cs1 @ [c])) \<le> 253 \<and>
    run bq (Order (AddTrajectory t True) # Order (StopTrajectory True) # cs1) m = Some m1 \<and> call bq c m1 = Some m2 \<and>
    state_of (entered m2) = (StNormal, SubRunning) \<and>
    map erase (tg_points t @ run_adds bq cs1 (snd (stopTrajectory True (snd (addTrajectory t True m))))) =
    map erase (call_finishes c m1 @ agenda m2)"
proof -
  let ?m = "snd (give (StopTrajectory True) (snd (give (AddTrajectory t True) m)))"
  have e: "replacing (events ?m)" "standby ?m = tg_points t" "pe_do_ramp_down (events ?m)"
    using assms(4,6) by (simp_all add: addTrajectory_def stopTrajectory_def Let_def verifyState_state replacing_def standby_def make_Trajectory_points)
  have "ramp_left 253 ?m" using assms(4,5) e(3) by (intro ramp_left.ramp_ordered) (simp_all add: give_frame del: give.simps)
  moreover have "motion_inv ?m" "motion_shaped nr ne ?m"
    using give_inv [OF give_inv [OF motion_sys.reach_inv [OF assms(1)]]] assms(2) by (simp_all add: motion_shaped_def give_frame del: give.simps)
  ultimately obtain cs1 c cs2 m2 where "cs = cs1 @ c # cs2" "replaced bq 253 (tg_points t) ?m cs1 c m2"
    using discard_ends [OF _ _ _ e(1) assms(7,8,3)] e(2) by metis
  moreover have "run bq (Order (AddTrajectory t True) # Order (StopTrajectory True) # cs1) m = run bq cs1 ?m"
    "?m = snd (stopTrajectory True (snd (addTrajectory t True m)))" by simp_all
  ultimately show ?thesis unfolding replaced_def by metis
qed

theorem stop_keeps_override_witness:
  "\<exists>m cs c m1 m2. run hamilton (Order (AddTrajectory \<lparr>tg_points = sample_points\<rparr> True) # Order (StopTrajectory True) # cs) m = Some m1 \<and>
     call hamilton c m1 = Some m2 \<and> state_of (entered m2) = (StNormal, SubRunning) \<and>
     map erase sample_points = map erase (call_finishes c m1 @ agenda m2)"
proof -
  obtain m where m: "reach new_motion (motion_step hamilton) m" "motion_shaped 6 0 m" "(6 :: nat) + 0 \<le> MAX_NUMBER_OF_SPLINES"
    "state_of m = (StNormal, SubRunning)" "\<not> has_pending m" "\<not> pe_do_static_goal_start (events m)"
    "list_all (\<lambda>c. regular 6 0 c \<and> appending c) (replicate 253 next_message)" "253 \<le> length (filter is_message (replicate 253 next_message))"
    by (rule sample_session)
  obtain cs1 c cs2 m1 m2 where cs: "replicate 253 next_message = cs1 @ c # cs2"
    "run hamilton (Order (AddTrajectory \<lparr>tg_points = sample_points\<rparr> True) # Order (StopTrajectory True) # cs1) m = Some m1"
    "call hamilton c m1 = Some m2" "state_of (entered m2) = (StNormal, SubRunning)"
    "map erase (sample_points @ run_adds hamilton cs1 (snd (stopTrajectory True (snd (addTrajectory \<lparr>tg_points = sample_points\<rparr> True m))))) =
       map erase (call_finishes c m1 @ agenda m2)"
    using stop_keeps_override [OF m, of "\<lparr>tg_points = sample_points\<rparr>"] by auto
  then show ?thesis using sample_prefix [OF cs(1)] by (metis append_Nil2)
qed

end
