(* ===== verification/EGM_Soft_Ramp.thy ===== *)
theory EGM_Soft_Ramp
  imports EGM_Interpolation
begin

text \<open>
  The soft ramps of \<open>EGMInterpolator::SoftRamp\<close> on joints, in closed form. In the case \<open>RampInPosition\<close> the code
  falls through into \<open>RampInVelocity\<close>; the closed form shows what this does to a static position goal.
\<close>

section \<open>The ramp factor\<close>

lemma ramp_in_Fin: "ramp_in (Fin x) = Fin ((1 - cos (pi * x)) / 2)"
  by (simp add: ramp_in_def M_PI_def add.commute)

section \<open>Loops over the joints\<close>

lemma set_value_nth:
  "i < length (jvalues j) \<Longrightarrow> jvalues (set_value i v j) ! i = v"
  "k \<noteq> i \<Longrightarrow> jvalues (set_value i v j) ! k = jvalues j ! k"
  by (simp_all add: set_value_def)

text \<open>The values of a joint after a loop whose body writes the joint of its index only.\<close>

lemma for_range_pointwise:
  assumes "i < n" "P (f i (for_range i f s))"
    and "\<And>k g. i < k \<Longrightarrow> P g \<Longrightarrow> P (f k g)"
  shows "P (for_range n f s)"
  using assms(1,2)
proof (induction n)
  case (Suc n)
  then show ?case by (cases "i = n") (auto intro: assms(3))
qed simp

lemma for_range_untouched:
  assumes "P s" "\<And>k g. k < i \<Longrightarrow> P g \<Longrightarrow> P (f k g)"
  shows "P (for_range i f s)"
  using assms by (rule for_range_inv)

lemma joint_shape_common_size:
  assumes "joint_shape n out" "length (jvalues a) = n" "length (jvalues b) = n"
  shows "common_size out a b = n"
  using assms by (simp add: common_size_def joint_shape_def)

lemma touch_values [simp]:
  "jg_position_of (touch_JointGoal g) = jg_position_of g" "jg_velocity_of (touch_JointGoal g) = jg_velocity_of g"
  "jg_acceleration_of (touch_JointGoal g) = jg_acceleration_of g"
  by (simp_all add: touch_JointGoal_def)

section \<open>The two cases\<close>

lemma ramp_in_velocity_values:
  assumes "joint_shape n out" "joint_shape n (ramp_joint_goal robot (ramp_start r))"
    "joint_shape n (ramp_joint_goal robot (ramp_goal r))" "i < n"
  defines "sv \<equiv> jvalues (jg_velocity_of (ramp_joint_goal robot (ramp_start r))) ! i"
    and "gv \<equiv> jvalues (jg_velocity_of (ramp_joint_goal robot (ramp_goal r))) ! i"
  shows "jvalues (jg_velocity_of (ramp_in_velocity_joint r out robot T t)) ! i = sv + ramp_in t * (gv - sv)"
    "jvalues (jg_position_of (ramp_in_velocity_joint r out robot T t)) ! i =
      jvalues (jg_position_of out) ! i + T * (sv + ramp_in t * (gv - sv))"
proof -
  let ?s = "jg_velocity_of (ramp_joint_goal robot (ramp_start r))" and ?g = "jg_velocity_of (ramp_joint_goal robot (ramp_goal r))"
  define f where "f = (\<lambda>i g. let g1 = jg_acceleration_mut (set_value i (Fin 0)) g;
      g2 = jg_velocity_mut (set_value i (jvalues ?s ! i + ramp_in t * (jvalues ?g ! i - jvalues ?s ! i))) g1
    in jg_position_mut (\<lambda>p. set_value i (jvalues p ! i + T * jvalues (jg_velocity_of g2) ! i) p) g2)"
  define P where "P g \<longleftrightarrow> jvalues (jg_velocity_of g) ! i = sv + ramp_in t * (gv - sv) \<and>
    jvalues (jg_position_of g) ! i = jvalues (jg_position_of out) ! i + T * (sv + ramp_in t * (gv - sv))" for g
  define Q where "Q g \<longleftrightarrow> joint_shape n g \<and> jvalues (jg_position_of g) ! i = jvalues (jg_position_of out) ! i" for g
  have "ramp_in_velocity_joint r out robot T t = for_range n f (touch_JointGoal out)"
    using assms(1-3) by (simp add: ramp_in_velocity_joint_def Let_def f_def joint_shape_common_size joint_shape_def [of _ "ramp_joint_goal _ _"])
  moreover have "Q (for_range i f (touch_JointGoal out))"
    by (rule for_range_untouched) (use assms(1) in \<open>auto simp: Q_def f_def Let_def joint_shape_def set_value_nth\<close>)
  then have "P (f i (for_range i f (touch_JointGoal out)))"
    using assms(4) by (simp add: P_def Q_def f_def Let_def joint_shape_def set_value_nth sv_def gv_def)
  then have "P (for_range n f (touch_JointGoal out))"
    by (rule for_range_pointwise [OF assms(4)]) (auto simp: P_def f_def Let_def set_value_nth)
  ultimately show "jvalues (jg_velocity_of (ramp_in_velocity_joint r out robot T t)) ! i = sv + ramp_in t * (gv - sv)"
    "jvalues (jg_position_of (ramp_in_velocity_joint r out robot T t)) ! i =
      jvalues (jg_position_of out) ! i + T * (sv + ramp_in t * (gv - sv))"
    by (simp_all add: P_def)
qed

lemma ramp_in_position_values:
  assumes "joint_shape n out" "joint_shape n (ramp_joint_goal robot (ramp_start r))"
    "joint_shape n (ramp_joint_goal robot (ramp_goal r))" "i < n"
  defines "sp \<equiv> jvalues (jg_position_of (ramp_joint_goal robot (ramp_start r))) ! i"
    and "gp \<equiv> jvalues (jg_position_of (ramp_joint_goal robot (ramp_goal r))) ! i"
  shows "jvalues (jg_position_of (ramp_in_position_joint r out robot t)) ! i = sp + ramp_in t * (gp - sp)"
proof -
  let ?s = "jg_position_of (ramp_joint_goal robot (ramp_start r))" and ?g = "jg_position_of (ramp_joint_goal robot (ramp_goal r))"
  define f where "f = (\<lambda>i g. jg_acceleration_mut (set_value i (Fin 0))
      (jg_velocity_mut (set_value i (d_ramp_in (ramp_duration r) t * (jvalues ?g ! i - jvalues ?s ! i)))
        (jg_position_mut (set_value i (jvalues ?s ! i + ramp_in t * (jvalues ?g ! i - jvalues ?s ! i))) g)))"
  define P where "P g \<longleftrightarrow> jvalues (jg_position_of g) ! i = sp + ramp_in t * (gp - sp)" for g
  have "ramp_in_position_joint r out robot t = for_range n f (touch_JointGoal out)"
    using assms(1-3) by (simp add: ramp_in_position_joint_def Let_def f_def joint_shape_common_size joint_shape_def [of _ "ramp_joint_goal _ _"])
  moreover have "joint_shape n (for_range i f (touch_JointGoal out))"
    by (rule for_range_untouched) (use assms(1) in \<open>auto simp: f_def joint_shape_def\<close>)
  then have "P (f i (for_range i f (touch_JointGoal out)))"
    using assms(4) by (simp add: P_def f_def joint_shape_def set_value_nth sp_def gp_def)
  then have "P (for_range n f (touch_JointGoal out))"
    by (rule for_range_pointwise [OF assms(4)]) (auto simp: P_def f_def set_value_nth)
  ultimately show ?thesis by (simp add: P_def)
qed

section \<open>A static position goal\<close>

definition ramp_share :: "real \<Rightarrow> real \<Rightarrow> real" where
  "ramp_share d t = (1 - cos (pi * max 0 (min (t / d) 1))) / 2"

lemma ramp_share_ends: "0 < d \<Longrightarrow> ramp_share d 0 = 0" "0 < d \<Longrightarrow> d \<le> t \<Longrightarrow> ramp_share d t = 1"
  by (simp_all add: ramp_share_def)

lemma position_ramp_values:
  fixes T t :: real
  assumes "joint_shape n out" "joint_shape n (ramp_joint_goal robot (ramp_start r))"
    "joint_shape n (ramp_joint_goal robot (ramp_goal r))" "i < n"
    and "ramp_operation r = OpRampInPosition" "ramp_duration r = Fin d" "0 < d"
    and "jvalues (jg_position_of (ramp_joint_goal robot (ramp_start r))) ! i = Fin sp"
    "jvalues (jg_position_of (ramp_joint_goal robot (ramp_goal r))) ! i = Fin gp"
    "jvalues (jg_velocity_of (ramp_joint_goal robot (ramp_start r))) ! i = Fin sv"
    "jvalues (jg_velocity_of (ramp_joint_goal robot (ramp_goal r))) ! i = Fin gv"
  defines "res \<equiv> SoftRamp_evaluate_joint r out robot (Fin T) (Fin t)" and "k \<equiv> ramp_share d t"
  shows "jvalues (jg_position_of res) ! i = Fin (sp + k * (gp - sp) + T * (sv + k * (gv - sv)))"
    "jvalues (jg_velocity_of res) ! i = Fin (sv + k * (gv - sv))"
proof -
  have sat: "saturate (Fin t / Fin d) (Fin 0) (Fin 1) = Fin (max 0 (min (t / d) 1))"
    using assms(7) by (simp add: saturate_Fin)
  have ramp: "ramp_in (Fin (max 0 (min (t / d) 1))) = Fin k" by (simp add: ramp_in_Fin k_def ramp_share_def)
  let ?mid = "ramp_in_position_joint r out robot (Fin (max 0 (min (t / d) 1)))"
  have res: "res = ramp_in_velocity_joint r ?mid robot (Fin T) (Fin (max 0 (min (t / d) 1)))"
    unfolding res_def SoftRamp_evaluate_joint_def Let_def assms(5,6) sat by simp
  have mid: "joint_shape n ?mid" using assms(1) by (rule joint_shape_ramp_in_position)
  have p: "jvalues (jg_position_of ?mid) ! i = Fin (sp + k * (gp - sp))"
    using ramp_in_position_values [OF assms(1-4)] by (simp add: ramp assms(8,9))
  show "jvalues (jg_position_of res) ! i = Fin (sp + k * (gp - sp) + T * (sv + k * (gv - sv)))"
    "jvalues (jg_velocity_of res) ! i = Fin (sv + k * (gv - sv))"
    unfolding res using ramp_in_velocity_values [OF mid assms(2,3,4)] by (simp_all add: ramp p assms(10,11))
qed

text \<open>
  C21: A soft ramp to a static position goal, per joint and in closed form: with the share \<open>k\<close>, which goes from
  0 at the start to 1 at the end of the ramp, the position output is the point on the way from the start to the
  goal position plus the sample time multiplied by the blend of the start and goal velocities, and the
  velocity output is that blend. So the goal is reached exactly if the goal velocity is zero; otherwise the output
  stays off by one sample time of motion, because the case \<open>RampInPosition\<close> falls through into \<open>RampInVelocity\<close>,
  which also discards the derivative of the position ramp.
\<close>

theorem static_position_ramp:
  fixes T t :: real
  assumes "joint_shape n out" "joint_shape n (ramp_joint_goal robot (ramp_start r))"
    "joint_shape n (ramp_joint_goal robot (ramp_goal r))" "i < n"
    and "ramp_operation r = OpRampInPosition" "ramp_duration r = Fin d" "0 < d"
    and "jvalues (jg_position_of (ramp_joint_goal robot (ramp_start r))) ! i = Fin sp"
    "jvalues (jg_position_of (ramp_joint_goal robot (ramp_goal r))) ! i = Fin gp"
    "jvalues (jg_velocity_of (ramp_joint_goal robot (ramp_start r))) ! i = Fin sv"
    "jvalues (jg_velocity_of (ramp_joint_goal robot (ramp_goal r))) ! i = Fin gv"
  defines "res \<equiv> SoftRamp_evaluate_joint r out robot (Fin T) (Fin t)" and "k \<equiv> ramp_share d t"
  shows "jvalues (jg_position_of res) ! i = Fin (sp + k * (gp - sp) + T * (sv + k * (gv - sv)))
    \<and> jvalues (jg_velocity_of res) ! i = Fin (sv + k * (gv - sv))
    \<and> (d \<le> t \<longrightarrow> (jvalues (jg_position_of res) ! i = Fin gp \<longleftrightarrow> T * gv = 0))"
  using position_ramp_values [OF assms(1-11), of T t] ramp_share_ends(2) [OF assms(7), of t] unfolding res_def k_def by auto

theorem static_position_ramp_witness:
  "jvalues (jg_position_of (SoftRamp_evaluate_joint (default_SoftRamp\<lparr>ramp_operation := OpRampInPosition, ramp_duration := Fin 2,
       ramp_start := flat_goal 1 0 (Fin 3), ramp_goal := flat_goal 1 0 (Fin 5)\<rparr>)
     (rg_joints_of (pg_robot_of (flat_goal 1 0 (Fin 3)))) True (Fin 0.004) (Fin 2))) ! 0 = Fin 5"
  using static_position_ramp [of 1 "rg_joints_of (pg_robot_of (flat_goal 1 0 (Fin 3)))" True
      "default_SoftRamp\<lparr>ramp_operation := OpRampInPosition, ramp_duration := Fin 2,
       ramp_start := flat_goal 1 0 (Fin 3), ramp_goal := flat_goal 1 0 (Fin 5)\<rparr>" 0 2 3 5 0 0 "0.004" 2]
  by (simp add: joint_shape_def ramp_joint_goal_def flat_goal_def Let_def ramp_share_ends)

end
