(* ===== verification/EGM_Rest.thy ===== *)
theory EGM_Rest
  imports EGM_Joint_Goals EGM_Soft_Ramp
begin

text \<open>
  Interpolations that end at rest: the ramp down to a stop and the soft ramp to a static position. From the end of
  their durations on they give finite positions and zero velocities, the soft ramp those of its goal, and outside the
  normal state the controller passes them on as they are. Both are used to execute static goals.
\<close>

section \<open>Interpolations that end at rest\<close>

text \<open>Finite positions and zero velocities of all joints.\<close>

definition resting_joints :: "nat \<Rightarrow> JointGoal \<Rightarrow> bool" where
  "resting_joints n g \<longleftrightarrow> joint_shape n g \<and> (\<forall>v \<in> set (jvalues (jg_position_of g)). is_fin v) \<and>
     (\<forall>v \<in> set (jvalues (jg_velocity_of g)). v = Fin 0)"

definition resting :: "nat \<Rightarrow> nat \<Rightarrow> PointGoal \<Rightarrow> bool" where
  "resting nr ne g \<longleftrightarrow> resting_joints nr (goal_robot_joints g) \<and> resting_joints ne (goal_external_joints g)"

lemma resting_shape: "resting nr ne g \<Longrightarrow> goal_shape nr ne g"
  by (simp add: resting_def resting_joints_def goal_shape_def)

lemma resting_fields [simp]:
  "resting nr ne (g\<lparr>pg_reach := r\<rparr>) = resting nr ne g" "resting nr ne (g\<lparr>pg_duration := d\<rparr>) = resting nr ne g"
  by (simp_all add: resting_def)

lemma resting_jointsI:
  assumes "joint_shape n g" "\<And>i. i < n \<Longrightarrow> is_fin (jvalues (jg_position_of g) ! i)"
    "\<And>i. i < n \<Longrightarrow> jvalues (jg_velocity_of g) ! i = Fin 0"
  shows "resting_joints n g"
  using assms by (auto simp: resting_joints_def joint_shape_def in_set_conv_nth)

lemma resting_jointsD:
  assumes "resting_joints n g" "i < n"
  obtains p where "jvalues (jg_position_of g) ! i = Fin p" "jvalues (jg_velocity_of g) ! i = Fin 0"
proof -
  have "is_fin (jvalues (jg_position_of g) ! i)" "jvalues (jg_velocity_of g) ! i = Fin 0"
    using assms by (simp_all add: resting_joints_def joint_shape_def)
  then show thesis using that by (auto simp: is_fin_iff)
qed

text \<open>
  From the time \<open>d\<close> on the interpolation rests in joint positions with the property \<open>P\<close>, whatever was interpolated
  before.
\<close>

definition ends_in :: "nat \<Rightarrow> nat \<Rightarrow> real \<Rightarrow> (double list \<times> double list \<Rightarrow> bool) \<Rightarrow> EGMInterpolator \<Rightarrow> bool" where
  "ends_in nr ne d P ip \<longleftrightarrow>
     (\<forall>bq out T t out'. goal_shape nr ne out \<longrightarrow> d \<le> t \<longrightarrow> EGMInterpolator_evaluate bq ip out (Fin T) (Fin t) = Some out' \<longrightarrow>
        resting nr ne out' \<and> P (goal_positions out'))"

subsection \<open>The ramp down to a stop\<close>

lemma stop_polynomial:
  assumes "sc_do_ramp_down sc" "sc_duration sc = Fin T" "0 < T" "sc_ramp_down_factor sc = Fin 0"
    and "sc_alfa sc = Fin a" "sc_d_alfa sc = Fin da"
  shows "is_fin (calculatePosition (SplinePolynomial_update sc) (Fin t))"
    "calculateVelocity (SplinePolynomial_update sc) (Fin T) = Fin 0"
  using assms by (simp_all add: SplinePolynomial_update_def Let_def saturate_Fin calculate_defs power2_eq_square)

lemma stop_ramp_joints:
  assumes "evaluated off polys (Fin T) n old g" "joint_shape n old" "joint_shape n start" "joint_shape n goal"
    and "\<forall>i < n. polys ! (i + off) = SplinePolynomial_update (joint_conditions sc start goal i)"
    and "sc_do_ramp_down sc" "sc_duration sc = Fin T" "0 < T" "sc_ramp_down_factor sc = Fin 0"
    and "\<forall>v \<in> set (jvalues (jg_position_of start)) \<union> set (jvalues (jg_velocity_of start)). is_fin v"
  shows "resting_joints n g"
proof (rule resting_jointsI)
  show "joint_shape n g" using evaluated_shape [OF assms(1,2)] .
  fix i assume i: "i < n"
  let ?sc = "joint_conditions sc start goal i"
  obtain a da where "sc_alfa ?sc = Fin a" "sc_d_alfa ?sc = Fin da"
    using assms(3,10) i by (force simp: joint_conditions_def joint_shape_def is_fin_iff dest: nth_mem)
  with stop_polynomial [of ?sc T a da] assms(6-9) have
    "is_fin (calculatePosition (SplinePolynomial_update ?sc) (Fin T))" "calculateVelocity (SplinePolynomial_update ?sc) (Fin T) = Fin 0"
    by (simp_all add: joint_conditions_def)
  with assms(1,2,5) i show "is_fin (jvalues (jg_position_of g) ! i)" "jvalues (jg_velocity_of g) ! i = Fin 0"
    by (simp_all add: evaluated_def joint_shape_def)
qed

text \<open>The joint positions and velocities of a goal are finite.\<close>

definition fin_motion :: "PointGoal \<Rightarrow> bool" where
  "fin_motion g \<longleftrightarrow>
     (\<forall>j \<in> {goal_robot_joints g, goal_external_joints g}.
        \<forall>v \<in> set (jvalues (jg_position_of j)) \<union> set (jvalues (jg_velocity_of j)). is_fin v)"

lemma fin_motion_fields [simp]:
  "fin_motion (g\<lparr>pg_reach := r\<rparr>) = fin_motion g" "fin_motion (g\<lparr>pg_duration := d\<rparr>) = fin_motion g"
  by (simp_all add: fin_motion_def)

lemma stop_ramp_ends:
  assumes "goal_shape nr ne start" "goal_shape nr ne goal" "fin_motion start"
    and "length (ip_spline_polynomials ip) = MAX_NUMBER_OF_SPLINES" "nr + ne \<le> MAX_NUMBER_OF_SPLINES"
    and "cond_mode conditions = EGMJoint" "cond_operation conditions = OpRampDown"
    and "cond_duration conditions = Fin 1" "cond_ramp_down_factor conditions = Fin 0"
    and "EGMInterpolator_update start goal conditions ip = Some ip'"
  shows "ends_in nr ne 1 (\<lambda>_. True) ip'"
proof -
  define conds where "conds = conditions\<lparr>cond_duration := fmax LOWEST_SAMPLE_TIME (cond_duration conditions)\<rparr>"
  define sc where "sc = make_SplineConditions conds"
  define ps where "ps = map (\<lambda>i. SplinePolynomial_update (joint_conditions sc (goal_robot_joints start) (goal_robot_joints goal) i)) [0..<nr] @
    map (\<lambda>i. SplinePolynomial_update (joint_conditions sc (goal_external_joints start) (goal_external_joints goal) i)) [0..<ne] @
    drop (nr + ne) (ip_spline_polynomials ip)"
  have op: "cond_operation conditions \<in> {OpNormal, OpRampDown}" using assms(7) by simp
  have ip': "ip' = ip\<lparr>ip_conditions := conds, ip_offset := nr, ip_spline_polynomials := ps\<rparr>"
    using joint_mode_update [OF assms(1,2,4-6) op] assms(10) by (simp add: conds_def ps_def sc_def)
  have c: "cond_duration conds = Fin 1" "cond_mode conds = EGMJoint" "cond_operation conds = OpRampDown"
    and sc: "sc_do_ramp_down sc" "sc_duration sc = Fin 1" "sc_ramp_down_factor sc = Fin 0"
    using assms(6-9) by (simp_all add: conds_def sc_def make_SplineConditions_def LOWEST_SAMPLE_TIME_def)
  have shapes: "joint_shape nr (goal_robot_joints start)" "joint_shape ne (goal_external_joints start)"
    "joint_shape nr (goal_robot_joints goal)" "joint_shape ne (goal_external_joints goal)"
    using assms(1,2) by (simp_all add: goal_shape_def)
  have fin: "\<forall>v \<in> set (jvalues (jg_position_of j)) \<union> set (jvalues (jg_velocity_of j)). is_fin v"
    if "j \<in> {goal_robot_joints start, goal_external_joints start}" for j using assms(3) that by (auto simp: fin_motion_def)
  show ?thesis
    unfolding ends_in_def
  proof (intro allI impI)
    fix bq out T t out'
    assume out: "goal_shape nr ne out" "1 \<le> t" "EGMInterpolator_evaluate bq ip' out (Fin T) (Fin t) = Some out'"
    have sat: "saturate (Fin t) (Fin 0) (cond_duration (ip_conditions ip')) = Fin 1" using out(2) c(1) by (simp add: ip' saturate_Fin)
    have len: "nr + ne \<le> length (ip_spline_polynomials ip')" "ip_offset ip' = nr" "cond_mode (ip_conditions ip') = EGMJoint"
      "cond_operation (ip_conditions ip') \<in> {OpNormal, OpRampDown}"
      using c by (simp_all add: ip' ps_def)
    obtain g where g: "EGMInterpolator_evaluate bq ip' out (Fin T) (Fin t) = Some g"
      "evaluated 0 ps (Fin 1) nr (goal_robot_joints out) (goal_robot_joints g)"
      "evaluated nr ps (Fin 1) ne (goal_external_joints out) (goal_external_joints g)"
      using evaluate_joint_splines [OF out(1) len, of bq "Fin T" "Fin t"] unfolding sat by (auto simp: ip')
    have "joint_shape nr (goal_robot_joints out)" "joint_shape ne (goal_external_joints out)" using out(1) by (simp_all add: goal_shape_def)
    moreover have "\<forall>i < nr. ps ! (i + 0) = SplinePolynomial_update (joint_conditions sc (goal_robot_joints start) (goal_robot_joints goal) i)"
      "\<forall>i < ne. ps ! (i + nr) = SplinePolynomial_update (joint_conditions sc (goal_external_joints start) (goal_external_joints goal) i)"
      by (simp_all add: ps_def nth_append)
    ultimately show "resting nr ne out' \<and> True"
      using stop_ramp_joints [OF g(2) _ shapes(1,3) _ sc(1,2) _ sc(3)] stop_ramp_joints [OF g(3) _ shapes(2,4) _ sc(1,2) _ sc(3)]
        fin g(1) out(3) by (auto simp: resting_def)
  qed
qed

subsection \<open>The soft ramp to a static position\<close>

lemma soft_ramp_joints:
  fixes T t :: real
  assumes "joint_shape n out" "resting_joints n (ramp_joint_goal robot (ramp_start r))"
    "resting_joints n (ramp_joint_goal robot (ramp_goal r))"
    and "ramp_operation r = OpRampInPosition" "ramp_duration r = Fin d" "0 < d" "d \<le> t"
  defines "res \<equiv> SoftRamp_evaluate_joint r out robot (Fin T) (Fin t)"
  shows "resting_joints n res" "jvalues (jg_position_of res) = jvalues (jg_position_of (ramp_joint_goal robot (ramp_goal r)))"
proof -
  let ?s = "ramp_joint_goal robot (ramp_start r)" and ?g = "ramp_joint_goal robot (ramp_goal r)"
  have shapes: "joint_shape n ?s" "joint_shape n ?g" using assms(2,3) by (simp_all add: resting_joints_def)
  have shape: "joint_shape n res" unfolding res_def by (rule joint_shape_SoftRamp_evaluate [OF assms(1)])
  have v: "jvalues (jg_position_of res) ! i = jvalues (jg_position_of ?g) ! i \<and> is_fin (jvalues (jg_position_of res) ! i) \<and>
      jvalues (jg_velocity_of res) ! i = Fin 0" if i: "i < n" for i
  proof -
    obtain sp where s: "jvalues (jg_position_of ?s) ! i = Fin sp" "jvalues (jg_velocity_of ?s) ! i = Fin 0"
      by (rule resting_jointsD [OF assms(2) i])
    obtain gp where g: "jvalues (jg_position_of ?g) ! i = Fin gp" "jvalues (jg_velocity_of ?g) ! i = Fin 0"
      by (rule resting_jointsD [OF assms(3) i])
    from position_ramp_values [OF assms(1) shapes i assms(4-6) s(1) g(1) s(2) g(2), of T t] ramp_share_ends(2) [OF assms(6,7)]
    show ?thesis by (simp add: res_def g(1) del: is_fin_iff)
  qed
  show "resting_joints n res" by (rule resting_jointsI) (use shape v in blast)+
  show "jvalues (jg_position_of res) = jvalues (jg_position_of ?g)"
    using v shape shapes(2) by (intro nth_equalityI) (simp_all add: joint_shape_def)
qed

lemma static_ramp_ends:
  assumes "resting nr ne start" "resting nr ne goal" "0.004 \<le> d"
    and "cond_mode conditions = EGMJoint" "cond_operation conditions = OpRampInPosition" "cond_duration conditions = Fin d"
    and "EGMInterpolator_update start goal conditions ip = Some ip'"
  shows "ends_in nr ne d (\<lambda>ps. ps = goal_positions goal) ip'"
proof -
  let ?r = "SoftRamp_update start goal conditions (ip_soft_ramp ip)"
  have ip': "ip' = ip\<lparr>ip_conditions := conditions, ip_soft_ramp := ?r\<rparr>"
    using assms(3-7) by (auto simp: EGMInterpolator_update_def Let_def LOWEST_SAMPLE_TIME_def)
  have r: "ramp_operation ?r = OpRampInPosition" "ramp_duration ?r = Fin d" "ramp_start ?r = start" "ramp_goal ?r = goal"
    using assms(5,6) by (simp_all add: SoftRamp_update_def Let_def)
  have d: "0 < d" using assms(3) by simp
  show ?thesis
    unfolding ends_in_def
  proof (intro allI impI)
    fix bq out T t out'
    assume out: "goal_shape nr ne out" "d \<le> t" "EGMInterpolator_evaluate bq ip' out (Fin T) (Fin t) = Some out'"
    have sat: "saturate (Fin t) (Fin 0) (Fin d) = Fin d" using out(2) d by (simp add: saturate_Fin)
    have out': "goal_robot_joints out' = SoftRamp_evaluate_joint ?r (goal_robot_joints out) True (Fin T) (Fin d)"
      "goal_external_joints out' = SoftRamp_evaluate_joint ?r (goal_external_joints out) False (Fin T) (Fin d)"
      using out(3) assms(4-6) by (auto simp: EGMInterpolator_evaluate_def Let_def ip' sat)
    show "resting nr ne out' \<and> goal_positions out' = goal_positions goal"
      using soft_ramp_joints [of nr "goal_robot_joints out" True ?r d d T] soft_ramp_joints [of ne "goal_external_joints out" False ?r d d T]
        out(1) assms(1,2) r d
      by (simp add: resting_def goal_shape_def out' ramp_joint_goal_def robot_positions_def external_positions_def)
  qed
qed

text \<open>What a static position goal makes of the positions at which it is set: joints it does not name stay where they are.\<close>

definition overwrite :: "double list \<Rightarrow> double list \<Rightarrow> double list" where
  "overwrite xs ys = take (length ys) xs @ drop (length xs) ys"

lemma overwrite_all [simp]: "length xs = length ys \<Longrightarrow> overwrite xs ys = xs"
  by (simp add: overwrite_def)

definition fin_position_goal :: "StaticPositionGoal \<Rightarrow> bool" where
  "fin_position_goal g \<longleftrightarrow> (\<forall>v \<in> set (jvalues (rpg_joints_of (spg_robot_of g))) \<union> set (jvalues (spg_external_of g)). is_fin v)"

lemma transfer_static_joints:
  "jg_position_of (goal_robot_joints (transfer_StaticPositionGoal g p)) =
     copyPresent_Joints (jg_position_of (goal_robot_joints p)) (rpg_joints_of (spg_robot_of g))"
  "jg_position_of (goal_external_joints (transfer_StaticPositionGoal g p)) =
     copyPresent_Joints (jg_position_of (goal_external_joints p)) (spg_external_of g)"
  "jg_velocity_of (goal_robot_joints (transfer_StaticPositionGoal g p)) = jg_velocity_of (goal_robot_joints p)"
  "jg_velocity_of (goal_external_joints (transfer_StaticPositionGoal g p)) = jg_velocity_of (goal_external_joints p)"
  by (simp_all add: transfer_StaticPositionGoal_def Let_def)

lemma transfer_static_positions:
  "goal_positions (transfer_StaticPositionGoal g p) =
     (overwrite (jvalues (rpg_joints_of (spg_robot_of g))) (robot_positions p), overwrite (jvalues (spg_external_of g)) (external_positions p))"
  by (simp add: robot_positions_def external_positions_def transfer_static_joints overwrite_def)

lemma transfer_static_resting:
  assumes "resting nr ne p" "fin_position_goal g"
  shows "resting nr ne (transfer_StaticPositionGoal g p)"
proof -
  have "goal_shape nr ne (transfer_StaticPositionGoal g p)" using resting_shape [OF assms(1)] by simp
  with assms show ?thesis
    by (auto simp: resting_def resting_joints_def goal_shape_def transfer_static_joints fin_position_goal_def
        dest!: in_set_takeD in_set_dropD)
qed

section \<open>The controller keeps the rest\<close>

text \<open>Outside the normal state the controller does not change the references.\<close>

lemma calculate_Joints_same:
  assumes "\<not> mc_do_velocity_transition mc"
  shows "snd (calculate_Joints mc feedback start st) = snd st"
  unfolding calculate_Joints_def
  by (rule for_range_inv [where P = "\<lambda>x. snd x = snd st"]) (use assms in \<open>auto simp: Let_def\<close>)

lemma calculate_references:
  assumes "calculate outputs ms mc = (out, ms', mc')" "mc_egm_mode mc = EGMJoint" "\<not> mc_is_normal_state mc"
  shows "jg_position_of (goal_robot_joints (ms_interpolation ms')) = jg_position_of (goal_robot_joints (ms_interpolation ms))"
    "jg_position_of (goal_external_joints (ms_interpolation ms')) = jg_position_of (goal_external_joints (ms_interpolation ms))"
    "jg_velocity_of (goal_robot_joints (ms_interpolation ms')) = jg_velocity_of (goal_robot_joints (ms_interpolation ms))"
    "jg_velocity_of (goal_external_joints (ms_interpolation ms')) = jg_velocity_of (goal_external_joints (ms_interpolation ms))"
    "mc_is_normal_state mc' = mc_is_normal_state mc"
proof -
  let ?mc1 = "scaled ms mc"
  have mode: "mc_egm_mode ?mc1 = EGMJoint" using assms(2) by (simp add: scaled_def scale_factors_def)
  have check: "checkForVelocityTransition refs ?mc1 = (refs, ?mc1)" for refs
    using assms(3) by (simp add: checkForVelocityTransition_def Let_def)
  define st where "st = calc_external_velocity ?mc1 (fdb ms) (calc_robot_velocity ?mc1 (fdb ms)
    (calc_external_position ?mc1 (fdb ms) (calc_robot_position ?mc1 (fdb ms)
      (out_robot_mut (rob_cartesian_mut (cs_pose_mut (\<lambda>p. p\<lparr>pose_euler := None\<rparr>))) outputs, ms_interpolation ms))))"
  have "calculate outputs ms mc = (fst st, ms\<lparr>ms_interpolation := snd st\<rparr>, ?mc1)"
    using mode check by (simp add: calculate_def scaled_def [symmetric] Let_def case_prod_beta st_def)
  then have res: "ms_interpolation ms' = snd st" "mc' = ?mc1" using assms(1) by auto
  show "mc_is_normal_state mc' = mc_is_normal_state mc" by (simp add: res)
  show "jg_position_of (goal_robot_joints (ms_interpolation ms')) = jg_position_of (goal_robot_joints (ms_interpolation ms))"
    "jg_position_of (goal_external_joints (ms_interpolation ms')) = jg_position_of (goal_external_joints (ms_interpolation ms))"
    "jg_velocity_of (goal_robot_joints (ms_interpolation ms')) = jg_velocity_of (goal_robot_joints (ms_interpolation ms))"
    "jg_velocity_of (goal_external_joints (ms_interpolation ms')) = jg_velocity_of (goal_external_joints (ms_interpolation ms))"
    by (simp_all add: res st_def calc_joint_defs Let_def case_prod_beta calculate_Joints_same)
qed

lemma calculate_resting:
  assumes "calculate outputs ms mc = (out, ms', mc')" "mc_egm_mode mc = EGMJoint" "\<not> mc_is_normal_state mc"
    and "step_shaped nr ne ms"
  shows "resting nr ne (ms_interpolation ms') = resting nr ne (ms_interpolation ms)"
proof -
  have "goal_shape nr ne (ms_interpolation ms')" "goal_shape nr ne (ms_interpolation ms)"
    using calculate_shaped(1) [OF assms(1), of nr ne] assms(4) by (simp_all add: step_shaped_def)
  with calculate_references [OF assms(1-3)] show ?thesis by (simp add: resting_def resting_joints_def goal_shape_def)
qed

section \<open>One message with such an interpolation\<close>

text \<open>The interpolator follows a joint goal outside the normal state that ends in \<open>P\<close> after the time \<open>d\<close>.\<close>

definition loaded :: "nat \<Rightarrow> nat \<Rightarrow> real \<Rightarrow> (double list \<times> double list \<Rightarrow> bool) \<Rightarrow> TrajectoryMotion \<Rightarrow> bool" where
  "loaded nr ne d P m \<longleftrightarrow> motion_shaped nr ne m \<and> active m \<and> mc_egm_mode (tmo_controller m) = EGMJoint \<and>
     \<not> mc_is_normal_state (tmo_controller m) \<and> ends_in nr ne d P (ms_interpolator (tmo_motion_step m))"

abbreviation interpolated :: "TrajectoryMotion \<Rightarrow> PointGoal" where
  "interpolated m \<equiv> ms_interpolation (tmo_motion_step m)"

lemma produce_loaded:
  assumes "produce_outputs bq outputs m = Some (out, m')" "loaded nr ne d P m" "nr + ne \<le> MAX_NUMBER_OF_SPLINES"
    and "elapsed m = Fin t" "sample_time m = Fin T"
  shows "loaded nr ne d P m'" "elapsed m' = Fin (t + T)"
    "d \<le> t + T \<Longrightarrow> resting nr ne (interpolated m') \<and> P (goal_positions (interpolated m'))"
proof -
  have m: "motion_shaped nr ne m" "active m" "mc_egm_mode (tmo_controller m) = EGMJoint" "\<not> mc_is_normal_state (tmo_controller m)"
    "ends_in nr ne d P (ms_interpolator (tmo_motion_step m))"
    using assms(2) by (simp_all add: loaded_def)
  obtain ms ms' mc' where ms: "evaluateInterpolator bq (tmo_motion_step m) = Some ms" "calculate outputs ms (tmo_controller m) = (out, ms', mc')"
    "m' = m\<lparr>tmo_motion_step := ms', tmo_controller := mc'\<rparr>"
    by (rule produce_outputs_active [OF assms(1) m(2)])
  have shaped: "step_shaped nr ne ms"
    using evaluateInterpolator_shaped [of nr ne "tmo_motion_step m" bq] m(1,2) assms(3) ms(1) by (auto simp: motion_shaped_def)
  have ip: "ms_interpolator ms' = ms_interpolator (tmo_motion_step m)"
    using calculate_shaped(2) [OF ms(2)] ms(1) by (auto simp: evaluateInterpolator_def Let_def Option.bind_eq_Some_conv)
  have "motion_shaped nr ne m'" using produce_outputs_shaped [OF m(1) assms(3), of bq outputs] assms(1) by auto
  moreover have "mc_egm_mode mc' = EGMJoint" "\<not> mc_is_normal_state mc'"
    using calculate_mode [OF ms(2)] calculate_references(5) [OF ms(2) m(3,4)] m(3,4) by simp_all
  ultimately show "loaded nr ne d P m'" using m(2,5) ip by (simp add: loaded_def ms(3))
  show "elapsed m' = Fin (t + T)" using produce_outputs_time(2) [OF assms(1) m(2)] assms(4,5) by simp
  assume d: "d \<le> t + T"
  have "goal_shape nr ne (interpolated m)" using m(1) by (simp add: motion_shaped_def step_shaped_def)
  moreover have "EGMInterpolator_evaluate bq (ms_interpolator (tmo_motion_step m)) (interpolated m) (Fin T) (Fin (t + T)) =
      Some (ms_interpolation ms)"
    using ms(1) assms(4,5) by (auto simp: evaluateInterpolator_def Let_def Option.bind_eq_Some_conv)
  ultimately have "resting nr ne (ms_interpolation ms) \<and> P (goal_positions (ms_interpolation ms))"
    using m(5) d unfolding ends_in_def by blast
  with calculate_resting [OF ms(2) m(3,4) shaped] calculate_references(1,2) [OF ms(2) m(3,4)]
  show "resting nr ne (interpolated m') \<and> P (goal_positions (interpolated m'))"
    by (simp add: ms(3) robot_positions_def external_positions_def)
qed

text \<open>The parts of the processing of a message.\<close>

lemma message_parts:
  assumes "generateOutputs bq ic out m = Some (o', m')" "regular nr ne (Message ic out)" "motion_shaped nr ne m"
    "nr + ne \<le> MAX_NUMBER_OF_SPLINES"
  obtains p m4 where "install_goal (process_state (received ic m)) = Some p" "motion_shaped nr ne p"
    "step_shaped nr ne (tmo_motion_step (process_state (received ic m)))"
    "produce_outputs bq out p = Some (o', m4)" "m' = update_progress o' ic m4" "same_plan p m'" "motion_shaped nr ne m'"
proof -
  have ic: "statesOk ic" "fits nr ne ic" using assms(2) by simp_all
  obtain p m4 where p: "install_goal (process_state (received ic m)) = Some p" "produce_outputs bq out p = Some (o', m4)"
    "m' = update_progress o' ic m4"
    using assms(1) ic(1) by (auto simp: generateOutputs_def Let_def Option.bind_eq_Some_conv)
  have "motion_ready nr ne (prepare ic m)"
    using prepare_ready [OF ic(2)] motion_shaped_splines [OF assms(3)] assms(3) unfolding splines_ok_def by blast
  then have r: "motion_ready nr ne (process_state (received ic m))" by (intro process_state_ready) (simp add: motion_ready_def)
  have "motion_shaped nr ne p" using install_goal_shaped [OF r assms(4)] p(1) by auto
  moreover have "step_shaped nr ne (tmo_motion_step (process_state (received ic m)))" using r by (simp add: motion_ready_def)
  moreover have "same_plan p m'" using generateOutputs_time(1) [OF assms(1) ic(1) p(1)] .
  moreover have "motion_shaped nr ne m'"
    using generateOutputs_shaped [OF ic(2) assms(4), of m bq out] motion_shaped_splines [OF assms(3)] assms(1,3) by (auto simp: splines_ok_def)
  ultimately show thesis using p that by blast
qed

lemma received_step:
  assumes "\<not> ic_first_message ic" "statesOk ic" "state_of m \<noteq> (StNormal, SubNone)"
  shows "tmo_motion_step (received ic m) = (tmo_motion_step m)\<lparr>ms_data := (ms_data (tmo_motion_step m))
      \<lparr>pd_estimated_sample_time := ic_estimated_sample_time ic, pd_feedback := in_feedback_of (ic_current ic)\<rparr>\<rparr>"
    "tmo_controller (received ic m) = tmo_controller m"
  using assms by (simp_all add: prepare_def Let_def verifyState_state)

lemma update_progress_frame [simp]:
  "tmo_controller (update_progress out ic m) = tmo_controller m" "active (update_progress out ic m) = active m"
  by (simp_all add: update_progress_def Let_def)

lemma loaded_progress [simp]: "loaded nr ne d P (update_progress out ic m) = loaded nr ne d P m"
  by (simp add: loaded_def)

lemma message_loaded:
  assumes "produce_outputs bq out p = Some (o', m4)" "m' = update_progress o' ic m4" "loaded nr ne d P p" "nr + ne \<le> MAX_NUMBER_OF_SPLINES"
    and "elapsed p = Fin t" "sample_time p = Fin T"
  shows "loaded nr ne d P m'" "elapsed m' = Fin (t + T)" "duration m' = duration p" "pd_mode (ms_data (tmo_motion_step m')) = pd_mode (ms_data (tmo_motion_step p))"
    "d \<le> t + T \<Longrightarrow> resting nr ne (interpolated m') \<and> P (goal_positions (interpolated m'))"
proof -
  have "pd_mode (ms_data (tmo_motion_step m4)) = pd_mode (ms_data (tmo_motion_step p))"
    using assms(1) calculate_external(2)
    by (auto simp: produce_outputs_def evaluateInterpolator_def Let_def Option.bind_eq_Some_conv case_prod_beta split: if_splits)
  with produce_loaded [OF assms(1,3-6)] produce_outputs_time(1) [OF assms(1)] show
    "loaded nr ne d P m'" "elapsed m' = Fin (t + T)" "duration m' = duration p" "pd_mode (ms_data (tmo_motion_step m')) = pd_mode (ms_data (tmo_motion_step p))"
    "d \<le> t + T \<Longrightarrow> resting nr ne (interpolated m') \<and> P (goal_positions (interpolated m'))"
    by (simp_all add: assms(2))
qed

text \<open>Without a goal a message changes neither the interpolation nor the controller.\<close>

lemma produce_nothing: "produce_outputs bq out p = Some (o', m4) \<Longrightarrow> \<not> active p \<Longrightarrow> m4 = p \<and> o' = out"
  by (auto simp: produce_outputs_def)

end
