(* ===== verification/EGM_Static_Goal.thy ===== *)
theory EGM_Static_Goal
  imports EGM_Rest
begin

text \<open>
  Static position goals from the order to the outputs: after \<open>startStaticGoal\<close> the motion is ramped down to rest and
  the execution waits for goals; a goal that is set is taken over by the next message, or after another ramp down if no
  fast transition was asked for, and its positions are the outputs as soon as the duration of the transition has
  passed, and from then on. A fast goal that is set too soon after a slow one ends the static goal execution.
\<close>

section \<open>On the way to a static goal\<close>

text \<open>The events for the static goal that was set, with its fast transition flag, if one was.\<close>

fun goal_events :: "(StaticPositionGoal \<times> bool) option \<Rightarrow> PendingEvents \<Rightarrow> bool" where
  "goal_events None e \<longleftrightarrow> \<not> pe_do_static_position_goal_update e \<and> \<not> pe_do_static_velocity_goal_update e \<and> \<not> pe_do_static_goal_finish e"
| "goal_events (Some (g, fast)) e \<longleftrightarrow> pe_do_static_position_goal_update e \<and> pe_static_position_goal e = g \<and>
     pe_do_static_goal_fast_update e = fast \<and> \<not> pe_do_static_velocity_goal_update e \<and> \<not> pe_do_static_goal_finish e"

definition to_static :: "(StaticPositionGoal \<times> bool) option \<Rightarrow> PendingEvents \<Rightarrow> bool" where
  "to_static og e \<longleftrightarrow> pe_do_stop e \<and> pe_do_resume e \<and> pe_do_static_goal_start e \<and> goal_events og e"

text \<open>Calls other than those that set or finish a static goal.\<close>

fun hands_off :: "motion_call \<Rightarrow> bool" where
  "hands_off (Order (SetStaticPosition g f)) \<longleftrightarrow> False"
| "hands_off (Order (SetStaticVelocity g f)) \<longleftrightarrow> False"
| "hands_off (Order (FinishStaticGoal r)) \<longleftrightarrow> False"
| "hands_off _ \<longleftrightarrow> True"

text \<open>The motion can be ramped down in joint mode.\<close>

definition movable :: "nat \<Rightarrow> nat \<Rightarrow> TrajectoryMotion \<Rightarrow> bool" where
  "movable nr ne m \<longleftrightarrow> pd_mode (ms_data (tmo_motion_step m)) = EGMJoint \<and> fin_motion (interpolated m) \<and>
     (active m \<longrightarrow> (\<exists>f d t. on_goal nr ne f d m \<and> elapsed m = Fin t \<and> 0 \<le> t))"

text \<open>The execution is at rest in the static goal state, or enters it with the next message.\<close>

definition ready :: "nat \<Rightarrow> nat \<Rightarrow> (StaticPositionGoal \<times> bool) option \<Rightarrow> TrajectoryMotion \<Rightarrow> bool" where
  "ready nr ne og m \<longleftrightarrow> state_of (entered m) = (StStaticGoal, SubRunning) \<and> fst (state_of m) = StStaticGoal \<and>
     \<not> pe_do_ramp_down (events m) \<and> pe_do_static_goal_start (events m) \<and> goal_events og (events m) \<and> \<not> active m \<and>
     pd_mode (ms_data (tmo_motion_step m)) = EGMJoint \<and> resting nr ne (interpolated m)"

text \<open>At most \<open>k\<close> messages are left until then.\<close>

inductive start_left :: "nat \<Rightarrow> nat \<Rightarrow> (StaticPositionGoal \<times> bool) option \<Rightarrow> nat \<Rightarrow> TrajectoryMotion \<Rightarrow> bool" for nr ne og where
  start_ordered: "state_of m \<in> {(StNormal, SubRunning), (StStaticGoal, SubRunning)} \<Longrightarrow> \<not> has_pending m \<Longrightarrow>
    pe_do_ramp_down (events m) \<Longrightarrow> to_static og (events m) \<Longrightarrow> movable nr ne m \<Longrightarrow> 254 \<le> k \<Longrightarrow> start_left nr ne og k m"
| start_entering: "state_of m \<in> {(StNormal, SubRunning), (StStaticGoal, SubRunning)} \<Longrightarrow> has_pending m \<Longrightarrow>
    pending_of m = (StRampDown, SubNone) \<Longrightarrow> to_static og (events m) \<Longrightarrow> movable nr ne m \<Longrightarrow> 253 \<le> k \<Longrightarrow> start_left nr ne og k m"
| start_ramping: "state_of (entered m) = (StRampDown, SubRunning) \<Longrightarrow> fst (state_of m) = StRampDown \<Longrightarrow> to_static og (events m) \<Longrightarrow>
    loaded nr ne 1 (\<lambda>_. True) m \<Longrightarrow> pd_mode (ms_data (tmo_motion_step m)) = EGMJoint \<Longrightarrow> duration m = Fin 1 \<Longrightarrow> elapsed m = Fin t \<Longrightarrow>
    1 < t + 0.004 * real n + 0.002 \<Longrightarrow> n + 3 \<le> k \<Longrightarrow> start_left nr ne og k m"
| start_ramped: "state_of m = (StRampDown, SubRunning) \<Longrightarrow> has_pending m \<Longrightarrow> pending_of m = (StRampDown, SubFinished) \<Longrightarrow>
    to_static og (events m) \<Longrightarrow> loaded nr ne 1 (\<lambda>_. True) m \<Longrightarrow> pd_mode (ms_data (tmo_motion_step m)) = EGMJoint \<Longrightarrow>
    elapsed m = Fin t \<Longrightarrow> 1 \<le> t \<Longrightarrow> 2 \<le> k \<Longrightarrow> start_left nr ne og k m"
| start_leaving: "state_of m = (StRampDown, SubFinished) \<Longrightarrow> has_pending m \<Longrightarrow> pending_of m = (StStaticGoal, SubNone) \<Longrightarrow>
    \<not> pe_do_ramp_down (events m) \<Longrightarrow> pe_do_static_goal_start (events m) \<Longrightarrow> goal_events og (events m) \<Longrightarrow>
    pd_mode (ms_data (tmo_motion_step m)) = EGMJoint \<Longrightarrow> resting nr ne (interpolated m) \<Longrightarrow> 1 \<le> k \<Longrightarrow> start_left nr ne og k m"

lemma start_left_0: "\<not> start_left nr ne og 0 m"
  by (auto elim: start_left.cases)

subsection \<open>Calls between the messages\<close>

lemma give_goal_events:
  assumes "hands_off (Order x)"
  shows "goal_events og (events (snd (give x m))) = goal_events og (events m)"
  using assms by (cases og; cases x; auto simp: order_defs Let_def)

lemma give_to_static:
  assumes "hands_off (Order x)" "to_static og (events m)"
  shows "to_static og (events (snd (give x m)))"
proof -
  have "pe_do_stop (events (snd (give x m))) \<and> pe_do_resume (events (snd (give x m))) \<and> pe_do_static_goal_start (events (snd (give x m)))"
    using assms by (cases x) (auto simp: order_defs Let_def to_static_def)
  with give_goal_events [OF assms(1)] assms(2) show ?thesis by (simp add: to_static_def del: give.simps)
qed

lemma give_start_flag: "pe_do_static_goal_start (events m) \<Longrightarrow> pe_do_static_goal_start (events (snd (give x m)))"
  by (cases x) (simp_all add: order_defs Let_def)

lemma give_no_ramp:
  "state_of m \<noteq> (StNormal, SubRunning) \<Longrightarrow> hands_off (Order x) \<Longrightarrow>
     pe_do_ramp_down (events (snd (give x m))) = pe_do_ramp_down (events m)"
  by (cases x) (simp_all add: order_defs Let_def verifyState_state)

lemma give_keeps_ramp:
  "hands_off (Order x) \<Longrightarrow> pe_do_ramp_down (events m) \<Longrightarrow> pe_do_ramp_down (events (snd (give x m)))"
  by (cases x) (simp_all add: order_defs Let_def)

text \<open>What calls between the messages keep.\<close>

definition same_motion :: "TrajectoryMotion \<Rightarrow> TrajectoryMotion \<Rightarrow> bool" where
  "same_motion m m' \<longleftrightarrow> tmo_state_manager m' = tmo_state_manager m \<and> active m' = active m \<and> tmo_controller m' = tmo_controller m \<and>
     (\<exists>c. tmo_motion_step m' = (tmo_motion_step m)\<lparr>ms_configurations := c\<rparr>)"

lemma configurations_same: "ms\<lparr>ms_configurations := ms_configurations ms\<rparr> = ms"
  by simp

lemma call_same_motion:
  assumes "call bq c m = Some m'" "\<not> is_message c"
  shows "same_motion m m'"
proof (cases c)
  case (Order x)
  with assms(1) have "m' = snd (give x m)" by simp
  then show ?thesis
    unfolding same_motion_def
    by (intro conjI exI [of _ "ms_configurations (tmo_motion_step m)"]) (simp_all add: give_frame del: give.simps)
qed (use assms in \<open>auto simp: same_motion_def updateConfigurations_def updateConfigurations_step_def\<close>)

lemma call_events:
  assumes "call bq c m = Some m'" "\<not> is_message c" "hands_off c"
  shows "goal_events og (events m') = goal_events og (events m)" "to_static og (events m) \<Longrightarrow> to_static og (events m')"
    "pe_do_static_goal_start (events m) \<Longrightarrow> pe_do_static_goal_start (events m')"
    "state_of m \<noteq> (StNormal, SubRunning) \<Longrightarrow> pe_do_ramp_down (events m') = pe_do_ramp_down (events m)"
    "pe_do_ramp_down (events m) \<Longrightarrow> pe_do_ramp_down (events m')"
  using assms give_goal_events [of _ og m] give_to_static [of _ og m] give_start_flag [of m] give_no_ramp [of m] give_keeps_ramp [of _ m]
  by (cases c; auto simp: updateConfigurations_def simp del: give.simps goal_events.simps)+

lemma same_motion_simps:
  assumes "same_motion m m'"
  shows "tmo_state_manager m' = tmo_state_manager m" "active m' = active m" "elapsed m' = elapsed m" "duration m' = duration m"
    "interpolated m' = interpolated m" "pd_mode (ms_data (tmo_motion_step m')) = pd_mode (ms_data (tmo_motion_step m))"
    "loaded nr ne d P m' = loaded nr ne d P m" "movable nr ne m' = movable nr ne m"
proof -
  obtain c where c: "tmo_motion_step m' = (tmo_motion_step m)\<lparr>ms_configurations := c\<rparr>" using assms by (auto simp: same_motion_def)
  show "tmo_state_manager m' = tmo_state_manager m" "active m' = active m" "elapsed m' = elapsed m" "duration m' = duration m"
    "interpolated m' = interpolated m" "pd_mode (ms_data (tmo_motion_step m')) = pd_mode (ms_data (tmo_motion_step m))"
    "loaded nr ne d P m' = loaded nr ne d P m" "movable nr ne m' = movable nr ne m"
    using assms
    by (simp_all add: same_motion_def c loaded_def motion_shaped_def step_shaped_def movable_def on_goal_def fin_step_def aimed_def Let_def)
qed

lemma start_left_other:
  assumes "start_left nr ne og k m" "\<not> is_message c" "hands_off c" "call bq c m = Some m'"
  shows "start_left nr ne og k m'"
proof -
  note s = same_motion_simps [OF call_same_motion [OF assms(4,2)]] and e = call_events [OF assms(4,2,3)]
  show ?thesis
    using assms(1)
  proof cases
    case start_ordered
    with s e show ?thesis by (intro start_left.start_ordered) simp_all
  next
    case start_entering
    with s e show ?thesis by (intro start_left.start_entering) simp_all
  next
    case (start_ramping t n)
    with s e show ?thesis by (intro start_left.start_ramping [of m' og nr ne t n]) simp_all
  next
    case (start_ramped t)
    with s e show ?thesis by (intro start_left.start_ramped [of m' og nr ne t]) simp_all
  next
    case start_leaving
    with s e(1,3,4) show ?thesis by (intro start_left.start_leaving) simp_all
  qed
qed

lemma ready_other:
  assumes "ready nr ne og m" "\<not> is_message c" "hands_off c" "call bq c m = Some m'"
  shows "ready nr ne og m'"
proof -
  note s = same_motion_simps [OF call_same_motion [OF assms(4,2)]] and e = call_events [OF assms(4,2,3)]
  have "state_of m \<noteq> (StNormal, SubRunning)" using assms(1) by (auto simp: ready_def)
  with assms(1) s e(1,3,4) show ?thesis by (simp add: ready_def)
qed

subsection \<open>The messages of the ramp down\<close>

text \<open>One message before the goal of the interpolator changes keeps the motion finite.\<close>

lemma movable_message:
  assumes "movable nr ne m" "\<not> ic_first_message ic" "statesOk ic" "state_of m \<noteq> (StNormal, SubNone)"
    and "tmo_motion_step p = tmo_motion_step (received ic m)" "tmo_controller p = tmo_controller m" "active p = active m"
    and "produce_outputs bq out p = Some (o', m4)" "motion_shaped nr ne p" "nr + ne \<le> MAX_NUMBER_OF_SPLINES"
    and "ic_estimated_sample_time ic = Fin T" "0 < T" "active m4 = active p"
  shows "movable nr ne (update_progress o' ic m4)"
proof (cases "active m")
  case False
  then have "m4 = p" using produce_nothing [OF assms(8)] assms(7) by simp
  with assms(1,5,7) False show ?thesis by (simp add: movable_def received_step [OF assms(2-4)])
next
  case True
  then obtain f d t where g: "on_goal nr ne f d m" "elapsed m = Fin t" "0 \<le> t" using assms(1) by (auto simp: movable_def)
  have "on_goal nr ne f d p" using g(1) by (simp add: on_goal_def fin_step_def aimed_def Let_def assms(5,6) received_step [OF assms(2-4)])
  moreover have "elapsed p = Fin t" "sample_time p = Fin T" using g(2) assms(11) by (simp_all add: assms(5) received_step [OF assms(2-4)])
  ultimately have "on_goal nr ne f d m4" "elapsed m4 = Fin (t + T)"
    using produce_outputs_on_goal [OF _ assms(9,10) _ _ g(3) _ assms(12,8)] True assms(7) by blast+
  moreover from this(1) have "pd_mode (ms_data (tmo_motion_step m4)) = EGMJoint" "fin_motion (interpolated m4)"
    by (auto simp: on_goal_def fin_step_def fin_goal_def fin_joint_goal_def fin_motion_def Let_def)
  ultimately show ?thesis using g(3) assms(12)
    by (auto simp: movable_def on_goal_def fin_step_def aimed_def Let_def intro!: exI [of _ f] exI [of _ d])
qed

lemma process_static_interrupted:
  assumes "state_of r = (StStaticGoal, SubRunning)" "pe_do_ramp_down (events r)" "\<not> pe_do_static_goal_finish (events r)"
  shows "process_state r = set_pending StRampDown SubNone r"
  using assms by (simp add: process_state_def processStaticGoalState_def sm_state_def static_update_def Let_def)

lemma goal_events_finish: "goal_events og e \<Longrightarrow> \<not> pe_do_static_goal_finish e"
  by (cases og rule: option.exhaust) auto

lemma start_ordered_step:
  assumes "state_of m \<in> {(StNormal, SubRunning), (StStaticGoal, SubRunning)}" "\<not> has_pending m" "pe_do_ramp_down (events m)"
    and "to_static og (events m)" "movable nr ne m" "253 \<le> k"
    and "motion_shaped nr ne m" "nr + ne \<le> MAX_NUMBER_OF_SPLINES" "regular nr ne (Message ic out)" "generateOutputs bq ic out m = Some (o', m')"
  shows "start_left nr ne og k m'"
proof -
  have ic: "\<not> ic_first_message ic" "statesOk ic" using assms(9) by simp_all
  obtain T where T: "ic_estimated_sample_time ic = Fin T" "0.004 \<le> T" using assms(9) by auto
  have n: "state_of m \<noteq> (StNormal, SubNone)" using assms(1) by auto
  define r where "r = received ic m"
  note rs = received_simps [OF ic n, folded r_def]
  have sm: "tmo_state_manager r = tmo_state_manager m" using assms(2) rs(1) by (simp add: updateState_def)
  have "\<not> pe_do_static_goal_finish (events r)" using assms(4) goal_events_finish rs(3) by (auto simp: to_static_def)
  then have pr: "process_state r = set_pending StRampDown SubNone r"
    using assms(1,3) process_interrupted [of r] process_static_interrupted [of r] by (auto simp only: sm rs(3) insert_iff empty_iff)
  obtain p m4 where p: "install_goal (process_state r) = Some p" "motion_shaped nr ne p" "produce_outputs bq out p = Some (o', m4)"
    "m' = update_progress o' ic m4" "same_plan p m'"
    unfolding r_def by (rule message_parts [OF assms(10,9,7,8)])
  have "p = set_pending StRampDown SubNone r" using p(1) install_old_goal [of "process_state r"] rs(5) by (simp add: pr)
  then have pd: "tmo_motion_step p = tmo_motion_step r" "tmo_controller p = tmo_controller m" "active p = active m" "events p = events m"
    "tmo_state_manager p = setPendingState StRampDown SubNone (tmo_state_manager m)"
    using rs(3,4) received_step(2) [OF ic n] sm by (simp_all add: r_def)
  have "active m4 = active p" using produce_outputs_plan [OF p(3)] by (simp add: same_plan_def)
  then have "movable nr ne m'"
    using movable_message [OF assms(5) ic n pd(1) [unfolded r_def] pd(2,3) p(3,2) assms(8) T(1)] T(2) by (simp add: p(4))
  moreover have "tmo_state_manager m' = setPendingState StRampDown SubNone (tmo_state_manager m)" "events m' = events m"
    using p(5) pd(4,5) by (simp_all add: same_plan_def)
  ultimately show ?thesis using assms(1,4,6)
    by (intro start_left.start_entering) (auto simp: setPendingState_def accepted_def sm_state_def)
qed

lemma ramp_start_step:
  assumes "state_of r = (StRampDown, SubNone)" "pe_do_stop (events r)"
  shows "\<exists>ext. tmo_motion_step (process_state r) = (prepareRampDownGoal True (tmo_motion_step r))\<lparr>ms_external_goal := ext\<rparr>"
proof -
  have "\<exists>ext. tmo_motion_step (storeNormalGoal x) = (tmo_motion_step x)\<lparr>ms_external_goal := ext\<rparr>" for x
    by (cases "p_current x") (auto simp: storeNormalGoal_def Let_def intro: exI [of _ "ms_external_goal (tmo_motion_step x)"])
  from this [of "r\<lparr>tmo_motion_step := prepareRampDownGoal True (tmo_motion_step r)\<rparr>"]
  show ?thesis using assms
    by (auto simp: process_state_def sm_state_def processRampDownState_def Let_def intro: exI [of _ "ms_external_goal (tmo_motion_step r)"])
qed

text \<open>A joint goal that is installed outside the normal state is followed, with the interpolator that was updated for it.\<close>

lemma install_loaded:
  assumes "install_goal q = Some p" "dd_has_new_goal (tmo_data q)" "active q" "sm_current_state (tmo_state_manager q) \<noteq> StNormal"
    and "pd_mode (ms_data (tmo_motion_step q)) = EGMJoint" "motion_shaped nr ne p"
    and "\<And>a b ip. EGMInterpolator_update ((interpolated q)\<lparr>pg_reach := a, pg_duration := b\<rparr>) (ms_internal_goal (tmo_motion_step q))
      (ms_interpolator_conditions (tmo_motion_step q)) (ms_interpolator (tmo_motion_step q)) = Some ip \<Longrightarrow> ends_in nr ne d P ip"
  shows "loaded nr ne d P p" "pd_mode (ms_data (tmo_motion_step p)) = EGMJoint"
proof -
  let ?ms = "tmo_motion_step q"
  let ?i = "(ms_interpolation ?ms)\<lparr>pg_reach := Some (pg_reach_of (ms_internal_goal ?ms)), pg_duration := Some (cond_duration (ms_interpolator_conditions ?ms))\<rparr>"
  obtain ip where ip: "EGMInterpolator_update ?i (ms_internal_goal ?ms) (ms_interpolator_conditions ?ms) (ms_interpolator ?ms) = Some ip"
    "tmo_motion_step p = ?ms\<lparr>ms_data := (ms_data ?ms)\<lparr>pd_time_passed := Fin 0\<rparr>, ms_interpolation := ?i, ms_interpolator := ip\<rparr>"
    "tmo_controller p = controller_update (sm_current_state (tmo_state_manager q)) (tmo_motion_step p) (tmo_configurations q) (tmo_controller q)"
    "active p"
    using assms(1-3) by (auto simp: install_goal_def updateInterpolator_def Let_def Option.bind_eq_Some_conv)
  from assms(7) [OF ip(1)] assms(4-6) ip(4) show "loaded nr ne d P p" by (simp add: loaded_def ip(2,3) controller_update_def)
  show "pd_mode (ms_data (tmo_motion_step p)) = EGMJoint" using assms(5) by (simp add: ip(2))
qed

lemma start_entering_step:
  assumes "state_of m \<in> {(StNormal, SubRunning), (StStaticGoal, SubRunning)}" "has_pending m" "pending_of m = (StRampDown, SubNone)"
    and "to_static og (events m)" "movable nr ne m" "252 \<le> k"
    and "motion_shaped nr ne m" "nr + ne \<le> MAX_NUMBER_OF_SPLINES" "regular nr ne (Message ic out)" "generateOutputs bq ic out m = Some (o', m')"
  shows "start_left nr ne og k m'"
proof -
  have ic: "\<not> ic_first_message ic" "statesOk ic" using assms(9) by simp_all
  obtain T where T: "ic_estimated_sample_time ic = Fin T" "0.004 \<le> T" using assms(9) by auto
  have n: "state_of m \<noteq> (StNormal, SubNone)" using assms(1) by auto
  define r where "r = received ic m"
  note rs = received_simps [OF ic n, folded r_def] and rm = received_step [OF ic n, folded r_def]
  have st: "state_of r = (StRampDown, SubNone)" using assms(2,3) unfolding rs(1) by (simp add: updateState_def sm_state_def)
  have stop: "pe_do_stop (events r)" using assms(4) rs(3) by (simp add: to_static_def)
  note start = ramp_start [OF st]
  obtain ext where ext: "tmo_motion_step (process_state r) = (prepareRampDownGoal True (tmo_motion_step r))\<lparr>ms_external_goal := ext\<rparr>"
    using ramp_start_step [OF st stop] by blast
  let ?ms = "tmo_motion_step (process_state r)"
  obtain p m4 where p: "install_goal (process_state r) = Some p" "motion_shaped nr ne p" "step_shaped nr ne ?ms"
    "produce_outputs bq out p = Some (o', m4)" "m' = update_progress o' ic m4" "same_plan p m'"
    unfolding r_def by (rule message_parts [OF assms(10,9,7,8)])
  have mv: "pd_mode (ms_data (tmo_motion_step m)) = EGMJoint" "fin_motion (interpolated m)" using assms(5) by (simp_all add: movable_def)
  have c: "cond_mode (ms_interpolator_conditions ?ms) = EGMJoint" "cond_operation (ms_interpolator_conditions ?ms) = OpRampDown"
    "cond_duration (ms_interpolator_conditions ?ms) = Fin 1" "cond_ramp_down_factor (ms_interpolator_conditions ?ms) = Fin 0"
    "ms_interpolation ?ms = interpolated m" "pd_mode (ms_data ?ms) = EGMJoint"
    using mv(1) by (simp_all add: ext prepareRampDownGoal_def Let_def RAMP_DOWN_STOP_DURATION_def rm(1))
  have sh: "goal_shape nr ne (interpolated (process_state r))" "goal_shape nr ne (ms_internal_goal ?ms)"
    "length (ip_spline_polynomials (ms_interpolator ?ms)) = MAX_NUMBER_OF_SPLINES"
    using p(3) by (simp_all add: step_shaped_def)
  have cur: "sm_current_state (tmo_state_manager (process_state r)) \<noteq> StNormal"
    "tmo_state_manager (process_state r) = setPendingState StRampDown SubRunning (tmo_state_manager r)"
    using start(3) st by (simp_all add: sm_state_def setPendingState_def)
  have i: "goal_shape nr ne ((interpolated (process_state r))\<lparr>pg_reach := a, pg_duration := b\<rparr>)"
    "fin_motion ((interpolated (process_state r))\<lparr>pg_reach := a, pg_duration := b\<rparr>)" for a b using sh(1) mv(2) c(5) by simp_all
  note loaded = install_loaded [OF p(1) start(1,2) cur(1) c(6) p(2) stop_ramp_ends [OF i(1) sh(2) i(2) sh(3) assms(8) c(1-4)]]
  note new = install_new_goal [OF p(1) start(1) p(3) assms(8)]
  have time: "elapsed p = Fin 0" "sample_time p = Fin T" "duration p = Fin 1"
    using new start(4) rs(8) T(1) c(3) by (simp_all add: LOWEST_SAMPLE_TIME_def)
  note ml = message_loaded [OF p(4,5) loaded(1) assms(8) time(1,2)]
  have "events m' = events m"
    using p(6) install_goal_plan [OF p(1)] st rs(3)
    by (simp add: same_plan_def process_state_def sm_state_def processRampDownState_def storeNormalGoal_def Let_def split: option.split)
  moreover have "tmo_state_manager m' = setPendingState StRampDown SubRunning (tmo_state_manager r)"
    using p(6) install_goal_plan [OF p(1)] cur(2) by (simp add: same_plan_def)
  ultimately show ?thesis
    using ml(1-4) time(3) loaded(2) assms(4,6) T(2) st
    by (intro start_left.start_ramping [of m' og nr ne T 249]) (simp_all add: setPendingState_def accepted_def sm_state_def updateState_def)
qed

text \<open>A state that processing a message gives when it changes neither the interpolation nor the controller.\<close>

lemma loaded_received:
  assumes "loaded nr ne d P m" "\<not> ic_first_message ic" "statesOk ic" "state_of m \<noteq> (StNormal, SubNone)"
    and "\<exists>f. tmo_motion_step p = (tmo_motion_step (received ic m))\<lparr>ms_data := (ms_data (tmo_motion_step (received ic m)))\<lparr>pd_duration_factor := f\<rparr>\<rparr>"
    and "tmo_controller p = tmo_controller m" "active p" "motion_shaped nr ne p"
  shows "loaded nr ne d P p" "elapsed p = elapsed m" "sample_time p = ic_estimated_sample_time ic" "duration p = duration m"
    "pd_mode (ms_data (tmo_motion_step p)) = pd_mode (ms_data (tmo_motion_step m))"
  using assms(1,5-8) received_step [OF assms(2-4)] by (auto simp: loaded_def)

lemma start_ramping_step:
  assumes "state_of (entered m) = (StRampDown, SubRunning)" "fst (state_of m) = StRampDown" "to_static og (events m)"
    and "loaded nr ne 1 (\<lambda>_. True) m" "pd_mode (ms_data (tmo_motion_step m)) = EGMJoint" "duration m = Fin 1" "elapsed m = Fin t"
    and "1 < t + 0.004 * real n + 0.002" "n + 2 \<le> k"
    and "nr + ne \<le> MAX_NUMBER_OF_SPLINES" "regular nr ne (Message ic out)" "generateOutputs bq ic out m = Some (o', m')"
  shows "start_left nr ne og k m'"
proof -
  have ic: "\<not> ic_first_message ic" "statesOk ic" using assms(11) by simp_all
  obtain T where T: "ic_estimated_sample_time ic = Fin T" "0.004 \<le> T" using assms(11) by auto
  have ne: "state_of m \<noteq> (StNormal, SubNone)" using assms(2) by auto
  have sh: "motion_shaped nr ne m" "active m" using assms(4) by (simp_all add: loaded_def)
  define r where "r = received ic m"
  note rs = received_simps [OF ic ne, folded r_def]
  have st: "state_of r = (StRampDown, SubRunning)" "\<not> has_pending r" using assms(1) rs(1) by simp_all
  obtain p m4 where p: "install_goal (process_state r) = Some p" "motion_shaped nr ne p" "produce_outputs bq out p = Some (o', m4)"
    "m' = update_progress o' ic m4" "same_plan p m'"
    unfolding r_def by (rule message_parts [OF assms(12,11) sh(1) assms(10)])
  have p': "p = (if interpolationDurationReached (tmo_motion_step r) then set_pending StRampDown SubFinished r else r)"
    using p(1) install_old_goal [of "process_state r"] rs(5) by (simp add: process_ramp [OF st(1)] split: if_splits)
  have same: "\<exists>f. tmo_motion_step p = (tmo_motion_step r)\<lparr>ms_data := (ms_data (tmo_motion_step r))\<lparr>pd_duration_factor := f\<rparr>\<rparr>"
    "tmo_controller p = tmo_controller m" "active p" "events p = events m"
    using rs(3,4) sh(2) received_step(2) [OF ic ne]
    by (auto simp: p' r_def intro!: exI [of _ "pd_duration_factor (ms_data (tmo_motion_step (received ic m)))"])
  note lp = loaded_received [OF assms(4) ic ne same(1) [unfolded r_def] same(2,3) p(2)]
  have e: "elapsed p = Fin t" "sample_time p = Fin T" using lp(2,3) assms(7) T(1) by simp_all
  note ml = message_loaded [OF p(3,4) lp(1) assms(10) e]
  have m': "tmo_state_manager m' = tmo_state_manager p" "events m' = events m" using p(5) same(4) by (simp_all add: same_plan_def)
  show ?thesis
  proof (cases "interpolationDurationReached (tmo_motion_step r)")
    case True
    then have "1 \<le> t + T" using assms(6,7) rs(6,7) T(2) by (simp add: interpolationDurationReached_def LOWEST_SAMPLE_TIME_def)
    with True m' ml lp(5) st assms(3,5,9) show ?thesis
      by (intro start_left.start_ramped [of m' og nr ne "t + T"]) (simp_all add: p' setPendingState_def accepted_def sm_state_def)
  next
    case False
    then have "0.002 \<le> 1 - t"
      using assms(6,7) rs(6,7) by (simp add: interpolationDurationReached_def LOWEST_SAMPLE_TIME_def)
    with assms(8) obtain n' where n: "n = Suc n'" by (cases n) auto
    have up: "updateState (tmo_state_manager r) = tmo_state_manager r" using st(2) by (simp add: updateState_def)
    have sm': "tmo_state_manager m' = tmo_state_manager r" using False m'(1) by (simp add: p')
    have "state_of (entered m') = (StRampDown, SubRunning)" "fst (state_of m') = StRampDown" using sm' st(1) up by simp_all
    moreover have "1 < (t + T) + 0.004 * real n' + 0.002" "n' + 3 \<le> k" using assms(8,9) T(2) n by (auto simp: add_divide_distrib)
    moreover have "duration m' = Fin 1" "pd_mode (ms_data (tmo_motion_step m')) = EGMJoint" "to_static og (events m')"
      using ml(3,4) lp(4,5) assms(3,5,6) m'(2) by simp_all
    ultimately show ?thesis using start_left.start_ramping [of m' og nr ne "t + T" n'] ml(1,2) by blast
  qed
qed

lemma ramped_to_static:
  assumes "to_static og (events r)"
  defines "p \<equiv> ramped_decision (ramped_events r)"
  shows "tmo_state_manager p = setPendingState StStaticGoal SubNone (tmo_state_manager r)" "active p = active r"
    "dd_has_new_goal (tmo_data p) = dd_has_new_goal (tmo_data r)" "tmo_controller p = tmo_controller r"
    "\<exists>f. tmo_motion_step p = (tmo_motion_step r)\<lparr>ms_data := (ms_data (tmo_motion_step r))\<lparr>pd_duration_factor := f\<rparr>\<rparr>"
    "\<not> pe_do_ramp_down (events p)" "pe_do_static_goal_start (events p)" "goal_events og (events p)"
proof -
  have e: "pe_do_stop (events (ramped_events r))" "pe_do_resume (events (ramped_events r))" "pe_do_static_goal_start (events (ramped_events r))"
    "goal_events og (events (ramped_events r))"
    using assms(1) by (cases og; auto simp: ramped_events_def Let_def to_static_def)+
  have p: "p = set_pending StStaticGoal SubNone
      (ev_mut (\<lambda>e. e\<lparr>pe_do_ramp_down := False, pe_do_stop := False, pe_do_resume := False\<rparr>) (ramped_events r))"
    using e by (simp add: p_def ramped_decision_def Let_def)
  show "goal_events og (events p)" using e(4) by (cases og) (auto simp: p)
  show "\<exists>f. tmo_motion_step p = (tmo_motion_step r)\<lparr>ms_data := (ms_data (tmo_motion_step r))\<lparr>pd_duration_factor := f\<rparr>\<rparr>"
    by (auto simp: p ramped_events_def Let_def intro: exI [of _ "pd_duration_factor (ms_data (tmo_motion_step r))"])
  show "tmo_state_manager p = setPendingState StStaticGoal SubNone (tmo_state_manager r)" "active p = active r"
    "dd_has_new_goal (tmo_data p) = dd_has_new_goal (tmo_data r)" "tmo_controller p = tmo_controller r"
    "\<not> pe_do_ramp_down (events p)" "pe_do_static_goal_start (events p)"
    using e(3) by (simp_all add: p ramped_events_def Let_def)
qed

lemma start_ramped_step:
  assumes "state_of m = (StRampDown, SubRunning)" "has_pending m" "pending_of m = (StRampDown, SubFinished)" "to_static og (events m)"
    and "loaded nr ne 1 (\<lambda>_. True) m" "pd_mode (ms_data (tmo_motion_step m)) = EGMJoint" "elapsed m = Fin t" "1 \<le> t" "1 \<le> k"
    and "nr + ne \<le> MAX_NUMBER_OF_SPLINES" "regular nr ne (Message ic out)" "generateOutputs bq ic out m = Some (o', m')"
  shows "start_left nr ne og k m'"
proof -
  have ic: "\<not> ic_first_message ic" "statesOk ic" using assms(11) by simp_all
  obtain T where T: "ic_estimated_sample_time ic = Fin T" "0.004 \<le> T" using assms(11) by auto
  have ne: "state_of m \<noteq> (StNormal, SubNone)" using assms(1) by auto
  have sh: "motion_shaped nr ne m" "active m" using assms(5) by (simp_all add: loaded_def)
  define r where "r = received ic m"
  note rs = received_simps [OF ic ne, folded r_def]
  have st: "state_of r = (StRampDown, SubFinished)" using assms(2,3) rs(1) by (simp add: updateState_def sm_state_def)
  have "to_static og (events r)" using assms(4) rs(3) by simp
  note rd = ramped_to_static [OF this]
  obtain p m4 where p: "install_goal (process_state r) = Some p" "motion_shaped nr ne p" "produce_outputs bq out p = Some (o', m4)"
    "m' = update_progress o' ic m4" "same_plan p m'"
    unfolding r_def by (rule message_parts [OF assms(12,11) sh(1) assms(10)])
  have "process_state r = ramped_decision (ramped_events r)" using st by (simp add: process_state_of(2) processRampDownState_ramped)
  then have p': "p = ramped_decision (ramped_events r)" using p(1) install_old_goal [of "process_state r"] rs(5) rd(3) by simp
  have same: "tmo_controller p = tmo_controller m" "active p" using rd(2,4) rs(4) sh(2) received_step(2) [OF ic ne] by (simp_all add: p' r_def)
  note lp = loaded_received [OF assms(5) ic ne rd(5) [folded p', unfolded r_def] same p(2)]
  have e: "elapsed p = Fin t" "sample_time p = Fin T" using lp(2,3) assms(7) T(1) by simp_all
  note ml = message_loaded [OF p(3,4) lp(1) assms(10) e]
  have "tmo_state_manager m' = setPendingState StStaticGoal SubNone (tmo_state_manager r)" "events m' = events p"
    using p(5) rd(1) by (simp_all add: same_plan_def p')
  with rd(6-8) st ml(4,5) lp(5) assms(6,8,9) T(2) show ?thesis
    by (intro start_left.start_leaving) (simp_all add: p' setPendingState_def accepted_def sm_state_def)
qed

lemma enter_static:
  assumes "state_of r = (StStaticGoal, SubNone)"
  shows "tmo_state_manager (process_state r) = setPendingState StStaticGoal SubRunning (tmo_state_manager r)" "\<not> active (process_state r)"
    "dd_has_new_goal (tmo_data (process_state r)) = dd_has_new_goal (tmo_data r)" "tmo_motion_step (process_state r) = tmo_motion_step r"
    "events (process_state r) = events r"
  using assms by (simp_all add: process_state_def sm_state_def processStaticGoalState_def Let_def split: option.split)

lemma start_leaving_step:
  assumes "state_of m = (StRampDown, SubFinished)" "has_pending m" "pending_of m = (StStaticGoal, SubNone)" "\<not> pe_do_ramp_down (events m)"
    and "pe_do_static_goal_start (events m)" "goal_events og (events m)" "pd_mode (ms_data (tmo_motion_step m)) = EGMJoint"
    and "resting nr ne (interpolated m)" "motion_shaped nr ne m"
    and "nr + ne \<le> MAX_NUMBER_OF_SPLINES" "regular nr ne (Message ic out)" "generateOutputs bq ic out m = Some (o', m')"
  shows "ready nr ne og m'"
proof -
  have ic: "\<not> ic_first_message ic" "statesOk ic" using assms(11) by simp_all
  have ne: "state_of m \<noteq> (StNormal, SubNone)" using assms(1) by auto
  define r where "r = received ic m"
  note rs = received_simps [OF ic ne, folded r_def] and rm = received_step [OF ic ne, folded r_def]
  have st: "state_of r = (StStaticGoal, SubNone)" using assms(2,3) rs(1) by (simp add: updateState_def sm_state_def)
  note es = enter_static [OF st]
  obtain p m4 where p: "install_goal (process_state r) = Some p" "produce_outputs bq out p = Some (o', m4)"
    "m' = update_progress o' ic m4" "same_plan p m'"
    unfolding r_def by (rule message_parts [OF assms(12,11,9,10)])
  have p': "p = process_state r" using p(1) install_old_goal [of "process_state r"] rs(5) es(3) by simp
  have "m4 = p" using produce_nothing [OF p(2)] es(2) by (simp add: p')
  then have m': "tmo_motion_step m' = tmo_motion_step r" using p(3) es(4) by (simp add: p')
  have "tmo_state_manager m' = setPendingState StStaticGoal SubRunning (tmo_state_manager r)" "events m' = events m" "\<not> active m'"
    using p(4) es rs(3) by (simp_all add: same_plan_def p')
  with assms(4-8) st m' rm show ?thesis
    by (simp add: ready_def setPendingState_def accepted_def sm_state_def updateState_def)
qed

lemma start_left_message:
  assumes "start_left nr ne og (Suc k) m" "motion_shaped nr ne m" "nr + ne \<le> MAX_NUMBER_OF_SPLINES"
    and "regular nr ne (Message ic out)" "generateOutputs bq ic out m = Some (o', m')"
  shows "ready nr ne og m' \<or> start_left nr ne og k m'"
  using assms(1)
proof cases
  case start_ordered
  then show ?thesis using start_ordered_step [of m og nr ne k] assms(2-5) by auto
next
  case start_entering
  then show ?thesis using start_entering_step [of m og nr ne k] assms(2-5) by auto
next
  case (start_ramping t n)
  then show ?thesis using start_ramping_step [of m og nr ne t n k] assms(3-5) by auto
next
  case (start_ramped t)
  then show ?thesis using start_ramped_step [of m og nr ne t k] assms(3-5) by auto
next
  case start_leaving
  then show ?thesis using start_leaving_step [of m og nr ne] assms(2-5) by auto
qed

abbreviation undisturbed :: "nat \<Rightarrow> nat \<Rightarrow> motion_call list \<Rightarrow> bool" where
  "undisturbed nr ne cs \<equiv> list_all (\<lambda>c. regular nr ne c \<and> hands_off c) cs"

interpretation starting: message_progress bq nr ne hands_off "start_left nr ne og" "ready nr ne og" for bq nr ne og
proof
  show "start_left nr ne og k m'"
    if "start_left nr ne og k m" "\<not> is_message c" "hands_off c" "call bq c m = Some m'" for k m c m'
    using that by (rule start_left_other)
qed (rule start_left_0, rule start_left_message)

section \<open>In the static goal state\<close>

text \<open>Nothing happens while no goal is set.\<close>

definition settled :: "nat \<Rightarrow> nat \<Rightarrow> TrajectoryMotion \<Rightarrow> bool" where
  "settled nr ne m \<longleftrightarrow> ready nr ne None m \<and> state_of m = (StStaticGoal, SubRunning) \<and> \<not> has_pending m"

lemma process_static_idle:
  assumes "state_of r = (StStaticGoal, SubRunning)" "\<not> pe_do_ramp_down (events r)" "goal_events None (events r)"
  shows "process_state r = r"
  using assms by (simp add: process_state_def processStaticGoalState_def sm_state_def static_update_def Let_def)

lemma ready_idle_message:
  assumes "ready nr ne None m" "motion_shaped nr ne m" "nr + ne \<le> MAX_NUMBER_OF_SPLINES"
    and "regular nr ne (Message ic out)" "generateOutputs bq ic out m = Some (o', m')"
  shows "settled nr ne m'"
proof -
  have ic: "\<not> ic_first_message ic" "statesOk ic" using assms(4) by simp_all
  have ne: "state_of m \<noteq> (StNormal, SubNone)" using assms(1) by (auto simp: ready_def)
  define r where "r = received ic m"
  note rs = received_simps [OF ic ne, folded r_def] and rm = received_step [OF ic ne, folded r_def]
  have st: "state_of r = (StStaticGoal, SubRunning)" "\<not> has_pending r" using assms(1) rs(1) by (simp_all add: ready_def)
  have pr: "process_state r = r" using process_static_idle [OF st(1)] assms(1) by (simp add: ready_def rs(3))
  obtain p m4 where p: "install_goal (process_state r) = Some p" "produce_outputs bq out p = Some (o', m4)"
    "m' = update_progress o' ic m4" "same_plan p m'"
    unfolding r_def by (rule message_parts [OF assms(5,4,2,3)])
  have p': "p = r" using p(1) install_old_goal [of r] rs(5) by (simp add: pr)
  have "m4 = r" using produce_nothing [OF p(2)] rs(4) assms(1) by (simp add: p' ready_def)
  then have m': "tmo_motion_step m' = tmo_motion_step r" "tmo_state_manager m' = tmo_state_manager r" "active m' = active m" "events m' = events m"
    using p(3,4) rs(3,4) by (simp_all add: same_plan_def p')
  have "updateState (tmo_state_manager r) = tmo_state_manager r" using st(2) by (simp add: updateState_def)
  with assms(1) st m' rm show ?thesis by (simp add: settled_def ready_def)
qed

lemma settled_other:
  "settled nr ne m \<Longrightarrow> \<not> is_message c \<Longrightarrow> hands_off c \<Longrightarrow> call bq c m = Some m' \<Longrightarrow> settled nr ne m'"
  using ready_other [of nr ne None m c bq m'] same_motion_simps(1) [OF call_same_motion, of bq c m m'] by (simp add: settled_def)

lemma idle_run:
  assumes "run bq cs m = Some m'" "undisturbed nr ne cs" "nr + ne \<le> MAX_NUMBER_OF_SPLINES" "motion_shaped nr ne m"
    and "ready nr ne None m" "settled nr ne m \<or> filter is_message cs \<noteq> []"
  shows "settled nr ne m'"
  using assms(1,2,4-6)
proof (induction cs arbitrary: m)
  case (Cons c cs)
  then obtain m1 where m1: "call bq c m = Some m1" "run bq cs m1 = Some m'" by (auto simp: Option.bind_eq_Some_conv)
  have c: "regular nr ne c" "hands_off c" "undisturbed nr ne cs" using Cons.prems(2) by simp_all
  have sh: "motion_shaped nr ne m1" using call_shaped [OF Cons.prems(3) regular_fitting [OF c(1)] assms(3), of bq] m1(1) by auto
  have "ready nr ne None m1 \<and> (settled nr ne m1 \<or> filter is_message cs \<noteq> [])"
  proof (cases "is_message c")
    case True
    then obtain ic out o' where "c = Message ic out" "generateOutputs bq ic out m = Some (o', m1)" using m1(1) by (cases c) auto
    then have "settled nr ne m1" using ready_idle_message [OF Cons.prems(4,3) assms(3)] c(1) by blast
    then show ?thesis by (simp add: settled_def)
  next
    case False
    then show ?thesis using ready_other [OF Cons.prems(4) False c(2) m1(1)] settled_other [OF _ False c(2) m1(1)] Cons.prems(5) by auto
  qed
  with Cons.IH [OF m1(2) c(3) sh] show ?case by blast
qed simp

text \<open>The goal that was set is followed: for at least \<open>s\<close> seconds, to the positions \<open>tgt\<close>, which it is in after \<open>d\<close> seconds.\<close>

definition following :: "nat \<Rightarrow> nat \<Rightarrow> real \<Rightarrow> double list \<times> double list \<Rightarrow> real \<Rightarrow> TrajectoryMotion \<Rightarrow> bool" where
  "following nr ne d tgt s m \<longleftrightarrow> state_of m = (StStaticGoal, SubRunning) \<and> \<not> has_pending m \<and> \<not> pe_do_ramp_down (events m) \<and>
     goal_events None (events m) \<and> loaded nr ne d (\<lambda>ps. ps = tgt) m \<and> (\<exists>t. elapsed m = Fin t \<and> s \<le> t)"

text \<open>A joint position goal for all joints.\<close>

definition goal_target :: "StaticPositionGoal \<Rightarrow> double list \<times> double list" where
  "goal_target g = (jvalues (rpg_joints_of (spg_robot_of g)), jvalues (spg_external_of g))"

definition full_joint_goal :: "nat \<Rightarrow> nat \<Rightarrow> StaticPositionGoal \<Rightarrow> bool" where
  "full_joint_goal nr ne g \<longleftrightarrow> \<not> has (rpg_cartesian (spg_robot_of g)) \<and> fin_position_goal g \<and>
     length (fst (goal_target g)) = nr \<and> length (snd (goal_target g)) = ne"

abbreviation transition :: "bool \<Rightarrow> real" where
  "transition fast \<equiv> (if fast then 0.1 else 5)"

lemma static_takeover:
  assumes "state_of r = (StStaticGoal, SubRunning)" "\<not> pe_do_ramp_down (events r)" "goal_events (Some (g, fast)) (events r)"
    and "\<not> has (rpg_cartesian (spg_robot_of g))"
  defines "q \<equiv> process_state r"
  shows "tmo_state_manager q = tmo_state_manager r" "active q" "dd_has_new_goal (tmo_data q)" "\<not> pe_do_ramp_down (events q)"
    "goal_events None (events q)" "interpolated q = interpolated r" "pd_mode (ms_data (tmo_motion_step q)) = EGMJoint"
    "ms_internal_goal (tmo_motion_step q) = transfer_StaticPositionGoal g (interpolated r)" "sample_time q = sample_time r"
    "cond_mode (ms_interpolator_conditions (tmo_motion_step q)) = EGMJoint"
    "cond_operation (ms_interpolator_conditions (tmo_motion_step q)) = OpRampInPosition"
    "cond_duration (ms_interpolator_conditions (tmo_motion_step q)) = Fin (transition fast)"
  using assms(1-4)
  by (simp_all add: q_def process_state_def processStaticGoalState_def sm_state_def static_update_def Let_def prepareStaticGoal_position_def
      static_duration_def STATIC_GOAL_DURATION_def STATIC_GOAL_DURATION_SHORT_def)

lemma install_static:
  assumes "install_goal q = Some p" "dd_has_new_goal (tmo_data q)" "active q" "sm_current_state (tmo_state_manager q) \<noteq> StNormal"
    and "pd_mode (ms_data (tmo_motion_step q)) = EGMJoint" "resting nr ne (interpolated q)"
    and "resting nr ne (ms_internal_goal (tmo_motion_step q))" "0.004 \<le> d"
    and "cond_mode (ms_interpolator_conditions (tmo_motion_step q)) = EGMJoint"
    and "cond_operation (ms_interpolator_conditions (tmo_motion_step q)) = OpRampInPosition"
    and "cond_duration (ms_interpolator_conditions (tmo_motion_step q)) = Fin d" "motion_shaped nr ne p"
  shows "loaded nr ne d (\<lambda>ps. ps = goal_positions (ms_internal_goal (tmo_motion_step q))) p"
proof -
  have "resting nr ne ((interpolated q)\<lparr>pg_reach := a, pg_duration := b\<rparr>)" for a b using assms(6) by simp
  from install_loaded(1) [OF assms(1-5,12) static_ramp_ends [OF this assms(7-11)]] show ?thesis .
qed

lemma ready_message:
  assumes "ready nr ne (Some (g, fast)) m" "full_joint_goal nr ne g" "motion_shaped nr ne m" "nr + ne \<le> MAX_NUMBER_OF_SPLINES"
    and "regular nr ne (Message ic out)" "generateOutputs bq ic out m = Some (o', m')"
  shows "following nr ne (transition fast) (goal_target g) 0.004 m'"
proof -
  have ic: "\<not> ic_first_message ic" "statesOk ic" using assms(5) by simp_all
  obtain T where T: "ic_estimated_sample_time ic = Fin T" "0.004 \<le> T" using assms(5) by auto
  have n: "state_of m \<noteq> (StNormal, SubNone)" using assms(1) by (auto simp: ready_def)
  define r where "r = received ic m"
  note rs = received_simps [OF ic n, folded r_def] and rm = received_step [OF ic n, folded r_def]
  have st: "state_of r = (StStaticGoal, SubRunning)" "\<not> has_pending r" using assms(1) rs(1) by (simp_all add: ready_def)
  have ev: "\<not> pe_do_ramp_down (events r)" "goal_events (Some (g, fast)) (events r)" "resting nr ne (interpolated r)"
    using assms(1) rs(3) rm(1) by (simp_all add: ready_def)
  have g: "\<not> has (rpg_cartesian (spg_robot_of g))" "fin_position_goal g" using assms(2) by (simp_all add: full_joint_goal_def)
  note to = static_takeover [OF st(1) ev(1,2) g(1)]
  obtain p m4 where p: "install_goal (process_state r) = Some p" "motion_shaped nr ne p" "step_shaped nr ne (tmo_motion_step (process_state r))"
    "produce_outputs bq out p = Some (o', m4)" "m' = update_progress o' ic m4" "same_plan p m'"
    unfolding r_def by (rule message_parts [OF assms(6,5,3,4)])
  have pos: "goal_positions (ms_internal_goal (tmo_motion_step (process_state r))) = goal_target g"
    using resting_shape [OF ev(3)] assms(2) unfolding to(8) transfer_static_positions
    by (simp add: full_joint_goal_def goal_target_def goal_shape_def joint_shape_def robot_positions_def external_positions_def)
  have "resting nr ne (ms_internal_goal (tmo_motion_step (process_state r)))" "resting nr ne (interpolated (process_state r))"
    unfolding to(6,8) using transfer_static_resting [OF ev(3) g(2)] ev(3) by simp_all
  then have l: "loaded nr ne (transition fast) (\<lambda>ps. ps = goal_target g) p"
    using install_static [OF p(1) to(3,2) _ to(7) _ _ _ to(10,11,12) p(2)] st(1) to(1) by (simp add: pos sm_state_def)
  have "elapsed p = Fin 0" "sample_time p = Fin T"
    using install_new_goal(1,2) [OF p(1) to(3) p(3) assms(4)] to(9) rs(8) T(1) by simp_all
  note ml = message_loaded [OF p(4,5) l assms(4) this]
  have "tmo_state_manager m' = tmo_state_manager r" "events m' = events (process_state r)"
    using p(6) install_goal_plan [OF p(1)] to(1) by (simp_all add: same_plan_def)
  with ml(1,2) st to(4,5) T(2) show ?thesis by (simp add: following_def)
qed

lemma following_message:
  assumes "following nr ne d tgt s m" "nr + ne \<le> MAX_NUMBER_OF_SPLINES"
    and "regular nr ne (Message ic out)" "generateOutputs bq ic out m = Some (o', m')"
  shows "following nr ne d tgt (s + 0.004) m'" "d \<le> s + 0.004 \<Longrightarrow> goal_positions (interpolated m') = tgt"
proof -
  have ic: "\<not> ic_first_message ic" "statesOk ic" using assms(3) by simp_all
  obtain T where T: "ic_estimated_sample_time ic = Fin T" "0.004 \<le> T" using assms(3) by auto
  have f: "state_of m = (StStaticGoal, SubRunning)" "\<not> has_pending m" "\<not> pe_do_ramp_down (events m)" "goal_events None (events m)"
    "loaded nr ne d (\<lambda>ps. ps = tgt) m" "motion_shaped nr ne m" "active m"
    using assms(1) by (simp_all add: following_def loaded_def)
  obtain t where t: "elapsed m = Fin t" "s \<le> t" using assms(1) by (auto simp: following_def)
  have n: "state_of m \<noteq> (StNormal, SubNone)" using f(1) by simp
  define r where "r = received ic m"
  note rs = received_simps [OF ic n, folded r_def] and rm = received_step [OF ic n, folded r_def]
  have sm: "tmo_state_manager r = tmo_state_manager m" using f(2) rs(1) by (simp add: updateState_def)
  have pr: "process_state r = r" using process_static_idle [of r] f(1,3,4) by (simp add: rs(3) sm)
  obtain p m4 where p: "install_goal (process_state r) = Some p" "motion_shaped nr ne p"
    "produce_outputs bq out p = Some (o', m4)" "m' = update_progress o' ic m4" "same_plan p m'"
    unfolding r_def by (rule message_parts [OF assms(4,3) f(6) assms(2)])
  have p': "p = r" using p(1) install_old_goal [of r] rs(5) by (simp add: pr)
  have "\<exists>f. tmo_motion_step p = (tmo_motion_step r)\<lparr>ms_data := (ms_data (tmo_motion_step r))\<lparr>pd_duration_factor := f\<rparr>\<rparr>"
    by (auto simp: p' intro: exI [of _ "pd_duration_factor (ms_data (tmo_motion_step r))"])
  note lp = loaded_received [OF f(5) ic n this [unfolded r_def] _ _ p(2)]
  have "loaded nr ne d (\<lambda>ps. ps = tgt) p" "elapsed p = Fin t" "sample_time p = Fin T"
    using lp rm(2) rs(4) f(7) t(1) T(1) by (simp_all add: p')
  note ml = message_loaded [OF p(3,4) this(1) assms(2) this(2,3)]
  have "tmo_state_manager m' = tmo_state_manager m" "events m' = events m" using p(5) sm rs(3) by (simp_all add: same_plan_def p')
  with f(1-4) ml(1,2) t(2) T(2) show "following nr ne d tgt (s + 0.004) m'" by (simp add: following_def)
  show "goal_positions (interpolated m') = tgt" if "d \<le> s + 0.004" using ml(5) that t(2) T(2) by simp
qed

lemma following_other:
  assumes "following nr ne d tgt s m" "\<not> is_message c" "hands_off c" "call bq c m = Some m'"
  shows "following nr ne d tgt s m'"
  using assms(1) same_motion_simps [OF call_same_motion [OF assms(4,2)]] call_events(1,4) [OF assms(4,2,3)]
  by (simp add: following_def)

text \<open>The goal is set, or it has been followed for \<open>n\<close> messages.\<close>

definition pursuing :: "nat \<Rightarrow> nat \<Rightarrow> StaticPositionGoal \<Rightarrow> bool \<Rightarrow> nat \<Rightarrow> TrajectoryMotion \<Rightarrow> bool" where
  "pursuing nr ne g fast n m \<longleftrightarrow> motion_shaped nr ne m \<and>
     (if n = 0 then ready nr ne (Some (g, fast)) m else following nr ne (transition fast) (goal_target g) (0.004 * real n) m)"

lemma pursuing_message:
  assumes "pursuing nr ne g fast n m" "full_joint_goal nr ne g" "nr + ne \<le> MAX_NUMBER_OF_SPLINES"
    and "regular nr ne (Message ic out)" "generateOutputs bq ic out m = Some (o', m')"
  shows "pursuing nr ne g fast (Suc n) m'" "0 < n \<Longrightarrow> transition fast \<le> 0.004 * real (Suc n) \<Longrightarrow> goal_positions (interpolated m') = goal_target g"
proof -
  have n: "0.004 * real n + 0.004 = (0.004 * real (Suc n) :: real)" by simp
  have "following nr ne (transition fast) (goal_target g) (0.004 * real (Suc n)) m'"
  proof (cases "n = 0")
    case True
    with assms(1) have "ready nr ne (Some (g, fast)) m" "motion_shaped nr ne m" by (simp_all add: pursuing_def)
    from ready_message [OF this(1) assms(2) this(2) assms(3-5)] show ?thesis using True by simp
  next
    case False
    with assms(1) have "following nr ne (transition fast) (goal_target g) (0.004 * real n) m" by (simp add: pursuing_def)
    from following_message(1) [OF this assms(3-5)] show ?thesis unfolding n .
  qed
  then show "pursuing nr ne g fast (Suc n) m'" by (simp add: pursuing_def following_def loaded_def)
  show "goal_positions (interpolated m') = goal_target g" if "0 < n" "transition fast \<le> 0.004 * real (Suc n)"
    using assms(1) that following_message(2) [OF _ assms(3-5), of "transition fast" "goal_target g" "0.004 * real n"]
    by (simp add: pursuing_def algebra_simps)
qed

lemma pursuing_run:
  assumes "pursuing nr ne g fast n m" "undisturbed nr ne cs" "full_joint_goal nr ne g" "nr + ne \<le> MAX_NUMBER_OF_SPLINES"
  shows "\<exists>m'. run bq cs m = Some m' \<and> pursuing nr ne g fast (n + length (filter is_message cs)) m'"
  using assms(1,2)
proof (induction cs arbitrary: m n)
  case (Cons c cs)
  have c: "regular nr ne c" "hands_off c" "undisturbed nr ne cs" and sh: "motion_shaped nr ne m"
    using Cons.prems by (simp_all add: pursuing_def)
  obtain m1 where m1: "call bq c m = Some m1" "motion_shaped nr ne m1" using call_shaped [OF sh regular_fitting [OF c(1)] assms(4), of bq] by blast
  have "pursuing nr ne g fast (if is_message c then Suc n else n) m1"
  proof (cases "is_message c")
    case True
    then obtain ic out o' where "c = Message ic out" "generateOutputs bq ic out m = Some (o', m1)" using m1(1) by (cases c) auto
    then show ?thesis using pursuing_message(1) [OF Cons.prems(1) assms(3,4)] c(1) True by simp
  next
    case False
    note keeps = ready_other [OF _ False c(2) m1(1)] following_other [OF _ False c(2) m1(1)]
    show ?thesis
      using Cons.prems(1) m1(2) keeps False unfolding pursuing_def by (cases "n = 0") (simp_all only: if_True if_False simp_thms)
  qed
  from Cons.IH [OF this c(3)] m1(1) show ?case by (auto split: if_splits)
qed simp

section \<open>From the order to the outputs\<close>

text \<open>Ordering the static goal state, and setting a goal in it.\<close>

lemma start_order:
  assumes "state_of m = (StNormal, SubRunning)" "\<not> has_pending m" "goal_events None (events m)" "movable nr ne m"
  shows "start_left nr ne None 254 (snd (give (StartStaticGoal disc) m))"
proof -
  let ?m = "snd (give (StartStaticGoal disc) m)"
  have "call hamilton (Order (StartStaticGoal disc)) m = Some ?m" by simp
  then have "same_motion m ?m" by (rule call_same_motion) simp
  from same_motion_simps(1,8) [OF this] assms show ?thesis
    by (intro start_left.start_ordered) (simp_all add: startStaticGoal_def verifyState_state to_static_def)
qed

lemma set_fast:
  assumes "settled nr ne m" "motion_shaped nr ne m"
  shows "fst (give (SetStaticPosition g fast) m)"
    "fast \<Longrightarrow> pursuing nr ne g fast 0 (snd (give (SetStaticPosition g fast) m))"
  using assms by (simp_all add: setStaticGoal_position_def verifyState_state settled_def ready_def pursuing_def motion_shaped_def)

lemma set_slow:
  assumes "settled nr ne m" "motion_shaped nr ne m"
  shows "start_left nr ne (Some (g, False)) 254 (snd (give (SetStaticPosition g False) m))"
  using assms
  by (intro start_left.start_ordered)
    (auto simp: setStaticGoal_position_def verifyState_state settled_def ready_def to_static_def movable_def fin_motion_def
      resting_def resting_joints_def)

lemma give_shaped: "motion_shaped nr ne m \<Longrightarrow> motion_shaped nr ne (snd (give x m))"
  by (simp add: motion_shaped_def give_frame del: give.simps)

text \<open>A goal that is set is pursued for at least \<open>n\<close> messages.\<close>

lemma set_goal_run:
  assumes "settled nr ne m" "motion_shaped nr ne m" "full_joint_goal nr ne g" "nr + ne \<le> MAX_NUMBER_OF_SPLINES" "undisturbed nr ne cs"
    and "(if fast then n else 254 + n) \<le> length (filter is_message cs)"
  shows "\<exists>m' k. run bq (Order (SetStaticPosition g fast) # cs) m = Some m' \<and> n \<le> k \<and> pursuing nr ne g fast k m'"
proof (cases fast)
  case True
  obtain m' where "run bq cs (snd (give (SetStaticPosition g True) m)) = Some m'" "pursuing nr ne g True (length (filter is_message cs)) m'"
    using pursuing_run [OF set_fast(2) [OF assms(1,2)] assms(5,3,4)] by auto
  with True assms(6) show ?thesis by (auto simp del: give.simps)
next
  case False
  let ?m = "snd (give (SetStaticPosition g False) m)"
  have "254 \<le> length (filter is_message cs)" using assms(6) False by simp
  then obtain cs1 cs2 m1 where m1: "cs = cs1 @ cs2" "run bq cs1 ?m = Some m1" "ready nr ne (Some (g, False)) m1" "motion_shaped nr ne m1"
    "length (filter is_message cs1) \<le> 254"
    using starting.reaches_goal [OF set_slow [OF assms(1,2)] give_shaped [OF assms(2)] assms(4,5)] by blast
  then have "pursuing nr ne g False 0 m1" "undisturbed nr ne cs2" using assms(5) by (simp_all add: pursuing_def)
  from pursuing_run [OF this assms(3,4)] obtain m' where "run bq cs2 m1 = Some m'" "pursuing nr ne g False (length (filter is_message cs2)) m'"
    by auto
  moreover have "n \<le> length (filter is_message cs2)" using m1(1,5) assms(6) False by simp
  ultimately show ?thesis using m1(1,2) False by (auto simp: run_append simp del: give.simps)
qed

lemma start_run:
  assumes "state_of m = (StNormal, SubRunning)" "\<not> has_pending m" "goal_events None (events m)" "movable nr ne m" "motion_shaped nr ne m"
    and "nr + ne \<le> MAX_NUMBER_OF_SPLINES" "undisturbed nr ne cs" "255 \<le> length (filter is_message cs)"
  shows "\<exists>m'. run bq (Order (StartStaticGoal disc) # cs) m = Some m' \<and> settled nr ne m' \<and> motion_shaped nr ne m'"
proof -
  let ?m = "snd (give (StartStaticGoal disc) m)"
  have "254 \<le> length (filter is_message cs)" using assms(8) by simp
  then obtain cs1 cs2 m1 where m1: "cs = cs1 @ cs2" "run bq cs1 ?m = Some m1" "ready nr ne None m1" "motion_shaped nr ne m1"
    "length (filter is_message cs1) \<le> 254"
    using starting.reaches_goal [OF start_order [OF assms(1-4)] give_shaped [OF assms(5)] assms(6,7)] by blast
  have ok: "undisturbed nr ne cs2" "filter is_message cs2 \<noteq> []" using assms(7,8) m1(1,5) by auto
  then obtain m' where m': "run bq cs2 m1 = Some m'" "motion_shaped nr ne m'"
    using run_shaped [OF m1(4) _ assms(6), of cs2 bq] regular_fitting by (auto simp: list_all_iff)
  with idle_run [OF m'(1) ok(1) assms(6) m1(4,3)] ok(2) m1(1,2) show ?thesis by (auto simp: run_append simp del: give.simps)
qed

text \<open>
  C5: Static position goals are reached. A robot with at most \<open>MAX_NUMBER_OF_SPLINES\<close> joints, at rest or following a
  finite joint goal, is ordered to go to the static goal state; after at least 255 regular messages, during which other calls
  may be made, a finite static joint goal for all joints is accepted. After at least 24 more messages for a fast
  transition, or 1503 otherwise (the ramp down before it takes up to 254), the answer to the next message, and so to every later
  one, gives exactly the joint positions of the goal, whatever positions are measured, as long as these are finite.
\<close>

theorem static_goal_is_reached:
  assumes "reach new_motion (motion_step bq) m" "motion_shaped nr ne m" "nr + ne \<le> MAX_NUMBER_OF_SPLINES"
    and "state_of m = (StNormal, SubRunning)" "\<not> has_pending m" "goal_events None (events m)" "movable nr ne m"
    and "undisturbed nr ne cs1" "255 \<le> length (filter is_message cs1)" "full_joint_goal nr ne g"
    and "undisturbed nr ne cs2" "(if fast then 24 else 1503) \<le> length (filter is_message cs2)"
    and "regular nr ne (Message ic out)" "output_shape nr ne out" "positions_fin nr ne (in_feedback_of (ic_current ic))"
  shows "\<exists>m1 m2 out' m3. run bq (Order (StartStaticGoal disc) # cs1) m = Some m1 \<and> fst (setStaticGoal_position g fast m1) \<and>
    run bq (Order (SetStaticPosition g fast) # cs2) m1 = Some m2 \<and> generateOutputs bq ic out m2 = Some (out', m3) \<and>
    out_positions out' = goal_target g"
proof -
  obtain m1 where m1: "run bq (Order (StartStaticGoal disc) # cs1) m = Some m1" "settled nr ne m1" "motion_shaped nr ne m1"
    using start_run [OF assms(4-7,2,3,8,9)] by blast
  have "(if fast then 24 else 254 + (if fast then 24 else 1249)) \<le> length (filter is_message cs2)" using assms(12) by (cases fast) simp_all
  then obtain m2 n where m2: "run bq (Order (SetStaticPosition g fast) # cs2) m1 = Some m2" "(if fast then 24 else 1249) \<le> n"
    "pursuing nr ne g fast n m2"
    using set_goal_run [OF m1(2,3) assms(10,3,11), of fast "if fast then 24 else 1249" bq] by (auto split: if_splits)
  have sh: "motion_shaped nr ne m2" using m2(3) by (simp add: pursuing_def)
  obtain out' m3 where m3: "generateOutputs bq ic out m2 = Some (out', m3)"
    using call_shaped [OF sh regular_fitting [OF assms(13)] assms(3), of bq] by auto
  note pm = pursuing_message [OF m2(3) assms(10,3,13) m3]
  have k: "mc_k (tmo_controller m2) = Fin 1"
    using gain_sys.reach_inv [OF reach_run [OF m2(1) reach_run [OF m1(1) assms(1)]]] .
  have "following nr ne (transition fast) (goal_target g) (0.004 * real (Suc n)) m3" using pm(1) by (simp add: pursuing_def)
  then have "active m3" "mc_egm_mode (tmo_controller m3) = EGMJoint" by (simp_all add: following_def loaded_def)
  moreover have "fits nr ne ic" "statesOk ic" using assms(13) by simp_all
  ultimately have "out_positions out' = goal_positions (interpolated m3)"
    using outputs_are_references [OF k disjI1 [OF sh] assms(3) _ _ m3 _ _ assms(14)] assms(15) by blast
  also have "\<dots> = goal_target g" using pm(2) m2(2) by (auto split: if_splits)
  finally show ?thesis using m1 m2(1) m3 set_fast(1) [OF m1(2,3)] by auto
qed

lemma first_movable:
  assumes "call bq (Message six_joints default_Output) new_sample = Some m"
  shows "movable 6 0 m"
proof -
  obtain o' where g: "generateOutputs bq six_joints default_Output new_sample = Some (o', m)" using assms by auto
  have ic: "statesOk six_joints" "ic_first_message six_joints" "positions_fin 6 0 (in_feedback_of (ic_current six_joints))"
    by (simp_all add: six_joints_def statesOk_def positions_fin_def values_fin_def)
  from first_step [OF g ic] first_motion(2) [OF g ic(1,2)] show ?thesis
    by (auto simp: movable_def fin_step_def fin_goal_def fin_joint_goal_def fin_motion_def)
qed

lemma next_message_undisturbed: "undisturbed 6 0 (replicate n next_message)"
  by (simp add: list_all_iff) (simp add: next_message_def)

lemma six_splines: "(6 :: nat) + 0 \<le> MAX_NUMBER_OF_SPLINES"
  by (simp add: MAX_NUMBER_OF_SPLINES_def joint_counts)

lemma init_goal_events: "goal_events None init_PendingEvents"
  by (simp add: init_PendingEvents_def)

theorem static_goal_is_reached_witness:
  "\<exists>m g m1 m2 ic out' m3. run hamilton (Order (StartStaticGoal True) # replicate 255 next_message) m = Some m1 \<and>
     run hamilton (Order (SetStaticPosition g False) # replicate 1503 next_message) m1 = Some m2 \<and>
     generateOutputs hamilton ic six_outputs m2 = Some (out', m3) \<and> out_positions out' = (replicate 6 (Fin 5), [])"
proof -
  obtain m where m: "call hamilton (Message six_joints default_Output) new_sample = Some m" "motion_shaped 6 0 m"
    "state_of m = (StNormal, SubRunning)" "\<not> has_pending m" "events m = init_PendingEvents" by (rule first_sample)
  have "reach new_motion (motion_step hamilton) new_sample" by (rule reach_init) blast
  then have reach: "reach new_motion (motion_step hamilton) m" by (rule reach_step) (rule motion_call [OF m(1)])
  define g where "g = default_StaticPositionGoal\<lparr>spg_robot := Some (default_RobotPositionGoal\<lparr>rpg_joints := Some \<lparr>jvalues = replicate 6 (Fin 5)\<rparr>\<rparr>)\<rparr>"
  have g: "full_joint_goal 6 0 g" "goal_target g = (replicate 6 (Fin 5), [])"
    by (simp_all add: g_def full_joint_goal_def goal_target_def fin_position_goal_def)
  let ?ic = "six_joints\<lparr>ic_first_message := False\<rparr>"
  have ic: "regular 6 0 (Message ?ic six_outputs)" "output_shape 6 0 six_outputs" "positions_fin 6 0 (in_feedback_of (ic_current ?ic))"
    using next_message_regular(1) unfolding next_message_def
    by (simp_all add: output_shape_def six_outputs_def) (simp add: six_joints_def positions_fin_def values_fin_def)
  note s = six_splines and u = next_message_undisturbed and e = init_goal_events [folded m(5)]
  have "255 \<le> length (filter is_message (replicate 255 next_message))"
    "(if False then 24 else 1503) \<le> length (filter is_message (replicate 1503 next_message))" by simp_all
  from static_goal_is_reached [OF reach m(2) s m(3,4) e first_movable [OF m(1)] u this(1) g(1) u this(2) ic, of True]
  show ?thesis unfolding g(2) by blast
qed

section \<open>A fast goal that ends the static goal execution\<close>

text \<open>A fast static goal was set in place of another one, of which the ramp down had been scheduled already.\<close>

definition lost :: "StaticPositionGoal \<Rightarrow> PendingEvents \<Rightarrow> bool" where
  "lost g e \<longleftrightarrow> \<not> pe_do_stop e \<and> pe_do_static_position_goal_update e \<and> pe_static_position_goal e = g"

definition lost_left :: "StaticPositionGoal \<Rightarrow> nat \<Rightarrow> TrajectoryMotion \<Rightarrow> bool" where
  "lost_left g k m \<longleftrightarrow> ramp_left k m \<and> fst (state_of m) \<noteq> StNormal \<and> lost g (events m)"

text \<open>The static goal state is left for the normal one, the goal has not been taken over.\<close>

definition static_left :: "StaticPositionGoal \<Rightarrow> TrajectoryMotion \<Rightarrow> bool" where
  "static_left g m \<longleftrightarrow> state_of (entered m) = (StNormal, SubRunning) \<and> lost g (events m)"

lemma give_lost:
  assumes "state_of m \<noteq> (StNormal, SubRunning)" "hands_off (Order x)" "lost g (events m)"
  shows "lost g (events (snd (give x m)))"
  using assms by (cases x) (auto simp: order_defs Let_def verifyState_state lost_def)

lemma lost_left_other:
  assumes "lost_left g k m" "\<not> is_message c" "hands_off c" "call bq c m = Some m'"
  shows "lost_left g k m'"
proof -
  have "state_of m \<noteq> (StNormal, SubRunning)" using assms(1) by (auto simp: lost_left_def)
  then have "lost g (events m')"
    using assms give_lost [of m] by (cases c) (auto simp: lost_left_def updateConfigurations_def simp del: give.simps)
  with assms(1) ramp_left_other [OF _ assms(2,4)] same_motion_simps(1) [OF call_same_motion [OF assms(4,2)]]
  show ?thesis by (simp add: lost_left_def)
qed

lemma ramped_normal:
  assumes "lost g (events r)" "state_of r = (StRampDown, SubFinished)"
  defines "p \<equiv> ramped_decision (ramped_events r)"
  shows "tmo_state_manager p = setPendingState StNormal SubRunning (tmo_state_manager r)" "lost g (events p)"
proof -
  have e: "\<not> pe_do_stop (events (ramped_events r))" "lost g (events (ramped_events r))"
    "tmo_state_manager (ramped_events r) = tmo_state_manager r"
    using assms(1) by (auto simp: ramped_events_def Let_def lost_def)
  then have "p = set_pending StNormal SubRunning (updateNormalGoal (ev_mut (pe_do_ramp_down_update (\<lambda>_. False)) (ramped_events r)))"
    by (simp add: p_def ramped_decision_def)
  with e show "tmo_state_manager p = setPendingState StNormal SubRunning (tmo_state_manager r)" "lost g (events p)"
    by (simp_all add: lost_def)
qed

lemma lost_left_message:
  assumes "lost_left g (Suc k) m" "motion_shaped nr ne m" "nr + ne \<le> MAX_NUMBER_OF_SPLINES"
    and "regular nr ne (Message ic out)" "generateOutputs bq ic out m = Some (o', m')"
  shows "static_left g m' \<or> lost_left g k m'"
proof -
  have ic: "\<not> ic_first_message ic" "statesOk ic" using assms(4) by simp_all
  have l: "ramp_left (Suc k) m" "fst (state_of m) \<noteq> StNormal" "lost g (events m)" using assms(1) by (simp_all add: lost_left_def)
  then have n: "state_of m \<noteq> (StNormal, SubNone)" by auto
  define r where "r = received ic m"
  note rs = received_simps [OF ic n, folded r_def]
  have plan: "same_plan (process_state r) m'" using generateOutputs_plan [OF assms(5)] ic(2) by (simp add: r_def)
  have "state_of r \<in> {(StRampDown, SubNone), (StRampDown, SubRunning), (StRampDown, SubFinished)}"
    using l(1,2) unfolding rs(1) by (cases rule: ramp_left.cases) (auto simp: updateState_def sm_state_def)
  then consider "state_of r \<in> {(StRampDown, SubNone), (StRampDown, SubRunning)}" | "state_of r = (StRampDown, SubFinished)" by blast
  then show ?thesis
  proof cases
    case 1
    note e = ramp_process_events [OF 1]
    have m': "events m' = events m" "state_of m' = state_of r" using plan e rs(3) by (simp_all add: same_plan_def)
    with 1 ramp_left_message [OF l(1) assms(4,5,2,3)] l(3) show ?thesis by (auto simp: lost_left_def)
  next
    case 2
    have "process_state r = ramped_decision (ramped_events r)" using 2 by (simp add: process_state_of(2) processRampDownState_ramped)
    then have "tmo_state_manager m' = setPendingState StNormal SubRunning (tmo_state_manager r)" "lost g (events m')"
      using plan ramped_normal [of g r] 2 l(3) rs(3) by (simp_all add: same_plan_def)
    with 2 show ?thesis by (simp add: static_left_def setPendingState_def accepted_def sm_state_def updateState_def)
  qed
qed

interpretation losing: message_progress bq nr ne hands_off "lost_left g" "static_left g" for bq nr ne g
proof
  show "lost_left g k m'" if "lost_left g k m" "\<not> is_message c" "hands_off c" "call bq c m = Some m'" for k m c m'
    using that by (rule lost_left_other)
qed (simp add: lost_left_def ramp_left_0, rule lost_left_message)

text \<open>
  C36: A fast static goal that is set right after a slow one ends the static goal execution. When the ramp down for a slow goal has been
  scheduled by a message, a fast goal is still accepted, but takes back the stop of the execution. After at most 252 more
  messages the static goal state is left for the normal one, in which trajectories are executed, although the user has
  not finished the static goal execution; the accepted goal has not been taken over and is still waiting.
\<close>

theorem fast_static_goal_lost:
  assumes "motion_shaped nr ne m" "nr + ne \<le> MAX_NUMBER_OF_SPLINES"
    and "state_of m = (StStaticGoal, SubRunning)" "\<not> has_pending m" "\<not> pe_do_static_goal_finish (events m)"
    and "regular nr ne (Message ic out)" "undisturbed nr ne cs" "252 \<le> length (filter is_message cs)"
  shows "\<exists>o' m1 cs1 cs2 m2. generateOutputs bq ic out (snd (setStaticGoal_position slow False m)) = Some (o', m1) \<and>
    fst (setStaticGoal_position g True m1) \<and> cs = cs1 @ cs2 \<and> length (filter is_message cs1) \<le> 252 \<and>
    run bq (Order (SetStaticPosition g True) # cs1) m1 = Some m2 \<and> state_of (entered m2) = (StNormal, SubRunning) \<and>
    pe_do_static_position_goal_update (events m2) \<and> pe_static_position_goal (events m2) = g"
proof -
  let ?m = "snd (setStaticGoal_position slow False m)"
  have ic: "\<not> ic_first_message ic" "statesOk ic" using assms(6) by simp_all
  have e: "state_of ?m = (StStaticGoal, SubRunning)" "\<not> has_pending ?m" "pe_do_ramp_down (events ?m)" "\<not> pe_do_static_goal_finish (events ?m)"
    using assms(3-5) by (simp_all add: setStaticGoal_position_def verifyState_state)
  have sh: "motion_shaped nr ne ?m" using give_shaped [OF assms(1), of "SetStaticPosition slow False"] by simp
  obtain o' m1 where m1: "generateOutputs bq ic out ?m = Some (o', m1)" "motion_shaped nr ne m1"
    using call_shaped [OF sh regular_fitting [OF assms(6)] assms(2), of bq] by auto
  have n: "state_of ?m \<noteq> (StNormal, SubNone)" using e(1) by simp
  note rs = received_simps [OF ic n]
  have sm: "tmo_state_manager (received ic ?m) = tmo_state_manager ?m" using e(2) rs(1) by (simp add: updateState_def)
  have "process_state (received ic ?m) = set_pending StRampDown SubNone (received ic ?m)"
    using e by (intro process_static_interrupted) (simp_all only: sm rs(3) simp_thms)
  then have "tmo_state_manager m1 = setPendingState StRampDown SubNone (tmo_state_manager ?m)"
    using generateOutputs_plan [OF m1(1)] ic(2) sm by (simp add: same_plan_def)
  then have st: "state_of m1 = (StStaticGoal, SubRunning)" "has_pending m1" "pending_of m1 = (StRampDown, SubNone)"
    using e(1) by (simp_all add: setPendingState_def accepted_def sm_state_def)
  let ?m1 = "snd (give (SetStaticPosition g True) m1)"
  have "lost_left g 252 ?m1"
    using st by (auto simp: lost_left_def lost_def setStaticGoal_position_def verifyState_state intro: ramp_left.ramp_entering)
  then obtain cs1 cs2 m2 where cs: "cs = cs1 @ cs2" "run bq cs1 ?m1 = Some m2" "static_left g m2" "length (filter is_message cs1) \<le> 252"
    using losing.reaches_goal [OF _ give_shaped [OF m1(2)] assms(2,7,8)] by blast
  then have "run bq (Order (SetStaticPosition g True) # cs1) m1 = Some m2" by simp
  moreover have "fst (setStaticGoal_position g True m1)" using st(1) by (simp add: setStaticGoal_position_def verifyState_state)
  ultimately show ?thesis using m1(1) cs(1,3,4) unfolding static_left_def lost_def by blast
qed

theorem fast_static_goal_lost_witness:
  "\<exists>m slow g m1 m2 cs. state_of m = (StStaticGoal, SubRunning) \<and> call hamilton next_message (snd (setStaticGoal_position slow False m)) = Some m1 \<and>
     fst (setStaticGoal_position g True m1) \<and> run hamilton (Order (SetStaticPosition g True) # cs) m1 = Some m2 \<and>
     state_of (entered m2) = (StNormal, SubRunning) \<and> pe_do_static_position_goal_update (events m2)"
proof -
  obtain m0 where m0: "call hamilton (Message six_joints default_Output) new_sample = Some m0" "motion_shaped 6 0 m0"
    "state_of m0 = (StNormal, SubRunning)" "\<not> has_pending m0" "events m0 = init_PendingEvents" by (rule first_sample)
  have "255 \<le> length (filter is_message (replicate 255 next_message))" "252 \<le> length (filter is_message (replicate 252 next_message))" by simp_all
  note n = this
  obtain m where m: "settled 6 0 m" "motion_shaped 6 0 m"
    using start_run [OF m0(3,4) init_goal_events [folded m0(5)] first_movable [OF m0(1)] m0(2) six_splines next_message_undisturbed n(1)]
    by blast
  then have st: "state_of m = (StStaticGoal, SubRunning)" "\<not> has_pending m" "\<not> pe_do_static_goal_finish (events m)"
    by (simp_all add: settled_def ready_def)
  from fast_static_goal_lost [OF m(2) six_splines st next_message_regular(1) [unfolded next_message_def] next_message_undisturbed n(2),
      of hamilton default_StaticPositionGoal default_StaticPositionGoal] st(1)
  show ?thesis by (force simp: next_message_def)
qed

end
