(* ===== verification/EGM_Stop.thy ===== *)
theory EGM_Stop
  imports EGM_Static_Goal
begin

text \<open>
  The states of the trajectory execution along a run: trajectories and static goals are separated by a complete ramp down,
  and a motion that is ordered to stop is ramped down and stays stopped until the user resumes it.
\<close>

section \<open>Steps of the state\<close>

text \<open>Calls inside a session: no message starts a new one or reports a robot that is not ready.\<close>

fun in_session :: "motion_call \<Rightarrow> bool" where
  "in_session (Message ic out) \<longleftrightarrow> \<not> ic_first_message ic \<and> statesOk ic"
| "in_session _ \<longleftrightarrow> True"

lemma process_keeps_state: "state_of (process_state m) = state_of m"
  by (simp add: process_state_def processNormalState_def processRampDownState_def processStaticGoalState_def ramped_decision_def
      ramped_events_frame(1) Let_def case_prod_beta split: States.split SubStates.split option.split list.split)

lemma prepared_state:
  assumes "motion_inv m"
  shows "\<not> ic_first_message ic \<Longrightarrow> statesOk ic \<Longrightarrow> state_of m \<noteq> (StNormal, SubNone) \<Longrightarrow> tmo_state_manager (prepare ic m) = tmo_state_manager m"
    "statesOk ic \<Longrightarrow> ic_first_message ic \<or> state_of m = (StNormal, SubNone) \<Longrightarrow>
      state_of (prepare ic m) = (StNormal, SubRunning) \<and> \<not> has_pending (prepare ic m)"
proof -
  have "\<not> has_pending m" if "state_of m = (StNormal, SubNone)" using assms that by (auto simp: motion_inv_def sm_inv_def edge_simps)
  moreover have "state_of (reset_components m') = (StNormal, SubNone) \<and> \<not> has_pending (reset_components m')" for m'
    using reset_components_core by simp
  ultimately show
    "\<not> ic_first_message ic \<Longrightarrow> statesOk ic \<Longrightarrow> state_of m \<noteq> (StNormal, SubNone) \<Longrightarrow> tmo_state_manager (prepare ic m) = tmo_state_manager m"
    "statesOk ic \<Longrightarrow> ic_first_message ic \<or> state_of m = (StNormal, SubNone) \<Longrightarrow>
      state_of (prepare ic m) = (StNormal, SubRunning) \<and> \<not> has_pending (prepare ic m)"
    by (auto simp: prepare_def Let_def verifyState_state activateStateManager_def) (auto simp: sm_state_def)
qed

text \<open>A call keeps the state, takes the pending transition, activates the execution, or resets it.\<close>

lemma call_state:
  assumes "call bq c m = Some m'" "motion_inv m"
  shows "state_of m' = state_of m \<or> edge (state_of m) (state_of m') \<or> state_of m = (StNormal, SubNone) \<and> state_of m' = (StNormal, SubRunning) \<or>
    \<not> in_session c \<and> fst (state_of m') = StNormal"
proof (cases c)
  case (Message ic out)
  then obtain o' where g: "generateOutputs bq ic out m = Some (o', m')" using assms(1) by auto
  have st: "state_of m' = state_of (if statesOk ic then entered (prepare ic m) else prepare ic m)"
    using generateOutputs_plan [OF g] process_keeps_state by (auto simp: same_plan_def)
  consider (off) "\<not> statesOk ic" | (new) "statesOk ic" "ic_first_message ic \<or> state_of m = (StNormal, SubNone)"
    | (on) "statesOk ic" "\<not> ic_first_message ic" "state_of m \<noteq> (StNormal, SubNone)" by blast
  then show ?thesis
  proof cases
    case off
    then show ?thesis using st prepare_inv(3) [OF assms(2)] Message by simp
  next
    case new
    then have "state_of m' = (StNormal, SubRunning)" using st prepared_state(2) [OF assms(2) new] by (simp add: updateState_def)
    with new Message show ?thesis by auto
  next
    case on
    have "state_of m' = sm_state (updateState (tmo_state_manager m))" using st prepared_state(1) [OF assms(2) on(2,1,3)] on(1) by simp
    with assms(2) show ?thesis by (auto simp: motion_inv_def sm_inv_def updateState_def sm_state_def)
  qed
qed (use assms(1) in \<open>auto simp: give_frame updateConfigurations_def simp del: give.simps\<close>)

text \<open>A run that enters a set of states that can be entered from one state only passes through this state.\<close>

lemma run_enters:
  assumes "run bq cs m = Some m'" "motion_inv m" "state_of m \<notin> S" "state_of m' \<in> S"
    and "\<And>c m m'. c \<in> set cs \<Longrightarrow> motion_inv m \<Longrightarrow> call bq c m = Some m' \<Longrightarrow> state_of m \<notin> S \<Longrightarrow> state_of m' \<in> S \<Longrightarrow> state_of m = s"
  obtains cs1 cs2 m1 where "cs = cs1 @ cs2" "run bq cs1 m = Some m1" "state_of m1 = s" "run bq cs2 m1 = Some m'"
  using assms
proof (induction cs arbitrary: m thesis)
  case (Cons c cs)
  from Cons.prems(2) obtain m1 where m1: "call bq c m = Some m1" "run bq cs m1 = Some m'" by (auto simp: Option.bind_eq_Some_conv)
  show ?case
  proof (cases "state_of m1 \<in> S")
    case True
    then have "state_of m = s" using Cons.prems(6) [OF _ Cons.prems(3) m1(1) Cons.prems(4)] by simp
    then show ?thesis using Cons.prems(2) by (intro Cons.prems(1) [of "[]" "c # cs" m]) simp_all
  next
    case False
    have step: "state_of k = s"
      if "c' \<in> set cs" "motion_inv k" "call bq c' k = Some k'" "state_of k \<notin> S" "state_of k' \<in> S" for c' k k'
      using Cons.prems(6) [OF _ that(2-5)] that(1) by simp
    obtain cs1 cs2 m2 where "cs = cs1 @ cs2" "run bq cs1 m1 = Some m2" "state_of m2 = s" "run bq cs2 m2 = Some m'"
      by (rule Cons.IH [OF _ m1(2) call_inv [OF m1(1) Cons.prems(3)] False Cons.prems(5) step])
    then show ?thesis using m1(1) by (intro Cons.prems(1) [of "c # cs1" cs2 m2]) simp_all
  qed
qed simp

section \<open>Between trajectories and static goals\<close>

text \<open>The motion was ramped down during a run: the three phases of the ramp down, in their order.\<close>

definition ramped_down :: "boost_quaternion \<Rightarrow> motion_call list \<Rightarrow> TrajectoryMotion \<Rightarrow> TrajectoryMotion \<Rightarrow> bool" where
  "ramped_down bq cs m m' \<longleftrightarrow> (\<exists>cs1 cs2 cs3 cs4 m1 m2 m3. cs = cs1 @ cs2 @ cs3 @ cs4 \<and>
     run bq cs1 m = Some m1 \<and> state_of m1 = (StRampDown, SubNone) \<and> run bq cs2 m1 = Some m2 \<and> state_of m2 = (StRampDown, SubRunning) \<and>
     run bq cs3 m2 = Some m3 \<and> state_of m3 = (StRampDown, SubFinished) \<and> run bq cs4 m3 = Some m')"

lemma finished_ramped_down:
  assumes "run bq cs m = Some m'" "motion_inv m" "fst (state_of m) \<noteq> StRampDown" "state_of m' = (StRampDown, SubFinished)"
  obtains cs1 cs2 cs3 m1 m2 where "cs = cs1 @ cs2 @ cs3" "run bq cs1 m = Some m1" "state_of m1 = (StRampDown, SubNone)"
    "run bq cs2 m1 = Some m2" "state_of m2 = (StRampDown, SubRunning)" "run bq cs3 m2 = Some m'"
proof -
  have a: "state_of k = (StRampDown, SubRunning)"
    if "motion_inv k" "call bq c k = Some k'" "state_of k \<notin> {(StRampDown, SubFinished)}" "state_of k' \<in> {(StRampDown, SubFinished)}" for c k k'
    using call_state [OF that(2,1)] that(3,4) by (cases "state_of k") (auto simp: edge_simps)
  have b: "state_of k = (StRampDown, SubNone)"
    if "motion_inv k" "call bq c k = Some k'" "state_of k \<notin> {(StRampDown, SubRunning)}" "state_of k' \<in> {(StRampDown, SubRunning)}" for c k k'
    using call_state [OF that(2,1)] that(3,4) by (cases "state_of k") (auto simp: edge_simps)
  have n: "state_of m \<notin> {(StRampDown, SubFinished)}" "state_of m' \<in> {(StRampDown, SubFinished)}" "state_of m \<notin> {(StRampDown, SubRunning)}"
    using assms(3,4) by auto
  obtain ds cs3 m2 where 2: "cs = ds @ cs3" "run bq ds m = Some m2" "state_of m2 = (StRampDown, SubRunning)" "run bq cs3 m2 = Some m'"
    by (rule run_enters [OF assms(1,2) n(1,2)]) (use a in blast)+
  then have "state_of m2 \<in> {(StRampDown, SubRunning)}" by simp
  then obtain cs1 cs2 m1 where "ds = cs1 @ cs2" "run bq cs1 m = Some m1" "state_of m1 = (StRampDown, SubNone)" "run bq cs2 m1 = Some m2"
    by (rule run_enters [OF 2(2) assms(2) n(3)]) (use b in blast)+
  with 2 that show thesis by simp
qed

text \<open>
  C30: Trajectories and static goals are separated by a complete ramp down. Every run from a reachable state in which
  trajectories are executed to one in which static goals are followed passes, in this order, through the start, the running
  and the end of a ramp down; so does every run inside a session from following static goals to the execution of trajectories.
  The header documents the former: trajectory motions are stopped before a static goal is followed.
\<close>

theorem mode_changes_ramp_down:
  assumes "reach new_motion (motion_step bq) m" "run bq cs m = Some m'"
    and "fst (state_of m) = StNormal \<and> fst (state_of m') = StStaticGoal \<or>
      fst (state_of m) = StStaticGoal \<and> fst (state_of m') = StNormal \<and> list_all in_session cs"
  shows "ramped_down bq cs m m'"
proof -
  have inv: "motion_inv m" by (rule motion_sys.reach_inv [OF assms(1)])
  define S :: "(States \<times> SubStates) set" where "S = {s. fst s = fst (state_of m')}"
  have S: "state_of m \<notin> S" "state_of m' \<in> S" using assms(3) by (auto simp: S_def)
  have "state_of k = (StRampDown, SubFinished)"
    if "c \<in> set cs" "motion_inv k" "call bq c k = Some k'" "state_of k \<notin> S" "state_of k' \<in> S" for c k k'
    using call_state [OF that(3,2)] that(1,4,5) assms(3)
    by (cases "state_of k"; cases "state_of k'") (auto simp: S_def edge_simps list_all_iff)
  then obtain ds cs4 m3 where 3: "cs = ds @ cs4" "run bq ds m = Some m3" "state_of m3 = (StRampDown, SubFinished)" "run bq cs4 m3 = Some m'"
    by (rule run_enters [OF assms(2) inv S])
  have "fst (state_of m) \<noteq> StRampDown" using assms(3) by auto
  from finished_ramped_down [OF 3(2) inv this 3(3)] 3 show ?thesis unfolding ramped_down_def by (metis append_assoc)
qed

theorem mode_changes_ramp_down_witness:
  "\<exists>m m'. reach new_motion (motion_step hamilton) m \<and> fst (state_of m) = StNormal \<and> fst (state_of m') = StStaticGoal \<and>
     ramped_down hamilton (Order (StartStaticGoal True) # replicate 255 next_message) m m'"
proof -
  obtain m where m: "call hamilton (Message six_joints default_Output) new_sample = Some m" "motion_shaped 6 0 m"
    "state_of m = (StNormal, SubRunning)" "\<not> has_pending m" "events m = init_PendingEvents" by (rule first_sample)
  have "reach new_motion (motion_step hamilton) new_sample" by (rule reach_init) blast
  then have reach: "reach new_motion (motion_step hamilton) m" by (rule reach_step) (rule motion_call [OF m(1)])
  have "255 \<le> length (filter is_message (replicate 255 next_message))" by simp
  then obtain m' where m': "run hamilton (Order (StartStaticGoal True) # replicate 255 next_message) m = Some m'" "settled 6 0 m'"
    using start_run [OF m(3,4) init_goal_events [folded m(5)] first_movable [OF m(1)] m(2) six_splines next_message_undisturbed] by blast
  then have "fst (state_of m') = StStaticGoal" by (simp add: settled_def ready_def)
  with mode_changes_ramp_down [OF reach m'(1)] reach m(3) show ?thesis by auto
qed

section \<open>Stopping and resuming\<close>

definition stopped :: "TrajectoryMotion \<Rightarrow> bool" where
  "stopped m \<longleftrightarrow> state_of m = (StRampDown, SubFinished) \<and> \<not> has_pending m \<and> pe_do_stop (events m) \<and> \<not> pe_do_resume (events m) \<and>
     \<not> pe_do_static_goal_start (events m)"

lemma ramped_stopped:
  assumes "state_of r = (StRampDown, SubFinished)" "\<not> has_pending r" "pe_do_stop (events r)" "\<not> pe_do_resume (events r)"
    and "\<not> pe_do_static_goal_start (events r)"
  shows "stopped (process_state r)"
proof -
  have "process_state r = ramped_events r"
    using assms(1,3,4) by (simp add: process_state_of(2) processRampDownState_ramped ramped_decision_def ramped_events_flags)
  with assms show ?thesis by (simp add: stopped_def ramped_events_frame(1) ramped_events_flags)
qed

lemma same_plan_stopped: "same_plan m m' \<Longrightarrow> stopped m' = stopped m"
  by (simp add: same_plan_def stopped_def)

lemma stopped_message:
  assumes "stopped m" "in_session (Message ic out)" "generateOutputs bq ic out m = Some (o', m')"
  shows "stopped m'"
proof -
  have ic: "\<not> ic_first_message ic" "statesOk ic" using assms(2) by simp_all
  have n: "state_of m \<noteq> (StNormal, SubNone)" using assms(1) by (auto simp: stopped_def)
  note rs = received_simps [OF ic n]
  have "tmo_state_manager (received ic m) = tmo_state_manager m" using assms(1) rs(1) by (simp add: stopped_def updateState_def)
  then have "stopped (process_state (received ic m))" using assms(1) rs(3) by (intro ramped_stopped) (simp_all add: stopped_def)
  then show ?thesis using same_plan_stopped [OF generateOutputs_plan [OF assms(3)]] ic(2) by simp
qed

text \<open>The orders of the user that are accepted while the motion is stopped: none but the resumption.\<close>

lemma stopped_order:
  assumes "stopped m" "x \<noteq> ResumeTrajectory"
  shows "stopped (snd (give x m)) \<and> (x \<notin> range RetrieveExecutionProgress \<longrightarrow> give x m = (False, m))"
  using assms by (cases x) (auto simp: stopped_def order_defs Let_def verifyState_state)

lemma stopped_call:
  assumes "stopped m" "call bq c m = Some m'" "in_session c" "c \<noteq> Order ResumeTrajectory"
  shows "stopped m'"
  using assms stopped_message [of m] stopped_order [of m]
  by (cases c) (auto simp: updateConfigurations_def stopped_def)

lemma stopped_run:
  assumes "stopped m" "run bq cs m = Some m'" "\<forall>c \<in> set cs. in_session c \<and> c \<noteq> Order ResumeTrajectory"
  shows "stopped m'"
  using assms
proof (induction cs arbitrary: m)
  case (Cons c cs)
  from Cons.prems(2) obtain m1 where "call bq c m = Some m1" "run bq cs m1 = Some m'" by (auto simp: Option.bind_eq_Some_conv)
  then show ?case using Cons.IH [of m1] stopped_call [OF Cons.prems(1)] Cons.prems(3) by auto
qed simp

text \<open>With the resumption the next message leaves the ramped down state for the normal one.\<close>

lemma resumed_message:
  assumes "stopped m" "in_session (Message ic out)" "generateOutputs bq ic out (snd (give ResumeTrajectory m)) = Some (o', m')"
  shows "state_of (entered m') = (StNormal, SubRunning)"
proof -
  let ?m = "snd (give ResumeTrajectory m)"
  have ic: "\<not> ic_first_message ic" "statesOk ic" using assms(2) by simp_all
  have e: "state_of ?m = (StRampDown, SubFinished)" "\<not> has_pending ?m" "pe_do_stop (events ?m)" "pe_do_resume (events ?m)"
    "\<not> pe_do_static_goal_start (events ?m)"
    using assms(1) by (simp_all add: stopped_def resumeTrajectory_def verifyState_state)
  then have n: "state_of ?m \<noteq> (StNormal, SubNone)" by simp
  define r where "r = received ic ?m"
  note rs = received_simps [OF ic n, folded r_def]
  have sm: "tmo_state_manager r = tmo_state_manager ?m" using e(2) rs(1) by (simp add: updateState_def)
  have "process_state r = ramped_decision (ramped_events r)"
    using process_state_of(2) [of r SubFinished] processRampDownState_ramped [of r] e(1) sm by (simp del: give.simps)
  moreover have "tmo_state_manager (ramped_decision (ramped_events r)) = setPendingState StNormal SubRunning (tmo_state_manager r)"
    using e(3-5) rs(3) by (simp add: ramped_decision_def Let_def ramped_events_flags ramped_events_frame(1) del: give.simps)
  ultimately have "tmo_state_manager m' = setPendingState StNormal SubRunning (tmo_state_manager r)"
    using generateOutputs_plan [OF assms(3)] ic(2) by (simp add: same_plan_def r_def del: give.simps)
  with e(1) sm show ?thesis by (simp add: setPendingState_def accepted_def sm_state_def updateState_def del: give.simps)
qed

subsection \<open>The way to the stop\<close>

text \<open>Calls that neither order to resume nor start, set or finish a static goal.\<close>

fun patient :: "motion_call \<Rightarrow> bool" where
  "patient (Order (AddTrajectory t ovr)) \<longleftrightarrow> \<not> ovr"
| "patient (Order (StopTrajectory d)) \<longleftrightarrow> True"
| "patient (Order (UpdateDurationFactor f)) \<longleftrightarrow> True"
| "patient (Order (RetrieveExecutionProgress p)) \<longleftrightarrow> True"
| "patient (Order x) \<longleftrightarrow> False"
| "patient c \<longleftrightarrow> True"

definition stopping :: "PendingEvents \<Rightarrow> bool" where
  "stopping e \<longleftrightarrow> pe_do_stop e \<and> \<not> pe_do_resume e \<and> \<not> pe_do_static_goal_start e"

definition stop_left :: "nat \<Rightarrow> TrajectoryMotion \<Rightarrow> bool" where
  "stop_left k m \<longleftrightarrow> ramp_left k m \<and> stopping (events m)"

lemma stop_left_other:
  assumes "stop_left k m" "\<not> is_message c" "patient c" "call bq c m = Some m'"
  shows "stop_left k m'"
proof -
  have "stopping (events (snd (give x m)))" if "patient (Order x)" for x
    using that assms(1) by (cases x) (auto simp: order_defs Let_def stopping_def stop_left_def)
  then have "stopping (events m')"
    using assms by (cases c) (auto simp: stop_left_def updateConfigurations_def simp del: give.simps)
  with assms(1) ramp_left_other [OF _ assms(2,4)] show ?thesis by (simp add: stop_left_def)
qed

lemma stop_left_message:
  assumes "stop_left (Suc k) m" "motion_shaped nr ne m" "nr + ne \<le> MAX_NUMBER_OF_SPLINES"
    and "regular nr ne (Message ic out)" "generateOutputs bq ic out m = Some (o', m')"
  shows "stopped m' \<or> stop_left k m'"
proof -
  have l: "ramp_left (Suc k) m" "stopping (events m)" using assms(1) by (simp_all add: stop_left_def)
  have ic: "\<not> ic_first_message ic" "statesOk ic" using assms(4) by simp_all
  have n: "state_of m \<noteq> (StNormal, SubNone)" using l(1) by (cases rule: ramp_left.cases) auto
  define r where "r = received ic m"
  note rs = received_simps [OF ic n, folded r_def]
  have plan: "same_plan (process_state r) m'" using generateOutputs_plan [OF assms(5)] ic(2) by (simp add: r_def)
  consider (ramped) "state_of r = (StRampDown, SubFinished)" | (ramp) "events (process_state r) = events r" "state_of r \<noteq> (StRampDown, SubFinished)"
  proof -
    have "state_of r = (StNormal, SubRunning) \<and> pe_do_ramp_down (events r) \<or>
        state_of r \<in> {(StRampDown, SubNone), (StRampDown, SubRunning), (StRampDown, SubFinished)}"
      using l(1) unfolding rs(1,3) by (cases rule: ramp_left.cases) (auto simp: updateState_def sm_state_def)
    then show thesis using that process_interrupted [of r] ramp_process_events(1) [of r] by auto
  qed
  then show ?thesis
  proof cases
    case ramped
    have "stopped (process_state r)"
      using ramped l(2) rs(1,3) by (intro ramped_stopped) (simp_all add: stopping_def)
    then show ?thesis using same_plan_stopped [OF plan] by simp
  next
    case ramp
    then have "events m' = events m" "state_of m' \<noteq> (StRampDown, SubFinished)"
      using plan rs(3) process_keeps_state [of r] by (simp_all add: same_plan_def)
    with ramp_left_message [OF l(1) assms(4,5,2,3)] l(2) show ?thesis by (simp add: stop_left_def)
  qed
qed

interpretation stop: message_progress bq nr ne patient stop_left stopped for bq nr ne
proof
  show "stop_left k m'" if "stop_left k m" "\<not> is_message c" "patient c" "call bq c m = Some m'" for k m c m'
    using that by (rule stop_left_other)
qed (simp add: stop_left_def ramp_left_0, rule stop_left_message)

text \<open>
  C13: A stop waits for the resumption. If the user stops the execution of trajectories, no resumption and no static
  goal being ordered, and the calls afterwards order none of these and override no trajectories, then the motion is stopped
  after 253 regular messages at the latest, and it stays stopped during any further calls inside the session but the
  resumption, whatever they order. Of the orders of the user only the resumption is then accepted, and the next message after it
  makes the normal state the next one. All these calls return.
\<close>

theorem stop_waits_for_resume:
  assumes "motion_shaped nr ne m" "nr + ne \<le> MAX_NUMBER_OF_SPLINES" "state_of m = (StNormal, SubRunning)" "\<not> has_pending m"
    and "\<not> pe_do_resume (events m)" "\<not> pe_do_static_goal_start (events m)"
    and "list_all (\<lambda>c. regular nr ne c \<and> patient c) cs" "253 \<le> length (filter is_message cs)"
    and "\<forall>c \<in> set ds. fitting nr ne c \<and> in_session c \<and> c \<noteq> Order ResumeTrajectory" "fits nr ne ic" "in_session (Message ic out)"
  shows "\<exists>m1 o' m2. run bq (Order (StopTrajectory d) # cs @ ds) m = Some m1 \<and> stopped m1 \<and>
    (\<forall>x. x \<noteq> ResumeTrajectory \<and> x \<notin> range RetrieveExecutionProgress \<longrightarrow> give x m1 = (False, m1)) \<and> fst (give ResumeTrajectory m1) \<and>
    generateOutputs bq ic out (snd (give ResumeTrajectory m1)) = Some (o', m2) \<and> state_of (entered m2) = (StNormal, SubRunning)"
proof -
  let ?m = "snd (give (StopTrajectory d) m)"
  have e: "stopping (events ?m)" "pe_do_ramp_down (events ?m)"
    using assms(3,5,6) by (simp_all add: stopTrajectory_def Let_def verifyState_state stopping_def)
  have "stop_left 253 ?m"
    using assms(3,4) e by (auto simp: stop_left_def give_frame simp del: give.simps intro!: ramp_left.ramp_ordered)
  moreover have "motion_shaped nr ne ?m" using assms(1) by (simp add: motion_shaped_def give_frame del: give.simps)
  ultimately obtain cs1 cs2 m0 where m0: "cs = cs1 @ cs2" "run bq cs1 ?m = Some m0" "stopped m0" "motion_shaped nr ne m0"
    using stop.reaches_goal [OF _ _ assms(2,7,8)] by blast
  have fit: "list_all (fitting nr ne) (cs2 @ ds)" using assms(7,9) m0(1) regular_fitting by (auto simp: list_all_iff)
  then obtain m1 where m1: "run bq (cs2 @ ds) m0 = Some m1" "motion_shaped nr ne m1" using run_shaped [OF m0(4) _ assms(2)] by blast
  have "in_session c \<and> c \<noteq> Order ResumeTrajectory" if "c \<in> set cs2" for c
  proof -
    have "regular nr ne c" "patient c" using assms(7) m0(1) that by (simp_all add: list_all_iff)
    then show ?thesis by (cases c) auto
  qed
  then have st: "stopped m1" using assms(9) by (intro stopped_run [OF m0(3) m1(1)]) auto
  have "motion_shaped nr ne (snd (give ResumeTrajectory m1))" using m1(2) by (simp add: motion_shaped_def give_frame del: give.simps)
  then obtain o' m2 where g: "generateOutputs bq ic out (snd (give ResumeTrajectory m1)) = Some (o', m2)"
    using call_shaped [of nr ne _ "Message ic out" bq] assms(2,10) by fastforce
  have "run bq (Order (StopTrajectory d) # cs @ ds) m = Some m1" using m0(1,2) m1(1) by (simp add: run_append)
  moreover have "fst (give ResumeTrajectory m1)" using st by (simp add: stopped_def resumeTrajectory_def verifyState_state)
  ultimately show ?thesis using st g stopped_order [OF st] resumed_message [OF st assms(11) g] by blast
qed

theorem stop_waits_for_resume_witness:
  "\<exists>m m1 o' m2. run hamilton (Order (StopTrajectory False) # replicate 253 next_message @ [Order (StartStaticGoal True), next_message]) m = Some m1 \<and>
     stopped m1 \<and> generateOutputs hamilton (six_joints\<lparr>ic_first_message := False\<rparr>) default_Output (snd (give ResumeTrajectory m1)) = Some (o', m2) \<and>
     state_of (entered m2) = (StNormal, SubRunning)"
proof -
  obtain m where m: "motion_shaped 6 0 m" "state_of m = (StNormal, SubRunning)" "\<not> has_pending m" "events m = init_PendingEvents"
    by (rule first_sample)
  let ?ds = "[Order (StartStaticGoal True), next_message]" and ?ic = "six_joints\<lparr>ic_first_message := False\<rparr>"
  have e: "\<not> pe_do_resume (events m)" "\<not> pe_do_static_goal_start (events m)" using m(4) by (simp_all add: init_PendingEvents_def)
  have reg: "regular 6 0 (Message ?ic default_Output)" using next_message_regular(1) by (simp only: next_message_def)
  then have ic: "fits 6 0 ?ic" "in_session (Message ?ic default_Output)" by simp_all
  have cs: "list_all (\<lambda>c. regular 6 0 c \<and> patient c) (replicate 253 next_message)" "253 \<le> length (filter is_message (replicate 253 next_message))"
    by (simp_all add: list_all_iff) (simp add: next_message_def)
  have ds: "\<forall>c \<in> set ?ds. fitting 6 0 c \<and> in_session c \<and> c \<noteq> Order ResumeTrajectory"
    using ic regular_fitting [OF reg] by (simp add: next_message_def)
  from stop_waits_for_resume [OF m(1) six_splines m(2,3) e cs ds ic, of hamilton False] show ?thesis by blast
qed

end
