(* ===== verification/EGM_Reset.thy ===== *)
theory EGM_Reset
  imports EGM_Plan EGM_Stop
begin

text \<open>
  The reset by the first message of a new session while the motion is being ramped down: a ramp down stores the goal it
  interrupts in front of the points of its trajectory, which is an invariant of the reachable states, and the reset
  stores it once more.
\<close>

section \<open>The stored goal\<close>

text \<open>Outside the normal execution the first point of the active trajectory, if there is one, is the interrupted goal.\<close>

definition stored_inv :: "TrajectoryMotion \<Rightarrow> bool" where
  "stored_inv m \<longleftrightarrow> (\<not> in_normal m \<longrightarrow> p_current m \<noteq> None \<longrightarrow> (\<exists>ps. map erase (active_points m) = erase (external_goal m) # ps))"

lemma stored_inv_trivial: "in_normal m \<Longrightarrow> stored_inv m" "p_current m = None \<Longrightarrow> stored_inv m"
  by (simp_all add: stored_inv_def)

lemma same_plan_stored: "same_plan m m' \<Longrightarrow> stored_inv m' = stored_inv m"
  by (simp add: same_plan_def stored_inv_def in_normal_def active_points_def)

text \<open>The states of a ramp down, from its beginning to the decision at its end.\<close>

lemma storeNormalGoal_stored:
  "p_current m \<noteq> None \<Longrightarrow> \<exists>ps. map erase (active_points (storeNormalGoal m)) = erase (external_goal (storeNormalGoal m)) # ps"
  by (auto simp: storeNormalGoal_def Let_def active_points_def addTrajectoryPointFront_def external_goal_def)

lemma ramp_start_stored:
  assumes "state_of r = (StRampDown, SubNone)" "active r \<longleftrightarrow> p_current r \<noteq> None"
  shows "stored_inv (process_state r)" "p_current (process_state r) = None \<longleftrightarrow> p_current r = None"
proof -
  define m1 where "m1 = r\<lparr>tmo_motion_step := prepareRampDownGoal (pe_do_stop (events r)) (tmo_motion_step r)\<rparr>"
  define m2 where "m2 = (if active r then storeNormalGoal m1 else m1)"
  have p: "process_state r = set_pending StRampDown SubRunning (m2\<lparr>tmo_data := (tmo_data m2)\<lparr>dd_has_new_goal := True, dd_has_active_goal := True\<rparr>\<rparr>)"
    using assms(1) by (simp add: process_state_def processRampDownState_def sm_state_def Let_def m1_def m2_def)
  have cur: "p_current m2 = None \<longleftrightarrow> p_current r = None"
    by (auto simp: m2_def m1_def storeNormalGoal_def Let_def split: option.split)
  then show "p_current (process_state r) = None \<longleftrightarrow> p_current r = None" unfolding p by simp
  have "\<exists>ps. map erase (active_points m2) = erase (external_goal m2) # ps" if "p_current m2 \<noteq> None"
  proof -
    have "p_current r \<noteq> None" using that cur by simp
    then have "m2 = storeNormalGoal m1" "p_current m1 \<noteq> None" using assms(2) by (simp_all add: m2_def) (simp add: m1_def)
    then show ?thesis using storeNormalGoal_stored [of m1] by simp
  qed
  then show "stored_inv (process_state r)" unfolding p by (simp add: stored_inv_def active_points_def external_goal_def)
qed

lemma ramping_stored:
  assumes "state_of r = (StRampDown, SubRunning)" "p_current r \<noteq> None \<Longrightarrow> \<exists>ps. map erase (active_points r) = erase (external_goal r) # ps"
  shows "stored_inv (process_state r)"
  using assms by (simp add: process_state_of(2) processRampDownState_def stored_inv_def sm_state_def)

lemma ramped_stored:
  assumes "state_of r = (StRampDown, SubFinished)" "\<not> has_pending r" "p_current r \<noteq> None \<Longrightarrow> \<exists>ps. map erase (active_points r) = erase (external_goal r) # ps"
  shows "stored_inv (process_state r)"
proof -
  let ?e = "ramped_events r"
  have pr: "process_state r = ramped_decision ?e" using assms(1) by (simp add: process_state_of(2) processRampDownState_ramped)
  have e: "state_of ?e = (StRampDown, SubFinished)" "\<not> has_pending ?e" using assms(1,2) by (simp_all add: ramped_events_frame(1))
  have "\<exists>ps. map erase (active_points ?e) = erase (external_goal ?e) # ps" if "p_current ?e \<noteq> None"
    using assms(3) that by (auto simp: ramped_events_def Let_def active_points_def external_goal_def split: if_splits)
  then have st: "stored_inv ?e" "stored_inv (set_pending s ss (ev_mut f ?e))" for s ss f
    by (auto simp: stored_inv_def)
  have n: "in_normal (set_pending StNormal SubRunning (updateNormalGoal (ev_mut f ?e)))" for f
    using e by (simp add: in_normal_set accepted_def)
  show ?thesis using st n by (simp add: pr ramped_decision_def Let_def stored_inv_trivial(1))
qed

lemma static_start_stored:
  "state_of r = (StStaticGoal, SubNone) \<Longrightarrow> stored_inv (process_state r)"
  by (rule stored_inv_trivial(2)) (simp add: process_state_of(3) processStaticGoalState_def sm_state_def Let_def split: option.split)

lemma stored_message:
  assumes "generateOutputs bq ic out m = Some (o', m')" "motion_inv m" "stored_inv m"
  shows "stored_inv m'"
proof -
  have inv: "motion_inv m'" using generateOutputs_ok(1) [OF assms(1,2)] .
  note plan = generateOutputs_plan [OF assms(1)]
  consider (off) "\<not> statesOk ic" | (new) "statesOk ic" "ic_first_message ic \<or> state_of m = (StNormal, SubNone)"
    | (on) "statesOk ic" "\<not> ic_first_message ic" "state_of m \<noteq> (StNormal, SubNone)" by blast
  then show ?thesis
  proof cases
    case off
    then have "state_of m' = (StNormal, SubNone)" using plan prepare_inv(3) [OF assms(2) off] by (simp add: same_plan_def)
    then show ?thesis using inv by (intro stored_inv_trivial(2)) (simp add: motion_inv_def)
  next
    case new
    then have "state_of m' = (StNormal, SubRunning)"
      using plan process_keeps_state [of "received ic m"] prepared_state(2) [OF assms(2) new] by (simp add: same_plan_def updateState_def)
    then show ?thesis by (intro stored_inv_trivial(1)) (simp add: in_normal_def)
  next
    case on
    define r where "r = received ic m"
    note rs = received_simps [OF on(2,1,3), folded r_def]
    have np: "\<not> has_pending r" using rs(1) by simp
    have st: "\<exists>ps. map erase (active_points r) = erase (external_goal r) # ps" if "p_current r \<noteq> None" "\<not> in_normal m"
      using assms(3) that rs(2,10) by (simp add: stored_inv_def active_points_def)
    have "stored_inv (process_state r)"
    proof (cases rule: entered_cases [OF assms(2) on(3)])
      case 1
      then have "state_of (process_state r) = (StNormal, SubRunning)" using process_keeps_state [of r] rs(1) by simp
      then show ?thesis by (intro stored_inv_trivial(1)) (simp add: in_normal_def)
    next
      case 2
      then show ?thesis using rs(1,2,4) by (intro ramp_start_stored(1)) simp_all
    next
      case 3
      have "p_current (process_state r) = None"
        using 3 rs(1,2) by (simp add: process_state_def processRampDownState_def sm_state_def Let_def storeNormalGoal_def)
      then show ?thesis by (rule stored_inv_trivial(2))
    next
      case 4
      then show ?thesis using rs(1) st by (intro ramping_stored) simp_all
    next
      case 5
      then show ?thesis using rs(1) st np by (intro ramped_stored) simp_all
    next
      case 6
      then show ?thesis using rs(1) by (intro static_start_stored) simp
    next
      case (7 ss)
      have "p_current (process_state r) = None"
        using 7 rs(1,2) by (cases ss) (simp_all add: process_state_of(3) processStaticGoalState_def sm_state_def Let_def static_update_def)
      then show ?thesis by (rule stored_inv_trivial(2))
    qed
    with plan on(1) show ?thesis using same_plan_stored [of "process_state r" m'] by (simp add: r_def)
  qed
qed

lemma stored_call:
  assumes "call bq c m = Some m'" "motion_inv m" "stored_inv m"
  shows "stored_inv m'"
proof (cases c)
  case (Order x)
  with assms(1,3) show ?thesis
    by (auto simp: stored_inv_def in_normal_def active_points_def external_goal_def give_frame simp del: give.simps)
next
  case (Message ic out)
  then obtain o' where "generateOutputs bq ic out m = Some (o', m')" using assms(1) by auto
  then show ?thesis by (rule stored_message [OF _ assms(2,3)])
next
  case (Reconfigure cfg)
  with assms(1,3) same_plan_stored [OF updateConfigurations_plan [of m cfg]] show ?thesis by auto
qed

interpretation stored_sys: inv_system new_motion "motion_step bq" "\<lambda>m. motion_inv m \<and> stored_inv m" for bq
proof
  show "motion_inv m' \<and> stored_inv m'" if "motion_inv m \<and> stored_inv m" "motion_step bq m m'" for m m'
    using that(2,1) by (cases rule: motion_step.cases) (auto intro: call_inv stored_call)
qed (auto simp: motion_inv_init intro!: stored_inv_trivial(2), simp_all add: init_TrajectoryMotion_def)

section \<open>The reset\<close>

text \<open>
  C38: A reset during a ramp down repeats a goal. In every reachable state in which the motion of a trajectory is being or has
  been ramped down and is not about to return to the normal execution, the interrupted goal is the first point
  still to be executed; but after the first message of a new session, whatever else it reports, the points finished by this message
  and those still to be executed start with that goal twice, followed by the other points as before.
\<close>

theorem reset_repeats_goal:
  assumes "reach new_motion (motion_step bq) m" "fst (state_of m) = StRampDown" "p_current m \<noteq> None"
    and "\<not> (has_pending m \<and> pending_of m = (StNormal, SubRunning))"
    and "ic_first_message ic" "generateOutputs bq ic out m = Some (o', m')"
  shows "\<exists>rest. map erase (agenda m) = erase (external_goal m) # rest \<and>
    map erase (call_finishes (Message ic out) m @ agenda m') = erase (external_goal m) # erase (external_goal m) # rest"
proof -
  have inv: "motion_inv m" "stored_inv m" using stored_sys.reach_inv [OF assms(1)] by simp_all
  have n: "\<not> in_normal m" using assms(2,4) by (auto simp: in_normal_def)
  then obtain ps where "map erase (active_points m) = erase (external_goal m) # ps" using inv(2) assms(3) by (auto simp: stored_inv_def)
  then have a: "map erase (agenda m) = erase (external_goal m) # ps @ map erase (queued m)" using n by (simp add: agenda_def)
  have rep: "repeated m = [external_goal m]" using n assms(3) by (simp add: repeated_def)
  have "state_of (received ic m) = (StNormal, SubRunning)" if "statesOk ic"
    using prepared_state(2) [OF inv(1) that] assms(5) by (simp add: updateState_def)
  then have "message_plan ic m = Repeat [erase (external_goal m)] #
      (if statesOk ic then [Finish (map erase (finished_points (received ic m)))] else [])"
    using assms(5) rep by (simp add: message_plan_def Let_def)
  with message_refines [OF inv(1) assms(6)]
  have "map erase (call_finishes (Message ic out) m) @ map erase (agenda m') = erase (external_goal m) # map erase (agenda m)"
    by (auto simp: plan_of_def split: if_splits) (metis append_take_drop_id)+
  with a show ?thesis by simp
qed

text \<open>A run to such a state: a trajectory is added and its goal taken, and the motion is stopped.\<close>

lemma goal_interrupted:
  assumes "state_of m = (StNormal, SubRunning)" "\<not> has_pending m" "pe_do_ramp_down (events m)" "active m \<longleftrightarrow> p_current m \<noteq> None"
    and "in_session (Message ic out)" "generateOutputs bq ic out m = Some (o1, m1)" "generateOutputs bq ic out m1 = Some (o2, m2)"
  shows "state_of m2 = (StRampDown, SubNone)" "has_pending m2" "pending_of m2 = (StRampDown, SubRunning)"
    "p_current m2 = None \<longleftrightarrow> p_current m = None"
proof -
  have ic: "\<not> ic_first_message ic" "statesOk ic" using assms(5) by simp_all
  have n: "state_of m \<noteq> (StNormal, SubNone)" using assms(1) by simp
  note r = received_simps [OF ic n]
  have sm: "tmo_state_manager (received ic m) = tmo_state_manager m" using assms(2) r(1) by (simp add: updateState_def)
  have "process_state (received ic m) = set_pending StRampDown SubNone (received ic m)"
    by (rule process_interrupted) (simp_all only: sm r(3) assms(1,3))
  then have m1: "tmo_state_manager m1 = setPendingState StRampDown SubNone (tmo_state_manager m)" "p_current m1 = p_current m" "active m1 = active m"
    using generateOutputs_plan [OF assms(6)] ic(2) sm r(2,4) by (simp_all add: same_plan_def)
  then have n1: "state_of m1 \<noteq> (StNormal, SubNone)" using assms(1) by simp
  define r1 where "r1 = received ic m1"
  note r' = received_simps [OF ic n1, folded r1_def]
  have st: "state_of r1 = (StRampDown, SubNone)" using assms(1) r'(1) m1(1) by (simp add: updateState_def setPendingState_def accepted_def sm_state_def)
  have plan: "same_plan (process_state r1) m2" using generateOutputs_plan [OF assms(7)] ic(2) by (simp add: r1_def)
  have "active r1 \<longleftrightarrow> p_current r1 \<noteq> None" using assms(4) m1(2,3) r'(2,4) by simp
  from ramp_start_stored(2) [OF st this] plan r'(2) m1(2) show "p_current m2 = None \<longleftrightarrow> p_current m = None" by (simp add: same_plan_def)
  have "tmo_state_manager m2 = setPendingState StRampDown SubRunning (tmo_state_manager r1)"
    using plan ramp_start(3) [OF st] by (simp add: same_plan_def)
  with st show "state_of m2 = (StRampDown, SubNone)" "has_pending m2" "pending_of m2 = (StRampDown, SubRunning)"
    by (simp_all add: setPendingState_def accepted_def sm_state_def)
qed

lemma sample_goal_taken:
  obtains m where "reach new_motion (motion_step hamilton) m" "motion_shaped 6 0 m" "state_of m = (StNormal, SubRunning)" "\<not> has_pending m" "active m"
proof -
  obtain m0 where m0: "call hamilton (Message six_joints default_Output) new_sample = Some m0" "motion_shaped 6 0 m0"
    "state_of m0 = (StNormal, SubRunning)" "\<not> has_pending m0" "tmo_trajectories m0 = tmo_trajectories new_sample"
    "events m0 = init_PendingEvents" by (rule first_sample)
  define x where "x = AddTrajectory \<lparr>tg_points = [flat_goal 6 0 (Fin 1)]\<rparr> False"
  define m1 where "m1 = snd (give x m0)"
  let ?ic = "six_joints\<lparr>ic_first_message := False\<rparr>"
  have reg: "regular 6 0 (Message ?ic default_Output)" using next_message_regular(1) by (simp only: next_message_def)
  then have ic: "\<not> ic_first_message ?ic" "statesOk ?ic" by simp_all
  have m1: "motion_shaped 6 0 m1" "state_of m1 = (StNormal, SubRunning)" "\<not> has_pending m1"
    using m0(2-4) by (simp_all add: m1_def give_frame motion_shaped_def del: give.simps)
  have q: "p_current m1 = None" "tq_primary_queue (tmo_trajectories m1) = [\<lparr>tr_points = [flat_goal 6 0 (Fin 1)]\<rparr>]"
    "\<not> pe_do_ramp_down (events m1)"
    using m0(3,5,6)
    by (simp_all add: m1_def x_def addTrajectory_def Let_def verifyState_state init_TrajectoryMotion_def init_PendingEvents_def
        make_Trajectory_def addTrajectoryPointBack_def)
  obtain o2 m where m: "generateOutputs hamilton ?ic default_Output m1 = Some (o2, m)" "motion_shaped 6 0 m"
    using call_shaped [OF m1(1) regular_fitting [OF reg] six_splines, of hamilton] by auto
  have n: "state_of m1 \<noteq> (StNormal, SubNone)" using m1(2) by simp
  define r where "r = received ?ic m1"
  note rs = received_simps [OF ic n, folded r_def]
  have st: "state_of r = (StNormal, SubRunning)" using rs(1) m1(2,3) by (simp add: updateState_def)
  note taken = first_goal_taken [OF st, of "flat_goal 6 0 (Fin 1)"]
  have plan: "same_plan (process_state r) m" using generateOutputs_plan [OF m(1)] ic(2) by (simp add: r_def)
  have t: "active (process_state r)" using taken(1) q rs(2,3) by (simp add: flat_goal_def Let_def)
  have "\<not> has_pending (process_state r)"
    using st q rs(1-3) m1(3) by (simp add: process_state_of(1) processNormalState_def sm_state_def)
  then have "state_of m = (StNormal, SubRunning)" "\<not> has_pending m" "active m"
    using plan st t process_keeps_state [of r] by (simp_all add: same_plan_def)
  moreover have "reach new_motion (motion_step hamilton) new_sample" by (rule reach_init) blast
  then have "reach new_motion (motion_step hamilton) m0" by (rule reach_step) (rule motion_call [OF m0(1)])
  moreover have "run hamilton [Order x, Message ?ic default_Output] m0 = Some m" using m(1) by (simp add: m1_def del: give.simps)
  ultimately show thesis using that [of m] m(2) reach_run by blast
qed

theorem reset_repeats_goal_witness:
  "\<exists>m o' m' g rest. reach new_motion (motion_step hamilton) m \<and> generateOutputs hamilton six_joints default_Output m = Some (o', m') \<and>
     map erase (agenda m) = g # rest \<and> map erase (call_finishes (Message six_joints default_Output) m @ agenda m') = g # g # rest"
proof -
  obtain m2 where m2: "reach new_motion (motion_step hamilton) m2" "motion_shaped 6 0 m2" "state_of m2 = (StNormal, SubRunning)"
    "\<not> has_pending m2" "active m2" by (rule sample_goal_taken)
  let ?ic = "six_joints\<lparr>ic_first_message := False\<rparr>" and ?stop = "StopTrajectory False"
  have reg: "regular 6 0 (Message ?ic default_Output)" using next_message_regular(1) by (simp only: next_message_def)
  then have fit: "in_session (Message ?ic default_Output)" "fitting 6 0 (Message ?ic default_Output)" "fitting 6 0 (Message six_joints default_Output)"
    using regular_fitting [OF reg] by (simp_all add: six_joints_def fits_def feedback_sizes_def)
  have gen: "\<exists>o' k'. generateOutputs hamilton i default_Output k = Some (o', k') \<and> motion_shaped 6 0 k'"
    if "motion_shaped 6 0 k" "fitting 6 0 (Message i default_Output)" for i k
    using call_shaped [OF that six_splines, of hamilton] by auto
  define m3 where "m3 = snd (give ?stop m2)"
  have m3: "motion_shaped 6 0 m3" "state_of m3 = (StNormal, SubRunning)" "\<not> has_pending m3" "active m3" "p_current m3 = p_current m2"
    using m2(2-5) by (simp_all add: m3_def motion_shaped_def give_frame del: give.simps)
  have ramp: "pe_do_ramp_down (events m3)" using m2(3) by (simp add: m3_def stopTrajectory_def Let_def verifyState_state)
  have cur: "p_current m3 \<noteq> None" using motion_sys.reach_inv [OF m2(1)] m2(3,5) m3(5) by (simp add: motion_inv_def in_normal_def)
  obtain o4 m4 where m4: "generateOutputs hamilton ?ic default_Output m3 = Some (o4, m4)" "motion_shaped 6 0 m4" using gen m3(1) fit(2) by blast
  then obtain o5 m5 where m5: "generateOutputs hamilton ?ic default_Output m4 = Some (o5, m5)" "motion_shaped 6 0 m5" using gen fit(2) by blast
  then obtain o6 m6 where m6: "generateOutputs hamilton six_joints default_Output m5 = Some (o6, m6)" using gen fit(3) by blast
  have "active m3 \<longleftrightarrow> p_current m3 \<noteq> None" using m3(4) cur by simp
  note int = goal_interrupted [OF m3(2,3) ramp this fit(1) m4(1) m5(1)]
  have "run hamilton [Order ?stop, Message ?ic default_Output, Message ?ic default_Output] m2 = Some m5"
    using m4(1) m5(1) by (simp add: m3_def del: give.simps)
  then have reach: "reach new_motion (motion_step hamilton) m5" using m2(1) by (rule reach_run)
  have "fst (state_of m5) = StRampDown" "p_current m5 \<noteq> None" "\<not> (has_pending m5 \<and> pending_of m5 = (StNormal, SubRunning))"
    "ic_first_message six_joints" using int cur by (simp_all add: six_joints_def)
  from reset_repeats_goal [OF reach this m6] obtain rest where "map erase (agenda m5) = erase (external_goal m5) # rest"
    "map erase (call_finishes (Message six_joints default_Output) m5 @ agenda m6) = erase (external_goal m5) # erase (external_goal m5) # rest"
    by (elim exE conjE)
  with reach m6 show ?thesis by (intro exI conjI)
qed

end
