(* ===== verification/Spec2Isabelle.thy ===== *)
theory Spec2Isabelle
  imports EGM_Controller EGM_Pose EGM_Session EGM_Closed_Loop EGM_Reset
begin

text \<open>
  A verification development of \<open>abb_libegm\<close>, a C++ library for Externally Guided Motion (EGM): a robot
  controller sends its state in a UDP datagram every few milliseconds, and the library answers each one with
  motion references.

  \<^bold>\<open>The program.\<close> \<open>UDPServer\<close> (\<open>egm_udp_server.*\<close>) hands each datagram to an object behind
  \<open>AbstractUDPServerInterface\<close> and sends the reply. There are three such objects. \<open>EGMBaseInterface\<close>
  (\<open>egm_base_interface.*\<close>) parses the message into an \<open>InputContainer\<close>, prepares an \<open>OutputContainer\<close> and
  serializes the reply. \<open>EGMControllerInterface\<close> (\<open>egm_controller_interface.*\<close>) lets another thread read the
  inputs and write the outputs. \<open>EGMTrajectoryInterface\<close> (\<open>egm_trajectory_interface.*\<close>) executes queues of
  trajectories and static goals with a state machine, an interpolator (\<open>egm_interpolator.*\<close>) and a controller.
  All use the helper functions of \<open>egm_common_auxiliary.*\<close>, the constants of \<open>egm_common.*\<close> and the messages of
  \<open>proto/\<close>; \<open>EGMLogger\<close> (\<open>egm_logger.*\<close>) writes the messages to a file.

  \<^bold>\<open>The theories.\<close>
  \<^item> \<open>EGM_Prelude\<close>: optional fields, counted loops, checked accesses, reachable states (locale \<open>inv_system\<close>).
  \<^item> \<open>EGM_Double\<close>: the type \<open>double\<close>, with NaN and infinities and exact finite arithmetic.
  \<^item> \<open>EGM_Messages\<close>: the protocol buffer messages as records; an absent field is \<open>None\<close>.
  \<^item> \<open>EGM_Common\<close>, \<open>EGM_Auxiliary\<close>, \<open>EGM_Rotation\<close>: constants, configurations, the helper functions; Euler
    angles survive the conversion to a quaternion and back, and the quaternion is the composition of the three rotations.
  \<^item> \<open>EGM_Interpolator\<close>, \<open>EGM_Spline\<close>, \<open>EGM_Interpolation\<close>, \<open>EGM_Soft_Ramp\<close>, \<open>EGM_Slerp\<close>, \<open>EGM_Pose\<close>: splines, slerp and
    soft ramps; boundary conditions of the polynomials, start and end of an interpolation in joint and in pose mode,
    accesses in range and out of range, the closed form of a soft ramp to a static position, the path of an orientation.
  \<^item> \<open>EGM_Input\<close>, \<open>EGM_Output\<close>: the two containers; which messages are accepted, what is estimated from them,
    and what goes into a reply.
  \<^item> \<open>EGM_Logger\<close>, \<open>EGM_UDP_Server\<close>, \<open>EGM_Base\<close>: logger, server, base interface. The server's view of an interface
    is the locales \<open>reply_contract\<close> and \<open>total_callback\<close>, which the interfaces interpret, and \<open>shared_object\<close>, which extends
    both by the calls of a user between the datagrams. What becomes of messages of old RobotWare versions.
  \<^item> \<open>EGM_Controller\<close>: the controller interface; both directions are instances of the locale \<open>mailbox\<close>.
  \<^item> \<open>EGM_State_Manager\<close>, \<open>EGM_Motion_Step\<close>, \<open>EGM_Motion_Controller\<close>, \<open>EGM_Trajectory_Motion\<close>: the four classes of
    the trajectory execution.
  \<^item> \<open>EGM_Goal_Queue\<close>, \<open>EGM_Agenda\<close>, \<open>EGM_Execution\<close>, \<open>EGM_Motion_Safety\<close>: what it does over its whole life: the
    fate of the trajectory points, the consistency of the states, no access out of range.
  \<^item> \<open>EGM_Progress\<close>: that a ramp down ends and a goal is finished after a bounded number of messages, both as
    instances of the locale \<open>progress\<close>, the former through \<open>message_progress\<close>.
  \<^item> \<open>EGM_Plan\<close>: an abstract scheduler with work, standby and a discard flag, which every run of the execution refines
    (locale \<open>trace_refinement\<close>), resets and discards included; what becomes of an overriding trajectory.
  \<^item> \<open>EGM_Tracking\<close>: that in joint mode the outputs are the interpolated references, and that a goal to be reached ends
    with zero velocities.
  \<^item> \<open>EGM_Joint_Goals\<close>, \<open>EGM_Closed_Loop\<close>: the execution together with a robot that settles on the positions it is sent:
    a trajectory of joint goals is executed to its end, every point of it in order, a third instance of \<open>progress\<close>.
  \<^item> \<open>EGM_Rest\<close>, \<open>EGM_Static_Goal\<close>: static position goals: the ramp down to a stop and the soft ramp end at rest, the static
    goal state is reached, and so is a goal that is set in it; a fast goal set right after a slow one ends the execution
    of static goals. Two more instances of \<open>message_progress\<close>.
  \<^item> \<open>EGM_Stop\<close>: the states along a run: trajectories and static goals are separated by a complete ramp down, and a stopped
    motion waits for the resumption, which a stop reaches by one more instance of \<open>message_progress\<close>.
  \<^item> \<open>EGM_Reset\<close>: that a ramp down has stored the goal it interrupts, and that the first message of a new session then repeats it.
  \<^item> \<open>EGM_Trajectory\<close>: the trajectory interface, and how it relates to the base interface.
  \<^item> \<open>EGM_Session\<close>: a session of the trajectory interface with one robot: the joint counts of all its data, and that the
    positions in its datagrams are the interpolated references.
  This theory combines the server with the interfaces and their users.

  \<^bold>\<open>How the code is modelled.\<close> An object is a record with the names of its members, prefixed; a method is a
  function from the old to the new record. Overloads get the type of their target as a suffix. An early
  return and a failed parse are values; an access to a repeated field or an array outside its bounds is the
  result \<open>None\<close>, so that a theorem that a callback returns includes memory safety. Sequence numbers,
  time stamps and clocks are words of their width. Loops are structural recursions and always end; the one
  unbounded wait (\<open>waitForMessage\<close> without timeout) is \<open>None\<close> while it still waits. A method that holds a
  mutex is one step. What another thread does while a wait releases the mutex is a list of its operations,
  an argument of the wait, and the theorems quantify over it.

  \<^bold>\<open>Parameters.\<close> The code that \<open>protoc\<close> generates (\<open>ParseFromArray\<close>, \<open>SerializeToString\<close>) and
  \<open>boost::math::quaternion\<close> are the record \<open>env\<close>; whether the socket opens is an argument. Theorems hold for all
  of them unless a hypothesis says otherwise; the concrete instances use \<open>sample_env\<close>.

  \<^bold>\<open>Bounds.\<close> The interpolator has 12 spline polynomials (\<open>MAX_NUMBER_OF_SPLINES\<close>); results on accesses in range
  assume at most 12 joints of constant number. A ramp down ends within 253 messages: it takes one second at most, 250
  times the lowest sample time of 4 ms, and three more messages to enter and to leave it. A trajectory is completed after
  one message to start and, for each of its points, as many messages as its duration times the duration factor has periods
  of 4 ms, rounded up, and \<open>L + 1\<close> more, where the robot settles within \<open>L\<close> messages. The static goal state accepts a goal
  255 messages after the order: 254 for the ramp down and to enter the state, and one to be in it. A fast transition takes 0.1
  seconds, 25 messages, and the goal is in the answer to the last of them; another one takes 5 seconds, 1250 messages, after
  a ramp down of up to 254. There is no fuel.

  \<^bold>\<open>Not modelled.\<close> All operations of the implementation files that change state are modelled. Left out are the
  rounding of floating-point numbers (finite arithmetic is exact, so that equations between reals, such as a goal that is
  reached, hold up to rounding of the program), the lifetime of the buffer behind a posted send, which here
  carries the reply at the time it is posted, the wire format of protocol buffers, sockets and threads of Boost (only the order of
  their effects), the number format of the log file, the notification of \<open>p_new_message_cv\<close>, build and packaging files.
\<close>

section \<open>A server with an interface\<close>

text \<open>
  C1: A server with a trajectory interface works while its user makes it move the robot. If the datagrams that decode are complete
  messages of one robot with at most 12 joints in all, then after any interleaving of finished receives, failed and
  malformed ones included, with orders of the user (trajectories, stops, static goals and all others) and changes of the configuration that
  keep the axes and no demo outputs: no handler has accessed a joint value or a spline polynomial out of range, exactly one receive operation
  is pending, there are no more answers than datagrams that decode, and every answer encodes a message without NaN or infinite values.
\<close>

theorem trajectory_server_runs:
  assumes "uniform_robot env ax nr ne" "nr + ne \<le> MAX_NUMBER_OF_SPLINES" "plain ax c"
    and "init_UDPServer True port = (ios0, sv)" "list_all (may_call (plain_use ax)) evs"
  shows "\<exists>ios sv' t. serve_session (Some (trajectory_callback env)) use_trajectory evs sv (init_EGMTrajectoryInterface off c) = Some (ios, sv', t) \<and>
    length (filter (\<lambda>i. i = AsyncReceive) (ios0 @ ios)) = length (filter is_receive evs) + 1 \<and>
    length (sends ios) \<le> length (filter (is_datagram (\<lambda>bs. fst (env_decode env bs))) evs) \<and>
    (\<forall>r. AsyncSend r \<in> set ios \<longrightarrow> finite_message env r)"
proof -
  have live: "session_live env ax nr ne (init_EGMTrajectoryInterface off c)"
    using assms(1-3) by (simp add: session_live_def session_inv_init)
  have sv: "us_socket sv" "ios0 = [AsyncReceive]" using assms(4) by (auto simp: init_UDPServer_def startAsynchronousReceive_def)
  have "fst (env_decode env bs)" if "trajectory_accepts env (Some bs) t" for bs t
    using that by (simp add: trajectory_accepts_def accepts_def)
  from trajectory_object.session_runs [OF sv(1) trajectory_inv_init live assms(5) this] sv(2) show ?thesis by auto
qed

theorem trajectory_server_runs_witness:
  "\<exists>ios sv' t. serve_session (Some (trajectory_callback sample_env)) use_trajectory
      [Received True [1, 2, 3] 3, Called (UseOrder (AddTrajectory \<lparr>tg_points = sample_points\<rparr> False)), Received True [1, 2, 3, 4] 4,
       Called (UseConfiguration sample_config), Called (UseOrder (StartStaticGoal True)), Received False [] 0]
      (snd (init_UDPServer True 6511)) (init_EGMTrajectoryInterface 0 sample_config) = Some (ios, sv', t) \<and>
    length (filter (\<lambda>i. i = AsyncReceive) (fst (init_UDPServer True 6511) @ ios)) = 4 \<and> length (sends ios) \<le> 2"
  using trajectory_server_runs [OF sample_uniform _ sample_plain, of 6511 "fst (init_UDPServer True 6511)" "snd (init_UDPServer True 6511)"
      "[Received True [1, 2, 3] 3, Called (UseOrder (AddTrajectory \<lparr>tg_points = sample_points\<rparr> False)), Received True [1, 2, 3, 4] 4,
       Called (UseConfiguration sample_config), Called (UseOrder (StartStaticGoal True)), Received False [] 0]" 0]
  by (auto simp: MAX_NUMBER_OF_SPLINES_def sample_plain sample_env_def)

text \<open>
  C24: A server with a base interface without demo outputs works as long as it receives datagrams, whatever these
  are: after any sequence of finished receives, failed ones included, every handler has returned, exactly one receive operation is
  pending, and every datagram it has sent encodes a message without NaN or infinite values.
\<close>

theorem base_server_runs:
  assumes "\<not> use_demo_outputs c" "init_UDPServer True port = (ios0, sv)"
  shows "\<exists>ios sv' b. serve (Some (base_callback env)) evs sv (init_EGMBaseInterface c) = Some (ios, sv', b) \<and>
    length (filter (\<lambda>i. i = AsyncReceive) (ios0 @ ios)) = length evs + 1 \<and>
    (\<forall>r. AsyncSend r \<in> set ios \<longrightarrow> finite_message env r)"
proof -
  have "no_demo (init_EGMBaseInterface c)"
    using assms(1) by (simp add: no_demo_def init_EGMBaseInterface_def make_BaseConfigurationContainer_def)
  with base_total.serve_returns obtain ios sv' b where
    s: "serve (Some (base_callback env)) evs sv (init_EGMBaseInterface c) = Some (ios, sv', b)" by blast
  have "us_socket sv" "ios0 = [AsyncReceive]"
    using assms(2) by (auto simp: init_UDPServer_def startAsynchronousReceive_def)
  with s serve_receives [OF s] base_contract.serve_good [OF s base_inv_init] show ?thesis by auto
qed

theorem base_server_runs_witness:
  "\<exists>ios sv' b. serve (Some (base_callback sample_env)) [(True, [1, 2, 3], 3)] (snd (init_UDPServer True 6511))
      (init_EGMBaseInterface default_BaseConfiguration) = Some (ios, sv', b) \<and>
    length (filter (\<lambda>i. i = AsyncReceive) (fst (init_UDPServer True 6511) @ ios)) = 2"
  using base_server_runs [of default_BaseConfiguration 6511 "fst (init_UDPServer True 6511)" "snd (init_UDPServer True 6511)"
      sample_env "[(True, [1, 2, 3], 3)]"]
  by (auto simp: default_BaseConfiguration_def)

end
